(* ===== verification/Proxy_Prelude.thy ===== *)
theory Proxy_Prelude
  imports
    Main
    "HOL-Library.Word"
    "HOL-Library.AList"
    "HOL-Library.Multiset"
    "HOL-Library.Char_ord"
    "HOL-Library.List_Lexorder"
    "HOL-Library.Product_Lexorder"
    "HOL-Library.Sublist"
begin

text \<open>
  Shared vocabulary of the development: the Rust standard library as far as the crates use
  it (strings, integers, \<open>Result\<close>, \<open>HashMap\<close>, iterators), the ambient inputs of a call
  (clock readings, fresh UUIDs, hash iteration order), and the sequencing of fallible
  operations on a shared state. Every lemma here is about these, none about a component.
\<close>

named_theorems op_simps \<open>running fallible operations on a state\<close>
named_theorems store_defs \<open>definitions of the in-memory store operations\<close>
named_theorems inv_pres \<open>operations that keep the store invariant\<close>

section \<open>Machine integers, bytes and strings\<close>

type_synonym u16 = "16 word"
type_synonym u64 = "64 word"
type_synonym i64 = "64 word"
type_synonym bytes = "8 word list"

text \<open>
  A Rust \<open>String\<close> is its UTF-8 byte sequence; a HOL \<open>char\<close> is one byte, so \<open>length\<close>
  is \<open>str::len\<close>. A \<open>DateTime<Utc>\<close> is its number of nanoseconds since the Unix epoch.
\<close>

type_synonym datetime = int

definition as_bytes :: "string \<Rightarrow> bytes" where
  "as_bytes s = map of_char s"

definition seconds :: "int \<Rightarrow> int" where
  "seconds n = n * 1000000000"

definition timestamp :: "datetime \<Rightarrow> int" where
  "timestamp t = t div 1000000000"

definition from_timestamp :: "int \<Rightarrow> datetime" where
  "from_timestamp s = s * 1000000000"

fun ascii_lower :: "char \<Rightarrow> char" where
  "ascii_lower c =
     (if CHR ''A'' \<le> c \<and> c \<le> CHR ''Z'' then char_of (of_char c + (32 :: nat)) else c)"

definition to_ascii_lowercase :: "string \<Rightarrow> string" where
  "to_ascii_lowercase s = map ascii_lower s"

definition starts_with :: "string \<Rightarrow> string \<Rightarrow> bool" where
  "starts_with s p \<longleftrightarrow> prefix p s"

fun contains :: "string \<Rightarrow> string \<Rightarrow> bool" where
  "contains [] p \<longleftrightarrow> p = []"
| "contains (c # cs) p \<longleftrightarrow> prefix p (c # cs) \<or> contains cs p"

fun join :: "string \<Rightarrow> string list \<Rightarrow> string" where
  "join sep [] = []"
| "join sep [x] = x"
| "join sep (x # y # ys) = x @ sep @ join sep (y # ys)"

fun split_on :: "char \<Rightarrow> string \<Rightarrow> string list" where
  "split_on d [] = [[]]"
| "split_on d (c # cs) =
     (if c = d then [] # split_on d cs
      else (case split_on d cs of [] \<Rightarrow> [[c]] | w # ws \<Rightarrow> (c # w) # ws))"

text \<open>Decimal rendering (\<open>Display\<close> of the unsigned integers) and \<open>str::parse::<u64>\<close>.\<close>

definition digit_char :: "nat \<Rightarrow> char" where
  "digit_char d = char_of (d + 48)"

fun show_nat :: "nat \<Rightarrow> string" where
  "show_nat n = (if n < 10 then [digit_char n] else show_nat (n div 10) @ [digit_char (n mod 10)])"

declare show_nat.simps [simp del]

definition digit_val :: "char \<Rightarrow> nat option" where
  "digit_val c = (if CHR ''0'' \<le> c \<and> c \<le> CHR ''9'' then Some (of_char c - 48) else None)"

fun parse_digits :: "nat \<Rightarrow> string \<Rightarrow> nat option" where
  "parse_digits acc [] = Some acc"
| "parse_digits acc (c # cs) =
     (case digit_val c of None \<Rightarrow> None | Some d \<Rightarrow> parse_digits (10 * acc + d) cs)"

definition parse_u64 :: "string \<Rightarrow> nat option" where
  "parse_u64 s =
     (let ds = (case s of [] \<Rightarrow> [] | c # cs \<Rightarrow> if c = CHR ''+'' then cs else s) in
      if ds = [] then None
      else case parse_digits 0 ds of
             None \<Rightarrow> None
           | Some n \<Rightarrow> if n < 2 ^ 64 then Some n else None)"

section \<open>Results and operations\<close>

datatype ('a, 'e) result = Ok (ok_of: 'a) | Err (err_of: 'e)

fun is_ok :: "('a, 'e) result \<Rightarrow> bool" where
  "is_ok (Ok _) = True"
| "is_ok (Err _) = False"

definition ok_or :: "'e \<Rightarrow> 'a option \<Rightarrow> ('a, 'e) result" where
  "ok_or e x = (case x of None \<Rightarrow> Err e | Some a \<Rightarrow> Ok a)"

definition map_err :: "('e \<Rightarrow> 'f) \<Rightarrow> ('a, 'e) result \<Rightarrow> ('a, 'f) result" where
  "map_err f r = (case r of Ok a \<Rightarrow> Ok a | Err e \<Rightarrow> Err (f e))"

definition bind_result :: "('a, 'e) result \<Rightarrow> ('a \<Rightarrow> ('b, 'e) result) \<Rightarrow> ('b, 'e) result" where
  "bind_result r f = (case r of Ok a \<Rightarrow> f a | Err e \<Rightarrow> Err e)"

text \<open>
  An operation on a state: it returns a result and the state it leaves, also when it fails.
  \<open>and_then\<close> is the \<open>?\<close> operator: it stops at the first error and keeps what was already
  written.
\<close>

type_synonym ('s, 'a, 'e) op = "'s \<Rightarrow> ('a, 'e) result \<times> 's"

definition return_op :: "'a \<Rightarrow> ('s, 'a, 'e) op" where
  "return_op a s = (Ok a, s)"

definition fail_op :: "'e \<Rightarrow> ('s, 'a, 'e) op" where
  "fail_op e s = (Err e, s)"

definition lift_result :: "('a, 'e) result \<Rightarrow> ('s, 'a, 'e) op" where
  "lift_result r s = (r, s)"

definition and_then :: "('s, 'a, 'e) op \<Rightarrow> ('a \<Rightarrow> ('s, 'b, 'e) op) \<Rightarrow> ('s, 'b, 'e) op" where
  "and_then m f s = (case m s of (Ok a, s') \<Rightarrow> f a s' | (Err e, s') \<Rightarrow> (Err e, s'))"

definition map_err_op :: "('e \<Rightarrow> 'f) \<Rightarrow> ('s, 'a, 'e) op \<Rightarrow> ('s, 'a, 'f) op" where
  "map_err_op f m s = (case m s of (r, s') \<Rightarrow> (map_err f r, s'))"

text \<open>
  \<open>triple P m Q\<close>: started in a state with \<open>P\<close>, the operation ends in a state with \<open>Q\<close>,
  whether it succeeds or fails.
\<close>

definition triple :: "('s \<Rightarrow> bool) \<Rightarrow> ('s, 'a, 'e) op \<Rightarrow> ('s \<Rightarrow> bool) \<Rightarrow> bool" where
  "triple P m Q \<longleftrightarrow> (\<forall>s. P s \<longrightarrow> Q (snd (m s)))"

section \<open>Ambient inputs\<close>

text \<open>
  What one call reads from its surroundings: \<open>utc_now e k\<close> is the k-th \<open>Utc::now()\<close> of
  the call, \<open>new_v4 e k\<close> the k-th \<open>Uuid::new_v4()\<close>, and \<open>hash_seed e k\<close> fixes the
  order in which the k-th traversal of a \<open>HashMap\<close> visits it. All are arbitrary: a theorem
  that quantifies over \<open>e\<close> holds for every clock, every UUID and every iteration order.
\<close>

record env =
  utc_now :: "nat \<Rightarrow> datetime"
  new_v4 :: "nat \<Rightarrow> string"
  hash_seed :: "nat \<Rightarrow> nat list"

section \<open>HashMap\<close>

text \<open>
  A \<open>HashMap\<close> is an association list with distinct keys; \<open>map_of\<close> is \<open>get\<close> and
  \<open>AList.update\<close> is \<open>insert\<close>. Iteration visits the entries in the order \<open>hash_iter\<close>
  picks from the seed; every order is picked by some seed (\<open>hash_iter_surj\<close> below).
\<close>

type_synonym ('k, 'v) hashmap = "('k \<times> 'v) list"

fun hash_iter :: "nat list \<Rightarrow> 'a list \<Rightarrow> 'a list" where
  "hash_iter ns [] = []"
| "hash_iter [] (x # xs) = x # xs"
| "hash_iter (n # ns) (x # xs) =
     (let j = n mod length (x # xs) in
      (x # xs) ! j # hash_iter ns (take j (x # xs) @ drop (Suc j) (x # xs)))"

abbreviation hm_insert :: "'k \<Rightarrow> 'v \<Rightarrow> ('k, 'v) hashmap \<Rightarrow> ('k, 'v) hashmap" where
  "hm_insert k v m \<equiv> AList.update k v m"

abbreviation hm_contains :: "('k, 'v) hashmap \<Rightarrow> 'k \<Rightarrow> bool" where
  "hm_contains m k \<equiv> map_of m k \<noteq> None"

definition hm_entries :: "nat list \<Rightarrow> ('k, 'v) hashmap \<Rightarrow> ('k \<times> 'v) list" where
  "hm_entries ns m = hash_iter ns m"

definition hm_values :: "nat list \<Rightarrow> ('k, 'v) hashmap \<Rightarrow> 'v list" where
  "hm_values ns m = map snd (hash_iter ns m)"

definition hm_map_values :: "('v \<Rightarrow> 'v) \<Rightarrow> ('k, 'v) hashmap \<Rightarrow> ('k, 'v) hashmap" where
  "hm_map_values f m = map (\<lambda>(k, v). (k, f v)) m"

abbreviation hm_wf :: "('k, 'v) hashmap \<Rightarrow> bool" where
  "hm_wf m \<equiv> distinct (map fst m)"

text \<open>Every record of the map is filed under its own identifier.\<close>

definition keyed :: "('v \<Rightarrow> 'k) \<Rightarrow> ('k, 'v) hashmap \<Rightarrow> bool" where
  "keyed f m \<longleftrightarrow> hm_wf m \<and> (\<forall>(k, v) \<in> set m. f v = k)"

section \<open>Iterators\<close>

text \<open>\<open>Iterator::max_by_key\<close> returns the last of several maximal elements.\<close>

definition max_by_key :: "('a \<Rightarrow> 'k::linorder) \<Rightarrow> 'a list \<Rightarrow> 'a option" where
  "max_by_key f xs =
     (case xs of [] \<Rightarrow> None
      | y # ys \<Rightarrow> Some (fold (\<lambda>z best. if f best \<le> f z then z else best) ys y))"

definition is_some_and :: "('a \<Rightarrow> bool) \<Rightarrow> 'a option \<Rightarrow> bool" where
  "is_some_and P x = (case x of None \<Rightarrow> False | Some a \<Rightarrow> P a)"

definition unwrap_or :: "'a \<Rightarrow> 'a option \<Rightarrow> 'a" where
  "unwrap_or d x = (case x of None \<Rightarrow> d | Some a \<Rightarrow> a)"

section \<open>Lemmas: results and operations\<close>

lemma ok_or_simps [simp]: "ok_or e None = Err e" "ok_or e (Some a) = Ok a"
  by (simp_all add: ok_or_def)

lemma ok_or_eq_Ok [simp]: "ok_or e x = Ok a \<longleftrightarrow> x = Some a"
  by (cases x) simp_all

lemma map_err_simps [simp]: "map_err f (Ok a) = Ok a" "map_err f (Err e) = Err (f e)"
  by (simp_all add: map_err_def)

lemma map_err_eq_Ok [simp]: "map_err f r = Ok a \<longleftrightarrow> r = Ok a"
  by (cases r) simp_all

lemma bind_result_simps [simp]: "bind_result (Ok a) f = f a" "bind_result (Err e) f = Err e"
  by (simp_all add: bind_result_def)

lemma bind_result_eq_Ok: "bind_result r f = Ok b \<longleftrightarrow> (\<exists>a. r = Ok a \<and> f a = Ok b)"
  by (cases r) simp_all

lemma op_units [op_simps]:
  "return_op a s = (Ok a, s)" "fail_op e s = (Err e, s)" "lift_result r s = (r, s)"
  by (simp_all add: return_op_def fail_op_def lift_result_def)

lemma and_then_Ok [op_simps]: "m s = (Ok a, s') \<Longrightarrow> and_then m f s = f a s'"
  by (simp add: and_then_def)

lemma and_then_Err [op_simps]: "m s = (Err e, s') \<Longrightarrow> and_then m f s = (Err e, s')"
  by (simp add: and_then_def)

lemma and_then_eq_Ok:
  "and_then m f s = (Ok b, s'') \<longleftrightarrow> (\<exists>a s'. m s = (Ok a, s') \<and> f a s' = (Ok b, s''))"
  by (simp add: and_then_def split: prod.splits result.splits)

lemma map_err_op_Ok [op_simps]: "m s = (Ok a, s') \<Longrightarrow> map_err_op f m s = (Ok a, s')"
  by (simp add: map_err_op_def)

lemma map_err_op_Err [op_simps]: "m s = (Err e, s') \<Longrightarrow> map_err_op f m s = (Err (f e), s')"
  by (simp add: map_err_op_def)

lemma map_err_op_eq_Ok: "map_err_op f m s = (Ok a, s') \<longleftrightarrow> m s = (Ok a, s')"
  by (cases "m s") (auto simp: map_err_op_def)

lemma is_ok_iff: "is_ok r \<longleftrightarrow> (\<exists>a. r = Ok a)"
  by (cases r) simp_all

lemma snd_map_err_op [simp]: "snd (map_err_op f m s) = snd (m s)"
  by (simp add: map_err_op_def split: prod.splits)

text \<open>An invariant of the state that both halves keep is kept by their composition.\<close>

lemma and_then_preserves:
  assumes "P s" and "P s \<Longrightarrow> P (snd (m s))"
    and "\<And>a s'. m s = (Ok a, s') \<Longrightarrow> P s' \<Longrightarrow> P (snd (f a s'))"
  shows "P (snd (and_then m f s))"
  using assms by (auto simp: and_then_def split: prod.splits result.splits)

lemma tripleI: "(\<And>s. P s \<Longrightarrow> Q (snd (m s))) \<Longrightarrow> triple P m Q"
  by (simp add: triple_def)

lemma tripleD: "triple P m Q \<Longrightarrow> P s \<Longrightarrow> Q (snd (m s))"
  by (simp add: triple_def)

lemma triple_and_then:
  assumes "triple P m R" and "\<And>a. triple R (f a) Q" and "\<And>s. R s \<Longrightarrow> Q s"
  shows "triple P (and_then m f) Q"
proof (rule tripleI)
  fix s
  assume "P s"
  with assms(1) have "R (snd (m s))" by (rule tripleD)
  with assms(2,3) show "Q (snd (and_then m f s))"
    by (cases "m s"; cases "fst (m s)") (auto simp: and_then_def dest: tripleD)
qed

lemma triple_keeps_and_then:
  "triple P m P \<Longrightarrow> (\<And>a. triple P (f a) P) \<Longrightarrow> triple P (and_then m f) P"
  by (rule triple_and_then)

lemma triple_weaken: "triple P m Q \<Longrightarrow> (\<And>s. P' s \<Longrightarrow> P s) \<Longrightarrow> (\<And>s. Q s \<Longrightarrow> Q' s) \<Longrightarrow> triple P' m Q'"
  by (simp add: triple_def)

lemma triple_units:
  "triple P (return_op a) P" "triple P (fail_op e) P" "triple P (lift_result r) P"
  by (simp_all add: triple_def op_units)

lemma triple_map_err_op: "triple P m Q \<Longrightarrow> triple P (map_err_op f m) Q"
  by (simp add: triple_def)

section \<open>Lemmas: hash maps\<close>

lemma mset_hash_iter [simp]: "mset (hash_iter ns xs) = mset xs"
proof (induction ns xs rule: hash_iter.induct)
  case (3 n ns x xs)
  let ?ys = "x # xs" and ?j = "n mod length (x # xs)"
  have j: "?j < length ?ys" by simp
  have "mset (take ?j ?ys @ ?ys ! ?j # drop (Suc ?j) ?ys) = mset ?ys"
    by (simp only: id_take_nth_drop [OF j, symmetric])
  then show ?case using "3.IH" [OF refl] by (simp add: Let_def)
qed simp_all

lemma set_hash_iter [simp]: "set (hash_iter ns xs) = set xs"
  by (metis mset_hash_iter set_mset_mset)

lemma length_hash_iter [simp]: "length (hash_iter ns xs) = length xs"
  by (metis mset_hash_iter size_mset)

lemma hash_iter_surj: "mset ys = mset xs \<Longrightarrow> \<exists>ns. hash_iter ns xs = ys"
proof (induction ys arbitrary: xs)
  case Nil
  then show ?case by simp
next
  case (Cons y ys)
  then have "y \<in> set xs" by (metis list.set_intros(1) set_mset_mset)
  then obtain j where j: "j < length xs" "xs ! j = y" by (auto simp: in_set_conv_nth)
  let ?rest = "take j xs @ drop (Suc j) xs"
  have "mset (take j xs @ xs ! j # drop (Suc j) xs) = mset xs"
    by (simp only: id_take_nth_drop [OF j(1), symmetric])
  with Cons.prems j have "add_mset y (mset ys) = add_mset y (mset ?rest)" by simp
  then have "mset ys = mset ?rest" by simp
  then obtain ns where "hash_iter ns ?rest = ys" using Cons.IH by blast
  with j have "hash_iter (j # ns) xs = y # ys" by (cases xs) (auto simp: Let_def)
  then show ?case by blast
qed

lemma set_hm_values [simp]: "set (hm_values ns m) = snd ` set m"
  by (simp add: hm_values_def)

lemma mset_hm_values: "mset (hm_values ns m) = mset (map snd m)"
  by (simp add: hm_values_def)

lemma map_of_hm_map_values [simp]: "map_of (hm_map_values f m) k = map_option f (map_of m k)"
  by (induction m) (auto simp: hm_map_values_def)

lemma fst_hm_map_values [simp]: "map fst (hm_map_values f m) = map fst m"
  by (induction m) (auto simp: hm_map_values_def)

lemma snd_hm_map_values [simp]: "snd ` set (hm_map_values f m) = f ` snd ` set m"
  by (force simp: hm_map_values_def)

lemma map_of_hm_insert [simp]:
  "map_of (hm_insert k v m) k' = (if k' = k then Some v else map_of m k')"
  by (simp add: update_conv')

lemma hm_wf_insert [simp]: "hm_wf m \<Longrightarrow> hm_wf (hm_insert k v m)"
  by (rule distinct_update)

lemma set_hm_insert:
  assumes "hm_wf m"
  shows "set (hm_insert k v m) = insert (k, v) {x \<in> set m. fst x \<noteq> k}"
  using assms by (induction m) force+

lemma hm_values_insert_new:
  "map_of m k = None \<Longrightarrow> hm_insert k v m = m @ [(k, v)]"
  by (induction m) (auto split: if_splits)

lemma keyedI: "hm_wf m \<Longrightarrow> (\<And>k v. (k, v) \<in> set m \<Longrightarrow> f v = k) \<Longrightarrow> keyed f m"
  by (auto simp: keyed_def)

lemma keyed_wf [dest]: "keyed f m \<Longrightarrow> hm_wf m"
  by (simp add: keyed_def)

lemma keyed_key: "keyed f m \<Longrightarrow> map_of m k = Some v \<Longrightarrow> f v = k"
  by (auto simp: keyed_def dest: map_of_SomeD)

lemma keyed_empty [simp]: "keyed f []"
  by (simp add: keyed_def)

lemma keyed_insert [simp]: "keyed f m \<Longrightarrow> f v = k \<Longrightarrow> keyed f (hm_insert k v m)"
  by (auto simp: keyed_def set_hm_insert)

lemma keyed_map_values: "keyed f m \<Longrightarrow> (\<And>v. f (g v) = f v) \<Longrightarrow> keyed f (hm_map_values g m)"
  unfolding keyed_def by (simp only: fst_hm_map_values) (auto simp: hm_map_values_def)

lemma keyed_value: "keyed f m \<Longrightarrow> v \<in> snd ` set m \<Longrightarrow> map_of m (f v) = Some v"
  by (auto simp: keyed_def)

lemma map_of_value: "map_of m k = Some v \<Longrightarrow> v \<in> snd ` set m"
  by (force dest: map_of_SomeD)

section \<open>Lemmas: iterators\<close>

lemma fold_max_props:
  fixes f :: "'a \<Rightarrow> 'k::linorder"
  defines "g \<equiv> (\<lambda>z best. if f best \<le> f z then z else best)"
  shows "fold g ys y \<in> insert y (set ys) \<and> (\<forall>z \<in> insert y (set ys). f z \<le> f (fold g ys y))"
proof (induction ys arbitrary: y)
  case (Cons a ys)
  from Cons [of "g a y"] show ?case by (auto simp: g_def split: if_splits)
qed simp

lemma max_by_key_None [simp]: "max_by_key f xs = None \<longleftrightarrow> xs = []"
  by (cases xs) (simp_all add: max_by_key_def)

lemma max_by_key_Nil [simp]: "max_by_key f [] = None"
  by simp

lemma max_by_key_Some:
  assumes "max_by_key f xs = Some x"
  shows "x \<in> set xs" and "y \<in> set xs \<Longrightarrow> f y \<le> f x"
  using assms fold_max_props [where f = f]
  by (auto simp: max_by_key_def split: list.splits)

lemma max_by_key_snoc:
  "max_by_key f (xs @ [y]) =
     (case max_by_key f xs of None \<Rightarrow> Some y | Some b \<Rightarrow> Some (if f b \<le> f y then y else b))"
  by (cases xs) (simp_all add: max_by_key_def)

lemma is_some_and_simps [simp]: "is_some_and P None = False" "is_some_and P (Some a) = P a"
  by (simp_all add: is_some_and_def)

lemma unwrap_or_simps [simp]: "unwrap_or d None = d" "unwrap_or d (Some a) = a"
  by (simp_all add: unwrap_or_def)

lemma find_Some_set: "List.find P xs = Some x \<Longrightarrow> x \<in> set xs \<and> P x"
  by (auto simp: find_Some_iff)

lemma find_None_set: "List.find P xs = None \<longleftrightarrow> (\<forall>x \<in> set xs. \<not> P x)"
  by (auto simp: find_None_iff)

section \<open>Lemmas: strings and numbers\<close>

lemma digit_val_digit_char: "d < 10 \<Longrightarrow> digit_val (digit_char d) = Some d"
proof -
  assume "d < 10"
  then have "d \<in> {0, 1, 2, 3, 4, 5, 6, 7, 8, 9}" by auto
  then show ?thesis by (auto simp: digit_val_def digit_char_def less_eq_char_def)
qed

lemma digit_chars [simp]:
  "digit_char 0 = CHR ''0''" "digit_char 1 = CHR ''1''" "digit_char (Suc 0) = CHR ''1''"
  "digit_char 2 = CHR ''2''" "digit_char 3 = CHR ''3''" "digit_char 4 = CHR ''4''"
  "digit_char 5 = CHR ''5''" "digit_char 6 = CHR ''6''" "digit_char 7 = CHR ''7''"
  "digit_char 8 = CHR ''8''" "digit_char 9 = CHR ''9''"
  by (simp_all add: digit_char_def char_of_def bit_0)

lemma parse_digits_append:
  "parse_digits acc (xs @ ys) =
     (case parse_digits acc xs of None \<Rightarrow> None | Some n \<Rightarrow> parse_digits n ys)"
  by (induction xs arbitrary: acc) (auto split: option.splits)

lemma parse_digits_show_nat: "parse_digits 0 (show_nat n) = Some n"
proof (induction n rule: show_nat.induct)
  case (1 n)
  show ?case
  proof (cases "n < 10")
    case True
    then show ?thesis by (simp add: show_nat.simps [of n] digit_val_digit_char)
  next
    case False
    with 1 show ?thesis
      by (simp add: show_nat.simps [of n] parse_digits_append digit_val_digit_char)
  qed
qed

lemma show_nat_digits: "c \<in> set (show_nat n) \<Longrightarrow> \<exists>d < 10. c = digit_char d"
proof (induction n rule: show_nat.induct)
  case (1 n)
  show ?case
  proof (cases "n < 10 \<or> c = digit_char (n mod 10)")
    case True
    with "1.prems" show ?thesis
      by (auto simp: show_nat.simps [of n] split: if_splits intro: exI [of _ "n mod 10"])
  next
    case False
    with "1.prems" "1.IH" show ?thesis by (auto simp: show_nat.simps [of n])
  qed
qed

lemma show_nat_not_Nil [simp]: "show_nat n \<noteq> []"
  by (simp add: show_nat.simps [of n])

lemma digit_char_not:
  assumes "d < 10"
  shows "digit_char d \<noteq> CHR ''+''" and "digit_char d \<noteq> CHR ''.''"
  using digit_val_digit_char [OF assms] by (auto simp: digit_val_def less_eq_char_def)

lemma show_nat_no_sep: "CHR ''.'' \<notin> set (show_nat n)"
  using show_nat_digits digit_char_not(2) by metis

lemma parse_u64_show_nat: "n < 2 ^ 64 \<Longrightarrow> parse_u64 (show_nat n) = Some n"
proof -
  assume n: "n < 2 ^ 64"
  obtain c cs where s: "show_nat n = c # cs" by (cases "show_nat n") simp_all
  then have "c \<noteq> CHR ''+''"
    using show_nat_digits [of c n] digit_char_not(1) by auto
  with n s parse_digits_show_nat [of n] show ?thesis by (simp add: parse_u64_def)
qed

lemma split_on_not_Nil [simp]: "split_on d s \<noteq> []"
  by (cases s) (auto split: list.splits)

lemma split_on_no_sep: "d \<notin> set w \<Longrightarrow> split_on d w = [w]"
  by (induction w) auto

lemma split_on_append: "d \<notin> set w \<Longrightarrow> split_on d (w @ d # s) = w # split_on d s"
  by (induction w) auto

lemma split_on_join:
  "(\<And>w. w \<in> set ws \<Longrightarrow> d \<notin> set w) \<Longrightarrow> ws \<noteq> [] \<Longrightarrow> split_on d (join [d] ws) = ws"
  by (induction "[d]" ws rule: join.induct) (auto simp: split_on_no_sep split_on_append)

lemma timestamp_from_timestamp [simp]: "timestamp (from_timestamp s) = s"
  by (simp add: timestamp_def from_timestamp_def)

end
