(* ===== verification/Domain.thy ===== *)
theory Domain
  imports Proxy_Prelude
begin

text \<open>
  The \<open>domain\<close> crate (src/crates/domain/src/lib.rs): artifacts, the Profile IR and its
  validation, credentials, and the signed envelopes that travel between the control plane
  and the runners. The third-party crates it calls (sha2, hex, ed25519-dalek, serde) are the
  fields of \<open>libs\<close>, a parameter of every definition that uses them; what the code relies on
  is stated by the predicates \<open>hex_codec\<close> and \<open>ed25519_scheme\<close>.
\<close>

section \<open>JSON values\<close>

text \<open>\<open>serde_json::Value\<close>. An object is a list of entries with distinct keys.\<close>

datatype json =
    JNull
  | JBool bool
  | JNumber int
  | JString string
  | JArray "json list"
  | JObject "(string \<times> json) list"

fun json_get :: "string \<Rightarrow> json \<Rightarrow> json option" where
  "json_get k (JObject kvs) = map_of kvs k"
| "json_get k _ = None"

fun json_elems :: "json \<Rightarrow> json list" where
  "json_elems (JArray xs) = xs"
| "json_elems _ = []"

section \<open>Errors\<close>

datatype domain_error =
    InlineSecretRef string
  | CommandExpired
  | NodeScope
  | Sequence
  | NonceReplay
  | Signature
  | Serialization string

fun domain_error_to_string :: "domain_error \<Rightarrow> string" where
  "domain_error_to_string (InlineSecretRef r) =
     ''secret references must not contain inline material: '' @ r"
| "domain_error_to_string CommandExpired = ''runner command expired''"
| "domain_error_to_string NodeScope = ''runner command node scope mismatch''"
| "domain_error_to_string Sequence =
     ''runner command sequence must be greater than previous sequence''"
| "domain_error_to_string NonceReplay = ''runner command nonce replay''"
| "domain_error_to_string Signature = ''runner command signature invalid''"
| "domain_error_to_string (Serialization m) = ''canonical serialization failed: '' @ m"

section \<open>Artifacts\<close>

datatype artifact_kind =
    ProfileIR | ProfilePatch | CompiledXrayConfig | CompiledSingBoxConfig | SubscriptionArtifact
  | ValidationReport | DeploymentPlan | DeploymentResult | RollbackPointer | DiagnosisReport

datatype redaction_status = ContainsNoSecrets | Redacted | SealedContainsSecrets

record artifact =
  art_id :: string
  art_tenant_id :: string
  art_kind :: artifact_kind
  art_schema_version :: string
  art_media_type :: string
  art_sha256 :: string
  art_storage_uri :: string
  art_redaction_status :: redaction_status
  art_created_by :: string
  art_created_at :: datetime

section \<open>Profile IR\<close>

datatype secret_kind =
    ClientUuid | SK_ShadowsocksPassword | SK_TrojanPassword | RealityPrivateKey
  | SubscriptionTokenSecret | RunnerNodeKey | ModelProviderApiKey

record secret_ref =
  sr_id :: string
  sr_kind :: secret_kind

definition secret_ref_new :: "string \<Rightarrow> secret_kind \<Rightarrow> secret_ref" where
  "secret_ref_new i k = \<lparr>sr_id = i, sr_kind = k\<rparr>"

definition validate_reference_only :: "secret_ref \<Rightarrow> (unit, domain_error) result" where
  "validate_reference_only r =
     (let lowered = to_ascii_lowercase (sr_id r) in
      if starts_with lowered ''inline:''
         \<or> (contains lowered ''private_key'' \<and> length (sr_id r) > 48)
      then Err (InlineSecretRef (sr_id r))
      else Ok ())"

record runtime =
  rt_core :: string
  rt_core_version :: string

datatype inbound_protocol = Vless | Shadowsocks | Trojan

datatype security =
    Reality (reality_server_name: string) (private_key_ref: secret_ref) (short_ids: "string list")
  | Tls (tls_server_name: string)
  | NoSecurity

record inbound =
  in_id :: string
  in_protocol :: inbound_protocol
  in_listen :: string
  in_port :: u16
  in_security :: security
  in_client_group_refs :: "string list"

record client_group =
  cg_id :: string
  cg_credential_policy :: string
  cg_quota_policy_ref :: "string option"

record dns_config =
  dns_mode :: string

record profile_ir =
  ir_schema_version :: string
  ir_runtime :: runtime
  ir_inbounds :: "inbound list"
  ir_client_groups :: "client_group list"
  ir_routes :: "json list"
  ir_dns :: dns_config

definition vless_reality_example :: "string \<Rightarrow> string \<Rightarrow> profile_ir" where
  "vless_reality_example group_id key_ref =
     \<lparr>ir_schema_version = ''0.1'',
      ir_runtime = \<lparr>rt_core = ''xray'', rt_core_version = ''1.x''\<rparr>,
      ir_inbounds =
        [\<lparr>in_id = ''in_reality_443'', in_protocol = Vless, in_listen = ''0.0.0.0'', in_port = 443,
          in_security = Reality ''example.com'' (secret_ref_new key_ref RealityPrivateKey) [''abcd''],
          in_client_group_refs = [group_id]\<rparr>],
      ir_client_groups =
        [\<lparr>cg_id = group_id, cg_credential_policy = ''vless_uuid'', cg_quota_policy_ref = None\<rparr>],
      ir_routes = [],
      ir_dns = \<lparr>dns_mode = ''system''\<rparr>\<rparr>"

fun validate_inbounds :: "inbound list \<Rightarrow> (unit, domain_error) result" where
  "validate_inbounds [] = Ok ()"
| "validate_inbounds (i # is) =
     (case in_security i of
        Reality _ r _ \<Rightarrow> bind_result (validate_reference_only r) (\<lambda>_. validate_inbounds is)
      | _ \<Rightarrow> validate_inbounds is)"

definition profile_validate :: "profile_ir \<Rightarrow> (unit, domain_error) result" where
  "profile_validate ir = validate_inbounds (ir_inbounds ir)"

section \<open>Credentials\<close>

datatype credential_status = Active | Revoked | Expired

datatype credential_material =
    VlessUuid string
  | ShadowsocksPassword string string
  | TrojanPassword string

record credential =
  cr_id :: string
  cr_client_group_id :: string
  cr_display_name :: string
  cr_status :: credential_status
  cr_material :: credential_material

definition active_vless :: "string \<Rightarrow> string \<Rightarrow> string \<Rightarrow> string \<Rightarrow> credential" where
  "active_vless i grp uuid name =
     \<lparr>cr_id = i, cr_client_group_id = grp, cr_display_name = name, cr_status = Active,
      cr_material = VlessUuid uuid\<rparr>"

definition revoked_vless :: "string \<Rightarrow> string \<Rightarrow> string \<Rightarrow> string \<Rightarrow> credential" where
  "revoked_vless i grp uuid name = (active_vless i grp uuid name)\<lparr>cr_status := Revoked\<rparr>"

definition is_active :: "credential \<Rightarrow> bool" where
  "is_active c \<longleftrightarrow> cr_status c = Active"

section \<open>Commands and results\<close>

datatype runner_command_kind =
    RegisterNode string
  | Heartbeat json
  | ApplyDeploymentPlan string string json "json option"
  | ValidateConfig json
  | ReloadCore
  | RestartCore
  | RollbackDeployment string string string
  | CollectMetrics
  | CollectLogWindow "32 word"

record runner_command =
  cmd_tenant_id :: string
  cmd_node_id :: string
  cmd_sequence :: u64
  cmd_nonce :: string
  cmd_expires_at :: datetime
  cmd_kind :: runner_command_kind

definition runner_command_new ::
  "env \<Rightarrow> string \<Rightarrow> string \<Rightarrow> u64 \<Rightarrow> datetime \<Rightarrow> runner_command_kind \<Rightarrow> runner_command" where
  "runner_command_new e tenant node sq expires kind =
     \<lparr>cmd_tenant_id = tenant, cmd_node_id = node, cmd_sequence = sq, cmd_nonce = new_v4 e 0,
      cmd_expires_at = expires, cmd_kind = kind\<rparr>"

record signed_runner_command =
  src_command :: runner_command
  src_signature_hex :: string

datatype deployment_status = Pending | Succeeded | Failed | RolledBack

record deployment_result =
  dr_deployment_id :: string
  dr_status :: deployment_status
  dr_message :: string
  dr_artifact_sha256 :: string
  dr_observed_at :: datetime

record signed_deployment_result =
  sdr_node_id :: string
  sdr_result :: deployment_result
  sdr_signature_hex :: string

record deployment_plan =
  dp_target_node_id :: string
  dp_target_profile_version_id :: string
  dp_compiled_config_artifact_id :: string
  dp_core_kind :: string
  dp_core_version :: string
  dp_assets_version :: string
  dp_rollback_pointer_id :: string
  dp_created_by :: string
  dp_created_at :: datetime

record deployed_profile =
  dpf_profile_id :: string
  dpf_host :: string
  dpf_port :: u16
  dpf_reality_server_name :: string
  dpf_credentials :: "credential list"

definition deployed_profile_new ::
  "string \<Rightarrow> string \<Rightarrow> u16 \<Rightarrow> string \<Rightarrow> deployed_profile" where
  "deployed_profile_new p h port sni =
     \<lparr>dpf_profile_id = p, dpf_host = h, dpf_port = port, dpf_reality_server_name = sni,
      dpf_credentials = []\<rparr>"

definition dpf_with_credential :: "deployed_profile \<Rightarrow> credential \<Rightarrow> deployed_profile" where
  "dpf_with_credential d c = d\<lparr>dpf_credentials := dpf_credentials d @ [c]\<rparr>"

section \<open>Third-party crates\<close>

type_synonym signing_key = bytes
type_synonym verifying_key = bytes

text \<open>
  \<open>sha256_hex\<close> is \<open>hex::encode(Sha256::digest(_))\<close>; \<open>ed_sign\<close>, \<open>ed_verify\<close>,
  \<open>ed_verifying_key\<close>, \<open>vk_from_bytes\<close> are ed25519-dalek; the \<open>to_vec\<close> fields are
  serde_json on the derived serializers; the base64 and percent-encoding fields are the two
  engines of base64 and the encoder of percent-encoding; \<open>month_start\<close> is chrono's
  \<open>date_naive().with_day(1)\<close> at midnight and \<open>datetime_to_json\<close> its serde form.
\<close>

record libs =
  sha256_hex :: "bytes \<Rightarrow> string"
  hex_encode :: "bytes \<Rightarrow> string"
  hex_decode :: "string \<Rightarrow> bytes option"
  ed_sign :: "signing_key \<Rightarrow> bytes \<Rightarrow> bytes"
  ed_verify :: "verifying_key \<Rightarrow> bytes \<Rightarrow> bytes \<Rightarrow> bool"
  ed_verifying_key :: "signing_key \<Rightarrow> verifying_key"
  vk_from_bytes :: "bytes \<Rightarrow> verifying_key option"
  to_vec_command :: "runner_command \<Rightarrow> (bytes, string) result"
  to_vec_result :: "string \<times> deployment_result \<Rightarrow> (bytes, string) result"
  to_vec_pretty :: "json \<Rightarrow> (bytes, string) result"
  b64_encode :: "bytes \<Rightarrow> string"
  b64_decode :: "string \<Rightarrow> bytes option"
  b64_encode_no_pad :: "bytes \<Rightarrow> string"
  percent_encode :: "string \<Rightarrow> string"
  month_start :: "datetime \<Rightarrow> datetime"
  datetime_to_json :: "datetime \<Rightarrow> json"

definition hex_codec :: "libs \<Rightarrow> bool" where
  "hex_codec L \<longleftrightarrow> (\<forall>b. hex_decode L (hex_encode L b) = Some b)"

definition ed25519_scheme :: "libs \<Rightarrow> bool" where
  "ed25519_scheme L \<longleftrightarrow>
     (\<forall>sk m. length (ed_sign L sk m) = 64
        \<and> ed_verify L (ed_verifying_key L sk) m (ed_sign L sk m))"

definition serde_total :: "libs \<Rightarrow> bool" where
  "serde_total L \<longleftrightarrow>
     (\<forall>c. is_ok (to_vec_command L c)) \<and> (\<forall>r. is_ok (to_vec_result L r))
     \<and> (\<forall>j. is_ok (to_vec_pretty L j))"

section \<open>Operations that use them\<close>

definition artifact_from_bytes ::
  "libs \<Rightarrow> env \<Rightarrow> string \<Rightarrow> artifact_kind \<Rightarrow> string \<Rightarrow> bytes \<Rightarrow> string \<Rightarrow> artifact" where
  "artifact_from_bytes L e tenant kind media b by_actor =
     (let sha256 = sha256_hex L b in
      \<lparr>art_id = new_v4 e 0, art_tenant_id = tenant, art_kind = kind, art_schema_version = ''0.1'',
       art_media_type = media, art_sha256 = sha256,
       art_storage_uri = ''artifact://sha256/'' @ sha256,
       art_redaction_status = ContainsNoSecrets, art_created_by = by_actor,
       art_created_at = utc_now e 0\<rparr>)"

definition command_sign ::
  "libs \<Rightarrow> runner_command \<Rightarrow> signing_key \<Rightarrow> (signed_runner_command, domain_error) result" where
  "command_sign L c sk =
     bind_result (map_err Serialization (to_vec_command L c)) (\<lambda>canonical.
       Ok \<lparr>src_command = c, src_signature_hex = hex_encode L (ed_sign L sk canonical)\<rparr>)"

text \<open>\<open>hex::decode\<close> followed by \<open>try_into\<close> into a 64-byte array.\<close>

definition decode_signature :: "libs \<Rightarrow> string \<Rightarrow> (bytes, domain_error) result" where
  "decode_signature L s =
     (case hex_decode L s of
        None \<Rightarrow> Err Signature
      | Some b \<Rightarrow> if length b = 64 then Ok b else Err Signature)"

definition command_verify ::
  "libs \<Rightarrow> signed_runner_command \<Rightarrow> verifying_key \<Rightarrow> string \<Rightarrow> u64 \<Rightarrow> string set \<Rightarrow> datetime
    \<Rightarrow> (runner_command, domain_error) result \<times> string set" where
  "command_verify L env vk expected_node_id last_seq seen now =
     (let c = src_command env in
      if cmd_node_id c \<noteq> expected_node_id then (Err NodeScope, seen)
      else if cmd_expires_at c \<le> now then (Err CommandExpired, seen)
      else if cmd_sequence c \<le> last_seq then (Err Sequence, seen)
      else if cmd_nonce c \<in> seen then (Err NonceReplay, seen)
      else
        (bind_result (decode_signature L (src_signature_hex env)) (\<lambda>sg.
         bind_result (map_err Serialization (to_vec_command L c)) (\<lambda>canonical.
           if ed_verify L vk canonical sg then Ok c else Err Signature)),
         insert (cmd_nonce c) seen))"

definition result_sign ::
  "libs \<Rightarrow> string \<Rightarrow> deployment_result \<Rightarrow> signing_key
    \<Rightarrow> (signed_deployment_result, domain_error) result" where
  "result_sign L node r sk =
     bind_result (map_err Serialization (to_vec_result L (node, r))) (\<lambda>canonical.
       Ok \<lparr>sdr_node_id = node, sdr_result = r,
           sdr_signature_hex = hex_encode L (ed_sign L sk canonical)\<rparr>)"

definition result_verify ::
  "libs \<Rightarrow> signed_deployment_result \<Rightarrow> verifying_key \<Rightarrow> string
    \<Rightarrow> (deployment_result, domain_error) result" where
  "result_verify L s vk expected_node_id =
     (if sdr_node_id s \<noteq> expected_node_id then Err NodeScope
      else
        bind_result (decode_signature L (sdr_signature_hex s)) (\<lambda>sg.
        bind_result (map_err Serialization (to_vec_result L (sdr_node_id s, sdr_result s)))
          (\<lambda>canonical.
           if ed_verify L vk canonical sg then Ok (sdr_result s) else Err Signature)))"

section \<open>Specification of the validation\<close>

text \<open>An inbound that carries secret material instead of a reference.\<close>

definition carries_inline_secret :: "inbound \<Rightarrow> bool" where
  "carries_inline_secret i \<longleftrightarrow>
     (\<exists>sn r ids. in_security i = Reality sn r ids \<and> \<not> is_ok (validate_reference_only r))"

section \<open>A concrete instance of the crates, for evaluation\<close>

text \<open>
  A small executable instance that satisfies the stated hypotheses: bytes are written as
  characters, a signature is a 64-byte tag of key and message. It stands for no real crate;
  theorems that need the hypotheses are evaluated at it.
\<close>

definition chars_of_bytes :: "bytes \<Rightarrow> string" where
  "chars_of_bytes b = map (\<lambda>w. char_of (unat w)) b"

definition demo_libs :: libs where
  "demo_libs =
     \<lparr>sha256_hex = chars_of_bytes, hex_encode = chars_of_bytes,
      hex_decode = (\<lambda>s. Some (as_bytes s)),
      ed_sign = (\<lambda>sk m. take 64 (sk @ m @ replicate 64 0)),
      ed_verify = (\<lambda>vk m sg. sg = take 64 (vk @ m @ replicate 64 0)),
      ed_verifying_key = (\<lambda>sk. sk),
      vk_from_bytes = (\<lambda>b. if length b = 32 then Some b else None),
      to_vec_command = (\<lambda>c. Ok (as_bytes (cmd_nonce c))),
      to_vec_result = (\<lambda>(n, r). Ok (as_bytes (n @ dr_deployment_id r))),
      to_vec_pretty = (\<lambda>j. Ok (as_bytes ''{configuration}'')),
      b64_encode = chars_of_bytes, b64_decode = (\<lambda>s. Some (as_bytes s)),
      b64_encode_no_pad = chars_of_bytes, percent_encode = (\<lambda>s. s),
      month_start = (\<lambda>t. t - t mod seconds 2592000), datetime_to_json = JNumber\<rparr>"

definition demo_env :: env where
  "demo_env = \<lparr>utc_now = (\<lambda>k. 1000 + int k), new_v4 = (\<lambda>k. ''uuid-'' @ show_nat k),
     hash_seed = (\<lambda>_. [])\<rparr>"

definition demo_command :: runner_command where
  "demo_command = \<lparr>cmd_tenant_id = ''t'', cmd_node_id = ''node-a'', cmd_sequence = 1,
     cmd_nonce = ''n1'', cmd_expires_at = 60, cmd_kind = ReloadCore\<rparr>"

definition demo_envelope :: signed_runner_command where
  "demo_envelope = \<lparr>src_command = demo_command,
     src_signature_hex = hex_encode demo_libs (ed_sign demo_libs [11] (as_bytes ''n1''))\<rparr>"

definition demo_result :: deployment_result where
  "demo_result = \<lparr>dr_deployment_id = ''dep-1'', dr_status = Succeeded, dr_message = ''ok'',
     dr_artifact_sha256 = ''abc'', dr_observed_at = 7\<rparr>"

section \<open>Codecs and signatures\<close>

lemma as_bytes_chars [simp]: "as_bytes (chars_of_bytes b) = b"
proof -
  have "(of_char (char_of (unat w)) :: 8 word) = w" for w :: "8 word"
  proof -
    have "(of_char (char_of (unat w)) :: 8 word) = of_nat (of_char (char_of (unat w)))"
      by (simp only: of_nat_of_char)
    also have "(of_char (char_of (unat w)) :: nat) = unat w"
      using unsigned_less [of w, where 'a = nat] by simp
    finally show ?thesis by simp
  qed
  then show ?thesis by (simp add: as_bytes_def chars_of_bytes_def map_idI)
qed

lemma demo_libs_ok: "hex_codec demo_libs" "ed25519_scheme demo_libs" "serde_total demo_libs"
  by (auto simp: hex_codec_def ed25519_scheme_def serde_total_def demo_libs_def)

section \<open>Validation of the Profile IR\<close>

lemma validate_reference_only_Err:
  "validate_reference_only r = Err x \<Longrightarrow> x = InlineSecretRef (sr_id r)"
  by (auto simp: validate_reference_only_def Let_def split: if_splits)

lemma carries_inline_secret_alt:
  "carries_inline_secret i \<longleftrightarrow>
     (case in_security i of Reality _ r _ \<Rightarrow> \<not> is_ok (validate_reference_only r) | _ \<Rightarrow> False)"
  by (auto simp: carries_inline_secret_def split: security.splits)

lemma validate_inbounds_Cons:
  "validate_inbounds (i # is) =
     (if carries_inline_secret i then Err (InlineSecretRef (sr_id (private_key_ref (in_security i))))
      else validate_inbounds is)"
  by (cases "in_security i"; cases "validate_reference_only (private_key_ref (in_security i))")
     (auto simp: carries_inline_secret_alt dest: validate_reference_only_Err)

lemma validate_inbounds_find:
  "validate_inbounds is =
     (case List.find carries_inline_secret is of
        None \<Rightarrow> Ok ()
      | Some i \<Rightarrow> Err (InlineSecretRef (sr_id (private_key_ref (in_security i)))))"
  by (induction "is") (simp_all add: validate_inbounds_Cons del: validate_inbounds.simps(2))

lemma validate_inbounds_Ok:
  "validate_inbounds is = Ok () \<longleftrightarrow> (\<forall>i \<in> set is. \<not> carries_inline_secret i)"
  by (auto simp: validate_inbounds_find find_None_set dest: find_Some_set split: option.splits)

text \<open>
  Validation of a Profile IR succeeds exactly when no REALITY inbound carries inline key
  material, and otherwise reports the reference of the first inbound that does.
\<close>

theorem profile_validate_first_offender:
  "profile_validate ir =
     (case List.find carries_inline_secret (ir_inbounds ir) of
        None \<Rightarrow> Ok ()
      | Some i \<Rightarrow> Err (InlineSecretRef (sr_id (private_key_ref (in_security i)))))"
  unfolding profile_validate_def by (rule validate_inbounds_find)

section \<open>Signed commands\<close>

lemma decode_signature_Ok:
  "decode_signature L s = Ok b \<longleftrightarrow> hex_decode L s = Some b \<and> length b = 64"
  by (auto simp: decode_signature_def split: option.splits)

lemma decode_signed:
  "hex_codec L \<Longrightarrow> ed25519_scheme L \<Longrightarrow>
     decode_signature L (hex_encode L (ed_sign L sk m)) = Ok (ed_sign L sk m)"
  by (simp add: decode_signature_Ok hex_codec_def ed25519_scheme_def)

lemma command_verify_Ok:
  "command_verify L env vk node last_seq seen now = (Ok c, seen') \<longleftrightarrow>
     c = src_command env \<and> seen' = insert (cmd_nonce c) seen \<and> cmd_node_id c = node
     \<and> now < cmd_expires_at c \<and> last_seq < cmd_sequence c \<and> cmd_nonce c \<notin> seen
     \<and> (\<exists>sg m. decode_signature L (src_signature_hex env) = Ok sg
          \<and> to_vec_command L c = Ok m \<and> ed_verify L vk m sg)"
  by (auto simp: command_verify_def Let_def bind_result_eq_Ok not_le split: if_splits)

lemma command_verify_seen_mono: "seen \<subseteq> snd (command_verify L env vk node last_seq seen now)"
  by (auto simp: command_verify_def Let_def)

lemma command_verify_replay:
  "cmd_nonce (src_command env) \<in> seen \<Longrightarrow>
     \<not> is_ok (fst (command_verify L env vk node last_seq seen now))"
  by (auto simp: command_verify_def Let_def)

text \<open>
  C23. The runner accepts an envelope exactly when every check of the trust model passes: node
  scope, time to live, strictly increasing sequence, fresh nonce and a 64-byte signature over
  the canonical bytes; it then returns the enclosed command and remembers its nonce.
\<close>

theorem command_verify_accepts_iff:
  "command_verify L env vk node last_seq seen now = (Ok c, seen') \<longleftrightarrow>
     c = src_command env \<and> seen' = insert (cmd_nonce c) seen \<and> cmd_node_id c = node
     \<and> now < cmd_expires_at c \<and> last_seq < cmd_sequence c \<and> cmd_nonce c \<notin> seen
     \<and> (\<exists>sg m. hex_decode L (src_signature_hex env) = Some sg \<and> length sg = 64
          \<and> to_vec_command L c = Ok m \<and> ed_verify L vk m sg)"
  unfolding command_verify_Ok decode_signature_Ok by blast

text \<open>
  Signing and verifying agree: an envelope made by \<open>sign\<close> is accepted under the matching
  public key by the addressed node, before it expires, once.
\<close>

theorem command_sign_verify:
  assumes "hex_codec L" "ed25519_scheme L"
    and "command_sign L c sk = Ok env"
    and "cmd_node_id c = node" "now < cmd_expires_at c" "last_seq < cmd_sequence c"
      "cmd_nonce c \<notin> seen"
  shows "command_verify L env (ed_verifying_key L sk) node last_seq seen now
           = (Ok c, insert (cmd_nonce c) seen)"
proof -
  from assms(3) obtain m where m: "to_vec_command L c = Ok m"
    and env: "env = \<lparr>src_command = c, src_signature_hex = hex_encode L (ed_sign L sk m)\<rparr>"
    by (auto simp: command_sign_def bind_result_eq_Ok)
  have "ed_verify L (ed_verifying_key L sk) m (ed_sign L sk m)"
    using assms(2) by (simp add: ed25519_scheme_def)
  with m assms show ?thesis by (simp add: command_verify_Ok env decode_signed)
qed

lemma demo_envelope_signed: "command_sign demo_libs demo_command [11] = Ok demo_envelope"
  by (simp add: command_sign_def demo_envelope_def) (simp add: demo_libs_def demo_command_def)

theorem command_sign_verify_witness:
  "command_verify demo_libs demo_envelope (ed_verifying_key demo_libs [11]) ''node-a'' 0 {} 5
     = (Ok demo_command, {''n1''})"
  using command_sign_verify [OF demo_libs_ok(1,2) demo_envelope_signed,
      of "''node-a''" 5 0 "{}"] by (simp add: demo_command_def)

text \<open>
  No replay: once a command was accepted, no envelope that carries its nonce is accepted
  again, whatever its signature, node, sequence or time, as long as nonces are not forgotten.
\<close>

theorem command_verify_no_replay:
  assumes "command_verify L env vk node last_seq seen now = (Ok c, seen')"
    and "seen' \<subseteq> seen2" and "cmd_nonce (src_command env2) = cmd_nonce c"
  shows "\<not> is_ok (fst (command_verify L env2 vk2 node2 last_seq2 seen2 now2))"
proof (rule command_verify_replay)
  from assms(1) have "cmd_nonce c \<in> seen'" by (auto simp: command_verify_Ok)
  with assms(2,3) show "cmd_nonce (src_command env2) \<in> seen2" by auto
qed

theorem command_verify_no_replay_witness:
  "\<not> is_ok (fst (command_verify demo_libs demo_envelope [11] ''node-a'' 0 {''n1''} 5))"
proof (rule command_verify_no_replay)
  show "command_verify demo_libs demo_envelope [11] ''node-a'' 0 {} 5
          = (Ok demo_command, {''n1''})"
    by (simp add: command_verify_Ok decode_signature_Ok demo_envelope_def)
       (simp add: demo_libs_def demo_command_def)
qed (simp_all add: demo_envelope_def)

text \<open>
  The nonce is recorded before the signature is checked, so an envelope that fails only the
  signature check uses up its nonce: afterwards the genuine command with that nonce, signed with
  the right key, is refused as a replay.
\<close>

theorem forged_signature_burns_nonce:
  assumes "command_verify L forged vk node last_seq seen now = (Err Signature, seen')"
    and "src_command genuine = src_command forged"
  shows "command_verify L genuine vk node last_seq seen' now = (Err NonceReplay, seen')"
  using assms by (auto simp: command_verify_def Let_def split: if_splits)

theorem forged_signature_burns_nonce_witness:
  "command_verify demo_libs demo_envelope [11] ''node-a'' 0 {''n1''} 5
     = (Err NonceReplay, {''n1''})"
proof (rule forged_signature_burns_nonce)
  show "command_verify demo_libs (demo_envelope\<lparr>src_signature_hex := ''forged''\<rparr>) [11]
          ''node-a'' 0 {} 5 = (Err Signature, {''n1''})"
    by (simp add: command_verify_def demo_envelope_def demo_command_def decode_signature_def
        demo_libs_def as_bytes_def)
qed simp

section \<open>Signed deployment results\<close>

lemma result_verify_Ok:
  "result_verify L s vk node = Ok r \<longleftrightarrow>
     r = sdr_result s \<and> sdr_node_id s = node
     \<and> (\<exists>sg m. decode_signature L (sdr_signature_hex s) = Ok sg
          \<and> to_vec_result L (node, r) = Ok m \<and> ed_verify L vk m sg)"
  by (auto simp: result_verify_def bind_result_eq_Ok split: if_splits)

text \<open>
  A runner's signed result is accepted by the control plane under the node's key for the node
  it was signed for, and for no other node.
\<close>

theorem result_sign_verify:
  assumes "hex_codec L" "ed25519_scheme L" and "result_sign L node r sk = Ok s"
  shows "result_verify L s (ed_verifying_key L sk) expected
           = (if expected = node then Ok r else Err NodeScope)"
proof -
  from assms(3) obtain m where m: "to_vec_result L (node, r) = Ok m"
    and s: "s = \<lparr>sdr_node_id = node, sdr_result = r,
                 sdr_signature_hex = hex_encode L (ed_sign L sk m)\<rparr>"
    by (auto simp: result_sign_def bind_result_eq_Ok)
  have "ed_verify L (ed_verifying_key L sk) m (ed_sign L sk m)"
    using assms(2) by (simp add: ed25519_scheme_def)
  with m assms(1,2) show ?thesis by (simp add: result_verify_def s decode_signed)
qed

theorem result_sign_verify_witness:
  "\<exists>s. result_sign demo_libs ''node-a'' demo_result [22] = Ok s
     \<and> result_verify demo_libs s (ed_verifying_key demo_libs [22]) ''node-a'' = Ok demo_result
     \<and> result_verify demo_libs s (ed_verifying_key demo_libs [22]) ''node-b'' = Err NodeScope"
proof -
  obtain s where s: "result_sign demo_libs ''node-a'' demo_result [22] = Ok s"
    by (simp add: result_sign_def demo_libs_def)
  then show ?thesis
    using result_sign_verify [OF demo_libs_ok(1,2) s] by auto
qed

end
