(* ===== verification/Storage_Types.thy ===== *)
theory Storage_Types
  imports Domain
begin

text \<open>
  The records of the \<open>storage\<close> crate (src/crates/storage/src/lib.rs, lines 19-488) and its free
  functions (from line 3489 on): status labels, quota and expiry decisions, subscription tokens
  and the usage buckets.
\<close>

datatype store_error =
    NotFound string
  | Conflict string
  | ArtifactShaMismatch string string
  | Sqlx string
  | Serde string

fun store_error_to_string :: "store_error \<Rightarrow> string" where
  "store_error_to_string (NotFound m) = ''record not found: '' @ m"
| "store_error_to_string (Conflict m) = ''conflict: '' @ m"
| "store_error_to_string (ArtifactShaMismatch expected actual) =
     ''artifact sha256 mismatch: expected '' @ expected @ '', got '' @ actual"
| "store_error_to_string (Sqlx m) = ''sqlx error: '' @ m"
| "store_error_to_string (Serde m) = ''serialization error: '' @ m"

section \<open>Records\<close>

record node_record =
  nd_tenant_id :: string
  nd_node_id :: string
  nd_host :: string
  nd_xray_version :: string
  nd_runner_result_public_key_hex :: string
  nd_last_heartbeat_at :: datetime

definition node_record_new :: "env \<Rightarrow> string \<Rightarrow> string \<Rightarrow> string \<Rightarrow> string \<Rightarrow> node_record" where
  "node_record_new e tenant node host version =
     \<lparr>nd_tenant_id = tenant, nd_node_id = node, nd_host = host, nd_xray_version = version,
      nd_runner_result_public_key_hex = [], nd_last_heartbeat_at = utc_now e 0\<rparr>"

definition with_runner_result_public_key_hex :: "node_record \<Rightarrow> string \<Rightarrow> node_record" where
  "with_runner_result_public_key_hex n k = n\<lparr>nd_runner_result_public_key_hex := k\<rparr>"

record node_registration_token_record =
  nt_tenant_id :: string
  nt_token_id :: string
  nt_token :: string
  nt_status :: string
  nt_created_at :: datetime
  nt_consumed_at :: "datetime option"
  nt_used_by_node_id :: "string option"

definition node_registration_token_new ::
  "env \<Rightarrow> string \<Rightarrow> string \<Rightarrow> string \<Rightarrow> node_registration_token_record" where
  "node_registration_token_new e tenant token_id token =
     \<lparr>nt_tenant_id = tenant, nt_token_id = token_id, nt_token = token, nt_status = ''active'',
      nt_created_at = utc_now e 0, nt_consumed_at = None, nt_used_by_node_id = None\<rparr>"

definition mark_used ::
  "datetime \<Rightarrow> node_registration_token_record \<Rightarrow> string \<Rightarrow> node_registration_token_record" where
  "mark_used now t node =
     t\<lparr>nt_status := ''used'', nt_consumed_at := Some now, nt_used_by_node_id := Some node\<rparr>"

record heartbeat_record =
  hb_tenant_id :: string
  hb_node_id :: string
  hb_capability_snapshot :: json
  hb_created_at :: datetime

definition heartbeat_record_new :: "env \<Rightarrow> string \<Rightarrow> string \<Rightarrow> json \<Rightarrow> heartbeat_record" where
  "heartbeat_record_new e tenant node snapshot =
     \<lparr>hb_tenant_id = tenant, hb_node_id = node, hb_capability_snapshot = snapshot,
      hb_created_at = utc_now e 0\<rparr>"

record profile_record =
  pr_tenant_id :: string
  pr_profile_id :: string
  pr_ir :: profile_ir
  pr_created_at :: datetime

definition profile_record_new :: "env \<Rightarrow> string \<Rightarrow> string \<Rightarrow> profile_ir \<Rightarrow> profile_record" where
  "profile_record_new e tenant profile ir =
     \<lparr>pr_tenant_id = tenant, pr_profile_id = profile, pr_ir = ir, pr_created_at = utc_now e 0\<rparr>"

record credential_record =
  crr_profile_id :: string
  crr_credential :: credential

record deployment_plan_record =
  dpr_tenant_id :: string
  dpr_deployment_id :: string
  dpr_node_id :: string
  dpr_profile_id :: string
  dpr_compiled_config_artifact_id :: string
  dpr_created_at :: datetime

definition deployment_plan_record_new ::
  "env \<Rightarrow> string \<Rightarrow> string \<Rightarrow> string \<Rightarrow> string \<Rightarrow> string \<Rightarrow> deployment_plan_record" where
  "deployment_plan_record_new e tenant dep node profile art =
     \<lparr>dpr_tenant_id = tenant, dpr_deployment_id = dep, dpr_node_id = node, dpr_profile_id = profile,
      dpr_compiled_config_artifact_id = art, dpr_created_at = utc_now e 0\<rparr>"

record rollback_pointer_record =
  rbp_tenant_id :: string
  rbp_rollback_pointer_id :: string
  rbp_deployment_id :: string
  rbp_previous_deployment_id :: "string option"
  rbp_previous_compiled_config_artifact_id :: "string option"
  rbp_target_compiled_config_artifact_id :: string
  rbp_previous_core_version :: "string option"
  rbp_previous_assets_version :: "string option"
  rbp_created_at :: datetime

definition rollback_pointer_new ::
  "datetime \<Rightarrow> deployment_plan_record \<Rightarrow> string option \<Rightarrow> string option \<Rightarrow> rollback_pointer_record" where
  "rollback_pointer_new now d prev_dep prev_art =
     \<lparr>rbp_tenant_id = dpr_tenant_id d,
      rbp_rollback_pointer_id = ''rollback-'' @ dpr_deployment_id d,
      rbp_deployment_id = dpr_deployment_id d,
      rbp_previous_deployment_id = prev_dep,
      rbp_previous_compiled_config_artifact_id = prev_art,
      rbp_target_compiled_config_artifact_id = dpr_compiled_config_artifact_id d,
      rbp_previous_core_version = None, rbp_previous_assets_version = None,
      rbp_created_at = now\<rparr>"

record deployment_snapshot_record =
  snp_tenant_id :: string
  snp_snapshot_id :: string
  snp_deployment_id :: string
  snp_node_id :: string
  snp_profile_id :: string
  snp_compiled_config_artifact_id :: string
  snp_result_status :: deployment_status
  snp_result_message :: string
  snp_result_artifact_sha256 :: string
  snp_observed_at :: datetime
  snp_created_at :: datetime

definition snapshot_from_result ::
  "datetime \<Rightarrow> deployment_plan_record \<Rightarrow> deployment_result \<Rightarrow> deployment_snapshot_record" where
  "snapshot_from_result now d r =
     \<lparr>snp_tenant_id = dpr_tenant_id d,
      snp_snapshot_id = ''snapshot-'' @ dr_deployment_id r,
      snp_deployment_id = dr_deployment_id r, snp_node_id = dpr_node_id d,
      snp_profile_id = dpr_profile_id d,
      snp_compiled_config_artifact_id = dpr_compiled_config_artifact_id d,
      snp_result_status = dr_status r, snp_result_message = dr_message r,
      snp_result_artifact_sha256 = dr_artifact_sha256 r, snp_observed_at = dr_observed_at r,
      snp_created_at = now\<rparr>"

record usage_sample_record =
  us_tenant_id :: string
  us_node_id :: string
  us_credential_id :: "string option"
  us_uplink_bytes :: i64
  us_downlink_bytes :: i64
  us_sampled_at :: datetime

record usage_rollup_record =
  ur_tenant_id :: string
  ur_credential_id :: "string option"
  ur_bucket :: string
  ur_bucket_start :: datetime
  ur_uplink_bytes :: i64
  ur_downlink_bytes :: i64

record credential_quota_decision =
  cq_credential_id :: string
  cq_quota_bytes :: i64
  cq_used_bytes :: i64
  cq_allowed :: bool
  cq_reason :: string

record credential_expiry_decision =
  ce_credential_id :: string
  ce_expires_at :: "datetime option"
  ce_expired :: bool
  ce_allowed :: bool
  ce_reason :: string

record deployment_health_check_record =
  hc_tenant_id :: string
  hc_deployment_id :: string
  hc_node_id :: string
  hc_status :: string
  hc_payload_json :: json
  hc_created_at :: datetime

record audit_event_record =
  ae_tenant_id :: string
  ae_actor :: string
  ae_action :: string
  ae_subject :: string
  ae_created_at :: datetime

record outbox_event_record =
  oe_tenant_id :: string
  oe_event_type :: string
  oe_aggregate_type :: string
  oe_aggregate_id :: string
  oe_status :: string
  oe_created_at :: datetime

record subscription_token_record =
  st_tenant_id :: string
  st_token_id :: string
  st_profile_id :: string
  st_token_hash :: string
  st_status :: string
  st_created_at :: datetime
  st_rotated_at :: "datetime option"

record issued_subscription_token =
  it_token_id :: string
  it_profile_id :: string
  it_token :: string
  it_status :: string

record subscription_access_log_record =
  al_token_id :: string
  al_remote_addr :: "string option"
  al_user_agent :: "string option"
  al_status :: string
  al_created_at :: datetime

section \<open>Free functions\<close>

fun deployment_status_debug :: "deployment_status \<Rightarrow> string" where
  "deployment_status_debug Pending = ''Pending''"
| "deployment_status_debug Succeeded = ''Succeeded''"
| "deployment_status_debug Failed = ''Failed''"
| "deployment_status_debug RolledBack = ''RolledBack''"

definition parse_credential_status :: "string \<Rightarrow> credential_status" where
  "parse_credential_status raw =
     (if raw = ''active'' then Active else if raw = ''revoked'' then Revoked
      else if raw = ''expired'' then Expired else Revoked)"

definition parse_deployment_status :: "string \<Rightarrow> deployment_status" where
  "parse_deployment_status raw =
     (if raw = ''Pending'' \<or> raw = ''pending'' \<or> raw = ''planned'' then Pending
      else if raw = ''Succeeded'' \<or> raw = ''succeeded'' then Succeeded
      else if raw = ''Failed'' \<or> raw = ''failed'' then Failed
      else if raw = ''RolledBack'' \<or> raw = ''rolled_back'' then RolledBack
      else Failed)"

fun health_status_for_deployment_status :: "deployment_status \<Rightarrow> string" where
  "health_status_for_deployment_status Succeeded = ''healthy''"
| "health_status_for_deployment_status RolledBack = ''healthy''"
| "health_status_for_deployment_status Pending = ''unhealthy''"
| "health_status_for_deployment_status Failed = ''unhealthy''"

definition health_from_result ::
  "libs \<Rightarrow> datetime \<Rightarrow> deployment_plan_record \<Rightarrow> deployment_result
    \<Rightarrow> deployment_health_check_record" where
  "health_from_result L now d r =
     \<lparr>hc_tenant_id = dpr_tenant_id d, hc_deployment_id = dr_deployment_id r,
      hc_node_id = dpr_node_id d,
      hc_status = health_status_for_deployment_status (dr_status r),
      hc_payload_json = JObject
        [(''deployment_status'', JString (deployment_status_debug (dr_status r))),
         (''message'', JString (dr_message r)),
         (''artifact_sha256'', JString (dr_artifact_sha256 r)),
         (''observed_at'', datetime_to_json L (dr_observed_at r))],
      hc_created_at = now\<rparr>"

definition quota_decision :: "string \<Rightarrow> i64 \<Rightarrow> i64 \<Rightarrow> credential_quota_decision" where
  "quota_decision c quota used =
     (let allowed = (used \<le>s quota) in
      \<lparr>cq_credential_id = c, cq_quota_bytes = quota, cq_used_bytes = used, cq_allowed = allowed,
       cq_reason = (if allowed then ''within_quota'' else ''quota_exceeded'')\<rparr>)"

definition expiry_decision ::
  "string \<Rightarrow> datetime option \<Rightarrow> datetime \<Rightarrow> credential_expiry_decision" where
  "expiry_decision c expires_at now =
     (let expired = is_some_and (\<lambda>t. t \<le> now) expires_at in
      \<lparr>ce_credential_id = c, ce_expires_at = expires_at, ce_expired = expired,
       ce_allowed = (\<not> expired),
       ce_reason = (case (expires_at, expired) of
          (None, _) \<Rightarrow> ''no_expiry''
        | (Some _, True) \<Rightarrow> ''expired''
        | (Some _, False) \<Rightarrow> ''not_expired'')\<rparr>)"

definition subscription_token_hash :: "libs \<Rightarrow> string \<Rightarrow> string" where
  "subscription_token_hash L token = sha256_hex L (as_bytes token)"

definition new_subscription_token :: "env \<Rightarrow> string \<Rightarrow> issued_subscription_token" where
  "new_subscription_token e profile =
     (let token_id = ''subtok-'' @ new_v4 e 0; secret = new_v4 e 1 in
      \<lparr>it_token_id = token_id, it_profile_id = profile, it_token = token_id @ ''.'' @ secret,
       it_status = ''active''\<rparr>)"

definition subscription_token_record_of ::
  "libs \<Rightarrow> datetime \<Rightarrow> string \<Rightarrow> issued_subscription_token \<Rightarrow> subscription_token_record" where
  "subscription_token_record_of L now tenant t =
     \<lparr>st_tenant_id = tenant, st_token_id = it_token_id t, st_profile_id = it_profile_id t,
      st_token_hash = subscription_token_hash L (it_token t), st_status = it_status t,
      st_created_at = now, st_rotated_at = None\<rparr>"

definition hour_bucket_start :: "datetime \<Rightarrow> datetime" where
  "hour_bucket_start t = from_timestamp (timestamp t - timestamp t mod 3600)"

definition day_bucket_start :: "datetime \<Rightarrow> datetime" where
  "day_bucket_start t = from_timestamp (timestamp t - timestamp t mod 86400)"

definition month_bucket_start :: "libs \<Rightarrow> datetime \<Rightarrow> datetime" where
  "month_bucket_start L t = month_start L t"

definition usage_bucket_starts :: "libs \<Rightarrow> datetime \<Rightarrow> (string \<times> datetime) list" where
  "usage_bucket_starts L t =
     [(''hour'', hour_bucket_start t), (''day'', day_bucket_start t),
      (''month'', month_bucket_start L t)]"

section \<open>Status labels\<close>

lemma parse_deployment_status_debug [simp]:
  "parse_deployment_status (deployment_status_debug s) = s"
  by (cases s) (simp_all add: parse_deployment_status_def)

section \<open>Usage buckets\<close>

lemma bucket_floor:
  assumes "0 < n"
  shows "from_timestamp (timestamp t - timestamp t mod n) \<le> t"
    and "t < from_timestamp (timestamp t - timestamp t mod n) + seconds n"
proof -
  have "0 \<le> timestamp t mod n" "timestamp t mod n < n" using assms by simp_all
  moreover have "1000000000 * timestamp t \<le> t" "t < 1000000000 * timestamp t + 1000000000"
    by (simp_all add: timestamp_def)
  ultimately show "from_timestamp (timestamp t - timestamp t mod n) \<le> t"
    and "t < from_timestamp (timestamp t - timestamp t mod n) + seconds n"
    by (simp_all add: from_timestamp_def seconds_def)
qed

text \<open>
  The hour and day buckets partition time: a bucket starts on a multiple of its length and
  contains the sample, and the start of a bucket is in the same bucket.
\<close>

theorem usage_buckets_partition:
  "hour_bucket_start t \<le> t \<and> t < hour_bucket_start t + seconds 3600
   \<and> timestamp (hour_bucket_start t) mod 3600 = 0
   \<and> hour_bucket_start (hour_bucket_start t) = hour_bucket_start t
   \<and> day_bucket_start t \<le> t \<and> t < day_bucket_start t + seconds 86400
   \<and> timestamp (day_bucket_start t) mod 86400 = 0
   \<and> day_bucket_start (day_bucket_start t) = day_bucket_start t
   \<and> day_bucket_start t \<le> hour_bucket_start t
   \<and> day_bucket_start (hour_bucket_start t) = day_bucket_start t"
proof -
  have le: "x mod 3600 \<le> x mod 86400" for x :: int
  proof -
    have "x mod 86400 mod 3600 = x mod 3600" by (rule mod_mod_cancel) simp
    moreover have "x mod 86400 mod 3600 \<le> x mod 86400" by (rule zmod_le_nonneg_dividend) simp
    ultimately show ?thesis by simp
  qed
  have same: "(x - x mod 3600) mod 86400 = x mod 86400 - x mod 3600" for x :: int
  proof -
    have "(x - x mod 3600) mod 86400 = (x mod 86400 - x mod 3600) mod 86400"
      by (simp add: mod_diff_left_eq)
    also have "\<dots> = x mod 86400 - x mod 3600"
    proof (rule mod_pos_pos_trivial)
      show "0 \<le> x mod 86400 - x mod 3600" using le [of x] by simp
      have "x mod 86400 < 86400" and "0 \<le> x mod 3600" by simp_all
      then show "x mod 86400 - x mod 3600 < 86400" by linarith
    qed
    finally show ?thesis .
  qed
  have zero: "(x - x mod n) mod n = 0" for x n :: int
    by (simp add: minus_mod_eq_mult_div)
  show ?thesis
    using bucket_floor [of 3600 t] bucket_floor [of 86400 t] le [of "timestamp t"]
      same [of "timestamp t"]
    by (simp add: hour_bucket_start_def day_bucket_start_def zero) (simp add: from_timestamp_def)
qed

end
