(* ===== verification/Memory_Store.thy ===== *)
theory Memory_Store
  imports Storage_Types
begin

text \<open>
  \<open>MemoryStore\<close> (src/crates/storage/src/lib.rs, lines 463-1475): the state behind its mutex and
  one definition per method. A method holds the mutex from its first read to its last write, so
  it is one atomic step on the state. \<open>T\<close> is the store's tenant id, \<open>e\<close> the ambient inputs of
  the call; reading methods return the state unchanged.
\<close>

type_synonym rollup_key = "string option \<times> string \<times> datetime"

record memory_state =
  nodes :: "(string, node_record) hashmap"
  node_registration_tokens :: "(string, node_registration_token_record) hashmap"
  heartbeats :: "(string, heartbeat_record) hashmap"
  profiles :: "(string, profile_record) hashmap"
  credentials_by_profile :: "(string, credential list) hashmap"
  artifacts :: "(string, artifact) hashmap"
  artifact_blobs_by_sha256 :: "(string, bytes) hashmap"
  idempotency_responses :: "(string, json) hashmap"
  deployments :: "(string, deployment_plan_record) hashmap"
  deployment_statuses :: "(string, deployment_status) hashmap"
  rollback_pointers :: "(string, rollback_pointer_record) hashmap"
  deployment_snapshots :: "(string, deployment_snapshot_record) hashmap"
  health_checks :: "deployment_health_check_record list"
  usage_samples :: "usage_sample_record list"
  usage_rollups :: "(rollup_key, usage_rollup_record) hashmap"
  credential_quotas :: "(string, i64) hashmap"
  credential_expirations :: "(string, datetime) hashmap"
  runner_commands :: "(string, signed_runner_command list) hashmap"
  subscription_tokens :: "(string, subscription_token_record) hashmap"
  subscription_access_logs :: "subscription_access_log_record list"
  audit_events :: "audit_event_record list"
  outbox :: "outbox_event_record list"

definition memory_state_default :: memory_state where
  "memory_state_default =
     \<lparr>nodes = [], node_registration_tokens = [], heartbeats = [], profiles = [],
      credentials_by_profile = [], artifacts = [], artifact_blobs_by_sha256 = [],
      idempotency_responses = [], deployments = [], deployment_statuses = [],
      rollback_pointers = [], deployment_snapshots = [], health_checks = [],
      usage_samples = [], usage_rollups = [], credential_quotas = [], credential_expirations = [],
      runner_commands = [], subscription_tokens = [], subscription_access_logs = [],
      audit_events = [], outbox = []\<rparr>"

type_synonym 'a mem_op = "memory_state \<Rightarrow> ('a, store_error) result \<times> memory_state"

section \<open>Audit trail and outbox\<close>

definition mem_record ::
  "datetime \<Rightarrow> string \<Rightarrow> string \<Rightarrow> string \<Rightarrow> string \<Rightarrow> string \<Rightarrow> memory_state \<Rightarrow> memory_state" where
  "mem_record now tenant actor action aggregate_type aggregate_id s =
     s\<lparr>audit_events := audit_events s @
         [\<lparr>ae_tenant_id = tenant, ae_actor = actor, ae_action = action,
           ae_subject = aggregate_type @ '':'' @ aggregate_id, ae_created_at = now\<rparr>],
       outbox := outbox s @
         [\<lparr>oe_tenant_id = tenant, oe_event_type = action, oe_aggregate_type = aggregate_type,
           oe_aggregate_id = aggregate_id, oe_status = ''pending'', oe_created_at = now\<rparr>]\<rparr>"

definition mem_audit_count :: "nat mem_op" where
  "mem_audit_count s = (Ok (length (audit_events s)), s)"

definition mem_outbox_count :: "nat mem_op" where
  "mem_outbox_count s = (Ok (length (outbox s)), s)"

section \<open>Nodes and registration tokens\<close>

definition mem_register_node :: "string \<Rightarrow> env \<Rightarrow> node_record \<Rightarrow> unit mem_op" where
  "mem_register_node T e node s =
     (Ok (), mem_record (utc_now e 0) T ''runner'' ''node.registered'' ''node'' (nd_node_id node)
        (s\<lparr>nodes := hm_insert (nd_node_id node) node (nodes s)\<rparr>))"

definition find_registration_token ::
  "nat list \<Rightarrow> string \<Rightarrow> memory_state \<Rightarrow> node_registration_token_record option" where
  "find_registration_token seed token s =
     List.find (\<lambda>r. nt_token r = token) (hm_values seed (node_registration_tokens s))"

definition mem_register_node_with_registration_token ::
  "string \<Rightarrow> env \<Rightarrow> node_record \<Rightarrow> string \<Rightarrow> node_registration_token_record mem_op" where
  "mem_register_node_with_registration_token T e node registration_token s =
     (case find_registration_token (hash_seed e 0) registration_token s of
        None \<Rightarrow> (Err (NotFound ''node_registration_token''), s)
      | Some existing \<Rightarrow>
          if nt_status existing \<noteq> ''active''
          then (Err (Conflict ''registration token already consumed''), s)
          else
            (let s1 = s\<lparr>nodes := hm_insert (nd_node_id node) node (nodes s)\<rparr>;
                 s2 = mem_record (utc_now e 0) T ''runner'' ''node.registered'' ''node''
                        (nd_node_id node) s1;
                 updated = mark_used (utc_now e 1) existing (nd_node_id node);
                 s3 = s2\<lparr>node_registration_tokens :=
                        hm_insert (nt_token_id updated) updated (node_registration_tokens s2)\<rparr>;
                 s4 = mem_record (utc_now e 2) (nt_tenant_id updated) ''runner''
                        ''node_registration_token.used'' ''node_registration_token''
                        (nt_token_id updated) s3
             in (Ok updated, s4)))"

definition mem_list_nodes :: "env \<Rightarrow> node_record list mem_op" where
  "mem_list_nodes e s = (Ok (sort_key nd_node_id (hm_values (hash_seed e 0) (nodes s))), s)"

definition mem_create_node_registration_token ::
  "env \<Rightarrow> node_registration_token_record \<Rightarrow> unit mem_op" where
  "mem_create_node_registration_token e token s =
     (if list_ex (\<lambda>r. nt_token r = nt_token token)
           (hm_values (hash_seed e 0) (node_registration_tokens s))
      then (Ok (), s)
      else (Ok (), mem_record (utc_now e 0) (nt_tenant_id token) ''admin''
              ''node_registration_token.issued'' ''node_registration_token'' (nt_token_id token)
              (s\<lparr>node_registration_tokens :=
                   hm_insert (nt_token_id token) token (node_registration_tokens s)\<rparr>)))"

definition mem_list_node_registration_tokens ::
  "env \<Rightarrow> node_registration_token_record list mem_op" where
  "mem_list_node_registration_tokens e s =
     (Ok (sort_key nt_created_at (hm_values (hash_seed e 0) (node_registration_tokens s))), s)"

definition mem_node_registration_token ::
  "env \<Rightarrow> string \<Rightarrow> node_registration_token_record mem_op" where
  "mem_node_registration_token e token s =
     (ok_or (NotFound ''node_registration_token'')
        (find_registration_token (hash_seed e 0) token s), s)"

definition mem_consume_node_registration_token ::
  "env \<Rightarrow> string \<Rightarrow> string \<Rightarrow> node_registration_token_record mem_op" where
  "mem_consume_node_registration_token e token node_id s =
     (case find_registration_token (hash_seed e 0) token s of
        None \<Rightarrow> (Err (NotFound ''node_registration_token''), s)
      | Some existing \<Rightarrow>
          (let updated = mark_used (utc_now e 0) existing node_id;
               s1 = s\<lparr>node_registration_tokens :=
                      hm_insert (nt_token_id updated) updated (node_registration_tokens s)\<rparr>
           in (Ok updated,
               mem_record (utc_now e 1) (nt_tenant_id updated) ''runner''
                 ''node_registration_token.used'' ''node_registration_token''
                 (nt_token_id updated) s1)))"

definition mem_record_heartbeat :: "string \<Rightarrow> env \<Rightarrow> heartbeat_record \<Rightarrow> unit mem_op" where
  "mem_record_heartbeat T e hb s =
     (if \<not> hm_contains (nodes s) (hb_node_id hb)
      then (Err (NotFound (''node:'' @ hb_node_id hb)), s)
      else (Ok (), mem_record (utc_now e 0) T ''runner'' ''node.heartbeat'' ''node'' (hb_node_id hb)
              (s\<lparr>heartbeats := hm_insert (hb_node_id hb) hb (heartbeats s)\<rparr>)))"

definition mem_latest_heartbeat :: "string \<Rightarrow> heartbeat_record mem_op" where
  "mem_latest_heartbeat node_id s =
     (ok_or (NotFound (''heartbeat:'' @ node_id)) (map_of (heartbeats s) node_id), s)"

definition mem_node :: "string \<Rightarrow> node_record mem_op" where
  "mem_node node_id s = (ok_or (NotFound (''node:'' @ node_id)) (map_of (nodes s) node_id), s)"

definition mem_update_node_runner_result_public_key ::
  "string \<Rightarrow> env \<Rightarrow> string \<Rightarrow> string \<Rightarrow> node_record mem_op" where
  "mem_update_node_runner_result_public_key T e node_id public_key_hex s =
     (case map_of (nodes s) node_id of
        None \<Rightarrow> (Err (NotFound (''node:'' @ node_id)), s)
      | Some n \<Rightarrow>
          (let node = n\<lparr>nd_runner_result_public_key_hex := public_key_hex\<rparr> in
           (Ok node, mem_record (utc_now e 0) T ''admin'' ''node.runner_result_key_rotated''
              ''node'' node_id (s\<lparr>nodes := hm_insert node_id node (nodes s)\<rparr>))))"

section \<open>Profiles and credentials\<close>

definition mem_create_profile :: "string \<Rightarrow> env \<Rightarrow> profile_record \<Rightarrow> unit mem_op" where
  "mem_create_profile T e p s =
     (Ok (), mem_record (utc_now e 0) T ''admin'' ''profile.created'' ''profile'' (pr_profile_id p)
        (s\<lparr>profiles := hm_insert (pr_profile_id p) p (profiles s)\<rparr>))"

definition mem_list_profiles :: "env \<Rightarrow> profile_record list mem_op" where
  "mem_list_profiles e s =
     (Ok (sort_key pr_profile_id (hm_values (hash_seed e 0) (profiles s))), s)"

definition mem_profile :: "string \<Rightarrow> profile_record mem_op" where
  "mem_profile profile_id s =
     (ok_or (NotFound (''profile:'' @ profile_id)) (map_of (profiles s) profile_id), s)"

definition mem_add_credential :: "string \<Rightarrow> env \<Rightarrow> string \<Rightarrow> credential \<Rightarrow> unit mem_op" where
  "mem_add_credential T e profile_id c s =
     (if \<not> hm_contains (profiles s) profile_id
      then (Err (NotFound (''profile:'' @ profile_id)), s)
      else (Ok (), mem_record (utc_now e 0) T ''admin'' ''client.created'' ''client'' (cr_id c)
              (s\<lparr>credentials_by_profile := hm_insert profile_id
                   (unwrap_or [] (map_of (credentials_by_profile s) profile_id) @ [c])
                   (credentials_by_profile s)\<rparr>)))"

definition mem_list_credentials :: "env \<Rightarrow> credential_record list mem_op" where
  "mem_list_credentials e s =
     (Ok (sort_key (\<lambda>r. (crr_profile_id r, cr_id (crr_credential r)))
       (concat (map (\<lambda>(p, cs). map (\<lambda>c. \<lparr>crr_profile_id = p, crr_credential = c\<rparr>) cs)
          (hm_entries (hash_seed e 0) (credentials_by_profile s))))), s)"

definition mem_credentials_for_profile :: "string \<Rightarrow> credential list mem_op" where
  "mem_credentials_for_profile profile_id s =
     (Ok (unwrap_or [] (map_of (credentials_by_profile s) profile_id)), s)"

section \<open>Artifacts and idempotent responses\<close>

definition mem_record_artifact :: "string \<Rightarrow> env \<Rightarrow> artifact \<Rightarrow> unit mem_op" where
  "mem_record_artifact T e a s =
     (Ok (), mem_record (utc_now e 0) T ''control-plane'' ''artifact.created'' ''artifact'' (art_id a)
        (s\<lparr>artifacts := hm_insert (art_id a) a (artifacts s)\<rparr>))"

definition mem_record_artifact_blob ::
  "libs \<Rightarrow> string \<Rightarrow> env \<Rightarrow> artifact \<Rightarrow> bytes \<Rightarrow> unit mem_op" where
  "mem_record_artifact_blob L T e a b s =
     (let actual = sha256_hex L b in
      if actual \<noteq> art_sha256 a then (Err (ArtifactShaMismatch (art_sha256 a) actual), s)
      else (Ok (), mem_record (utc_now e 0) T ''control-plane'' ''artifact.created'' ''artifact''
              (art_id a)
              (s\<lparr>artifact_blobs_by_sha256 :=
                   hm_insert (art_sha256 a) b (artifact_blobs_by_sha256 s),
                 artifacts := hm_insert (art_id a) a (artifacts s)\<rparr>)))"

definition mem_artifact_bytes :: "string \<Rightarrow> bytes mem_op" where
  "mem_artifact_bytes artifact_id s =
     (case map_of (artifacts s) artifact_id of
        None \<Rightarrow> (Err (NotFound (''artifact:'' @ artifact_id)), s)
      | Some a \<Rightarrow> (ok_or (NotFound (''artifact_blob:'' @ art_sha256 a))
                    (map_of (artifact_blobs_by_sha256 s) (art_sha256 a)), s))"

definition mem_artifact_bytes_by_sha256 :: "string \<Rightarrow> bytes mem_op" where
  "mem_artifact_bytes_by_sha256 sha256 s =
     (ok_or (NotFound (''artifact_blob:'' @ sha256)) (map_of (artifact_blobs_by_sha256 s) sha256), s)"

definition mem_idempotency_response :: "string \<Rightarrow> string \<Rightarrow> json option mem_op" where
  "mem_idempotency_response tenant_id key s = (Ok (map_of (idempotency_responses s) key), s)"

definition mem_record_idempotency_response :: "string \<Rightarrow> string \<Rightarrow> json \<Rightarrow> unit mem_op" where
  "mem_record_idempotency_response tenant_id key response_json s =
     (Ok (), if hm_contains (idempotency_responses s) key then s
             else s\<lparr>idempotency_responses :=
                    hm_insert key response_json (idempotency_responses s)\<rparr>)"

section \<open>Deployments\<close>

text \<open>The latest succeeded deployment on a node, as \<open>record_deployment_plan\<close> looks it up.\<close>

definition previous_deployment ::
  "nat list \<Rightarrow> string \<Rightarrow> memory_state \<Rightarrow> deployment_plan_record option" where
  "previous_deployment seed node_id s =
     max_by_key dpr_created_at
       (filter (\<lambda>c. is_some_and (\<lambda>st. st = Succeeded)
                      (map_of (deployment_statuses s) (dpr_deployment_id c)))
         (filter (\<lambda>c. dpr_node_id c = node_id) (hm_values seed (deployments s))))"

definition mem_record_deployment_plan ::
  "string \<Rightarrow> env \<Rightarrow> deployment_plan_record \<Rightarrow> unit mem_op" where
  "mem_record_deployment_plan T e d s =
     (let previous = previous_deployment (hash_seed e 0) (dpr_node_id d) s;
          rollback_pointer = rollback_pointer_new (utc_now e 0) d
            (map_option dpr_deployment_id previous)
            (map_option dpr_compiled_config_artifact_id previous);
          i = dpr_deployment_id d
      in (Ok (), mem_record (utc_now e 1) T ''admin'' ''deployment.planned'' ''deployment'' i
            (s\<lparr>deployments := hm_insert i d (deployments s),
               deployment_statuses := hm_insert i Pending (deployment_statuses s),
               rollback_pointers := hm_insert i rollback_pointer (rollback_pointers s)\<rparr>)))"

definition mem_list_deployment_plans :: "env \<Rightarrow> deployment_plan_record list mem_op" where
  "mem_list_deployment_plans e s =
     (Ok (sort_key (\<lambda>d. (- dpr_created_at d, dpr_deployment_id d))
        (hm_values (hash_seed e 0) (deployments s))), s)"

definition mem_record_deployment_result ::
  "libs \<Rightarrow> string \<Rightarrow> env \<Rightarrow> deployment_result \<Rightarrow> unit mem_op" where
  "mem_record_deployment_result L T e r s =
     (let i = dr_deployment_id r in
      case map_of (deployments s) i of
        None \<Rightarrow> (Err (NotFound (''deployment:'' @ i)), s)
      | Some d \<Rightarrow>
          (Ok (), mem_record (utc_now e 2) T ''runner'' ''deployment.result'' ''deployment'' i
             (s\<lparr>deployment_statuses := hm_insert i (dr_status r) (deployment_statuses s),
                deployment_snapshots :=
                  hm_insert i (snapshot_from_result (utc_now e 0) d r) (deployment_snapshots s),
                health_checks := health_checks s @ [health_from_result L (utc_now e 1) d r]\<rparr>)))"

definition mem_deployment_status :: "string \<Rightarrow> deployment_status mem_op" where
  "mem_deployment_status i s =
     (ok_or (NotFound (''deployment:'' @ i)) (map_of (deployment_statuses s) i), s)"

definition mem_rollback_pointer :: "string \<Rightarrow> rollback_pointer_record mem_op" where
  "mem_rollback_pointer i s =
     (ok_or (NotFound (''rollback_pointer:'' @ i)) (map_of (rollback_pointers s) i), s)"

definition mem_deployment_snapshot :: "string \<Rightarrow> deployment_snapshot_record mem_op" where
  "mem_deployment_snapshot i s =
     (ok_or (NotFound (''deployment_snapshot:'' @ i)) (map_of (deployment_snapshots s) i), s)"

definition mem_latest_deployment_health :: "string \<Rightarrow> deployment_health_check_record mem_op" where
  "mem_latest_deployment_health i s =
     (ok_or (NotFound (''deployment_health:'' @ i))
        (max_by_key hc_created_at (filter (\<lambda>h. hc_deployment_id h = i) (health_checks s))), s)"

definition mem_record_deployment_health_check ::
  "string \<Rightarrow> env \<Rightarrow> deployment_health_check_record \<Rightarrow> unit mem_op" where
  "mem_record_deployment_health_check T e h s =
     (case map_of (deployments s) (hc_deployment_id h) of
        None \<Rightarrow> (Err (NotFound (''deployment:'' @ hc_deployment_id h)), s)
      | Some d \<Rightarrow>
          if dpr_node_id d \<noteq> hc_node_id h
          then (Err (NotFound (''deployment:'' @ hc_deployment_id h @ '':node:'' @ hc_node_id h)), s)
          else (Ok (), mem_record (utc_now e 0) T ''runner'' ''deployment.health'' ''deployment''
                  (hc_deployment_id h) (s\<lparr>health_checks := health_checks s @ [h]\<rparr>)))"

definition mem_deployment_health_checks ::
  "string \<Rightarrow> deployment_health_check_record list mem_op" where
  "mem_deployment_health_checks i s =
     (if \<not> hm_contains (deployments s) i then (Err (NotFound (''deployment:'' @ i)), s)
      else (Ok (filter (\<lambda>h. hc_deployment_id h = i) (health_checks s)), s))"

section \<open>Usage, quota and expiry\<close>

definition add_to_rollup ::
  "usage_sample_record \<Rightarrow> string \<times> datetime
    \<Rightarrow> (rollup_key, usage_rollup_record) hashmap \<Rightarrow> (rollup_key, usage_rollup_record) hashmap" where
  "add_to_rollup u b m =
     (let key = (us_credential_id u, fst b, snd b);
          rollup = unwrap_or
            \<lparr>ur_tenant_id = us_tenant_id u, ur_credential_id = us_credential_id u,
             ur_bucket = fst b, ur_bucket_start = snd b, ur_uplink_bytes = 0,
             ur_downlink_bytes = 0\<rparr> (map_of m key)
      in hm_insert key
           (rollup\<lparr>ur_uplink_bytes := ur_uplink_bytes rollup + us_uplink_bytes u,
                   ur_downlink_bytes := ur_downlink_bytes rollup + us_downlink_bytes u\<rparr>) m)"

definition mem_record_usage_sample :: "libs \<Rightarrow> usage_sample_record \<Rightarrow> unit mem_op" where
  "mem_record_usage_sample L u s =
     (if \<not> hm_contains (nodes s) (us_node_id u)
      then (Err (NotFound (''node:'' @ us_node_id u)), s)
      else (Ok (), s\<lparr>usage_rollups :=
                       fold (add_to_rollup u) (usage_bucket_starts L (us_sampled_at u))
                         (usage_rollups s),
                     usage_samples := usage_samples s @ [u]\<rparr>))"

definition mem_latest_usage_sample :: "string \<Rightarrow> usage_sample_record mem_op" where
  "mem_latest_usage_sample node_id s =
     (ok_or (NotFound (''usage:'' @ node_id))
        (max_by_key us_sampled_at (filter (\<lambda>u. us_node_id u = node_id) (usage_samples s))), s)"

definition mem_latest_usage_rollup_for_credential ::
  "env \<Rightarrow> string \<Rightarrow> string \<Rightarrow> usage_rollup_record mem_op" where
  "mem_latest_usage_rollup_for_credential e credential_id bucket s =
     (ok_or (NotFound (''usage_rollup:'' @ credential_id @ '':'' @ bucket))
        (max_by_key ur_bucket_start
           (filter (\<lambda>r. ur_bucket r = bucket)
             (filter (\<lambda>r. ur_credential_id r = Some credential_id)
               (hm_values (hash_seed e 0) (usage_rollups s))))), s)"

definition mem_set_credential_quota :: "string \<Rightarrow> i64 \<Rightarrow> unit mem_op" where
  "mem_set_credential_quota credential_id quota_bytes s =
     (Ok (), s\<lparr>credential_quotas := hm_insert credential_id quota_bytes (credential_quotas s)\<rparr>)"

definition rollup_bytes :: "usage_rollup_record \<Rightarrow> i64" where
  "rollup_bytes r = ur_uplink_bytes r + ur_downlink_bytes r"

definition mem_credential_quota_decision :: "env \<Rightarrow> string \<Rightarrow> credential_quota_decision mem_op" where
  "mem_credential_quota_decision e credential_id s =
     (case map_of (credential_quotas s) credential_id of
        None \<Rightarrow> (Err (NotFound (''credential_quota:'' @ credential_id)), s)
      | Some quota_bytes \<Rightarrow>
          (Ok (quota_decision credential_id quota_bytes
             (sum_list (map rollup_bytes
                (filter (\<lambda>r. ur_bucket r = ''hour'')
                  (filter (\<lambda>r. ur_credential_id r = Some credential_id)
                    (hm_values (hash_seed e 0) (usage_rollups s))))))), s))"

definition credential_quota_exceeded_in_memory :: "nat list \<Rightarrow> memory_state \<Rightarrow> string \<Rightarrow> bool" where
  "credential_quota_exceeded_in_memory seed s credential_id =
     (case map_of (credential_quotas s) credential_id of
        None \<Rightarrow> False
      | Some quota_bytes \<Rightarrow>
          quota_bytes <s
            sum_list (map rollup_bytes
              (filter (\<lambda>r. ur_credential_id r = Some credential_id)
                (hm_values seed (usage_rollups s)))))"

definition mem_set_credential_expiry :: "string \<Rightarrow> datetime \<Rightarrow> unit mem_op" where
  "mem_set_credential_expiry credential_id expires_at s =
     (Ok (), s\<lparr>credential_expirations :=
                hm_insert credential_id expires_at (credential_expirations s)\<rparr>)"

definition mem_credential_expiry_decision ::
  "env \<Rightarrow> string \<Rightarrow> credential_expiry_decision mem_op" where
  "mem_credential_expiry_decision e credential_id s =
     (if \<not> list_ex (\<lambda>c. cr_id c = credential_id)
             (concat (hm_values (hash_seed e 0) (credentials_by_profile s)))
      then (Err (NotFound (''credential:'' @ credential_id)), s)
      else (Ok (expiry_decision credential_id
                  (map_of (credential_expirations s) credential_id) (utc_now e 0)), s))"

definition credential_expired_in_memory :: "memory_state \<Rightarrow> string \<Rightarrow> datetime \<Rightarrow> bool" where
  "credential_expired_in_memory s credential_id now =
     ce_expired (expiry_decision credential_id (map_of (credential_expirations s) credential_id) now)"

section \<open>Runner command queue\<close>

definition mem_enqueue_runner_command :: "string \<Rightarrow> signed_runner_command \<Rightarrow> unit mem_op" where
  "mem_enqueue_runner_command node_id command s =
     (Ok (), s\<lparr>runner_commands := hm_insert node_id
                 (unwrap_or [] (map_of (runner_commands s) node_id) @ [command])
                 (runner_commands s)\<rparr>)"

fun drop_stale :: "u64 \<Rightarrow> signed_runner_command list \<Rightarrow> signed_runner_command list" where
  "drop_stale last_seq [] = []"
| "drop_stale last_seq (front # q) =
     (if cmd_sequence (src_command front) \<le> last_seq then drop_stale last_seq q else front # q)"

fun pop_front :: "'a list \<Rightarrow> 'a option \<times> 'a list" where
  "pop_front [] = (None, [])"
| "pop_front (x # q) = (Some x, q)"

definition mem_next_runner_command ::
  "string \<Rightarrow> u64 \<Rightarrow> signed_runner_command option mem_op" where
  "mem_next_runner_command node_id last_seq s =
     (case map_of (runner_commands s) node_id of
        None \<Rightarrow> (Ok None, s)
      | Some queue \<Rightarrow>
          (case pop_front (drop_stale last_seq queue) of
             (command, queue') \<Rightarrow>
               (Ok command, s\<lparr>runner_commands := hm_insert node_id queue' (runner_commands s)\<rparr>)))"

section \<open>Subscriptions\<close>

definition subscription_server_name :: "node_record \<Rightarrow> inbound \<Rightarrow> string" where
  "subscription_server_name node i =
     (case in_security i of
        Reality sn _ _ \<Rightarrow> sn
      | Tls sn \<Rightarrow> sn
      | NoSecurity \<Rightarrow> nd_host node)"

fun push_allowed ::
  "memory_state \<Rightarrow> env \<Rightarrow> nat \<Rightarrow> deployed_profile \<Rightarrow> credential list \<Rightarrow> deployed_profile" where
  "push_allowed s e k d [] = d"
| "push_allowed s e k d (c # cs) =
     (if credential_quota_exceeded_in_memory (hash_seed e (Suc k)) s (cr_id c)
      then push_allowed s e (Suc k) d cs
      else if credential_expired_in_memory s (cr_id c) (utc_now e k)
      then push_allowed s e (Suc k) d cs
      else push_allowed s e (Suc k) (dpf_with_credential d c) cs)"

definition mem_deployed_profile_for_subscription :: "env \<Rightarrow> string \<Rightarrow> deployed_profile mem_op" where
  "mem_deployed_profile_for_subscription e profile_id s =
     (case map_of (profiles s) profile_id of
        None \<Rightarrow> (Err (NotFound (''profile:'' @ profile_id)), s)
      | Some profile \<Rightarrow>
          (case hm_values (hash_seed e 0) (nodes s) of
             [] \<Rightarrow> (Err (NotFound ''node:any''), s)
           | node # _ \<Rightarrow>
               (case ir_inbounds (pr_ir profile) of
                  [] \<Rightarrow> (Err (NotFound ''profile inbound''), s)
                | first_inbound # _ \<Rightarrow>
                    (Ok (push_allowed s e 0
                       (deployed_profile_new profile_id (nd_host node) (in_port first_inbound)
                          (subscription_server_name node first_inbound))
                       (unwrap_or [] (map_of (credentials_by_profile s) profile_id))), s))))"

definition mem_issue_subscription_token ::
  "libs \<Rightarrow> string \<Rightarrow> env \<Rightarrow> string \<Rightarrow> issued_subscription_token mem_op" where
  "mem_issue_subscription_token L T e profile_id s =
     (if \<not> hm_contains (profiles s) profile_id
      then (Err (NotFound (''profile:'' @ profile_id)), s)
      else
        (let issued = new_subscription_token e profile_id in
         (Ok issued, mem_record (utc_now e 1) T ''admin'' ''subscription_token.issued'' ''profile''
            profile_id
            (s\<lparr>subscription_tokens := hm_insert (it_token_id issued)
                 (subscription_token_record_of L (utc_now e 0) T issued)
                 (subscription_tokens s)\<rparr>))))"

definition rotate_token ::
  "string \<Rightarrow> datetime \<Rightarrow> subscription_token_record \<Rightarrow> subscription_token_record" where
  "rotate_token profile_id now t =
     (if st_profile_id t = profile_id \<and> st_status t = ''active''
      then t\<lparr>st_status := ''rotated'', st_rotated_at := Some now\<rparr> else t)"

definition mem_rotate_subscription_token ::
  "libs \<Rightarrow> string \<Rightarrow> env \<Rightarrow> string \<Rightarrow> issued_subscription_token mem_op" where
  "mem_rotate_subscription_token L T e profile_id s =
     (if \<not> hm_contains (profiles s) profile_id
      then (Err (NotFound (''profile:'' @ profile_id)), s)
      else
        (let rotated = hm_map_values (rotate_token profile_id (utc_now e 0)) (subscription_tokens s);
             issued = new_subscription_token e profile_id in
         (Ok issued, mem_record (utc_now e 2) T ''admin'' ''subscription_token.rotated'' ''profile''
            profile_id
            (s\<lparr>subscription_tokens := hm_insert (it_token_id issued)
                 (subscription_token_record_of L (utc_now e 1) T issued) rotated\<rparr>))))"

definition mem_verify_subscription_token ::
  "libs \<Rightarrow> env \<Rightarrow> string \<Rightarrow> string \<Rightarrow> subscription_token_record mem_op" where
  "mem_verify_subscription_token L e profile_id token s =
     (ok_or (NotFound (''subscription_token:'' @ profile_id))
        (List.find (\<lambda>r. st_profile_id r = profile_id
                       \<and> st_token_hash r = subscription_token_hash L token
                       \<and> st_status r = ''active'')
           (hm_values (hash_seed e 0) (subscription_tokens s))), s)"

definition mem_subscription_token_required :: "env \<Rightarrow> string \<Rightarrow> bool mem_op" where
  "mem_subscription_token_required e profile_id s =
     (if \<not> hm_contains (profiles s) profile_id
      then (Err (NotFound (''profile:'' @ profile_id)), s)
      else (Ok (list_ex (\<lambda>t. st_profile_id t = profile_id \<and> st_status t = ''active'')
                  (hm_values (hash_seed e 0) (subscription_tokens s))), s))"

definition mem_record_subscription_access ::
  "env \<Rightarrow> string \<Rightarrow> string option \<Rightarrow> string option \<Rightarrow> string \<Rightarrow> unit mem_op" where
  "mem_record_subscription_access e token_id remote_addr user_agent status s =
     (if \<not> hm_contains (subscription_tokens s) token_id
      then (Err (NotFound (''subscription_token:'' @ token_id)), s)
      else (Ok (), s\<lparr>subscription_access_logs := subscription_access_logs s @
              [\<lparr>al_token_id = token_id, al_remote_addr = remote_addr, al_user_agent = user_agent,
                al_status = status, al_created_at = utc_now e 0\<rparr>]\<rparr>))"

definition mem_subscription_access_log_count :: "string \<Rightarrow> nat mem_op" where
  "mem_subscription_access_log_count token_id s =
     (Ok (length (filter (\<lambda>l. al_token_id l = token_id) (subscription_access_logs s))), s)"

end
