(* ===== verification/Memory_Invariant.thy ===== *)
theory Memory_Invariant
  imports Memory_Store
begin

text \<open>
  The invariant of \<open>MemoryStore\<close>. It is split by group of maps, each group a predicate on the
  fields it is about, so that an operation only has to re-establish the groups it writes.
  Every writing method is a constructor of \<open>store_op\<close>; \<open>reachable\<close> are the states that any
  interleaving of method calls produces from the empty store, with any clock, any UUIDs and any
  hash order in every call. Property: every reachable state satisfies \<open>store_inv\<close>.
\<close>

section \<open>The invariant\<close>

definition registry_inv ::
  "(string, node_record) hashmap \<Rightarrow> (string, node_registration_token_record) hashmap
    \<Rightarrow> (string, heartbeat_record) hashmap \<Rightarrow> bool" where
  "registry_inv ns ts hs \<longleftrightarrow>
     keyed nd_node_id ns \<and> keyed nt_token_id ts \<and> keyed hb_node_id hs \<and>
     (\<forall>k k' r r'. map_of ts k = Some r \<longrightarrow> map_of ts k' = Some r' \<longrightarrow> nt_token r = nt_token r'
        \<longrightarrow> k = k') \<and>
     (\<forall>i. hm_contains hs i \<longrightarrow> hm_contains ns i)"

definition catalog_inv ::
  "(string, profile_record) hashmap \<Rightarrow> (string, credential list) hashmap \<Rightarrow> bool" where
  "catalog_inv ps cs \<longleftrightarrow>
     keyed pr_profile_id ps \<and> hm_wf cs \<and>
     (\<forall>p l. map_of cs p = Some l \<longrightarrow> l \<noteq> [] \<and> hm_contains ps p)"

definition artifact_inv ::
  "libs \<Rightarrow> (string, artifact) hashmap \<Rightarrow> (string, bytes) hashmap \<Rightarrow> bool" where
  "artifact_inv L as bs \<longleftrightarrow>
     keyed art_id as \<and> hm_wf bs \<and> (\<forall>h b. map_of bs h = Some b \<longrightarrow> sha256_hex L b = h)"

definition deployment_inv ::
  "(string, deployment_plan_record) hashmap \<Rightarrow> (string, deployment_status) hashmap
    \<Rightarrow> (string, rollback_pointer_record) hashmap \<Rightarrow> (string, deployment_snapshot_record) hashmap
    \<Rightarrow> deployment_health_check_record list \<Rightarrow> bool" where
  "deployment_inv ds sts rps sns hcs \<longleftrightarrow>
     keyed dpr_deployment_id ds \<and> hm_wf sts \<and> keyed rbp_deployment_id rps \<and>
     keyed snp_deployment_id sns \<and>
     (\<forall>i. hm_contains sts i \<longleftrightarrow> hm_contains ds i) \<and>
     (\<forall>i. hm_contains rps i \<longleftrightarrow> hm_contains ds i) \<and>
     (\<forall>i. hm_contains sns i \<longrightarrow> hm_contains ds i) \<and>
     (\<forall>i d p. map_of ds i = Some d \<longrightarrow> map_of rps i = Some p
        \<longrightarrow> rbp_target_compiled_config_artifact_id p = dpr_compiled_config_artifact_id d) \<and>
     (\<forall>i p j. map_of rps i = Some p \<longrightarrow> rbp_previous_deployment_id p = Some j \<longrightarrow> hm_contains ds j) \<and>
     (\<forall>i st. map_of sts i = Some st \<longrightarrow> st \<noteq> Pending
        \<longrightarrow> (\<exists>sn. map_of sns i = Some sn \<and> snp_result_status sn = st)) \<and>
     (\<forall>h \<in> set hcs. hm_contains ds (hc_deployment_id h))"

definition rollup_key_of :: "usage_rollup_record \<Rightarrow> rollup_key" where
  "rollup_key_of r = (ur_credential_id r, ur_bucket r, ur_bucket_start r)"

definition sample_in :: "libs \<Rightarrow> rollup_key \<Rightarrow> usage_sample_record \<Rightarrow> bool" where
  "sample_in L k u \<longleftrightarrow>
     us_credential_id u = fst k \<and> snd k \<in> set (usage_bucket_starts L (us_sampled_at u))"

definition sample_bytes :: "usage_sample_record \<Rightarrow> i64" where
  "sample_bytes u = us_uplink_bytes u + us_downlink_bytes u"

definition used_bytes :: "string \<Rightarrow> usage_sample_record list \<Rightarrow> i64" where
  "used_bytes c us = sum_list (map sample_bytes (filter (\<lambda>u. us_credential_id u = Some c) us))"

definition rollup_total :: "(usage_rollup_record \<Rightarrow> bool) \<Rightarrow> usage_rollup_record list \<Rightarrow> i64" where
  "rollup_total P rs = sum_list (map (\<lambda>r. if P r then rollup_bytes r else 0) rs)"

text \<open>
  A rollup exists exactly for the buckets that received a sample and holds the wrapped sums of
  the samples of its bucket; for each bucket length the rollups of a credential add up to all of
  its traffic.
\<close>

definition usage_inv ::
  "libs \<Rightarrow> (string, node_record) hashmap \<Rightarrow> usage_sample_record list
    \<Rightarrow> (rollup_key, usage_rollup_record) hashmap \<Rightarrow> bool" where
  "usage_inv L ns us rs \<longleftrightarrow>
     (\<forall>u \<in> set us. hm_contains ns (us_node_id u)) \<and>
     keyed rollup_key_of rs \<and>
     (\<forall>k. hm_contains rs k \<longleftrightarrow> filter (sample_in L k) us \<noteq> []) \<and>
     (\<forall>k r. map_of rs k = Some r \<longrightarrow>
        ur_uplink_bytes r = sum_list (map us_uplink_bytes (filter (sample_in L k) us)) \<and>
        ur_downlink_bytes r = sum_list (map us_downlink_bytes (filter (sample_in L k) us))) \<and>
     (\<forall>k. hm_contains rs k \<longrightarrow> fst (snd k) \<in> {''hour'', ''day'', ''month''}) \<and>
     (\<forall>c. \<forall>b \<in> {''hour'', ''day'', ''month''}.
        rollup_total (\<lambda>r. ur_credential_id r = Some c \<and> ur_bucket r = b) (map snd rs)
          = used_bytes c us)"

definition subscription_inv ::
  "(string, profile_record) hashmap \<Rightarrow> (string, subscription_token_record) hashmap
    \<Rightarrow> subscription_access_log_record list \<Rightarrow> bool" where
  "subscription_inv ps ts ls \<longleftrightarrow>
     keyed st_token_id ts \<and>
     (\<forall>k t. map_of ts k = Some t \<longrightarrow> hm_contains ps (st_profile_id t)) \<and>
     (\<forall>k t. map_of ts k = Some t \<longrightarrow> st_status t \<in> {''active'', ''rotated''} \<and>
        (st_rotated_at t = None \<longleftrightarrow> st_status t = ''active'')) \<and>
     (\<forall>l \<in> set ls. hm_contains ts (al_token_id l))"

definition journal_entry :: "audit_event_record \<Rightarrow> outbox_event_record \<Rightarrow> bool" where
  "journal_entry a oe \<longleftrightarrow>
     oe_tenant_id oe = ae_tenant_id a \<and> oe_event_type oe = ae_action a \<and>
     ae_subject a = oe_aggregate_type oe @ '':'' @ oe_aggregate_id oe \<and>
     oe_created_at oe = ae_created_at a \<and> oe_status oe = ''pending''"

definition store_inv :: "libs \<Rightarrow> memory_state \<Rightarrow> bool" where
  "store_inv L s \<longleftrightarrow>
     registry_inv (nodes s) (node_registration_tokens s) (heartbeats s) \<and>
     catalog_inv (profiles s) (credentials_by_profile s) \<and>
     artifact_inv L (artifacts s) (artifact_blobs_by_sha256 s) \<and>
     deployment_inv (deployments s) (deployment_statuses s) (rollback_pointers s)
       (deployment_snapshots s) (health_checks s) \<and>
     usage_inv L (nodes s) (usage_samples s) (usage_rollups s) \<and>
     subscription_inv (profiles s) (subscription_tokens s) (subscription_access_logs s) \<and>
     list_all2 journal_entry (audit_events s) (outbox s) \<and>
     hm_wf (idempotency_responses s) \<and> hm_wf (credential_quotas s) \<and>
     hm_wf (credential_expirations s) \<and> hm_wf (runner_commands s)"

section \<open>Sequences of calls\<close>

datatype store_op =
    RegisterNode node_record
  | RegisterNodeWithToken node_record string
  | CreateToken node_registration_token_record
  | ConsumeToken string string
  | RecordHeartbeat heartbeat_record
  | UpdateResultKey string string
  | CreateProfile profile_record
  | AddCredential string credential
  | RecordArtifact artifact
  | RecordArtifactBlob artifact bytes
  | RecordIdempotency string string json
  | RecordPlan deployment_plan_record
  | RecordResult deployment_result
  | RecordHealth deployment_health_check_record
  | RecordUsage usage_sample_record
  | SetQuota string i64
  | SetExpiry string datetime
  | EnqueueCommand string signed_runner_command
  | NextCommand string u64
  | IssueToken string
  | RotateToken string
  | RecordAccess string "string option" "string option" string

fun exec_op :: "libs \<Rightarrow> string \<Rightarrow> env \<Rightarrow> store_op \<Rightarrow> memory_state \<Rightarrow> memory_state" where
  "exec_op L T e (RegisterNode n) s = snd (mem_register_node T e n s)"
| "exec_op L T e (RegisterNodeWithToken n t) s =
     snd (mem_register_node_with_registration_token T e n t s)"
| "exec_op L T e (CreateToken t) s = snd (mem_create_node_registration_token e t s)"
| "exec_op L T e (ConsumeToken t i) s = snd (mem_consume_node_registration_token e t i s)"
| "exec_op L T e (RecordHeartbeat h) s = snd (mem_record_heartbeat T e h s)"
| "exec_op L T e (UpdateResultKey i k) s =
     snd (mem_update_node_runner_result_public_key T e i k s)"
| "exec_op L T e (CreateProfile p) s = snd (mem_create_profile T e p s)"
| "exec_op L T e (AddCredential p c) s = snd (mem_add_credential T e p c s)"
| "exec_op L T e (RecordArtifact a) s = snd (mem_record_artifact T e a s)"
| "exec_op L T e (RecordArtifactBlob a b) s = snd (mem_record_artifact_blob L T e a b s)"
| "exec_op L T e (RecordIdempotency t k v) s = snd (mem_record_idempotency_response t k v s)"
| "exec_op L T e (RecordPlan d) s = snd (mem_record_deployment_plan T e d s)"
| "exec_op L T e (RecordResult r) s = snd (mem_record_deployment_result L T e r s)"
| "exec_op L T e (RecordHealth h) s = snd (mem_record_deployment_health_check T e h s)"
| "exec_op L T e (RecordUsage u) s = snd (mem_record_usage_sample L u s)"
| "exec_op L T e (SetQuota c q) s = snd (mem_set_credential_quota c q s)"
| "exec_op L T e (SetExpiry c t) s = snd (mem_set_credential_expiry c t s)"
| "exec_op L T e (EnqueueCommand i c) s = snd (mem_enqueue_runner_command i c s)"
| "exec_op L T e (NextCommand i q) s = snd (mem_next_runner_command i q s)"
| "exec_op L T e (IssueToken p) s = snd (mem_issue_subscription_token L T e p s)"
| "exec_op L T e (RotateToken p) s = snd (mem_rotate_subscription_token L T e p s)"
| "exec_op L T e (RecordAccess t a u st) s = snd (mem_record_subscription_access e t a u st s)"

definition exec_ops ::
  "libs \<Rightarrow> string \<Rightarrow> (env \<times> store_op) list \<Rightarrow> memory_state \<Rightarrow> memory_state" where
  "exec_ops L T ops s = fold (\<lambda>(e, x). exec_op L T e x) ops s"

inductive reachable :: "libs \<Rightarrow> string \<Rightarrow> memory_state \<Rightarrow> bool" for L :: libs and T :: string where
  start: "reachable L T memory_state_default"
| step: "reachable L T s \<Longrightarrow> reachable L T (exec_op L T e x s)"

section \<open>Journal\<close>

text \<open>\<open>record\<close> touches the audit trail and the outbox only, and both in the same way.\<close>

lemma mem_record_frame [simp]:
  "nodes (mem_record now t ac x ty i s) = nodes s"
  "node_registration_tokens (mem_record now t ac x ty i s) = node_registration_tokens s"
  "heartbeats (mem_record now t ac x ty i s) = heartbeats s"
  "profiles (mem_record now t ac x ty i s) = profiles s"
  "credentials_by_profile (mem_record now t ac x ty i s) = credentials_by_profile s"
  "artifacts (mem_record now t ac x ty i s) = artifacts s"
  "artifact_blobs_by_sha256 (mem_record now t ac x ty i s) = artifact_blobs_by_sha256 s"
  "idempotency_responses (mem_record now t ac x ty i s) = idempotency_responses s"
  "deployments (mem_record now t ac x ty i s) = deployments s"
  "deployment_statuses (mem_record now t ac x ty i s) = deployment_statuses s"
  "rollback_pointers (mem_record now t ac x ty i s) = rollback_pointers s"
  "deployment_snapshots (mem_record now t ac x ty i s) = deployment_snapshots s"
  "health_checks (mem_record now t ac x ty i s) = health_checks s"
  "usage_samples (mem_record now t ac x ty i s) = usage_samples s"
  "usage_rollups (mem_record now t ac x ty i s) = usage_rollups s"
  "credential_quotas (mem_record now t ac x ty i s) = credential_quotas s"
  "credential_expirations (mem_record now t ac x ty i s) = credential_expirations s"
  "runner_commands (mem_record now t ac x ty i s) = runner_commands s"
  "subscription_tokens (mem_record now t ac x ty i s) = subscription_tokens s"
  "subscription_access_logs (mem_record now t ac x ty i s) = subscription_access_logs s"
  by (simp_all add: mem_record_def)

lemma journal_mem_record [simp]:
  "list_all2 journal_entry (audit_events s) (outbox s) \<Longrightarrow>
   list_all2 journal_entry (audit_events (mem_record now t ac x ty i s))
     (outbox (mem_record now t ac x ty i s))"
  by (simp add: mem_record_def journal_entry_def list_all2_appendI)

section \<open>Preservation, group by group\<close>

lemma registry_insert_node:
  "registry_inv ns ts hs \<Longrightarrow> nd_node_id n = i \<Longrightarrow> registry_inv (hm_insert i n ns) ts hs"
  by (simp add: registry_inv_def)

lemma registry_insert_token:
  assumes "registry_inv ns ts hs" and "nt_token_id t = k"
    and "\<And>k' r. map_of ts k' = Some r \<Longrightarrow> nt_token r = nt_token t \<Longrightarrow> k' = k"
  shows "registry_inv ns (hm_insert k t ts) hs"
  using assms unfolding registry_inv_def by (auto split: if_splits)

lemma registry_insert_heartbeat:
  "registry_inv ns ts hs \<Longrightarrow> hb_node_id h = i \<Longrightarrow> hm_contains ns i
    \<Longrightarrow> registry_inv ns ts (hm_insert i h hs)"
  by (simp add: registry_inv_def)

text \<open>Looking a token up by its secret finds the record filed under its identifier.\<close>

lemma find_registration_token_Some:
  assumes "find_registration_token seed token s = Some r"
    and "keyed nt_token_id (node_registration_tokens s)"
  shows "map_of (node_registration_tokens s) (nt_token_id r) = Some r" and "nt_token r = token"
  using assms find_Some_set [of _ "hm_values seed (node_registration_tokens s)" r]
  by (auto simp: find_registration_token_def intro!: keyed_value)

lemma mark_used_simps [simp]:
  "nt_token_id (mark_used now t n) = nt_token_id t" "nt_token (mark_used now t n) = nt_token t"
  "nt_status (mark_used now t n) = ''used''" "nt_tenant_id (mark_used now t n) = nt_tenant_id t"
  "nt_used_by_node_id (mark_used now t n) = Some n"
  by (simp_all add: mark_used_def)

lemma registry_mark_used:
  assumes "registry_inv ns (node_registration_tokens s) hs"
    and "find_registration_token seed token s = Some r"
  shows "registry_inv ns
    (hm_insert (nt_token_id r) (mark_used now r n) (node_registration_tokens s)) hs"
proof (rule registry_insert_token [OF assms(1)])
  have keyed: "keyed nt_token_id (node_registration_tokens s)"
    using assms(1) by (simp add: registry_inv_def)
  note found = find_registration_token_Some [OF assms(2) keyed]
  show "k' = nt_token_id r"
    if "map_of (node_registration_tokens s) k' = Some r'"
      and "nt_token r' = nt_token (mark_used now r n)" for k' r'
    using that found assms(1) unfolding registry_inv_def mark_used_simps by blast
qed simp

lemma catalog_insert_profile:
  "catalog_inv ps cs \<Longrightarrow> pr_profile_id p = i \<Longrightarrow> catalog_inv (hm_insert i p ps) cs"
  by (auto simp: catalog_inv_def)

lemma catalog_insert_credentials:
  "catalog_inv ps cs \<Longrightarrow> hm_contains ps p \<Longrightarrow> l \<noteq> [] \<Longrightarrow> catalog_inv ps (hm_insert p l cs)"
  by (auto simp: catalog_inv_def)

lemma artifact_insert:
  "artifact_inv L as bs \<Longrightarrow> art_id a = i \<Longrightarrow> artifact_inv L (hm_insert i a as) bs"
  by (simp add: artifact_inv_def)

lemma artifact_insert_blob:
  "artifact_inv L as bs \<Longrightarrow> sha256_hex L b = h \<Longrightarrow> artifact_inv L as (hm_insert h b bs)"
  by (auto simp: artifact_inv_def)

lemma deployment_insert_plan:
  assumes "deployment_inv ds sts rps sns hcs" and "dpr_deployment_id d = i"
    and "rbp_deployment_id p = i"
    and "rbp_target_compiled_config_artifact_id p = dpr_compiled_config_artifact_id d"
    and "\<And>j. rbp_previous_deployment_id p = Some j \<Longrightarrow> hm_contains ds j"
  shows "deployment_inv (hm_insert i d ds) (hm_insert i Pending sts) (hm_insert i p rps) sns hcs"
  using assms unfolding deployment_inv_def by (intro conjI) (auto split: if_splits)

lemma deployment_insert_result:
  assumes "deployment_inv ds sts rps sns hcs" and "hm_contains ds i"
    and "snp_deployment_id sn = i" and "snp_result_status sn = st" and "hc_deployment_id h = i"
  shows "deployment_inv ds (hm_insert i st sts) rps (hm_insert i sn sns) (hcs @ [h])"
  using assms unfolding deployment_inv_def by auto

lemma deployment_insert_health:
  "deployment_inv ds sts rps sns hcs \<Longrightarrow> hm_contains ds (hc_deployment_id h)
    \<Longrightarrow> deployment_inv ds sts rps sns (hcs @ [h])"
  unfolding deployment_inv_def by auto

lemma subscription_insert_profile:
  "subscription_inv ps ts ls \<Longrightarrow> subscription_inv (hm_insert i p ps) ts ls"
  by (auto simp: subscription_inv_def)

lemma subscription_insert_token:
  assumes "subscription_inv ps ts ls" and "st_token_id t = i" and "hm_contains ps (st_profile_id t)"
    and "st_status t = ''active''" and "st_rotated_at t = None"
  shows "subscription_inv ps (hm_insert i t ts) ls"
  using assms unfolding subscription_inv_def by (auto split: if_splits)

lemma rotate_token_simps [simp]:
  "st_token_id (rotate_token p now t) = st_token_id t"
  "st_profile_id (rotate_token p now t) = st_profile_id t"
  "st_token_hash (rotate_token p now t) = st_token_hash t"
  by (simp_all add: rotate_token_def)

lemma rotate_token_status:
  "st_status t \<in> {''active'', ''rotated''} \<and> (st_rotated_at t = None \<longleftrightarrow> st_status t = ''active'')
    \<Longrightarrow> st_status (rotate_token p now t) \<in> {''active'', ''rotated''} \<and>
      (st_rotated_at (rotate_token p now t) = None \<longleftrightarrow> st_status (rotate_token p now t) = ''active'')"
  by (simp add: rotate_token_def)

lemma subscription_rotate:
  assumes "subscription_inv ps ts ls"
  shows "subscription_inv ps (hm_map_values (rotate_token p now) ts) ls"
proof -
  have "keyed st_token_id (hm_map_values (rotate_token p now) ts)"
    using assms by (simp add: subscription_inv_def keyed_map_values)
  moreover have "st_status t' \<in> {''active'', ''rotated''} \<and>
      (st_rotated_at t' = None \<longleftrightarrow> st_status t' = ''active'')"
    if "map_of (hm_map_values (rotate_token p now) ts) k = Some t'" for k t'
  proof -
    from that obtain t where t: "map_of ts k = Some t" "t' = rotate_token p now t" by auto
    show ?thesis unfolding t(2)
      by (rule rotate_token_status) (use assms t(1) in \<open>unfold subscription_inv_def, blast\<close>)
  qed
  ultimately show ?thesis
    using assms unfolding subscription_inv_def by auto
qed

lemma subscription_insert_log:
  "subscription_inv ps ts ls \<Longrightarrow> hm_contains ts (al_token_id l) \<Longrightarrow> subscription_inv ps ts (ls @ [l])"
  by (auto simp: subscription_inv_def)

section \<open>Usage rollups\<close>

lemma sum_hm_insert:
  fixes f :: "'v \<Rightarrow> 'b::ab_group_add"
  assumes "hm_wf m"
  shows "sum_list (map (f \<circ> snd) (hm_insert k v m))
    = sum_list (map (f \<circ> snd) m) + f v - (case map_of m k of None \<Rightarrow> 0 | Some w \<Rightarrow> f w)"
  using assms by (induction m) (auto simp: algebra_simps)

lemma keyed_add_to_rollup:
  "keyed rollup_key_of m \<Longrightarrow> keyed rollup_key_of (add_to_rollup u b m)"
  by (cases "map_of m (us_credential_id u, fst b, snd b)")
     (auto simp: add_to_rollup_def Let_def rollup_key_of_def dest: keyed_key intro!: keyed_insert)

lemma map_of_add_to_rollup:
  "map_of (add_to_rollup u b m) k =
     (if k = (us_credential_id u, b)
      then Some (let r = unwrap_or
            \<lparr>ur_tenant_id = us_tenant_id u, ur_credential_id = us_credential_id u,
             ur_bucket = fst b, ur_bucket_start = snd b, ur_uplink_bytes = 0,
             ur_downlink_bytes = 0\<rparr> (map_of m k)
          in r\<lparr>ur_uplink_bytes := ur_uplink_bytes r + us_uplink_bytes u,
               ur_downlink_bytes := ur_downlink_bytes r + us_downlink_bytes u\<rparr>)
      else map_of m k)"
  by (auto simp: add_to_rollup_def Let_def)

lemma rollup_total_add:
  assumes "keyed rollup_key_of m"
  shows "rollup_total (\<lambda>r. ur_credential_id r = c \<and> ur_bucket r = b') (map snd (add_to_rollup u b m))
    = rollup_total (\<lambda>r. ur_credential_id r = c \<and> ur_bucket r = b') (map snd m)
      + (if us_credential_id u = c \<and> fst b = b' then sample_bytes u else 0)"
proof (cases "map_of m (us_credential_id u, fst b, snd b)")
  case None
  with assms show ?thesis
    by (auto simp: rollup_total_def add_to_rollup_def Let_def sum_hm_insert keyed_wf rollup_bytes_def
        sample_bytes_def)
next
  case (Some r)
  then have "ur_credential_id r = us_credential_id u" "ur_bucket r = fst b"
    using keyed_key [OF assms Some] by (auto simp: rollup_key_of_def)
  with assms Some show ?thesis
    by (auto simp: rollup_total_def add_to_rollup_def Let_def sum_hm_insert keyed_wf rollup_bytes_def
        sample_bytes_def)
qed

text \<open>The three buckets of a sample have distinct names, so each rollup is written at most once.\<close>

lemma fold_usage_buckets:
  "fold (add_to_rollup u) (usage_bucket_starts L t) m =
     add_to_rollup u (''month'', month_bucket_start L t)
       (add_to_rollup u (''day'', day_bucket_start t)
         (add_to_rollup u (''hour'', hour_bucket_start t) m))"
  by (simp add: usage_bucket_starts_def)

lemma map_of_fold_usage:
  "map_of (fold (add_to_rollup u) (usage_bucket_starts L (us_sampled_at u)) m) k =
     (if sample_in L k u then map_of (add_to_rollup u (snd k) m) k else map_of m k)"
  by (cases k) (auto simp: fold_usage_buckets map_of_add_to_rollup sample_in_def
      usage_bucket_starts_def)

lemma sample_in_credential: "sample_in L (c, b) u \<Longrightarrow> us_credential_id u = c"
  by (simp add: sample_in_def)

lemma sample_in_bucket: "sample_in L k u \<Longrightarrow> fst (snd k) \<in> {''hour'', ''day'', ''month''}"
  by (cases k) (auto simp: sample_in_def usage_bucket_starts_def)

lemma used_bytes_snoc:
  "used_bytes c (us @ [u]) =
     used_bytes c us + (if us_credential_id u = Some c then sample_bytes u else 0)"
  by (simp add: used_bytes_def)

lemma usage_invD:
  assumes "usage_inv L ns us rs"
  shows "keyed rollup_key_of rs"
    and "hm_contains rs k \<longleftrightarrow> filter (sample_in L k) us \<noteq> []"
    and "map_of rs k = Some r \<Longrightarrow>
      ur_uplink_bytes r = sum_list (map us_uplink_bytes (filter (sample_in L k) us)) \<and>
      ur_downlink_bytes r = sum_list (map us_downlink_bytes (filter (sample_in L k) us))"
    and "map_of rs k = Some r \<Longrightarrow> fst (snd k) \<in> {''hour'', ''day'', ''month''}"
    and "b \<in> {''hour'', ''day'', ''month''} \<Longrightarrow>
      rollup_total (\<lambda>r. ur_credential_id r = Some c \<and> ur_bucket r = b) (map snd rs)
        = used_bytes c us"
  using assms unfolding usage_inv_def by blast+

lemma usage_insert_node: "usage_inv L ns us rs \<Longrightarrow> usage_inv L (hm_insert i n ns) us rs"
  by (simp add: usage_inv_def)

lemma usage_insert_sample:
  assumes inv: "usage_inv L ns us rs" and node: "hm_contains ns (us_node_id u)"
  shows "usage_inv L ns (us @ [u])
    (fold (add_to_rollup u) (usage_bucket_starts L (us_sampled_at u)) rs)"
proof -
  let ?m = "fold (add_to_rollup u) (usage_bucket_starts L (us_sampled_at u)) rs"
  note keyed = usage_invD(1) [OF inv] and old = usage_invD(2) [OF inv]
  have "keyed rollup_key_of ?m"
    using keyed by (simp add: fold_usage_buckets keyed_add_to_rollup)
  moreover have "hm_contains ?m k \<longleftrightarrow> filter (sample_in L k) (us @ [u]) \<noteq> []" for k
    using old [of k]
    by (cases k; cases "sample_in L k u") (simp_all add: map_of_fold_usage map_of_add_to_rollup,
        simp add: sample_in_def)
  moreover have "ur_uplink_bytes r = sum_list (map us_uplink_bytes (filter (sample_in L k) (us @ [u])))
      \<and> ur_downlink_bytes r = sum_list (map us_downlink_bytes (filter (sample_in L k) (us @ [u])))"
    if "map_of ?m k = Some r" for k r
  proof (cases "map_of rs k")
    case None
    then have "filter (sample_in L k) us = []" using old [of k] by blast
    with None that show ?thesis
      by (cases k) (auto simp: map_of_fold_usage map_of_add_to_rollup split: if_splits)
  next
    case (Some r')
    with that usage_invD(3) [OF inv Some] show ?thesis
      by (cases k) (auto simp: map_of_fold_usage map_of_add_to_rollup split: if_splits
          dest: sample_in_credential)
  qed
  moreover have "fst (snd k) \<in> {''hour'', ''day'', ''month''}" if "hm_contains ?m k" for k
  proof (cases "sample_in L k u")
    case False
    with that have "hm_contains rs k" by (simp only: map_of_fold_usage if_False not_False_eq_True)
    then show ?thesis using usage_invD(4) [OF inv] by blast
  qed (rule sample_in_bucket)
  moreover have "rollup_total (\<lambda>r. ur_credential_id r = Some c \<and> ur_bucket r = b) (map snd ?m)
      = used_bytes c (us @ [u])" if "b \<in> {''hour'', ''day'', ''month''}" for c b
    using that usage_invD(5) [OF inv that, of c]
    by (auto simp: fold_usage_buckets rollup_total_add keyed keyed_add_to_rollup used_bytes_snoc)
  ultimately show ?thesis
    using inv node unfolding usage_inv_def by auto
qed

section \<open>Preservation, operation by operation\<close>

lemmas store_inv_groups =
  registry_insert_node registry_insert_heartbeat registry_mark_used catalog_insert_profile
  catalog_insert_credentials artifact_insert artifact_insert_blob deployment_insert_health
  subscription_insert_profile subscription_insert_log usage_insert_node usage_insert_sample

lemma mem_register_node_inv [inv_pres]:
  "store_inv L s \<Longrightarrow> store_inv L (snd (mem_register_node T e n s))"
  by (simp add: store_inv_def mem_register_node_def store_inv_groups)

lemma mem_register_node_with_registration_token_inv [inv_pres]:
  "store_inv L s \<Longrightarrow> store_inv L (snd (mem_register_node_with_registration_token T e n t s))"
  by (simp add: store_inv_def mem_register_node_with_registration_token_def Let_def store_inv_groups
      split: option.splits)

lemma mem_create_node_registration_token_inv [inv_pres]:
  assumes "store_inv L s"
  shows "store_inv L (snd (mem_create_node_registration_token e t s))"
proof (cases "\<exists>r \<in> snd ` set (node_registration_tokens s). nt_token r = nt_token t")
  case True
  with assms show ?thesis by (auto simp: mem_create_node_registration_token_def list_ex_iff)
next
  case False
  then have "registry_inv (nodes s) (hm_insert (nt_token_id t) t (node_registration_tokens s))
      (heartbeats s)"
    using assms by (intro registry_insert_token) (auto simp: store_inv_def dest: map_of_value)
  with assms show ?thesis
    by (auto simp: store_inv_def mem_create_node_registration_token_def)
qed

lemma mem_consume_node_registration_token_inv [inv_pres]:
  "store_inv L s \<Longrightarrow> store_inv L (snd (mem_consume_node_registration_token e t i s))"
  by (simp add: store_inv_def mem_consume_node_registration_token_def Let_def store_inv_groups
      split: option.splits)

lemma mem_record_heartbeat_inv [inv_pres]:
  "store_inv L s \<Longrightarrow> store_inv L (snd (mem_record_heartbeat T e h s))"
  by (auto simp: store_inv_def mem_record_heartbeat_def intro!: store_inv_groups)

lemma mem_update_node_runner_result_public_key_inv [inv_pres]:
  assumes "store_inv L s"
  shows "store_inv L (snd (mem_update_node_runner_result_public_key T e i k s))"
proof (cases "map_of (nodes s) i")
  case (Some n)
  then have "nd_node_id n = i"
    using assms by (auto simp: store_inv_def registry_inv_def intro: keyed_key)
  with assms Some show ?thesis
    by (simp add: store_inv_def mem_update_node_runner_result_public_key_def Let_def store_inv_groups)
qed (simp add: assms mem_update_node_runner_result_public_key_def)

lemma mem_create_profile_inv [inv_pres]:
  "store_inv L s \<Longrightarrow> store_inv L (snd (mem_create_profile T e p s))"
  by (simp add: store_inv_def mem_create_profile_def store_inv_groups)

lemma mem_add_credential_inv [inv_pres]:
  "store_inv L s \<Longrightarrow> store_inv L (snd (mem_add_credential T e p c s))"
  by (auto simp: store_inv_def mem_add_credential_def intro!: store_inv_groups)

lemma mem_record_artifact_inv [inv_pres]:
  "store_inv L s \<Longrightarrow> store_inv L (snd (mem_record_artifact T e a s))"
  by (simp add: store_inv_def mem_record_artifact_def store_inv_groups)

lemma mem_record_artifact_blob_inv [inv_pres]:
  "store_inv L s \<Longrightarrow> store_inv L (snd (mem_record_artifact_blob L T e a b s))"
  by (simp add: store_inv_def mem_record_artifact_blob_def Let_def store_inv_groups)

lemma mem_record_idempotency_response_inv [inv_pres]:
  "store_inv L s \<Longrightarrow> store_inv L (snd (mem_record_idempotency_response t k v s))"
  by (simp add: store_inv_def mem_record_idempotency_response_def)

lemma previous_deployment_Some:
  assumes "previous_deployment seed n s = Some d"
  shows "d \<in> snd ` set (deployments s)" and "dpr_node_id d = n"
    and "map_of (deployment_statuses s) (dpr_deployment_id d) = Some Succeeded"
    and "d' \<in> snd ` set (deployments s) \<Longrightarrow> dpr_node_id d' = n
      \<Longrightarrow> map_of (deployment_statuses s) (dpr_deployment_id d') = Some Succeeded
      \<Longrightarrow> dpr_created_at d' \<le> dpr_created_at d"
  using max_by_key_Some [OF assms [unfolded previous_deployment_def]]
  by (auto simp: is_some_and_def split: option.splits)

lemma previous_deployment_None:
  "previous_deployment seed n s = None \<longleftrightarrow>
     \<not> (\<exists>d \<in> snd ` set (deployments s). dpr_node_id d = n \<and>
         map_of (deployment_statuses s) (dpr_deployment_id d) = Some Succeeded)"
  by (auto simp: previous_deployment_def filter_empty_conv is_some_and_def split: option.splits)

lemma rollback_pointer_new_simps [simp]:
  "rbp_deployment_id (rollback_pointer_new now d p a) = dpr_deployment_id d"
  "rbp_rollback_pointer_id (rollback_pointer_new now d p a) = ''rollback-'' @ dpr_deployment_id d"
  "rbp_previous_deployment_id (rollback_pointer_new now d p a) = p"
  "rbp_previous_compiled_config_artifact_id (rollback_pointer_new now d p a) = a"
  "rbp_target_compiled_config_artifact_id (rollback_pointer_new now d p a)
     = dpr_compiled_config_artifact_id d"
  by (simp_all add: rollback_pointer_new_def)

lemma mem_record_deployment_plan_inv [inv_pres]:
  assumes "store_inv L s"
  shows "store_inv L (snd (mem_record_deployment_plan T e d s))"
proof -
  have keyed: "keyed dpr_deployment_id (deployments s)"
    using assms by (simp add: store_inv_def deployment_inv_def)
  let ?prev = "previous_deployment (hash_seed e 0) (dpr_node_id d) s"
  have "hm_contains (deployments s) j" if "map_option dpr_deployment_id ?prev = Some j" for j
    using that previous_deployment_Some(1) keyed_value [OF keyed] by fastforce
  then show ?thesis
    using assms unfolding store_inv_def mem_record_deployment_plan_def Let_def
    by (auto intro!: deployment_insert_plan)
qed

lemma mem_record_deployment_result_inv [inv_pres]:
  "store_inv L s \<Longrightarrow> store_inv L (snd (mem_record_deployment_result L T e r s))"
  by (auto simp: store_inv_def mem_record_deployment_result_def Let_def snapshot_from_result_def
      health_from_result_def intro!: deployment_insert_result split: option.splits)

lemma mem_record_deployment_health_check_inv [inv_pres]:
  "store_inv L s \<Longrightarrow> store_inv L (snd (mem_record_deployment_health_check T e h s))"
  by (auto simp: store_inv_def mem_record_deployment_health_check_def intro!: store_inv_groups
      split: option.splits)

lemma mem_record_usage_sample_inv [inv_pres]:
  "store_inv L s \<Longrightarrow> store_inv L (snd (mem_record_usage_sample L u s))"
  by (auto simp: store_inv_def mem_record_usage_sample_def intro!: store_inv_groups)

lemma mem_set_credential_quota_inv [inv_pres]:
  "store_inv L s \<Longrightarrow> store_inv L (snd (mem_set_credential_quota c q s))"
  by (simp add: store_inv_def mem_set_credential_quota_def)

lemma mem_set_credential_expiry_inv [inv_pres]:
  "store_inv L s \<Longrightarrow> store_inv L (snd (mem_set_credential_expiry c t s))"
  by (simp add: store_inv_def mem_set_credential_expiry_def)

lemma mem_enqueue_runner_command_inv [inv_pres]:
  "store_inv L s \<Longrightarrow> store_inv L (snd (mem_enqueue_runner_command i c s))"
  by (simp add: store_inv_def mem_enqueue_runner_command_def)

lemma mem_next_runner_command_inv [inv_pres]:
  "store_inv L s \<Longrightarrow> store_inv L (snd (mem_next_runner_command i q s))"
  by (simp add: store_inv_def mem_next_runner_command_def split: option.splits prod.splits)

lemma issued_token_simps [simp]:
  "it_profile_id (new_subscription_token e p) = p"
  "it_status (new_subscription_token e p) = ''active''"
  "st_token_id (subscription_token_record_of L now T t) = it_token_id t"
  "st_profile_id (subscription_token_record_of L now T t) = it_profile_id t"
  "st_status (subscription_token_record_of L now T t) = it_status t"
  "st_rotated_at (subscription_token_record_of L now T t) = None"
  "st_token_hash (subscription_token_record_of L now T t) = subscription_token_hash L (it_token t)"
  by (simp_all add: new_subscription_token_def subscription_token_record_of_def Let_def)

lemma mem_issue_subscription_token_inv [inv_pres]:
  "store_inv L s \<Longrightarrow> store_inv L (snd (mem_issue_subscription_token L T e p s))"
  by (auto simp: store_inv_def mem_issue_subscription_token_def Let_def
      intro!: subscription_insert_token)

lemma mem_rotate_subscription_token_inv [inv_pres]:
  "store_inv L s \<Longrightarrow> store_inv L (snd (mem_rotate_subscription_token L T e p s))"
  by (auto simp: store_inv_def mem_rotate_subscription_token_def Let_def
      intro!: subscription_insert_token subscription_rotate)

lemma mem_record_subscription_access_inv [inv_pres]:
  "store_inv L s \<Longrightarrow> store_inv L (snd (mem_record_subscription_access e t a u st s))"
  by (auto simp: store_inv_def mem_record_subscription_access_def intro!: store_inv_groups)

section \<open>Reachable states\<close>

lemma exec_op_inv: "store_inv L s \<Longrightarrow> store_inv L (exec_op L T e x s)"
  by (cases x) (simp_all add: inv_pres)

lemma memory_state_default_inv: "store_inv L memory_state_default"
  by (simp add: store_inv_def memory_state_default_def registry_inv_def catalog_inv_def
      artifact_inv_def deployment_inv_def usage_inv_def subscription_inv_def used_bytes_def
      rollup_total_def)

lemma reachable_inv: "reachable L T s \<Longrightarrow> store_inv L s"
  by (induction rule: reachable.induct) (simp_all add: memory_state_default_inv exec_op_inv)

end
