(* ===== verification/Memory_Props.thy ===== *)
theory Memory_Props
  imports Memory_Invariant
begin

text \<open>
  What the methods of \<open>MemoryStore\<close> promise, on every reachable state: single use of node
  registration tokens, rollback pointers, usage accounting and quota decisions, content-addressed
  artifacts, first-write-wins idempotency responses, rotation of subscription tokens, the
  credentials a subscription serves, and listings that do not depend on the hash order.
\<close>

section \<open>Concrete states for evaluation\<close>

definition demo_node :: node_record where
  "demo_node = \<lparr>nd_tenant_id = ''t'', nd_node_id = ''node-a'', nd_host = ''host'',
     nd_xray_version = ''1.8.8'', nd_runner_result_public_key_hex = [], nd_last_heartbeat_at = 0\<rparr>"

definition demo_token :: node_registration_token_record where
  "demo_token = node_registration_token_new demo_env ''t'' ''tok-1'' ''secret''"

definition demo_plan :: "string \<Rightarrow> datetime \<Rightarrow> deployment_plan_record" where
  "demo_plan i t = \<lparr>dpr_tenant_id = ''t'', dpr_deployment_id = i, dpr_node_id = ''node-a'',
     dpr_profile_id = ''p'', dpr_compiled_config_artifact_id = ''art-'' @ i, dpr_created_at = t\<rparr>"

definition demo_sample :: "i64 \<Rightarrow> datetime \<Rightarrow> usage_sample_record" where
  "demo_sample n t = \<lparr>us_tenant_id = ''t'', us_node_id = ''node-a'', us_credential_id = Some ''c1'',
     us_uplink_bytes = n, us_downlink_bytes = n, us_sampled_at = t\<rparr>"

definition demo_profile_record :: profile_record where
  "demo_profile_record = \<lparr>pr_tenant_id = ''t'', pr_profile_id = ''p'',
     pr_ir = vless_reality_example ''g'' ''key'', pr_created_at = 0\<rparr>"

definition demo_ops :: "store_op list" where
  "demo_ops = [CreateToken demo_token, RegisterNode demo_node, CreateProfile demo_profile_record,
     AddCredential ''p'' (active_vless ''c1'' ''g'' ''u1'' ''A''),
     AddCredential ''p'' (active_vless ''c2'' ''g'' ''u2'' ''B''),
     RecordPlan (demo_plan ''dep-1'' 5), RecordResult demo_result,
     RecordUsage (demo_sample 10 0), RecordUsage (demo_sample 10 (seconds 4000)),
     SetQuota ''c1'' 100]"

definition demo_state :: memory_state where
  "demo_state = exec_ops demo_libs ''t'' (map (Pair demo_env) demo_ops) memory_state_default"

section \<open>Abstract views of the state\<close>

definition token_used :: "string \<Rightarrow> string \<Rightarrow> memory_state \<Rightarrow> bool" where
  "token_used i token s \<longleftrightarrow>
     (\<exists>r. map_of (node_registration_tokens s) i = Some r \<and> nt_token r = token \<and>
        nt_status r = ''used'')"

section \<open>Shared facts\<close>

lemma exec_ops_simps [simp]:
  "exec_ops L T [] s = s"
  "exec_ops L T ((e, x) # ops) s = exec_ops L T ops (exec_op L T e x s)"
  by (simp_all add: exec_ops_def)

lemma reachable_exec_ops: "reachable L T s \<Longrightarrow> reachable L T (exec_ops L T ops s)"
proof (induction ops arbitrary: s)
  case (Cons a ops)
  then show ?case by (cases a) (simp add: reachable.step)
qed simp

lemma demo_state_reachable: "reachable demo_libs ''t'' demo_state"
  by (simp add: demo_state_def reachable_exec_ops reachable.start)

text \<open>A predicate that every call keeps is kept by every sequence of calls.\<close>

lemma exec_ops_keeps:
  assumes "\<And>e x s. (e, x) \<in> set ops \<Longrightarrow> P s \<Longrightarrow> P (exec_op L T e x s)" and "P s"
  shows "P (exec_ops L T ops s)"
  using assms
proof (induction ops arbitrary: s)
  case (Cons a ops)
  obtain e x where a: "a = (e, x)" by (cases a)
  have "P (exec_op L T e x s)" using Cons.prems by (simp add: a)
  then show ?case using Cons by (simp add: a)
qed simp

lemmas mem_writes =
  mem_register_node_def mem_register_node_with_registration_token_def
  mem_create_node_registration_token_def mem_consume_node_registration_token_def
  mem_record_heartbeat_def mem_update_node_runner_result_public_key_def mem_create_profile_def
  mem_add_credential_def mem_record_artifact_def mem_record_artifact_blob_def
  mem_record_idempotency_response_def mem_record_deployment_plan_def
  mem_record_deployment_result_def mem_record_deployment_health_check_def
  mem_record_usage_sample_def mem_set_credential_quota_def mem_set_credential_expiry_def
  mem_enqueue_runner_command_def mem_next_runner_command_def mem_issue_subscription_token_def
  mem_rotate_subscription_token_def mem_record_subscription_access_def

lemma demo_state_facts:
  "map_of (credential_quotas demo_state) ''c1'' = Some 100"
  "usage_samples demo_state = [demo_sample 10 0, demo_sample 10 (seconds 4000)]"
  "profiles demo_state = [(''p'', demo_profile_record)]"
  "nodes demo_state = [(''node-a'', demo_node)]"
  "node_registration_tokens demo_state = [(''tok-1'', demo_token)]"
  "deployments demo_state = [(''dep-1'', demo_plan ''dep-1'' 5)]"
  "deployment_statuses demo_state = [(''dep-1'', Succeeded)]"
  "credential_expirations demo_state = []"
  "subscription_tokens demo_state = []"
  "credentials_by_profile demo_state = [(''p'',
     [active_vless ''c1'' ''g'' ''u1'' ''A'', active_vless ''c2'' ''g'' ''u2'' ''B''])]"
  "map_of (credential_quotas demo_state) ''c2'' = None"
  by (simp_all add: demo_state_def demo_ops_def memory_state_default_def mem_writes Let_def
      demo_node_def demo_token_def demo_plan_def demo_sample_def demo_result_def
      demo_profile_record_def node_registration_token_new_def hm_values_def)

section \<open>The invariant\<close>

text \<open>
  C9. Whatever calls are made, in whatever order and with whatever clock, UUIDs and hash order, the
  maps of the store stay consistent: records are filed under their identifiers, registration
  token secrets are unique, heartbeats, credentials, tokens and access logs refer to existing
  records, every deployment has a status and a rollback pointer, blobs are filed under their
  hash, rollups are the sums of their samples, and audit trail and outbox run in lockstep.
\<close>

theorem store_invariant: "reachable L T s \<Longrightarrow> store_inv L s"
  by (rule reachable_inv)

theorem store_invariant_witness: "store_inv demo_libs demo_state"
  by (rule store_invariant [OF demo_state_reachable])

section \<open>Registration tokens\<close>

lemma find_registration_token_unique:
  assumes "store_inv L s" and "map_of (node_registration_tokens s) i = Some r"
    and "nt_token r = token"
  shows "find_registration_token seed token s = Some r"
proof -
  have inv: "registry_inv (nodes s) (node_registration_tokens s) (heartbeats s)"
    using assms(1) by (simp add: store_inv_def)
  then have keyed: "keyed nt_token_id (node_registration_tokens s)"
    by (simp add: registry_inv_def)
  have "find_registration_token seed token s \<noteq> None"
    using map_of_value [OF assms(2)] assms(3)
    by (auto simp: find_registration_token_def find_None_set)
  then obtain r' where r': "find_registration_token seed token s = Some r'" by blast
  note found = find_registration_token_Some [OF r' keyed]
  with assms(2,3) inv have "nt_token_id r' = i" unfolding registry_inv_def by metis
  with found assms(2) r' show ?thesis by simp
qed

lemma token_used_insert:
  assumes "token_used i token s" and "nt_token_id r = i \<Longrightarrow> nt_token r = token \<and> nt_status r = ''used''"
  shows "token_used i token
    (s\<lparr>node_registration_tokens := hm_insert (nt_token_id r) r (node_registration_tokens s)\<rparr>)"
  using assms by (auto simp: token_used_def)

lemma token_used_cong:
  "node_registration_tokens s' = node_registration_tokens s \<Longrightarrow>
   token_used i token s' \<longleftrightarrow> token_used i token s"
  by (simp add: token_used_def)

lemma token_used_mark:
  assumes "store_inv L s" and "token_used i token s"
    and "find_registration_token seed tok s = Some r"
  shows "token_used i token (s\<lparr>node_registration_tokens :=
    hm_insert (nt_token_id r) (mark_used now r n) (node_registration_tokens s)\<rparr>)"
proof -
  have "keyed nt_token_id (node_registration_tokens s)"
    using assms(1) by (simp add: store_inv_def registry_inv_def)
  note found = find_registration_token_Some [OF assms(3) this]
  show ?thesis
    using token_used_insert [OF assms(2), of "mark_used now r n"] found assms(2)
    by (auto simp: token_used_def)
qed

lemma token_used_step:
  assumes "store_inv L s" and "token_used i token s"
    and "\<And>t. x = CreateToken t \<Longrightarrow> nt_token_id t \<noteq> i"
  shows "token_used i token (exec_op L T e x s)"
proof (cases x)
  case (RegisterNodeWithToken n tok)
  with assms(1,2) token_used_mark [OF assms(1,2), of _ tok] show ?thesis
    by (auto simp: mem_register_node_with_registration_token_def Let_def token_used_def
        split: option.splits)
next
  case (ConsumeToken tok n)
  with assms(1,2) token_used_mark [OF assms(1,2), of _ tok] show ?thesis
    by (auto simp: mem_consume_node_registration_token_def Let_def token_used_def
        split: option.splits)
next
  case (CreateToken t)
  with assms(2,3) show ?thesis
    by (auto simp: mem_create_node_registration_token_def token_used_def)
qed (use assms(2) in \<open>auto simp: mem_writes Let_def token_used_def split: option.splits prod.splits\<close>)

lemma token_used_exec_ops:
  assumes "store_inv L s" and "token_used i token s"
    and "\<And>e t. (e, CreateToken t) \<in> set ops \<Longrightarrow> nt_token_id t \<noteq> i"
  shows "store_inv L (exec_ops L T ops s) \<and> token_used i token (exec_ops L T ops s)"
  by (rule exec_ops_keeps [where P = "\<lambda>s. store_inv L s \<and> token_used i token s"])
     (use assms in \<open>auto intro: exec_op_inv token_used_step\<close>)

lemma register_uses_token:
  assumes "store_inv L s"
    and "mem_register_node_with_registration_token T e n token s = (Ok r, s')"
  shows "store_inv L s'" and "token_used (nt_token_id r) token s'"
proof -
  show "store_inv L s'"
    using mem_register_node_with_registration_token_inv [OF assms(1), of T e n token] assms(2)
    by simp
  have keyed: "keyed nt_token_id (node_registration_tokens s)"
    using assms(1) by (simp add: store_inv_def registry_inv_def)
  show "token_used (nt_token_id r) token s'"
    using assms(2) find_registration_token_Some(2) [OF _ keyed]
    by (auto simp: mem_register_node_with_registration_token_def Let_def token_used_def
        split: option.splits if_splits)
qed

text \<open>
  A node registration token is used once: after a registration that consumed it, and after any
  further calls that do not file a new token under the same identifier, registering with it
  fails as already consumed and changes nothing.
\<close>

theorem registration_token_single_use:
  assumes "reachable L T s"
    and "mem_register_node_with_registration_token T e n token s = (Ok r, s')"
    and "\<forall>(e, x) \<in> set ops. \<forall>t. x = CreateToken t \<longrightarrow> nt_token_id t \<noteq> nt_token_id r"
  shows "mem_register_node_with_registration_token T e' n' token (exec_ops L T ops s')
    = (Err (Conflict ''registration token already consumed''), exec_ops L T ops s')"
proof -
  note used = register_uses_token [OF reachable_inv [OF assms(1)] assms(2)]
  let ?s = "exec_ops L T ops s'"
  have "store_inv L ?s \<and> token_used (nt_token_id r) token ?s"
    by (rule token_used_exec_ops [OF used]) (use assms(3) in auto)
  then obtain r' where "find_registration_token (hash_seed e' 0) token ?s = Some r'"
      and "nt_status r' = ''used''"
    unfolding token_used_def using find_registration_token_unique by blast
  then show ?thesis by (simp add: mem_register_node_with_registration_token_def)
qed

theorem registration_token_single_use_witness:
  "\<exists>r s'. mem_register_node_with_registration_token ''t'' demo_env demo_node ''secret'' demo_state
       = (Ok r, s') \<and>
     mem_register_node_with_registration_token ''t'' demo_env demo_node ''secret''
       (exec_ops demo_libs ''t'' [(demo_env, RegisterNode demo_node)] s')
     = (Err (Conflict ''registration token already consumed''),
        exec_ops demo_libs ''t'' [(demo_env, RegisterNode demo_node)] s')"
proof -
  have "\<exists>r s'. mem_register_node_with_registration_token ''t'' demo_env demo_node ''secret''
      demo_state = (Ok r, s')"
    by (simp add: mem_register_node_with_registration_token_def find_registration_token_def
        demo_state_facts hm_values_def demo_env_def demo_token_def node_registration_token_new_def
        Let_def)
  then obtain r s' where r: "mem_register_node_with_registration_token ''t'' demo_env demo_node
      ''secret'' demo_state = (Ok r, s')" by blast
  show ?thesis
    using r registration_token_single_use
      [OF demo_state_reachable r, of "[(demo_env, RegisterNode demo_node)]" demo_env demo_node]
    by fastforce
qed

section \<open>Deployments\<close>

text \<open>
  Planning a deployment leaves it pending and files a rollback pointer that names the most
  recently created succeeded deployment of the same node and its configuration artifact, or
  nothing when the node has no succeeded deployment.
\<close>

theorem rollback_pointer_latest_succeeded:
  assumes "reachable L T s"
  shows "\<exists>s' p. mem_record_deployment_plan T e d s = (Ok (), s') \<and>
    mem_deployment_status (dpr_deployment_id d) s' = (Ok Pending, s') \<and>
    mem_rollback_pointer (dpr_deployment_id d) s' = (Ok p, s') \<and>
    rbp_target_compiled_config_artifact_id p = dpr_compiled_config_artifact_id d \<and>
    (case rbp_previous_deployment_id p of
       None \<Rightarrow> rbp_previous_compiled_config_artifact_id p = None \<and>
         \<not> (\<exists>i d'. map_of (deployments s) i = Some d' \<and> dpr_node_id d' = dpr_node_id d \<and>
             map_of (deployment_statuses s) i = Some Succeeded)
     | Some j \<Rightarrow> \<exists>dj. map_of (deployments s) j = Some dj \<and> dpr_node_id dj = dpr_node_id d \<and>
         map_of (deployment_statuses s) j = Some Succeeded \<and>
         rbp_previous_compiled_config_artifact_id p = Some (dpr_compiled_config_artifact_id dj) \<and>
         (\<forall>i d'. map_of (deployments s) i = Some d' \<and> dpr_node_id d' = dpr_node_id d \<and>
             map_of (deployment_statuses s) i = Some Succeeded \<longrightarrow>
             dpr_created_at d' \<le> dpr_created_at dj))"
proof -
  let ?prev = "previous_deployment (hash_seed e 0) (dpr_node_id d) s"
  have keyed: "keyed dpr_deployment_id (deployments s)"
    using reachable_inv [OF assms] by (simp add: store_inv_def deployment_inv_def)
  note filed = keyed_value [OF keyed] and key = keyed_key [OF keyed]
  show ?thesis
  proof (cases ?prev)
    case None
    then have "\<not> (\<exists>i d'. map_of (deployments s) i = Some d' \<and> dpr_node_id d' = dpr_node_id d \<and>
        map_of (deployment_statuses s) i = Some Succeeded)"
      using key map_of_value unfolding previous_deployment_None by metis
    with None show ?thesis
      by (simp add: mem_record_deployment_plan_def mem_deployment_status_def
          mem_rollback_pointer_def Let_def)
  next
    case (Some dj)
    note prev = previous_deployment_Some [OF Some]
    have "dpr_created_at d' \<le> dpr_created_at dj" if "map_of (deployments s) i = Some d'"
        "dpr_node_id d' = dpr_node_id d" "map_of (deployment_statuses s) i = Some Succeeded" for i d'
      using that key [OF that(1)] map_of_value [OF that(1)] by (intro prev(4)) auto
    with Some prev(2,3) filed [OF prev(1)] show ?thesis
      by (auto simp: mem_record_deployment_plan_def mem_deployment_status_def
          mem_rollback_pointer_def Let_def)
  qed
qed

theorem rollback_pointer_latest_succeeded_witness:
  "\<exists>s' p. mem_record_deployment_plan ''t'' demo_env (demo_plan ''dep-2'' 9) demo_state = (Ok (), s') \<and>
     mem_rollback_pointer ''dep-2'' s' = (Ok p, s') \<and>
     rbp_previous_deployment_id p = Some ''dep-1'' \<and>
     rbp_previous_compiled_config_artifact_id p = Some ''art-dep-1''"
  using rollback_pointer_latest_succeeded [OF demo_state_reachable, of demo_env "demo_plan ''dep-2'' 9"]
  by (auto simp: demo_state_facts demo_plan_def split: option.splits if_splits)

text \<open>
  Recording a result of a known deployment sets its status, replaces its snapshot and adds a
  health check that is healthy exactly for succeeded and rolled back; a result of an unknown
  deployment is refused and changes nothing.
\<close>

theorem record_deployment_result_effect:
  "case map_of (deployments s) (dr_deployment_id r) of
     None \<Rightarrow> mem_record_deployment_result L T e r s
       = (Err (NotFound (''deployment:'' @ dr_deployment_id r)), s)
   | Some d \<Rightarrow> \<exists>s' sn. mem_record_deployment_result L T e r s = (Ok (), s') \<and>
       mem_deployment_status (dr_deployment_id r) s' = (Ok (dr_status r), s') \<and>
       mem_deployment_snapshot (dr_deployment_id r) s' = (Ok sn, s') \<and>
       snp_node_id sn = dpr_node_id d \<and> snp_result_status sn = dr_status r \<and>
       snp_compiled_config_artifact_id sn = dpr_compiled_config_artifact_id d \<and>
       (\<exists>h. health_checks s' = health_checks s @ [h] \<and> hc_node_id h = dpr_node_id d \<and>
          (hc_status h = ''healthy'' \<longleftrightarrow> dr_status r \<in> {Succeeded, RolledBack})) \<and>
       deployments s' = deployments s \<and> rollback_pointers s' = rollback_pointers s \<and>
       length (audit_events s') = Suc (length (audit_events s))"
  by (cases "dr_status r")
     (auto simp: mem_record_deployment_result_def mem_deployment_status_def
       mem_deployment_snapshot_def snapshot_from_result_def health_from_result_def Let_def
       mem_record_def split: option.splits)

section \<open>Usage and quota\<close>

lemma rollup_total_filter:
  "sum_list (map rollup_bytes (filter P rs)) = rollup_total P rs"
  by (simp add: rollup_total_def sum_list_map_filter')

lemma rollup_total_perm: "mset rs = mset rs' \<Longrightarrow> rollup_total P rs = rollup_total P rs'"
  by (simp add: rollup_total_def sum_mset_sum_list [symmetric])

lemma rollup_total_hm_values [simp]:
  "rollup_total P (hm_values ns m) = rollup_total P (map snd m)"
  by (rule rollup_total_perm) (rule mset_hm_values)

lemma rollup_total_split:
  assumes "\<And>r. r \<in> set rs \<Longrightarrow> ur_bucket r \<in> {''hour'', ''day'', ''month''}"
  shows "rollup_total (\<lambda>r. ur_credential_id r = c) rs =
    rollup_total (\<lambda>r. ur_credential_id r = c \<and> ur_bucket r = ''hour'') rs +
    rollup_total (\<lambda>r. ur_credential_id r = c \<and> ur_bucket r = ''day'') rs +
    rollup_total (\<lambda>r. ur_credential_id r = c \<and> ur_bucket r = ''month'') rs"
  using assms by (induction rs) (auto simp: rollup_total_def)

lemma usage_inv_bucket:
  assumes "usage_inv L ns us rs" and "r \<in> snd ` set rs"
  shows "map_of rs (rollup_key_of r) = Some r" and "ur_bucket r \<in> {''hour'', ''day'', ''month''}"
proof -
  show *: "map_of rs (rollup_key_of r) = Some r"
    using usage_invD(1) [OF assms(1)] assms(2) by (rule keyed_value)
  show "ur_bucket r \<in> {''hour'', ''day'', ''month''}"
    using usage_invD(4) [OF assms(1) *] by (simp add: rollup_key_of_def)
qed

lemma all_buckets_total:
  assumes "usage_inv L ns us rs"
  shows "rollup_total (\<lambda>r. ur_credential_id r = Some c) (map snd rs) = 3 * used_bytes c us"
proof -
  have "r \<in> set (map snd rs) \<Longrightarrow> ur_bucket r \<in> {''hour'', ''day'', ''month''}" for r
    using usage_inv_bucket(2) [OF assms] by auto
  then show ?thesis
    by (subst rollup_total_split) (simp_all add: usage_invD(5) [OF assms])
qed

lemma store_usage_inv:
  "reachable L T s \<Longrightarrow> usage_inv L (nodes s) (usage_samples s) (usage_rollups s)"
  using reachable_inv by (auto simp: store_inv_def)

text \<open>
  The quota decision compares the quota with all the traffic ever sampled for the credential
  (wrapped at 64 bits), each sample counted once, whatever the hash order.
\<close>

theorem quota_decision_counts_samples:
  assumes "reachable L T s" and "map_of (credential_quotas s) c = Some q"
  shows "mem_credential_quota_decision e c s
    = (Ok \<lparr>cq_credential_id = c, cq_quota_bytes = q, cq_used_bytes = used_bytes c (usage_samples s),
           cq_allowed = (used_bytes c (usage_samples s) \<le>s q),
           cq_reason = (if used_bytes c (usage_samples s) \<le>s q then ''within_quota''
                        else ''quota_exceeded'')\<rparr>, s)"
proof -
  have "rollup_total (\<lambda>r. ur_credential_id r = Some c \<and> ur_bucket r = ''hour'')
      (hm_values (hash_seed e 0) (usage_rollups s)) = used_bytes c (usage_samples s)"
    using usage_invD(5) [OF store_usage_inv [OF assms(1)], of "''hour''" c] by simp
  then show ?thesis
    using assms(2)
    by (simp add: mem_credential_quota_decision_def quota_decision_def rollup_total_filter
        filter_filter conj_commute)
qed

theorem quota_decision_counts_samples_witness:
  "mem_credential_quota_decision demo_env ''c1'' demo_state
    = (Ok \<lparr>cq_credential_id = ''c1'', cq_quota_bytes = 100, cq_used_bytes = 40, cq_allowed = True,
           cq_reason = ''within_quota''\<rparr>, demo_state)"
proof -
  have "used_bytes ''c1'' (usage_samples demo_state) = 40"
    by (simp add: demo_state_facts used_bytes_def demo_sample_def sample_bytes_def)
  then show ?thesis
    using quota_decision_counts_samples
      [OF demo_state_reachable demo_state_facts(1), where e = demo_env] by simp
qed

text \<open>
  C38. The check behind subscriptions adds the hour, day and month rollups together, so it compares
  the quota with three times the traffic: a credential is dropped from its subscription once it
  has used more than a third of its quota, while the quota endpoint still reports it as allowed.
\<close>

theorem subscription_quota_counts_thrice:
  assumes "reachable L T s"
  shows "credential_quota_exceeded_in_memory seed s c \<longleftrightarrow>
    (\<exists>q. map_of (credential_quotas s) c = Some q \<and> q <s 3 * used_bytes c (usage_samples s))"
proof -
  have "rollup_total (\<lambda>r. ur_credential_id r = Some c) (hm_values seed (usage_rollups s))
      = 3 * used_bytes c (usage_samples s)"
    by (simp add: all_buckets_total [OF store_usage_inv [OF assms]])
  then show ?thesis
    by (simp add: credential_quota_exceeded_in_memory_def rollup_total_filter split: option.splits)
qed

theorem subscription_quota_counts_thrice_witness:
  "credential_quota_exceeded_in_memory [] demo_state ''c1'' \<and>
   used_bytes ''c1'' (usage_samples demo_state) <s 100 \<and>
   map_of (credential_quotas demo_state) ''c1'' = Some 100"
proof -
  have "used_bytes ''c1'' (usage_samples demo_state) = 40"
    by (simp add: demo_state_facts used_bytes_def demo_sample_def sample_bytes_def)
  then show ?thesis
    using subscription_quota_counts_thrice [OF demo_state_reachable, of "[]" "''c1''"]
    by (simp add: demo_state_facts(1))
qed

lemma latest_rollup_exists:
  assumes "reachable L T s" and "filter (sample_in L (Some c, b, t)) (usage_samples s) \<noteq> []"
  shows "\<exists>r. mem_latest_usage_rollup_for_credential e c b s = (Ok r, s)"
proof -
  note inv = store_usage_inv [OF assms(1)]
  obtain r where r: "map_of (usage_rollups s) (Some c, b, t) = Some r"
    using usage_invD(2) [OF inv] assms(2) by blast
  then have "rollup_key_of r = (Some c, b, t)" "r \<in> snd ` set (usage_rollups s)"
    using keyed_key [OF usage_invD(1) [OF inv] r] map_of_value by auto
  then have "max_by_key ur_bucket_start (filter (\<lambda>r. ur_bucket r = b)
      (filter (\<lambda>r. ur_credential_id r = Some c) (hm_values (hash_seed e 0) (usage_rollups s)))) \<noteq> None"
    by (auto simp: filter_empty_conv rollup_key_of_def)
  then obtain r where "max_by_key ur_bucket_start (filter (\<lambda>r. ur_bucket r = b)
      (filter (\<lambda>r. ur_credential_id r = Some c) (hm_values (hash_seed e 0) (usage_rollups s)))) = Some r"
    by blast
  then show ?thesis by (simp add: mem_latest_usage_rollup_for_credential_def)
qed

text \<open>
  The latest rollup of a credential for a bucket length holds the sums of exactly the samples
  of its bucket, and no later bucket of that length has a sample of the credential.
\<close>

theorem latest_rollup_is_sum:
  assumes "reachable L T s" and "mem_latest_usage_rollup_for_credential e c b s = (Ok r, s')"
  shows "s' = s \<and> ur_bucket r = b \<and>
    (let mine = filter (sample_in L (Some c, b, ur_bucket_start r)) (usage_samples s) in
       mine \<noteq> [] \<and> ur_uplink_bytes r = sum_list (map us_uplink_bytes mine) \<and>
       ur_downlink_bytes r = sum_list (map us_downlink_bytes mine)) \<and>
    (\<forall>t. filter (sample_in L (Some c, b, t)) (usage_samples s) \<noteq> [] \<longrightarrow> t \<le> ur_bucket_start r)"
proof -
  note inv = store_usage_inv [OF assms(1)]
  let ?rs = "filter (\<lambda>r. ur_bucket r = b) (filter (\<lambda>r. ur_credential_id r = Some c)
    (hm_values (hash_seed e 0) (usage_rollups s)))"
  have max: "max_by_key ur_bucket_start ?rs = Some r" and s': "s' = s"
    using assms(2) by (auto simp: mem_latest_usage_rollup_for_credential_def)
  then have r: "r \<in> snd ` set (usage_rollups s)" "ur_bucket r = b" "ur_credential_id r = Some c"
    using max_by_key_Some(1) [OF max] by auto
  then have k: "map_of (usage_rollups s) (Some c, b, ur_bucket_start r) = Some r"
    using usage_inv_bucket(1) [OF inv r(1)] by (simp add: rollup_key_of_def)
  have later: "t \<le> ur_bucket_start r"
    if t: "filter (sample_in L (Some c, b, t)) (usage_samples s) \<noteq> []" for t
  proof -
    obtain r' where r': "map_of (usage_rollups s) (Some c, b, t) = Some r'"
      using usage_invD(2) [OF inv] t by blast
    then have "rollup_key_of r' = (Some c, b, t)" "r' \<in> snd ` set (usage_rollups s)"
      using keyed_key [OF usage_invD(1) [OF inv] r'] map_of_value by auto
    then show ?thesis
      using max_by_key_Some(2) [OF max, of r'] by (simp add: rollup_key_of_def)
  qed
  have "filter (sample_in L (Some c, b, ur_bucket_start r)) (usage_samples s) \<noteq> [] \<and>
    ur_uplink_bytes r = sum_list (map us_uplink_bytes
      (filter (sample_in L (Some c, b, ur_bucket_start r)) (usage_samples s))) \<and>
    ur_downlink_bytes r = sum_list (map us_downlink_bytes
      (filter (sample_in L (Some c, b, ur_bucket_start r)) (usage_samples s)))"
    using usage_invD(2) [OF inv] usage_invD(3) [OF inv k] k by blast
  with later r(2) s' show ?thesis by (auto simp: Let_def)
qed

theorem latest_rollup_is_sum_witness:
  "\<exists>r. mem_latest_usage_rollup_for_credential demo_env ''c1'' ''hour'' demo_state
       = (Ok r, demo_state) \<and>
     ur_bucket_start r = seconds 3600 \<and> ur_uplink_bytes r = 10"
proof -
  have samples: "filter (sample_in demo_libs (Some ''c1'', ''hour'', t)) (usage_samples demo_state)
      = (if t = 0 then [demo_sample 10 0]
         else if t = seconds 3600 then [demo_sample 10 (seconds 4000)] else [])" for t
    by (auto simp: demo_state_facts sample_in_def demo_sample_def usage_bucket_starts_def
        hour_bucket_start_def from_timestamp_def timestamp_def seconds_def)
  have "\<exists>r. mem_latest_usage_rollup_for_credential demo_env ''c1'' ''hour'' demo_state
      = (Ok r, demo_state)"
    by (rule latest_rollup_exists [OF demo_state_reachable, where t = 0]) (simp add: samples)
  then obtain r where r: "mem_latest_usage_rollup_for_credential demo_env ''c1'' ''hour'' demo_state
      = (Ok r, demo_state)" by blast
  have start: "ur_bucket_start r = seconds 3600" and "ur_uplink_bytes r = 10"
    using latest_rollup_is_sum [OF demo_state_reachable r] samples
    by (auto simp: Let_def seconds_def demo_sample_def split: if_splits)
  with r show ?thesis by blast
qed

section \<open>Artifacts and idempotency\<close>

lemma blob_kept:
  "hm_contains (artifact_blobs_by_sha256 s) h \<Longrightarrow>
   hm_contains (artifact_blobs_by_sha256 (exec_op L T e x s)) h"
  by (cases x) (auto simp: mem_writes Let_def split: option.splits prod.splits)

text \<open>
  An artifact whose bytes were stored is served back unchanged, and however the store is used
  afterwards its hash still resolves, to bytes with that hash.
\<close>

theorem artifact_blob_round_trip:
  assumes "reachable L T s" and "mem_record_artifact_blob L T e a b s = (Ok (), s')"
  shows "mem_artifact_bytes (art_id a) s' = (Ok b, s') \<and>
    mem_artifact_bytes_by_sha256 (art_sha256 a) s' = (Ok b, s') \<and>
    (\<exists>b'. mem_artifact_bytes_by_sha256 (art_sha256 a) (exec_ops L T ops s')
        = (Ok b', exec_ops L T ops s') \<and> sha256_hex L b' = art_sha256 a)"
proof -
  let ?s = "exec_ops L T ops s'"
  have stored: "map_of (artifacts s') (art_id a) = Some a"
    "map_of (artifact_blobs_by_sha256 s') (art_sha256 a) = Some b"
    using assms(2) by (auto simp: mem_record_artifact_blob_def Let_def split: if_splits)
  have "store_inv L s'"
    using mem_record_artifact_blob_inv [OF reachable_inv [OF assms(1)], of T e a b] assms(2) by simp
  then have "store_inv L ?s \<and> hm_contains (artifact_blobs_by_sha256 ?s) (art_sha256 a)"
    by (intro exec_ops_keeps [where P = "\<lambda>s. store_inv L s \<and>
          hm_contains (artifact_blobs_by_sha256 s) (art_sha256 a)"] conjI)
       (auto simp: stored intro: exec_op_inv dest: blob_kept [where h = "art_sha256 a", OF not_None_eq
          [THEN iffD2, OF exI]])
  then obtain b' where "map_of (artifact_blobs_by_sha256 ?s) (art_sha256 a) = Some b'"
      and "sha256_hex L b' = art_sha256 a"
    by (auto simp: store_inv_def artifact_inv_def)
  with stored show ?thesis
    by (simp add: mem_artifact_bytes_def mem_artifact_bytes_by_sha256_def)
qed

theorem artifact_blob_round_trip_witness:
  "\<exists>a s'. mem_record_artifact_blob demo_libs ''t'' demo_env a (as_bytes ''cfg'') demo_state = (Ok (), s')
     \<and> mem_artifact_bytes (art_id a) s' = (Ok (as_bytes ''cfg''), s')"
proof -
  define a where "a = artifact_from_bytes demo_libs demo_env ''t'' CompiledXrayConfig ''json''
    (as_bytes ''cfg'') ''cp''"
  have "\<exists>s'. mem_record_artifact_blob demo_libs ''t'' demo_env a (as_bytes ''cfg'') demo_state
      = (Ok (), s')"
    by (simp add: a_def mem_record_artifact_blob_def artifact_from_bytes_def Let_def)
  then obtain s' where s': "mem_record_artifact_blob demo_libs ''t'' demo_env a (as_bytes ''cfg'')
      demo_state = (Ok (), s')" by blast
  show ?thesis
    using s' artifact_blob_round_trip [OF demo_state_reachable s', of "[]"] by blast
qed

lemma idempotency_kept:
  "map_of (idempotency_responses s) k = Some v \<Longrightarrow>
   map_of (idempotency_responses (exec_op L T e x s)) k = Some v"
  by (cases x) (auto simp: mem_writes Let_def split: option.splits prod.splits)

text \<open>
  The first response recorded under an idempotency key is the one every later lookup returns,
  whatever is recorded afterwards, under the same key included.
\<close>

theorem idempotency_first_response_wins:
  assumes "mem_idempotency_response t k s = (Ok None, s)"
  shows "mem_idempotency_response t' k (exec_ops L T ops (snd (mem_record_idempotency_response t k v s)))
    = (Ok (Some v), exec_ops L T ops (snd (mem_record_idempotency_response t k v s)))"
proof -
  let ?s = "snd (mem_record_idempotency_response t k v s)"
  have "map_of (idempotency_responses ?s) k = Some v"
    using assms by (simp add: mem_record_idempotency_response_def mem_idempotency_response_def)
  then have "map_of (idempotency_responses (exec_ops L T ops ?s)) k = Some v"
    by (rule exec_ops_keeps [rotated]) (rule idempotency_kept)
  then show ?thesis by (simp add: mem_idempotency_response_def)
qed

theorem idempotency_first_response_wins_witness:
  "fst (mem_idempotency_response ''t'' ''k''
     (exec_ops demo_libs ''t'' [(demo_env, RecordIdempotency ''t'' ''k'' JNull)]
       (snd (mem_record_idempotency_response ''t'' ''k'' (JNumber 1) memory_state_default))))
   = Ok (Some (JNumber 1))"
  using idempotency_first_response_wins [of "''t''" "''k''" memory_state_default "''t''" demo_libs
      "''t''" "[(demo_env, RecordIdempotency ''t'' ''k'' JNull)]" "JNumber 1"]
  by (simp add: mem_idempotency_response_def memory_state_default_def)

end
