(* ===== verification/Subscription.thy ===== *)
theory Subscription
  imports Domain
begin

text \<open>
  The \<open>subscription\<close> crate (src/crates/subscription/src/lib.rs): the subscription artifact of
  a deployed profile, one share link per active credential, joined by newlines and base64-encoded.
\<close>

record subscription_artifact =
  sub_artifact :: artifact
  sub_body_base64 :: string

definition body_base64_decoded :: "libs \<Rightarrow> subscription_artifact \<Rightarrow> bytes" where
  "body_base64_decoded L a = unwrap_or [] (b64_decode L (sub_body_base64 a))"

definition host_port :: "deployed_profile \<Rightarrow> string" where
  "host_port p = dpf_host p @ '':'' @ show_nat (unat (dpf_port p))"

definition credential_link :: "libs \<Rightarrow> deployed_profile \<Rightarrow> credential \<Rightarrow> string" where
  "credential_link L p c =
     (let name = percent_encode L (cr_display_name c) in
      case cr_material c of
        VlessUuid uuid \<Rightarrow>
          ''vless://'' @ uuid @ ''@'' @ host_port p
          @ ''?encryption=none&flow=xtls-rprx-vision&security=reality&sni=''
          @ dpf_reality_server_name p @ ''&fp=chrome&type=tcp#'' @ name
      | TrojanPassword password \<Rightarrow>
          ''trojan://'' @ password @ ''@'' @ host_port p @ ''?security=tls&sni=''
          @ dpf_reality_server_name p @ ''#'' @ name
      | ShadowsocksPassword meth password \<Rightarrow>
          (let userinfo = b64_encode_no_pad L (as_bytes (meth @ '':'' @ password)) in
           ''ss://'' @ userinfo @ ''@'' @ host_port p @ ''#'' @ name))"

fun push_links :: "libs \<Rightarrow> deployed_profile \<Rightarrow> string list \<Rightarrow> credential list \<Rightarrow> string list" where
  "push_links L p links [] = links"
| "push_links L p links (c # cs) =
     (if is_active c then push_links L p (links @ [credential_link L p c]) cs
      else push_links L p links cs)"

definition generate_subscription_artifact ::
  "libs \<Rightarrow> env \<Rightarrow> string \<Rightarrow> deployed_profile \<Rightarrow> string
    \<Rightarrow> (subscription_artifact, string) result" where
  "generate_subscription_artifact L e tenant profile actor =
     (let links = push_links L profile [] (dpf_credentials profile);
          plaintext = join [CHR 0x0A] links;
          body_base64 = b64_encode L (as_bytes plaintext);
          art = artifact_from_bytes L e tenant SubscriptionArtifact ''text/plain+base64''
                  (as_bytes body_base64) actor
      in Ok \<lparr>sub_artifact = art, sub_body_base64 = body_base64\<rparr>)"

text \<open>What is assumed of the base64 engine: decoding inverts encoding.\<close>

definition base64_codec :: "libs \<Rightarrow> bool" where
  "base64_codec L \<longleftrightarrow> (\<forall>b. b64_decode L (b64_encode L b) = Some b)"

definition demo_profile :: deployed_profile where
  "demo_profile = \<lparr>dpf_profile_id = ''p'', dpf_host = ''h'', dpf_port = 443,
     dpf_reality_server_name = ''s'',
     dpf_credentials = [active_vless ''a'' ''g'' ''u1'' ''A'', revoked_vless ''b'' ''g'' ''u2'' ''B'']\<rparr>"

section \<open>The links of a subscription\<close>

lemma push_links_eq:
  "push_links L p links cs = links @ map (credential_link L p) (filter is_active cs)"
  by (induction links cs rule: push_links.induct) simp_all

lemma demo_base64_codec: "base64_codec demo_libs"
  by (simp add: base64_codec_def demo_libs_def)

text \<open>
  The body of a subscription decodes to exactly the links of the active credentials, in order
  and newline-separated, and its artifact is addressed by the hash of the encoded body.
\<close>

theorem subscription_body:
  assumes "base64_codec L"
  shows "\<exists>a. generate_subscription_artifact L e tenant profile actor = Ok a
       \<and> body_base64_decoded L a
           = as_bytes (join [CHR 0x0A]
               (map (credential_link L profile) (filter is_active (dpf_credentials profile))))
       \<and> art_sha256 (sub_artifact a) = sha256_hex L (as_bytes (sub_body_base64 a))
       \<and> art_storage_uri (sub_artifact a) = ''artifact://sha256/'' @ art_sha256 (sub_artifact a)"
  using assms
  by (simp add: generate_subscription_artifact_def body_base64_decoded_def push_links_eq
      base64_codec_def artifact_from_bytes_def Let_def)

theorem subscription_body_witness:
  "\<exists>a. generate_subscription_artifact demo_libs demo_env ''t'' demo_profile ''actor'' = Ok a
     \<and> body_base64_decoded demo_libs a
         = as_bytes (credential_link demo_libs demo_profile (active_vless ''a'' ''g'' ''u1'' ''A''))"
  using subscription_body [OF demo_base64_codec, of demo_env "''t''" demo_profile "''actor''"]
  by (auto simp: demo_profile_def is_active_def active_vless_def revoked_vless_def)

text \<open>
  Revoked and expired credentials leave no trace in a subscription: the artifact is the one
  generated from the active credentials alone.
\<close>

theorem subscription_ignores_inactive:
  "generate_subscription_artifact L e tenant
     (profile\<lparr>dpf_credentials := filter is_active (dpf_credentials profile)\<rparr>) actor
   = generate_subscription_artifact L e tenant profile actor"
proof -
  have "credential_link L (profile\<lparr>dpf_credentials := cs\<rparr>) = credential_link L profile" for cs
    by (rule ext) (simp add: credential_link_def host_port_def Let_def
        split: credential_material.split)
  then show ?thesis by (simp add: generate_subscription_artifact_def push_links_eq)
qed

text \<open>
  C31. The links can be read back: if no link contains a newline, splitting the decoded body at
  newlines gives one entry per active credential, in order.
\<close>

theorem subscription_links_recoverable:
  assumes "base64_codec L"
    and "generate_subscription_artifact L e tenant profile actor = Ok a"
    and "filter is_active (dpf_credentials profile) \<noteq> []"
    and "\<And>c. c \<in> set (dpf_credentials profile) \<Longrightarrow> CHR 0x0A \<notin> set (credential_link L profile c)"
  shows "\<exists>t. body_base64_decoded L a = as_bytes t
           \<and> split_on (CHR 0x0A) t
               = map (credential_link L profile) (filter is_active (dpf_credentials profile))"
proof -
  let ?links = "map (credential_link L profile) (filter is_active (dpf_credentials profile))"
  have "split_on (CHR 0x0A) (join [CHR 0x0A] ?links) = ?links"
    by (rule split_on_join) (use assms(3,4) in auto)
  moreover have "body_base64_decoded L a = as_bytes (join [CHR 0x0A] ?links)"
    using assms(1,2) by (auto simp: generate_subscription_artifact_def body_base64_decoded_def
        push_links_eq base64_codec_def Let_def)
  ultimately show ?thesis by blast
qed

theorem subscription_links_recoverable_witness:
  "\<exists>a t. generate_subscription_artifact demo_libs demo_env ''t'' demo_profile ''x'' = Ok a
     \<and> body_base64_decoded demo_libs a = as_bytes t
     \<and> split_on (CHR 0x0A) t
         = [credential_link demo_libs demo_profile (active_vless ''a'' ''g'' ''u1'' ''A'')]"
proof -
  have nl: "CHR 0x0A \<notin> set (credential_link demo_libs demo_profile c)"
    if "c \<in> set (dpf_credentials demo_profile)" for c
    using that by (auto simp: demo_profile_def credential_link_def host_port_def active_vless_def
        revoked_vless_def demo_libs_def show_nat.simps Let_def)
  obtain a where a: "generate_subscription_artifact demo_libs demo_env ''t'' demo_profile ''x'' = Ok a"
    by (simp add: generate_subscription_artifact_def Let_def)
  with subscription_links_recoverable [OF demo_base64_codec a _ nl] show ?thesis
    by (auto simp: demo_profile_def is_active_def active_vless_def revoked_vless_def)
qed

end
