(* ===== verification/Memory_Views.thy ===== *)
theory Memory_Views
  imports Memory_Props Subscription
begin

text \<open>
  Subscriptions and listings of \<open>MemoryStore\<close>: which tokens open a subscription after a
  rotation, which credentials and which host it serves, and that the listings are functions of
  the stored records (a \<open>HashMap\<close> has no order of its own).
\<close>

section \<open>Abstract views of the state\<close>

text \<open>
  The limits of a credential: the quota check of the memory store adds up the rollups of the three
  bucket sizes, so it compares three times the sampled traffic with the quota.
\<close>

definition within_limits :: "memory_state \<Rightarrow> datetime \<Rightarrow> credential \<Rightarrow> bool" where
  "within_limits s now c \<longleftrightarrow>
     (case map_of (credential_quotas s) (cr_id c) of
        None \<Rightarrow> True | Some q \<Rightarrow> 3 * used_bytes (cr_id c) (usage_samples s) \<le>s q) \<and>
     (case map_of (credential_expirations s) (cr_id c) of None \<Rightarrow> True | Some t \<Rightarrow> now < t)"

definition demo_subscription_state :: memory_state where
  "demo_subscription_state = exec_ops demo_libs ''t''
     [(demo_env, SetExpiry ''c2'' 5000), (demo_env, IssueToken ''p'')] demo_state"

definition rotating_env :: env where
  "rotating_env = \<lparr>utc_now = (\<lambda>k. 2000 + int k), new_v4 = (\<lambda>k. ''next-'' @ show_nat k),
     hash_seed = (\<lambda>_. [])\<rparr>"

section \<open>Subscription tokens\<close>

lemma find_is_ok: "is_ok (ok_or x (List.find P xs)) \<longleftrightarrow> (\<exists>y \<in> set xs. P y)"
  by (induction xs) auto

lemma rotate_token_active:
  "st_status (rotate_token p now t) = ''active'' \<longleftrightarrow>
     st_status t = ''active'' \<and> st_profile_id t \<noteq> p"
  by (auto simp: rotate_token_def)

lemma set_rotated_tokens:
  assumes "keyed st_token_id ts"
  shows "snd ` set (hm_insert i t (hm_map_values (rotate_token p now) ts)) =
    insert t (rotate_token p now ` {t' \<in> snd ` set ts. st_token_id t' \<noteq> i})"
proof -
  have wf: "hm_wf (hm_map_values (rotate_token p now) ts)"
    using assms by (simp add: keyed_wf)
  have "k = st_token_id v" if "(k, v) \<in> set ts" for k v
    using assms that by (auto simp: keyed_def)
  then show ?thesis
    unfolding set_hm_insert [OF wf] by (force simp: hm_map_values_def)
qed

text \<open>
  After a rotation exactly the newly issued secret opens the subscription: a token verifies for
  the profile if and only if it has the hash of the issued one, a token is required, and (given
  an unused token identifier) the tokens of every other profile verify as before.
\<close>

theorem rotation_invalidates_old_tokens:
  assumes "reachable L T s" and "mem_rotate_subscription_token L T e p s = (Ok t, s')"
  shows "(is_ok (fst (mem_verify_subscription_token L e' p token s'))
      \<longleftrightarrow> subscription_token_hash L token = subscription_token_hash L (it_token t)) \<and>
    mem_subscription_token_required e' p s' = (Ok True, s') \<and>
    (map_of (subscription_tokens s) (it_token_id t) = None \<longrightarrow> q \<noteq> p \<longrightarrow>
      (is_ok (fst (mem_verify_subscription_token L e' q token s'))
      \<longleftrightarrow> is_ok (fst (mem_verify_subscription_token L e' q token s))))"
proof -
  have keyed: "keyed st_token_id (subscription_tokens s)"
    using reachable_inv [OF assms(1)] by (simp add: store_inv_def subscription_inv_def)
  let ?new = "subscription_token_record_of L (utc_now e 1) T t"
  have t: "t = new_subscription_token e p" and p: "hm_contains (profiles s) p"
      and s': "subscription_tokens s' = hm_insert (it_token_id t) ?new
        (hm_map_values (rotate_token p (utc_now e 0)) (subscription_tokens s))"
      "profiles s' = profiles s"
    using assms(2) by (auto simp: mem_rotate_subscription_token_def Let_def split: if_splits)
  have tokens: "snd ` set (subscription_tokens s') = insert ?new (rotate_token p (utc_now e 0) `
      {t' \<in> snd ` set (subscription_tokens s). st_token_id t' \<noteq> it_token_id t})"
    unfolding s' by (rule set_rotated_tokens [OF keyed])
  have "is_ok (fst (mem_verify_subscription_token L e' p token s'))
      \<longleftrightarrow> subscription_token_hash L token = subscription_token_hash L (it_token t)"
    by (auto simp: mem_verify_subscription_token_def find_is_ok tokens rotate_token_active t)
  moreover have "mem_subscription_token_required e' p s' = (Ok True, s')"
    using p by (auto simp: mem_subscription_token_required_def s'(2) list_ex_iff tokens t)
  moreover have "is_ok (fst (mem_verify_subscription_token L e' q token s'))
      \<longleftrightarrow> is_ok (fst (mem_verify_subscription_token L e' q token s))"
    if fresh: "map_of (subscription_tokens s) (it_token_id t) = None" and q: "q \<noteq> p"
  proof -
    have "st_token_id t' \<noteq> it_token_id t" if "t' \<in> snd ` set (subscription_tokens s)" for t'
      using keyed_value [OF keyed that] fresh by auto
    then show ?thesis
      using q
      by (auto simp: mem_verify_subscription_token_def find_is_ok tokens rotate_token_active t)
  qed
  ultimately show ?thesis by blast
qed

lemma demo_subscription_reachable: "reachable demo_libs ''t'' demo_subscription_state"
  by (simp only: demo_subscription_state_def reachable_exec_ops demo_state_reachable)

lemma demo_subscription_facts:
  "profiles demo_subscription_state = [(''p'', demo_profile_record)]"
  "nodes demo_subscription_state = [(''node-a'', demo_node)]"
  "map_of (credential_quotas demo_subscription_state) ''c1'' = Some 100"
  "map_of (credential_quotas demo_subscription_state) ''c2'' = None"
  "credential_expirations demo_subscription_state = [(''c2'', 5000)]"
  "usage_samples demo_subscription_state = usage_samples demo_state"
  "credentials_by_profile demo_subscription_state = credentials_by_profile demo_state"
  "subscription_tokens demo_subscription_state =
     [(''subtok-uuid-0'', subscription_token_record_of demo_libs 1000 ''t''
        (new_subscription_token demo_env ''p''))]"
  by (simp_all add: demo_subscription_state_def mem_writes Let_def demo_state_facts
      new_subscription_token_def demo_env_def show_nat.simps)

theorem rotation_invalidates_old_tokens_witness:
  "\<exists>t s'. mem_rotate_subscription_token demo_libs ''t'' rotating_env ''p'' demo_subscription_state
       = (Ok t, s') \<and>
     is_ok (fst (mem_verify_subscription_token demo_libs demo_env ''p'' (it_token t) s')) \<and>
     \<not> is_ok (fst (mem_verify_subscription_token demo_libs demo_env ''p''
         (it_token (new_subscription_token demo_env ''p'')) s'))"
proof -
  have "\<exists>t s'. mem_rotate_subscription_token demo_libs ''t'' rotating_env ''p'' demo_subscription_state
      = (Ok t, s') \<and> t = new_subscription_token rotating_env ''p''"
    by (simp add: mem_rotate_subscription_token_def demo_subscription_facts Let_def)
  then obtain t s' where r: "mem_rotate_subscription_token demo_libs ''t'' rotating_env ''p''
      demo_subscription_state = (Ok t, s')" and t: "t = new_subscription_token rotating_env ''p''"
    by blast
  have "subscription_token_hash demo_libs (it_token (new_subscription_token demo_env ''p''))
      \<noteq> subscription_token_hash demo_libs (it_token t)"
    by (simp add: t subscription_token_hash_def new_subscription_token_def Let_def demo_libs_def
        chars_of_bytes_def as_bytes_def demo_env_def rotating_env_def)
  then show ?thesis
    using r rotation_invalidates_old_tokens [OF demo_subscription_reachable r, of demo_env] by blast
qed

section \<open>The profile behind a subscription\<close>

lemma within_limits_iff:
  assumes "reachable L T s"
  shows "within_limits s now c \<longleftrightarrow> \<not> credential_quota_exceeded_in_memory seed s (cr_id c) \<and>
    \<not> credential_expired_in_memory s (cr_id c) now"
  using all_buckets_total [OF store_usage_inv [OF assms], of "cr_id c"]
  by (auto simp: within_limits_def credential_quota_exceeded_in_memory_def rollup_total_filter
      credential_expired_in_memory_def expiry_decision_def Let_def signed.not_less
      split: option.splits)

lemma push_allowed_simps [simp]:
  "dpf_profile_id (push_allowed s e k d cs) = dpf_profile_id d"
  "dpf_host (push_allowed s e k d cs) = dpf_host d"
  "dpf_port (push_allowed s e k d cs) = dpf_port d"
  "dpf_reality_server_name (push_allowed s e k d cs) = dpf_reality_server_name d"
  by (induction s e k d cs rule: push_allowed.induct) (simp_all add: dpf_with_credential_def)

lemma push_allowed_credentials:
  assumes "reachable L T s"
  shows "dpf_credentials (push_allowed s e k d cs) = dpf_credentials d @
    map snd (filter (\<lambda>(i, c). within_limits s (utc_now e i) c) (enumerate k cs))"
proof (induction cs arbitrary: k d)
  case (Cons c cs)
  then show ?case
    by (auto simp: within_limits_iff [OF assms, of _ c "hash_seed e (Suc k)"] dpf_with_credential_def)
qed simp

lemma links_of_active:
  "push_links L d [] (map snd (filter (\<lambda>(k, c). P k c) cs))
    = map (credential_link L d) (map snd (filter (\<lambda>(k, c). P k c \<and> is_active c) cs))"
proof -
  have "filter is_active (map snd (filter (\<lambda>(k, c). P k c) cs))
      = map snd (filter (\<lambda>(k, c). P k c \<and> is_active c) cs)"
    by (induction cs) auto
  then show ?thesis by (simp add: push_links_eq)
qed

text \<open>
  C32. For a stored profile with an inbound, when a node is registered, the profile a subscription is
  generated from has the port of the first inbound, the host of a registered node, and exactly the
  credentials of the profile that are unexpired at the instant they are looked at and whose tripled
  traffic is within their quota, in the order they were added and whatever their status. The links
  made of it are those of the active ones among them.
\<close>

theorem subscription_profile_credentials:
  assumes "reachable L T s" and "map_of (profiles s) p = Some pr"
    and "ir_inbounds (pr_ir pr) = i # rest" and "nodes s \<noteq> []"
  shows "\<exists>d n. mem_deployed_profile_for_subscription e p s = (Ok d, s) \<and>
    n \<in> snd ` set (nodes s) \<and> dpf_host d = nd_host n \<and> dpf_profile_id d = p \<and>
    dpf_port d = in_port i \<and> dpf_reality_server_name d = subscription_server_name n i \<and>
    dpf_credentials d = map snd (filter (\<lambda>(k, c). within_limits s (utc_now e k) c)
      (enumerate 0 (unwrap_or [] (map_of (credentials_by_profile s) p)))) \<and>
    push_links L d [] (dpf_credentials d) = map (credential_link L d)
      (map snd (filter (\<lambda>(k, c). within_limits s (utc_now e k) c \<and> is_active c)
        (enumerate 0 (unwrap_or [] (map_of (credentials_by_profile s) p)))))"
proof -
  have "length (hm_values (hash_seed e 0) (nodes s)) \<noteq> 0"
    using assms(4) by (simp add: hm_values_def)
  then obtain n ns where n: "hm_values (hash_seed e 0) (nodes s) = n # ns"
    by (cases "hm_values (hash_seed e 0) (nodes s)") simp_all
  then have "n \<in> snd ` set (nodes s)" by (metis list.set_intros(1) set_hm_values)
  moreover have "\<exists>d. mem_deployed_profile_for_subscription e p s = (Ok d, s) \<and>
      dpf_host d = nd_host n \<and> dpf_profile_id d = p \<and> dpf_port d = in_port i \<and>
      dpf_reality_server_name d = subscription_server_name n i \<and>
      dpf_credentials d = map snd (filter (\<lambda>(k, c). within_limits s (utc_now e k) c)
        (enumerate 0 (unwrap_or [] (map_of (credentials_by_profile s) p))))"
    using n assms(2,3)
    by (simp add: mem_deployed_profile_for_subscription_def push_allowed_credentials [OF assms(1)]
        deployed_profile_new_def)
  ultimately show ?thesis using links_of_active by metis
qed

theorem subscription_profile_credentials_witness:
  "\<exists>d. mem_deployed_profile_for_subscription demo_env ''p'' demo_subscription_state
       = (Ok d, demo_subscription_state) \<and> dpf_port d = 443 \<and>
     map cr_id (dpf_credentials d) = [''c2'']"
proof -
  have "used_bytes ''c1'' (usage_samples demo_state) = 40"
    by (simp add: demo_state_facts used_bytes_def demo_sample_def sample_bytes_def)
  then have c1: "\<not> within_limits demo_subscription_state now (active_vless ''c1'' ''g'' ''u1'' ''A'')" for now
    by (simp add: within_limits_def demo_subscription_facts active_vless_def)
  have c2: "within_limits demo_subscription_state (utc_now demo_env 1)
      (active_vless ''c2'' ''g'' ''u2'' ''B'')"
    by (simp add: within_limits_def demo_subscription_facts active_vless_def demo_env_def)
  obtain i rest where i: "ir_inbounds (pr_ir demo_profile_record) = i # rest" "in_port i = 443"
    by (simp add: demo_profile_record_def vless_reality_example_def)
  obtain d where "mem_deployed_profile_for_subscription demo_env ''p'' demo_subscription_state
      = (Ok d, demo_subscription_state)" "dpf_port d = in_port i"
      "dpf_credentials d = map snd (filter (\<lambda>(k, c). within_limits demo_subscription_state (utc_now demo_env k) c)
        (enumerate 0 (unwrap_or [] (map_of (credentials_by_profile demo_subscription_state) ''p''))))"
    using subscription_profile_credentials
        [OF demo_subscription_reachable, of "''p''" demo_profile_record i rest demo_env] i(1)
    by (auto simp: demo_subscription_facts)
  with i(2) c1 c2 show ?thesis
    by (intro exI [of _ d])
       (simp add: demo_subscription_facts demo_state_facts active_vless_def)
qed

text \<open>
  With several nodes registered, the host of a subscription is not determined by the store: each
  node's host is served under some iteration order of the node map, whether or not the profile
  was ever deployed there.
\<close>

theorem subscription_host_arbitrary:
  assumes "map_of (profiles s) p = Some pr" and "ir_inbounds (pr_ir pr) \<noteq> []"
    and "map_of (nodes s) i = Some n"
  shows "\<exists>e d. mem_deployed_profile_for_subscription e p s = (Ok d, s) \<and> dpf_host d = nd_host n"
proof -
  obtain xs ys where "nodes s = xs @ (i, n) # ys"
    using split_list [OF map_of_SomeD [OF assms(3)]] by blast
  then obtain ns where ns: "hash_iter ns (nodes s) = (i, n) # xs @ ys"
    using hash_iter_surj [of "(i, n) # xs @ ys" "nodes s"] by auto
  define e :: env where "e = \<lparr>utc_now = \<lambda>_. 0, new_v4 = \<lambda>_. [], hash_seed = \<lambda>_. ns\<rparr>"
  have "hm_values (hash_seed e 0) (nodes s) = n # map snd (xs @ ys)"
    by (simp add: e_def hm_values_def ns)
  with assms(1,2) have "\<exists>d. mem_deployed_profile_for_subscription e p s = (Ok d, s) \<and>
      dpf_host d = nd_host n"
    by (cases "ir_inbounds (pr_ir pr)")
       (simp_all add: mem_deployed_profile_for_subscription_def deployed_profile_new_def)
  then show ?thesis by blast
qed

theorem subscription_host_arbitrary_witness:
  "\<exists>e d. mem_deployed_profile_for_subscription e ''p'' demo_state = (Ok d, demo_state) \<and>
     dpf_host d = ''host''"
  using subscription_host_arbitrary [of demo_state "''p''" demo_profile_record "''node-a''" demo_node]
  by (simp add: demo_state_facts demo_profile_record_def vless_reality_example_def demo_node_def)

section \<open>Listings\<close>

lemma sort_key_perm:
  assumes "mset xs = mset ys" and "inj_on f (set xs)"
  shows "sort_key f xs = sort_key f ys"
  using assms by (intro sort_key_inj_key_eq) simp_all

lemma keyed_inj_on: "keyed f m \<Longrightarrow> inj_on f (snd ` set m)"
  by (rule inj_on_inverseI [of _ "\<lambda>k. the (map_of m k)"]) (simp only: keyed_value option.sel)

lemma keyed_ids: "keyed f m \<Longrightarrow> distinct (map f (map snd m))"
proof -
  assume m: "keyed f m"
  then have "map f (map snd m) = map fst m" by (auto simp: keyed_def)
  with m show ?thesis by (simp only: keyed_wf)
qed

lemma listing_order_free:
  assumes "keyed f m" and "\<And>x y. g x = g y \<Longrightarrow> f x = f y"
  shows "sort_key g (hm_values ns m) = sort_key g (map snd m)"
proof (rule sort_key_perm)
  show "inj_on g (set (hm_values ns m))"
    unfolding set_hm_values by (rule inj_onI) (rule inj_onD [OF keyed_inj_on [OF assms(1)] assms(2)])
qed (rule mset_hm_values)

text \<open>
  The listings of nodes, profiles and deployments contain every record once, ordered by
  identifier (deployments: newest first), and do not depend on the iteration order.
\<close>

theorem listings_order_independent:
  assumes "reachable L T s"
  shows "mem_list_nodes e s = (Ok (sort_key nd_node_id (map snd (nodes s))), s) \<and>
    mem_list_profiles e s = (Ok (sort_key pr_profile_id (map snd (profiles s))), s) \<and>
    mem_list_deployment_plans e s = (Ok (sort_key (\<lambda>d. (- dpr_created_at d, dpr_deployment_id d))
      (map snd (deployments s))), s) \<and>
    distinct (map nd_node_id (map snd (nodes s))) \<and>
    distinct (map pr_profile_id (map snd (profiles s))) \<and>
    distinct (map dpr_deployment_id (map snd (deployments s)))"
proof -
  have keyed: "keyed nd_node_id (nodes s)" "keyed pr_profile_id (profiles s)"
      "keyed dpr_deployment_id (deployments s)"
    using reachable_inv [OF assms]
    by (simp_all add: store_inv_def registry_inv_def catalog_inv_def deployment_inv_def)
  have "sort_key nd_node_id (hm_values ns (nodes s)) = sort_key nd_node_id (map snd (nodes s))"
    "sort_key pr_profile_id (hm_values ns (profiles s))
       = sort_key pr_profile_id (map snd (profiles s))"
    "sort_key (\<lambda>d. (- dpr_created_at d, dpr_deployment_id d)) (hm_values ns (deployments s))
       = sort_key (\<lambda>d. (- dpr_created_at d, dpr_deployment_id d)) (map snd (deployments s))" for ns
    by (rule listing_order_free [OF keyed(1)], simp, rule listing_order_free [OF keyed(2)], simp,
        rule listing_order_free [OF keyed(3)], simp)
  with keyed [THEN keyed_ids] show ?thesis
    by (simp add: mem_list_nodes_def mem_list_profiles_def mem_list_deployment_plans_def)
qed

theorem listings_order_independent_witness:
  "mem_list_nodes demo_env demo_state = (Ok [demo_node], demo_state)"
  using listings_order_independent [OF demo_state_reachable, of demo_env]
  by (simp add: demo_state_facts)

end
