(* ===== verification/Compiler_Xray.thy ===== *)
theory Compiler_Xray
  imports Domain
begin

text \<open>
  The \<open>compiler-xray\<close> crate (src/crates/compiler-xray/src/lib.rs): the translation of a
  Profile IR and a compile context into an xray configuration, with its errors. The loops of
  \<open>compile_profile_to_xray\<close> are recursive functions with the same accumulators and the same
  early returns. The lemmas relate each loop to the list of active credentials of the groups an
  inbound refers to.
\<close>

datatype compile_error =
    InvalidIr domain_error
  | UnsupportedReality string
  | MissingSecret string
  | MissingCredential string
  | MixedShadowsocksMethods string
  | InvalidShadowsocks2022Psk string nat
  | UnsupportedProtocol

fun compile_error_to_string :: "compile_error \<Rightarrow> string" where
  "compile_error_to_string (InvalidIr d) = ''Profile IR invalid: '' @ domain_error_to_string d"
| "compile_error_to_string (UnsupportedReality v) =
     ''REALITY requires xray-core >= 1.8.0, got '' @ v"
| "compile_error_to_string (MissingSecret i) = ''missing secret material for '' @ i"
| "compile_error_to_string (MissingCredential i) =
     ''missing active credential for inbound '' @ i"
| "compile_error_to_string (MixedShadowsocksMethods i) =
     ''mixed shadowsocks methods for inbound '' @ i"
| "compile_error_to_string (InvalidShadowsocks2022Psk m n) =
     m @ '' requires a base64-encoded '' @ show_nat n @ ''-byte psk''"
| "compile_error_to_string UnsupportedProtocol =
     ''unsupported inbound protocol for this compiler''"

record compile_context =
  ctx_core_version :: string
  ctx_secrets :: "(string, string) hashmap"
  ctx_credentials :: "credential list"

definition compile_context_new :: "string \<Rightarrow> compile_context" where
  "compile_context_new v = \<lparr>ctx_core_version = v, ctx_secrets = [], ctx_credentials = []\<rparr>"

definition with_secret :: "compile_context \<Rightarrow> string \<Rightarrow> string \<Rightarrow> compile_context" where
  "with_secret ctx i v = ctx\<lparr>ctx_secrets := hm_insert i v (ctx_secrets ctx)\<rparr>"

definition ctx_with_credential :: "compile_context \<Rightarrow> credential \<Rightarrow> compile_context" where
  "ctx_with_credential ctx c = ctx\<lparr>ctx_credentials := ctx_credentials ctx @ [c]\<rparr>"

definition with_core_version :: "compile_context \<Rightarrow> string \<Rightarrow> compile_context" where
  "with_core_version ctx v = ctx\<lparr>ctx_core_version := v\<rparr>"

record compiled_xray_config =
  cx_config_json :: json
  cx_compiler_version :: string

definition supports_reality :: "string \<Rightarrow> bool" where
  "supports_reality version =
     (let parts = List.map_filter parse_u64 (split_on CHR ''.'' version);
          major = (case parts of [] \<Rightarrow> 0 | a # _ \<Rightarrow> a);
          minor = (case parts of a # b # _ \<Rightarrow> b | _ \<Rightarrow> 0)
      in major > 1 \<or> (major = 1 \<and> minor \<ge> 8))"

definition validate_shadowsocks_method_password ::
  "libs \<Rightarrow> string \<Rightarrow> string \<Rightarrow> (unit, compile_error) result" where
  "validate_shadowsocks_method_password L meth password =
     (let check = (\<lambda>expected.
        case b64_decode L password of
          None \<Rightarrow> Err (InvalidShadowsocks2022Psk meth expected)
        | Some decoded \<Rightarrow>
            if length decoded \<noteq> expected then Err (InvalidShadowsocks2022Psk meth expected)
            else Ok ())
      in if meth = ''2022-blake3-aes-128-gcm'' then check 16
         else if meth = ''2022-blake3-aes-256-gcm'' then check 32
         else Ok ())"

definition tls_stream_settings :: "string \<Rightarrow> json" where
  "tls_stream_settings server_name =
     JObject [(''network'', JString ''tcp''), (''security'', JString ''tls''),
       (''tlsSettings'', JObject [(''serverName'', JString server_name)])]"

definition apply_stream_security ::
  "(string \<times> json) list \<Rightarrow> security \<Rightarrow> ((string \<times> json) list, compile_error) result" where
  "apply_stream_security inbound_json sec =
     (case sec of
        Tls sn \<Rightarrow> Ok (hm_insert ''streamSettings'' (tls_stream_settings sn) inbound_json)
      | NoSecurity \<Rightarrow> Ok inbound_json
      | Reality _ _ _ \<Rightarrow> Err UnsupportedProtocol)"

text \<open>The filter of every inner loop: active credentials of one client group.\<close>

definition group_credentials :: "compile_context \<Rightarrow> string \<Rightarrow> credential list" where
  "group_credentials ctx grp =
     filter (\<lambda>c. cr_client_group_id c = grp \<and> cr_status c = Active) (ctx_credentials ctx)"

fun push_vless_clients :: "json list \<Rightarrow> credential list \<Rightarrow> json list" where
  "push_vless_clients clients [] = clients"
| "push_vless_clients clients (c # cs) =
     (case cr_material c of
        VlessUuid uuid \<Rightarrow>
          push_vless_clients
            (clients @ [JObject [(''id'', JString uuid), (''email'', JString (cr_display_name c)),
                                 (''flow'', JString ''xtls-rprx-vision'')]]) cs
      | _ \<Rightarrow> push_vless_clients clients cs)"

fun vless_clients :: "compile_context \<Rightarrow> json list \<Rightarrow> string list \<Rightarrow> json list" where
  "vless_clients ctx clients [] = clients"
| "vless_clients ctx clients (g # gs) =
     vless_clients ctx (push_vless_clients clients (group_credentials ctx g)) gs"

definition inbound_object :: "inbound \<Rightarrow> string \<Rightarrow> (string \<times> json) list \<Rightarrow> (string \<times> json) list" where
  "inbound_object i protocol settings =
     [(''tag'', JString (in_id i)), (''listen'', JString (in_listen i)),
      (''port'', JNumber (uint (in_port i))), (''protocol'', JString protocol),
      (''settings'', JObject settings)]"

definition reality_stream_settings :: "string \<Rightarrow> string \<Rightarrow> string list \<Rightarrow> json" where
  "reality_stream_settings server_name private_key ids =
     JObject [(''network'', JString ''tcp''), (''security'', JString ''reality''),
       (''realitySettings'', JObject
         [(''show'', JBool False), (''dest'', JString (server_name @ '':443'')),
          (''serverNames'', JArray [JString server_name]),
          (''privateKey'', JString private_key),
          (''shortIds'', JArray (map JString ids))])]"

definition compile_vless :: "compile_context \<Rightarrow> inbound \<Rightarrow> (json, compile_error) result" where
  "compile_vless ctx i =
     (let clients = vless_clients ctx [] (in_client_group_refs i);
          inbound_json = inbound_object i ''vless''
            [(''clients'', JArray clients), (''decryption'', JString ''none'')]
      in case in_security i of
           Reality server_name key_ref ids \<Rightarrow>
             if \<not> supports_reality (ctx_core_version ctx)
             then Err (UnsupportedReality (ctx_core_version ctx))
             else bind_result (ok_or (MissingSecret (sr_id key_ref))
                                (map_of (ctx_secrets ctx) (sr_id key_ref))) (\<lambda>private_key.
               Ok (JObject (hm_insert ''streamSettings''
                     (reality_stream_settings server_name private_key ids) inbound_json)))
         | Tls server_name \<Rightarrow>
             Ok (JObject (hm_insert ''streamSettings'' (tls_stream_settings server_name) inbound_json))
         | NoSecurity \<Rightarrow> Ok (JObject inbound_json))"

fun select_in_group ::
  "string \<Rightarrow> (string \<times> string) option \<Rightarrow> credential list
    \<Rightarrow> ((string \<times> string) option, compile_error) result" where
  "select_in_group tag selected [] = Ok selected"
| "select_in_group tag selected (c # cs) =
     (case cr_material c of
        ShadowsocksPassword meth password \<Rightarrow>
          (case selected of
             Some (existing_method, p) \<Rightarrow>
               if existing_method \<noteq> meth then Err (MixedShadowsocksMethods tag)
               else select_in_group tag selected cs
           | None \<Rightarrow> select_in_group tag (Some (meth, password)) cs)
      | _ \<Rightarrow> select_in_group tag selected cs)"

fun select_shadowsocks ::
  "compile_context \<Rightarrow> string \<Rightarrow> (string \<times> string) option \<Rightarrow> string list
    \<Rightarrow> ((string \<times> string) option, compile_error) result" where
  "select_shadowsocks ctx tag selected [] = Ok selected"
| "select_shadowsocks ctx tag selected (g # gs) =
     bind_result (select_in_group tag selected (group_credentials ctx g)) (\<lambda>sel.
       select_shadowsocks ctx tag sel gs)"

definition compile_shadowsocks ::
  "libs \<Rightarrow> compile_context \<Rightarrow> inbound \<Rightarrow> (json, compile_error) result" where
  "compile_shadowsocks L ctx i =
     bind_result (select_shadowsocks ctx (in_id i) None (in_client_group_refs i)) (\<lambda>selected.
     bind_result (ok_or (MissingCredential (in_id i)) selected) (\<lambda>(meth, password).
     bind_result (validate_shadowsocks_method_password L meth password) (\<lambda>_.
       Ok (JObject (inbound_object i ''shadowsocks''
         [(''method'', JString meth), (''password'', JString password),
          (''network'', JString ''tcp,udp'')])))))"

fun push_trojan_clients :: "json list \<Rightarrow> credential list \<Rightarrow> json list" where
  "push_trojan_clients clients [] = clients"
| "push_trojan_clients clients (c # cs) =
     (case cr_material c of
        TrojanPassword password \<Rightarrow>
          push_trojan_clients
            (clients @ [JObject [(''password'', JString password),
                                 (''email'', JString (cr_display_name c))]]) cs
      | _ \<Rightarrow> push_trojan_clients clients cs)"

fun trojan_clients :: "compile_context \<Rightarrow> json list \<Rightarrow> string list \<Rightarrow> json list" where
  "trojan_clients ctx clients [] = clients"
| "trojan_clients ctx clients (g # gs) =
     trojan_clients ctx (push_trojan_clients clients (group_credentials ctx g)) gs"

definition compile_trojan :: "compile_context \<Rightarrow> inbound \<Rightarrow> (json, compile_error) result" where
  "compile_trojan ctx i =
     (let clients = trojan_clients ctx [] (in_client_group_refs i) in
      if clients = [] then Err (MissingCredential (in_id i))
      else bind_result
             (apply_stream_security
                (inbound_object i ''trojan'' [(''clients'', JArray clients)]) (in_security i))
             (\<lambda>kvs. Ok (JObject kvs)))"

definition compile_inbound ::
  "libs \<Rightarrow> compile_context \<Rightarrow> inbound \<Rightarrow> (json, compile_error) result" where
  "compile_inbound L ctx i =
     (case in_protocol i of
        Vless \<Rightarrow> compile_vless ctx i
      | Shadowsocks \<Rightarrow> compile_shadowsocks L ctx i
      | Trojan \<Rightarrow> compile_trojan ctx i)"

fun compile_inbounds ::
  "libs \<Rightarrow> compile_context \<Rightarrow> json list \<Rightarrow> inbound list \<Rightarrow> (json list, compile_error) result" where
  "compile_inbounds L ctx acc [] = Ok acc"
| "compile_inbounds L ctx acc (i # is) =
     bind_result (compile_inbound L ctx i) (\<lambda>j. compile_inbounds L ctx (acc @ [j]) is)"

definition xray_config :: "json list \<Rightarrow> json" where
  "xray_config inbounds =
     JObject
       [(''log'', JObject [(''loglevel'', JString ''warning'')]),
        (''inbounds'', JArray inbounds),
        (''outbounds'', JArray
           [JObject [(''tag'', JString ''direct''), (''protocol'', JString ''freedom'')],
            JObject [(''tag'', JString ''block''), (''protocol'', JString ''blackhole'')]]),
        (''routing'', JObject [(''rules'', JArray [])]),
        (''stats'', JObject []),
        (''api'', JObject [(''tag'', JString ''api''),
                           (''services'', JArray [JString ''StatsService''])]),
        (''policy'', JObject [(''system'', JObject
           [(''statsInboundUplink'', JBool True), (''statsInboundDownlink'', JBool True)])])]"

definition compile_profile_to_xray ::
  "libs \<Rightarrow> profile_ir \<Rightarrow> compile_context \<Rightarrow> (compiled_xray_config, compile_error) result" where
  "compile_profile_to_xray L ir ctx =
     bind_result (map_err InvalidIr (profile_validate ir)) (\<lambda>_.
     bind_result (compile_inbounds L ctx [] (ir_inbounds ir)) (\<lambda>inbounds.
       Ok \<lparr>cx_config_json = xray_config inbounds, cx_compiler_version = ''0.1.0''\<rparr>))"

section \<open>What the compiler promises\<close>

text \<open>The credentials an inbound serves: active, of a referenced group, in loop order.\<close>

definition served_credentials :: "compile_context \<Rightarrow> inbound \<Rightarrow> credential list" where
  "served_credentials ctx i = concat (map (group_credentials ctx) (in_client_group_refs i))"

fun vless_client_json :: "credential \<Rightarrow> json option" where
  "vless_client_json c =
     (case cr_material c of
        VlessUuid uuid \<Rightarrow>
          Some (JObject [(''id'', JString uuid), (''email'', JString (cr_display_name c)),
                         (''flow'', JString ''xtls-rprx-vision'')])
      | _ \<Rightarrow> None)"

fun trojan_client_json :: "credential \<Rightarrow> json option" where
  "trojan_client_json c =
     (case cr_material c of
        TrojanPassword password \<Rightarrow>
          Some (JObject [(''password'', JString password), (''email'', JString (cr_display_name c))])
      | _ \<Rightarrow> None)"

fun shadowsocks_pair :: "credential \<Rightarrow> (string \<times> string) option" where
  "shadowsocks_pair c =
     (case cr_material c of ShadowsocksPassword m p \<Rightarrow> Some (m, p) | _ \<Rightarrow> None)"

text \<open>What the configuration of one inbound must be, over the served credentials.\<close>

definition inbound_spec ::
  "libs \<Rightarrow> compile_context \<Rightarrow> inbound \<Rightarrow> (json, compile_error) result" where
  "inbound_spec L ctx i =
     (let served = served_credentials ctx i in
      case in_protocol i of
        Vless \<Rightarrow>
          (let obj = inbound_object i ''vless''
                 [(''clients'', JArray (List.map_filter vless_client_json served)),
                  (''decryption'', JString ''none'')] in
           case in_security i of
             NoSecurity \<Rightarrow> Ok (JObject obj)
           | Tls sn \<Rightarrow> Ok (JObject (obj @ [(''streamSettings'', tls_stream_settings sn)]))
           | Reality sn r ids \<Rightarrow>
               if \<not> supports_reality (ctx_core_version ctx)
               then Err (UnsupportedReality (ctx_core_version ctx))
               else (case map_of (ctx_secrets ctx) (sr_id r) of
                       None \<Rightarrow> Err (MissingSecret (sr_id r))
                     | Some k \<Rightarrow> Ok (JObject (obj @
                         [(''streamSettings'', reality_stream_settings sn k ids)]))))
      | Shadowsocks \<Rightarrow>
          (case List.map_filter shadowsocks_pair served of
             [] \<Rightarrow> Err (MissingCredential (in_id i))
           | (m, p) # rest \<Rightarrow>
               if list_ex (\<lambda>x. fst x \<noteq> m) rest then Err (MixedShadowsocksMethods (in_id i))
               else bind_result (validate_shadowsocks_method_password L m p) (\<lambda>_.
                 Ok (JObject (inbound_object i ''shadowsocks''
                   [(''method'', JString m), (''password'', JString p),
                    (''network'', JString ''tcp,udp'')]))))
      | Trojan \<Rightarrow>
          (let clients = List.map_filter trojan_client_json served;
               obj = inbound_object i ''trojan'' [(''clients'', JArray clients)] in
           if clients = [] then Err (MissingCredential (in_id i))
           else case in_security i of
                  NoSecurity \<Rightarrow> Ok (JObject obj)
                | Tls sn \<Rightarrow> Ok (JObject (obj @ [(''streamSettings'', tls_stream_settings sn)]))
                | Reality _ _ _ \<Rightarrow> Err UnsupportedProtocol))"

definition demo_ss_inbound :: inbound where
  "demo_ss_inbound = \<lparr>in_id = ''in_ss'', in_protocol = Shadowsocks, in_listen = ''0.0.0.0'',
     in_port = 8388, in_security = NoSecurity, in_client_group_refs = [''g'']\<rparr>"

definition demo_ss_context :: compile_context where
  "demo_ss_context = ctx_with_credential (compile_context_new ''1.8.8'')
     \<lparr>cr_id = ''c'', cr_client_group_id = ''g'', cr_display_name = ''C'', cr_status = Active,
      cr_material = ShadowsocksPassword ''2022-blake3-aes-128-gcm'' ''0123456789abcdef''\<rparr>"

text \<open>A list of fallible translations, up to the first error.\<close>

fun traverse :: "('a \<Rightarrow> ('b, 'e) result) \<Rightarrow> 'a list \<Rightarrow> ('b list, 'e) result" where
  "traverse f [] = Ok []"
| "traverse f (x # xs) =
     bind_result (f x) (\<lambda>y. bind_result (traverse f xs) (\<lambda>ys. Ok (y # ys)))"

lemmas version_eval = supports_reality_def parse_u64_def digit_val_def less_eq_char_def
  List.map_filter_simps

section \<open>Each loop against the served credentials\<close>

lemma map_filter_append [simp]:
  "List.map_filter f (xs @ ys) = List.map_filter f xs @ List.map_filter f ys"
  by (induction xs) (simp_all add: List.map_filter_simps split: option.splits)

lemma push_vless_clients_eq:
  "push_vless_clients acc cs = acc @ List.map_filter vless_client_json cs"
  by (induction acc cs rule: push_vless_clients.induct)
     (auto simp: List.map_filter_simps split: credential_material.splits)

lemma vless_clients_eq:
  "vless_clients ctx acc gs =
     acc @ List.map_filter vless_client_json (concat (map (group_credentials ctx) gs))"
  by (induction ctx acc gs rule: vless_clients.induct)
     (simp_all add: push_vless_clients_eq List.map_filter_simps del: vless_client_json.simps)

lemma push_trojan_clients_eq:
  "push_trojan_clients acc cs = acc @ List.map_filter trojan_client_json cs"
  by (induction acc cs rule: push_trojan_clients.induct)
     (auto simp: List.map_filter_simps split: credential_material.splits)

lemma trojan_clients_eq:
  "trojan_clients ctx acc gs =
     acc @ List.map_filter trojan_client_json (concat (map (group_credentials ctx) gs))"
  by (induction ctx acc gs rule: trojan_clients.induct)
     (simp_all add: push_trojan_clients_eq List.map_filter_simps del: trojan_client_json.simps)

lemma select_in_group_eq:
  "select_in_group tag sel cs =
     (case (case sel of None \<Rightarrow> [] | Some x \<Rightarrow> [x]) @ List.map_filter shadowsocks_pair cs of
        [] \<Rightarrow> Ok None
      | (m, p) # rest \<Rightarrow>
          if list_ex (\<lambda>x. fst x \<noteq> m) rest then Err (MixedShadowsocksMethods tag)
          else Ok (Some (m, p)))"
proof (induction tag sel cs rule: select_in_group.induct)
  case (2 tag sel c cs)
  then show ?case
    by (cases "cr_material c"; cases sel) auto
qed (simp split: option.splits)

lemma select_in_group_append:
  "select_in_group tag sel (xs @ ys) =
     bind_result (select_in_group tag sel xs) (\<lambda>s. select_in_group tag s ys)"
  by (induction tag sel xs rule: select_in_group.induct)
     (auto split: credential_material.splits option.splits)

lemma select_shadowsocks_eq:
  "select_shadowsocks ctx tag sel gs =
     select_in_group tag sel (concat (map (group_credentials ctx) gs))"
  by (induction ctx tag sel gs rule: select_shadowsocks.induct)
     (simp_all add: select_in_group_append bind_result_def split: result.splits)

lemma stream_settings_new:
  "hm_insert ''streamSettings'' j (inbound_object i protocol kvs)
     = inbound_object i protocol kvs @ [(''streamSettings'', j)]"
  by (simp add: inbound_object_def)

lemma compile_vless_eq: "in_protocol i = Vless \<Longrightarrow> compile_vless ctx i = inbound_spec L ctx i"
  by (auto simp: compile_vless_def inbound_spec_def served_credentials_def vless_clients_eq
      stream_settings_new Let_def split: security.splits option.splits)

lemma compile_shadowsocks_eq:
  "in_protocol i = Shadowsocks \<Longrightarrow> compile_shadowsocks L ctx i = inbound_spec L ctx i"
  by (auto simp: compile_shadowsocks_def inbound_spec_def served_credentials_def
      select_shadowsocks_eq select_in_group_eq Let_def split: list.splits)

lemma compile_trojan_eq: "in_protocol i = Trojan \<Longrightarrow> compile_trojan ctx i = inbound_spec L ctx i"
  by (auto simp: compile_trojan_def inbound_spec_def served_credentials_def trojan_clients_eq
      apply_stream_security_def stream_settings_new Let_def split: security.splits)

lemma compile_inbound_eq: "compile_inbound L ctx i = inbound_spec L ctx i"
  by (simp add: compile_inbound_def compile_vless_eq compile_shadowsocks_eq compile_trojan_eq
      split: inbound_protocol.splits)

lemma compile_inbounds_eq:
  "compile_inbounds L ctx acc is = bind_result (traverse (inbound_spec L ctx) is) (\<lambda>js. Ok (acc @ js))"
proof (induction L ctx acc "is" rule: compile_inbounds.induct)
  case (2 L ctx acc i "is")
  then show ?case
    by (cases "inbound_spec L ctx i"; cases "traverse (inbound_spec L ctx) is")
       (simp_all add: compile_inbound_eq)
qed simp

lemma traverse_Ok: "traverse f xs = Ok ys \<longleftrightarrow> list_all2 (\<lambda>x y. f x = Ok y) xs ys"
  by (induction xs arbitrary: ys) (auto simp: bind_result_eq_Ok list_all2_Cons1)

lemma traverse_cong:
  "(\<And>x. x \<in> set xs \<Longrightarrow> f x = g x) \<Longrightarrow> traverse f xs = traverse g xs"
  by (induction xs) simp_all

text \<open>
  C17. The compiler against its specification: validation first, then each inbound in order from
  the active credentials of its groups, up to the first error.
\<close>

theorem compile_profile_to_xray_spec:
  "compile_profile_to_xray L ir ctx =
     (case List.find carries_inline_secret (ir_inbounds ir) of
        Some i \<Rightarrow> Err (InvalidIr (InlineSecretRef (sr_id (private_key_ref (in_security i)))))
      | None \<Rightarrow>
          bind_result (traverse (inbound_spec L ctx) (ir_inbounds ir)) (\<lambda>js.
            Ok \<lparr>cx_config_json = xray_config js, cx_compiler_version = ''0.1.0''\<rparr>))"
  by (cases "traverse (inbound_spec L ctx) (ir_inbounds ir)")
     (auto simp: compile_profile_to_xray_def profile_validate_def validate_inbounds_find
       compile_inbounds_eq split: option.splits)

lemma compile_profile_Ok:
  "compile_profile_to_xray L ir ctx = Ok out \<longleftrightarrow>
     (\<forall>i \<in> set (ir_inbounds ir). \<not> carries_inline_secret i)
     \<and> (\<exists>js. list_all2 (\<lambda>i j. inbound_spec L ctx i = Ok j) (ir_inbounds ir) js
          \<and> out = \<lparr>cx_config_json = xray_config js, cx_compiler_version = ''0.1.0''\<rparr>)"
  by (auto simp: compile_profile_to_xray_def profile_validate_def validate_inbounds_Ok
      bind_result_eq_Ok compile_inbounds_eq traverse_Ok)

lemma inbound_spec_tag:
  "inbound_spec L ctx i = Ok j \<Longrightarrow>
     json_get ''tag'' j = Some (JString (in_id i))
     \<and> json_get ''port'' j = Some (JNumber (uint (in_port i)))
     \<and> json_get ''listen'' j = Some (JString (in_listen i))"
  by (auto simp: inbound_spec_def Let_def inbound_object_def bind_result_eq_Ok
      split: inbound_protocol.splits security.splits if_splits option.splits list.splits)

text \<open>
  A compiled configuration has one inbound per inbound of the IR, in the same order, each
  listening where the IR says and tagged with the IR's id.
\<close>

theorem compile_profile_inbounds:
  assumes "compile_profile_to_xray L ir ctx = Ok out"
  shows "\<exists>js. json_get ''inbounds'' (cx_config_json out) = Some (JArray js)
           \<and> list_all2 (\<lambda>i j. json_get ''tag'' j = Some (JString (in_id i))
                \<and> json_get ''port'' j = Some (JNumber (uint (in_port i)))
                \<and> json_get ''listen'' j = Some (JString (in_listen i))) (ir_inbounds ir) js"
proof -
  from assms obtain js where
    js: "list_all2 (\<lambda>i j. inbound_spec L ctx i = Ok j) (ir_inbounds ir) js"
    and out: "cx_config_json out = xray_config js"
    by (auto simp: compile_profile_Ok)
  from js have "list_all2 (\<lambda>i j. json_get ''tag'' j = Some (JString (in_id i))
                \<and> json_get ''port'' j = Some (JNumber (uint (in_port i)))
                \<and> json_get ''listen'' j = Some (JString (in_listen i))) (ir_inbounds ir) js"
    by (rule list_all2_mono) (rule inbound_spec_tag)
  then show ?thesis by (auto simp: out xray_config_def)
qed

theorem compile_profile_inbounds_witness:
  "\<exists>js. json_get ''inbounds''
            (cx_config_json (ok_of (compile_profile_to_xray demo_libs (vless_reality_example ''g'' ''s'')
               (with_secret (compile_context_new ''1.8.0'') ''s'' ''k'')))) = Some (JArray js)
        \<and> length js = 1"
proof -
  let ?ctx = "with_secret (compile_context_new ''1.8.0'') ''s'' ''k''"
  have "is_ok (compile_profile_to_xray demo_libs (vless_reality_example ''g'' ''s'') ?ctx)"
    by (simp add: compile_profile_to_xray_def vless_reality_example_def profile_validate_def
        validate_reference_only_def secret_ref_new_def with_secret_def compile_context_new_def
        compile_inbound_def compile_vless_def version_eval to_ascii_lowercase_def starts_with_def)
  then have "compile_profile_to_xray demo_libs (vless_reality_example ''g'' ''s'') ?ctx
      = Ok (ok_of (compile_profile_to_xray demo_libs (vless_reality_example ''g'' ''s'') ?ctx))"
    by (auto simp: is_ok_iff)
  from compile_profile_inbounds [OF this] show ?thesis
    by (auto simp: vless_reality_example_def list_all2_Cons1)
qed

section \<open>Inactive credentials have no influence\<close>

lemma group_credentials_active:
  "group_credentials (ctx\<lparr>ctx_credentials := filter is_active (ctx_credentials ctx)\<rparr>)
     = group_credentials ctx"
  by (rule ext) (auto simp: group_credentials_def is_active_def intro: filter_cong)

lemma inbound_spec_active:
  "inbound_spec L (ctx\<lparr>ctx_credentials := filter is_active (ctx_credentials ctx)\<rparr>)
     = inbound_spec L ctx"
  by (rule ext)
     (simp add: inbound_spec_def served_credentials_def group_credentials_active Let_def
       split: inbound_protocol.split security.split)

text \<open>
  Revoked and expired credentials do not influence a compiled configuration: compiling from
  the active credentials alone gives the same result, error or configuration.
\<close>

theorem compile_ignores_inactive:
  "compile_profile_to_xray L ir (ctx\<lparr>ctx_credentials := filter is_active (ctx_credentials ctx)\<rparr>)
     = compile_profile_to_xray L ir ctx"
  by (simp add: compile_profile_to_xray_def compile_inbounds_eq inbound_spec_active)

section \<open>Core version gate\<close>

lemma supports_reality_two:
  "supports_reality v \<longleftrightarrow>
     (case List.map_filter parse_u64 (split_on CHR ''.'' v) of
        [] \<Rightarrow> False
      | [a] \<Rightarrow> a > 1
      | a # b # _ \<Rightarrow> a > 1 \<or> (a = 1 \<and> b \<ge> 8))"
  by (auto simp: supports_reality_def Let_def split: list.splits)

text \<open>
  On a dotted version number the REALITY gate is the comparison with 1.8 of its first two
  components, whatever follows them.
\<close>

theorem supports_reality_dotted:
  assumes "a < 2 ^ 64" and "b < 2 ^ 64"
  shows "supports_reality (show_nat a @ ''.'' @ show_nat b @ ''.'' @ rest) \<longleftrightarrow> (1, 8) \<le> (a, b)"
  using assms
  by (auto simp: supports_reality_two split_on_append show_nat_no_sep parse_u64_show_nat
      List.map_filter_simps)

theorem supports_reality_dotted_witness:
  "supports_reality ''1.8.24'' \<and> \<not> supports_reality ''1.7.9''"
  using supports_reality_dotted [of 1 8 "''24''"] supports_reality_dotted [of 1 7 "''9''"]
  by (simp add: show_nat.simps)

text \<open>
  A first component that is not a number is skipped, not read as zero: the following
  components move up one place, so \<open>v0.9.1\<close>, below the documented minimum 1.8.0, passes the gate.
\<close>

theorem supports_reality_skips_prefix:
  assumes "parse_u64 w = None" and "CHR ''.'' \<notin> set w"
  shows "supports_reality (w @ ''.'' @ v) = supports_reality v"
  using assms by (simp add: supports_reality_two split_on_append List.map_filter_simps)

theorem supports_reality_skips_prefix_witness:
  "supports_reality ''v0.9.1'' \<and> \<not> supports_reality ''0.9.1''"
proof -
  have "supports_reality ''9.1''" and "\<not> supports_reality ''0.9.1''"
    by (simp_all add: version_eval)
  moreover have "supports_reality (''v0'' @ ''.'' @ ''9.1'') = supports_reality ''9.1''"
    by (rule supports_reality_skips_prefix) (simp_all add: version_eval)
  ultimately show ?thesis by simp
qed

section \<open>Shadowsocks keys\<close>

text \<open>
  A compiled Shadowsocks inbound never carries a 2022 method with a key of the wrong size:
  the password decodes to 16 or 32 bytes, as the method requires.
\<close>

theorem compile_shadowsocks_key_size:
  assumes "compile_shadowsocks L ctx i = Ok j"
  shows "\<exists>m p. j = JObject (inbound_object i ''shadowsocks''
             [(''method'', JString m), (''password'', JString p), (''network'', JString ''tcp,udp'')])
           \<and> (\<exists>c \<in> set (served_credentials ctx i). cr_material c = ShadowsocksPassword m p)
           \<and> (m = ''2022-blake3-aes-128-gcm'' \<longrightarrow> map_option length (b64_decode L p) = Some 16)
           \<and> (m = ''2022-blake3-aes-256-gcm'' \<longrightarrow> map_option length (b64_decode L p) = Some 32)"
proof -
  from assms obtain m p where
    sel: "select_shadowsocks ctx (in_id i) None (in_client_group_refs i) = Ok (Some (m, p))"
    and ok: "validate_shadowsocks_method_password L m p = Ok ()"
    and j: "j = JObject (inbound_object i ''shadowsocks''
      [(''method'', JString m), (''password'', JString p), (''network'', JString ''tcp,udp'')])"
    by (auto simp: compile_shadowsocks_def bind_result_eq_Ok)
  from sel obtain rest where
    "List.map_filter shadowsocks_pair (served_credentials ctx i) = (m, p) # rest"
    by (auto simp: select_shadowsocks_eq select_in_group_eq served_credentials_def
        split: list.splits if_splits)
  then have "(m, p) \<in> set (List.map_filter shadowsocks_pair (served_credentials ctx i))" by simp
  then have "\<exists>c \<in> set (served_credentials ctx i). cr_material c = ShadowsocksPassword m p"
    by (auto simp: List.map_filter_def split: credential_material.splits)
  moreover have "(m = ''2022-blake3-aes-128-gcm'' \<longrightarrow> map_option length (b64_decode L p) = Some 16)
           \<and> (m = ''2022-blake3-aes-256-gcm'' \<longrightarrow> map_option length (b64_decode L p) = Some 32)"
    using ok by (auto simp: validate_shadowsocks_method_password_def Let_def
        split: if_splits option.splits)
  ultimately show ?thesis using j by blast
qed

theorem compile_shadowsocks_key_size_witness:
  "\<exists>m p. compile_shadowsocks demo_libs demo_ss_context demo_ss_inbound
        = Ok (JObject (inbound_object demo_ss_inbound ''shadowsocks''
             [(''method'', JString m), (''password'', JString p), (''network'', JString ''tcp,udp'')]))
      \<and> (m = ''2022-blake3-aes-128-gcm'' \<longrightarrow> map_option length (b64_decode demo_libs p) = Some 16)"
proof -
  have "is_ok (compile_shadowsocks demo_libs demo_ss_context demo_ss_inbound)"
    by (simp add: compile_shadowsocks_def demo_ss_inbound_def demo_ss_context_def
        ctx_with_credential_def compile_context_new_def group_credentials_def
        validate_shadowsocks_method_password_def demo_libs_def as_bytes_def)
  then obtain j where j: "compile_shadowsocks demo_libs demo_ss_context demo_ss_inbound = Ok j"
    by (auto simp: is_ok_iff)
  then show ?thesis using compile_shadowsocks_key_size [OF j] by auto
qed

end
