(* ===== verification/Store_Interface.thy ===== *)
theory Store_Interface
  imports Memory_Views
begin

text \<open>
  The trait \<open>ProxyStore\<close> (src/crates/storage/src/lib.rs, lines 34-167) as a record of
  operations, one field per method, and \<open>memory_store\<close>, its implementation by \<open>MemoryStore\<close>
  (lines 1481-1717). What the callers of the trait rely on is stated as locales on these
  operations: the per-node command queue, the cache of idempotent responses and the
  content-addressed artifacts; each is interpreted at \<open>memory_store\<close>.
\<close>

section \<open>The trait\<close>

record 's proxy_store =
  ps_register_node :: "env \<Rightarrow> node_record \<Rightarrow> ('s, unit, store_error) op"
  ps_register_node_with_registration_token ::
    "env \<Rightarrow> node_record \<Rightarrow> string \<Rightarrow> ('s, node_registration_token_record, store_error) op"
  ps_list_nodes :: "env \<Rightarrow> ('s, node_record list, store_error) op"
  ps_create_node_registration_token ::
    "env \<Rightarrow> node_registration_token_record \<Rightarrow> ('s, unit, store_error) op"
  ps_list_node_registration_tokens ::
    "env \<Rightarrow> ('s, node_registration_token_record list, store_error) op"
  ps_node_registration_token ::
    "env \<Rightarrow> string \<Rightarrow> ('s, node_registration_token_record, store_error) op"
  ps_consume_node_registration_token ::
    "env \<Rightarrow> string \<Rightarrow> string \<Rightarrow> ('s, node_registration_token_record, store_error) op"
  ps_record_heartbeat ::
    "env \<Rightarrow> heartbeat_record \<Rightarrow> ('s, unit, store_error) op"
  ps_latest_heartbeat ::
    "env \<Rightarrow> string \<Rightarrow> ('s, heartbeat_record, store_error) op"
  ps_create_profile ::
    "env \<Rightarrow> profile_record \<Rightarrow> ('s, unit, store_error) op"
  ps_list_profiles :: "env \<Rightarrow> ('s, profile_record list, store_error) op"
  ps_add_credential ::
    "env \<Rightarrow> string \<Rightarrow> credential \<Rightarrow> ('s, unit, store_error) op"
  ps_list_credentials :: "env \<Rightarrow> ('s, credential_record list, store_error) op"
  ps_record_artifact :: "env \<Rightarrow> artifact \<Rightarrow> ('s, unit, store_error) op"
  ps_record_artifact_blob ::
    "env \<Rightarrow> artifact \<Rightarrow> bytes \<Rightarrow> ('s, unit, store_error) op"
  ps_artifact_bytes :: "env \<Rightarrow> string \<Rightarrow> ('s, bytes, store_error) op"
  ps_artifact_bytes_by_sha256 :: "env \<Rightarrow> string \<Rightarrow> ('s, bytes, store_error) op"
  ps_record_deployment_plan ::
    "env \<Rightarrow> deployment_plan_record \<Rightarrow> ('s, unit, store_error) op"
  ps_list_deployment_plans :: "env \<Rightarrow> ('s, deployment_plan_record list, store_error) op"
  ps_idempotency_response ::
    "env \<Rightarrow> string \<Rightarrow> string \<Rightarrow> ('s, json option, store_error) op"
  ps_record_idempotency_response ::
    "env \<Rightarrow> string \<Rightarrow> string \<Rightarrow> json \<Rightarrow> ('s, unit, store_error) op"
  ps_record_deployment_result ::
    "env \<Rightarrow> deployment_result \<Rightarrow> ('s, unit, store_error) op"
  ps_deployment_status ::
    "env \<Rightarrow> string \<Rightarrow> ('s, deployment_status, store_error) op"
  ps_rollback_pointer ::
    "env \<Rightarrow> string \<Rightarrow> ('s, rollback_pointer_record, store_error) op"
  ps_deployment_snapshot ::
    "env \<Rightarrow> string \<Rightarrow> ('s, deployment_snapshot_record, store_error) op"
  ps_latest_deployment_health ::
    "env \<Rightarrow> string \<Rightarrow> ('s, deployment_health_check_record, store_error) op"
  ps_record_deployment_health_check ::
    "env \<Rightarrow> deployment_health_check_record \<Rightarrow> ('s, unit, store_error) op"
  ps_deployment_health_checks ::
    "env \<Rightarrow> string \<Rightarrow> ('s, deployment_health_check_record list, store_error) op"
  ps_record_usage_sample ::
    "env \<Rightarrow> usage_sample_record \<Rightarrow> ('s, unit, store_error) op"
  ps_latest_usage_sample ::
    "env \<Rightarrow> string \<Rightarrow> ('s, usage_sample_record, store_error) op"
  ps_latest_usage_rollup_for_credential ::
    "env \<Rightarrow> string \<Rightarrow> string \<Rightarrow> ('s, usage_rollup_record, store_error) op"
  ps_set_credential_quota ::
    "env \<Rightarrow> string \<Rightarrow> i64 \<Rightarrow> ('s, unit, store_error) op"
  ps_credential_quota_decision ::
    "env \<Rightarrow> string \<Rightarrow> ('s, credential_quota_decision, store_error) op"
  ps_set_credential_expiry ::
    "env \<Rightarrow> string \<Rightarrow> datetime \<Rightarrow> ('s, unit, store_error) op"
  ps_credential_expiry_decision ::
    "env \<Rightarrow> string \<Rightarrow> ('s, credential_expiry_decision, store_error) op"
  ps_enqueue_runner_command ::
    "env \<Rightarrow> string \<Rightarrow> signed_runner_command \<Rightarrow> ('s, unit, store_error) op"
  ps_next_runner_command ::
    "env \<Rightarrow> string \<Rightarrow> u64 \<Rightarrow> ('s, signed_runner_command option, store_error) op"
  ps_node ::
    "env \<Rightarrow> string \<Rightarrow> ('s, node_record, store_error) op"
  ps_update_node_runner_result_public_key ::
    "env \<Rightarrow> string \<Rightarrow> string \<Rightarrow> ('s, node_record, store_error) op"
  ps_profile ::
    "env \<Rightarrow> string \<Rightarrow> ('s, profile_record, store_error) op"
  ps_credentials_for_profile ::
    "env \<Rightarrow> string \<Rightarrow> ('s, credential list, store_error) op"
  ps_audit_count :: "env \<Rightarrow> ('s, nat, store_error) op"
  ps_outbox_count :: "env \<Rightarrow> ('s, nat, store_error) op"
  ps_deployed_profile_for_subscription ::
    "env \<Rightarrow> string \<Rightarrow> ('s, deployed_profile, store_error) op"
  ps_issue_subscription_token ::
    "env \<Rightarrow> string \<Rightarrow> ('s, issued_subscription_token, store_error) op"
  ps_rotate_subscription_token ::
    "env \<Rightarrow> string \<Rightarrow> ('s, issued_subscription_token, store_error) op"
  ps_verify_subscription_token ::
    "env \<Rightarrow> string \<Rightarrow> string \<Rightarrow> ('s, subscription_token_record, store_error) op"
  ps_subscription_token_required :: "env \<Rightarrow> string \<Rightarrow> ('s, bool, store_error) op"
  ps_record_subscription_access ::
    "env \<Rightarrow> string \<Rightarrow> (string option) \<Rightarrow> (string option) \<Rightarrow> string \<Rightarrow> ('s, unit, store_error) op"
  ps_subscription_access_log_count :: "env \<Rightarrow> string \<Rightarrow> ('s, nat, store_error) op"
  ps_kind :: string

definition memory_store :: "libs \<Rightarrow> string \<Rightarrow> memory_state proxy_store" where
  "memory_store L T =
     \<lparr>ps_register_node = (\<lambda>e a. mem_register_node T e a),
      ps_register_node_with_registration_token =
        (\<lambda>e a b. mem_register_node_with_registration_token T e a b),
      ps_list_nodes = (\<lambda>e. mem_list_nodes e),
      ps_create_node_registration_token = (\<lambda>e a. mem_create_node_registration_token e a),
      ps_list_node_registration_tokens = (\<lambda>e. mem_list_node_registration_tokens e),
      ps_node_registration_token = (\<lambda>e a. mem_node_registration_token e a),
      ps_consume_node_registration_token = (\<lambda>e a b. mem_consume_node_registration_token e a b),
      ps_record_heartbeat = (\<lambda>e a. mem_record_heartbeat T e a),
      ps_latest_heartbeat = (\<lambda>e a. mem_latest_heartbeat a),
      ps_create_profile = (\<lambda>e a. mem_create_profile T e a),
      ps_list_profiles = (\<lambda>e. mem_list_profiles e),
      ps_add_credential = (\<lambda>e a b. mem_add_credential T e a b),
      ps_list_credentials = (\<lambda>e. mem_list_credentials e),
      ps_record_artifact = (\<lambda>e a. mem_record_artifact T e a),
      ps_record_artifact_blob = (\<lambda>e a b. mem_record_artifact_blob L T e a b),
      ps_artifact_bytes = (\<lambda>e a. mem_artifact_bytes a),
      ps_artifact_bytes_by_sha256 = (\<lambda>e a. mem_artifact_bytes_by_sha256 a),
      ps_record_deployment_plan = (\<lambda>e a. mem_record_deployment_plan T e a),
      ps_list_deployment_plans = (\<lambda>e. mem_list_deployment_plans e),
      ps_idempotency_response = (\<lambda>e a b. mem_idempotency_response a b),
      ps_record_idempotency_response = (\<lambda>e a b c. mem_record_idempotency_response a b c),
      ps_record_deployment_result = (\<lambda>e a. mem_record_deployment_result L T e a),
      ps_deployment_status = (\<lambda>e a. mem_deployment_status a),
      ps_rollback_pointer = (\<lambda>e a. mem_rollback_pointer a),
      ps_deployment_snapshot = (\<lambda>e a. mem_deployment_snapshot a),
      ps_latest_deployment_health = (\<lambda>e a. mem_latest_deployment_health a),
      ps_record_deployment_health_check = (\<lambda>e a. mem_record_deployment_health_check T e a),
      ps_deployment_health_checks = (\<lambda>e a. mem_deployment_health_checks a),
      ps_record_usage_sample = (\<lambda>e a. mem_record_usage_sample L a),
      ps_latest_usage_sample = (\<lambda>e a. mem_latest_usage_sample a),
      ps_latest_usage_rollup_for_credential =
        (\<lambda>e a b. mem_latest_usage_rollup_for_credential e a b),
      ps_set_credential_quota = (\<lambda>e a b. mem_set_credential_quota a b),
      ps_credential_quota_decision = (\<lambda>e a. mem_credential_quota_decision e a),
      ps_set_credential_expiry = (\<lambda>e a b. mem_set_credential_expiry a b),
      ps_credential_expiry_decision = (\<lambda>e a. mem_credential_expiry_decision e a),
      ps_enqueue_runner_command = (\<lambda>e a b. mem_enqueue_runner_command a b),
      ps_next_runner_command = (\<lambda>e a b. mem_next_runner_command a b),
      ps_node = (\<lambda>e a. mem_node a),
      ps_update_node_runner_result_public_key =
        (\<lambda>e a b. mem_update_node_runner_result_public_key T e a b),
      ps_profile = (\<lambda>e a. mem_profile a),
      ps_credentials_for_profile = (\<lambda>e a. mem_credentials_for_profile a),
      ps_audit_count = (\<lambda>e. mem_audit_count),
      ps_outbox_count = (\<lambda>e. mem_outbox_count),
      ps_deployed_profile_for_subscription = (\<lambda>e a. mem_deployed_profile_for_subscription e a),
      ps_issue_subscription_token = (\<lambda>e a. mem_issue_subscription_token L T e a),
      ps_rotate_subscription_token = (\<lambda>e a. mem_rotate_subscription_token L T e a),
      ps_verify_subscription_token = (\<lambda>e a b. mem_verify_subscription_token L e a b),
      ps_subscription_token_required = (\<lambda>e a. mem_subscription_token_required e a),
      ps_record_subscription_access = (\<lambda>e a b c d. mem_record_subscription_access e a b c d),
      ps_subscription_access_log_count = (\<lambda>e a. mem_subscription_access_log_count a),
      ps_kind = ''memory''\<rparr>"

section \<open>Histories of queue calls\<close>

text \<open>
  \<open>deliveries\<close> runs a history of enqueue and poll calls of all nodes and collects what the
  polls of one node were handed.
\<close>

datatype queue_call =
    Enqueue env string signed_runner_command
  | Poll env string u64

type_synonym 's enqueue_op = "env \<Rightarrow> string \<Rightarrow> signed_runner_command \<Rightarrow> ('s, unit, store_error) op"
type_synonym 's next_op =
  "env \<Rightarrow> string \<Rightarrow> u64 \<Rightarrow> ('s, signed_runner_command option, store_error) op"

fun deliveries ::
  "'s enqueue_op \<Rightarrow> 's next_op \<Rightarrow> string \<Rightarrow> queue_call list \<Rightarrow> 's
    \<Rightarrow> signed_runner_command list \<times> 's" where
  "deliveries enq nxt n [] s = ([], s)"
| "deliveries enq nxt n (Enqueue e i c # calls) s =
     deliveries enq nxt n calls (snd (enq e i c s))"
| "deliveries enq nxt n (Poll e i q # calls) s =
     (case nxt e i q s of
        (r, s') \<Rightarrow> (case deliveries enq nxt n calls s' of
          (ds, s'') \<Rightarrow> ((case r of Ok (Some c) \<Rightarrow> if i = n then c # ds else ds | _ \<Rightarrow> ds), s'')))"

fun enqueued :: "string \<Rightarrow> queue_call list \<Rightarrow> signed_runner_command list" where
  "enqueued n [] = []"
| "enqueued n (Enqueue e i c # calls) = (if i = n then c # enqueued n calls else enqueued n calls)"
| "enqueued n (Poll e i q # calls) = enqueued n calls"

definition memory_queue :: "memory_state \<Rightarrow> string \<Rightarrow> signed_runner_command list" where
  "memory_queue s i = unwrap_or [] (map_of (runner_commands s) i)"

lemma memory_store_simps [simp]:
  "ps_register_node (memory_store L T) = (\<lambda>e a. mem_register_node T e a)"
  "ps_register_node_with_registration_token (memory_store L T)
     = (\<lambda>e a b. mem_register_node_with_registration_token T e a b)"
  "ps_list_nodes (memory_store L T) = (\<lambda>e. mem_list_nodes e)"
  "ps_create_node_registration_token (memory_store L T)
     = (\<lambda>e a. mem_create_node_registration_token e a)"
  "ps_list_node_registration_tokens (memory_store L T)
     = (\<lambda>e. mem_list_node_registration_tokens e)"
  "ps_node_registration_token (memory_store L T) = (\<lambda>e a. mem_node_registration_token e a)"
  "ps_consume_node_registration_token (memory_store L T)
     = (\<lambda>e a b. mem_consume_node_registration_token e a b)"
  "ps_record_heartbeat (memory_store L T) = (\<lambda>e a. mem_record_heartbeat T e a)"
  "ps_latest_heartbeat (memory_store L T) = (\<lambda>e a. mem_latest_heartbeat a)"
  "ps_create_profile (memory_store L T) = (\<lambda>e a. mem_create_profile T e a)"
  "ps_list_profiles (memory_store L T) = (\<lambda>e. mem_list_profiles e)"
  "ps_add_credential (memory_store L T) = (\<lambda>e a b. mem_add_credential T e a b)"
  "ps_list_credentials (memory_store L T) = (\<lambda>e. mem_list_credentials e)"
  "ps_record_artifact (memory_store L T) = (\<lambda>e a. mem_record_artifact T e a)"
  "ps_record_artifact_blob (memory_store L T) = (\<lambda>e a b. mem_record_artifact_blob L T e a b)"
  "ps_artifact_bytes (memory_store L T) = (\<lambda>e a. mem_artifact_bytes a)"
  "ps_artifact_bytes_by_sha256 (memory_store L T) = (\<lambda>e a. mem_artifact_bytes_by_sha256 a)"
  "ps_record_deployment_plan (memory_store L T) = (\<lambda>e a. mem_record_deployment_plan T e a)"
  "ps_list_deployment_plans (memory_store L T) = (\<lambda>e. mem_list_deployment_plans e)"
  "ps_idempotency_response (memory_store L T) = (\<lambda>e a b. mem_idempotency_response a b)"
  "ps_record_idempotency_response (memory_store L T)
     = (\<lambda>e a b c. mem_record_idempotency_response a b c)"
  "ps_record_deployment_result (memory_store L T) = (\<lambda>e a. mem_record_deployment_result L T e a)"
  "ps_deployment_status (memory_store L T) = (\<lambda>e a. mem_deployment_status a)"
  "ps_rollback_pointer (memory_store L T) = (\<lambda>e a. mem_rollback_pointer a)"
  "ps_deployment_snapshot (memory_store L T) = (\<lambda>e a. mem_deployment_snapshot a)"
  "ps_latest_deployment_health (memory_store L T) = (\<lambda>e a. mem_latest_deployment_health a)"
  "ps_record_deployment_health_check (memory_store L T)
     = (\<lambda>e a. mem_record_deployment_health_check T e a)"
  "ps_deployment_health_checks (memory_store L T) = (\<lambda>e a. mem_deployment_health_checks a)"
  "ps_record_usage_sample (memory_store L T) = (\<lambda>e a. mem_record_usage_sample L a)"
  "ps_latest_usage_sample (memory_store L T) = (\<lambda>e a. mem_latest_usage_sample a)"
  "ps_latest_usage_rollup_for_credential (memory_store L T)
     = (\<lambda>e a b. mem_latest_usage_rollup_for_credential e a b)"
  "ps_set_credential_quota (memory_store L T) = (\<lambda>e a b. mem_set_credential_quota a b)"
  "ps_credential_quota_decision (memory_store L T) = (\<lambda>e a. mem_credential_quota_decision e a)"
  "ps_set_credential_expiry (memory_store L T) = (\<lambda>e a b. mem_set_credential_expiry a b)"
  "ps_credential_expiry_decision (memory_store L T) = (\<lambda>e a. mem_credential_expiry_decision e a)"
  "ps_enqueue_runner_command (memory_store L T) = (\<lambda>e a b. mem_enqueue_runner_command a b)"
  "ps_next_runner_command (memory_store L T) = (\<lambda>e a b. mem_next_runner_command a b)"
  "ps_node (memory_store L T) = (\<lambda>e a. mem_node a)"
  "ps_update_node_runner_result_public_key (memory_store L T)
     = (\<lambda>e a b. mem_update_node_runner_result_public_key T e a b)"
  "ps_profile (memory_store L T) = (\<lambda>e a. mem_profile a)"
  "ps_credentials_for_profile (memory_store L T) = (\<lambda>e a. mem_credentials_for_profile a)"
  "ps_audit_count (memory_store L T) = (\<lambda>e. mem_audit_count)"
  "ps_outbox_count (memory_store L T) = (\<lambda>e. mem_outbox_count)"
  "ps_deployed_profile_for_subscription (memory_store L T)
     = (\<lambda>e a. mem_deployed_profile_for_subscription e a)"
  "ps_issue_subscription_token (memory_store L T) = (\<lambda>e a. mem_issue_subscription_token L T e a)"
  "ps_rotate_subscription_token (memory_store L T)
     = (\<lambda>e a. mem_rotate_subscription_token L T e a)"
  "ps_verify_subscription_token (memory_store L T)
     = (\<lambda>e a b. mem_verify_subscription_token L e a b)"
  "ps_subscription_token_required (memory_store L T)
     = (\<lambda>e a. mem_subscription_token_required e a)"
  "ps_record_subscription_access (memory_store L T)
     = (\<lambda>e a b c d. mem_record_subscription_access e a b c d)"
  "ps_subscription_access_log_count (memory_store L T)
     = (\<lambda>e a. mem_subscription_access_log_count a)"
  "ps_kind (memory_store L T) = ''memory''"
  by (simp_all add: memory_store_def)

section \<open>The command queue contract\<close>

lemma drop_stale_suffix: "\<exists>p. queue = p @ drop_stale q queue"
proof (induction queue)
  case (Cons c queue)
  then obtain p where "queue = p @ drop_stale q queue" by blast
  then have "c # queue = (c # p) @ drop_stale q queue" by simp
  then show ?case by (metis append_Nil drop_stale.simps(2))
qed simp

lemma drop_stale_hd: "drop_stale q queue = c # rest \<Longrightarrow> q < cmd_sequence (src_command c)"
  by (induction queue) (auto split: if_splits)

lemma drop_stale_fresh:
  "(\<And>c. c \<in> set queue \<Longrightarrow> q < cmd_sequence (src_command c)) \<Longrightarrow> drop_stale q queue = queue"
  by (cases queue) (auto simp: not_le [symmetric])

locale command_queue =
  fixes enq :: "'s enqueue_op" and nxt :: "'s next_op"
    and queue :: "'s \<Rightarrow> string \<Rightarrow> signed_runner_command list"
  assumes enq_appends: "\<exists>s'. enq e i c s = (Ok (), s') \<and> queue s' = (queue s)(i := queue s i @ [c])"
    and nxt_pops: "\<exists>s'. nxt e i q s = (Ok (fst (pop_front (drop_stale q (queue s i)))), s') \<and>
      queue s' = (queue s)(i := snd (pop_front (drop_stale q (queue s i))))"
begin

lemma enq_state: "queue (snd (enq e i c s)) = (queue s)(i := queue s i @ [c])"
  using enq_appends [of e i c s] by auto

lemma deliveries_subseq:
  "subseq (fst (deliveries enq nxt n calls s)) (queue s n @ enqueued n calls)"
proof (induction calls arbitrary: s)
  case (Cons call calls)
  show ?case
  proof (cases call)
    case (Enqueue e i c)
    with Cons.IH [of "snd (enq e i c s)"] show ?thesis by (auto simp: enq_state)
  next
    case (Poll e i q)
    let ?p = "pop_front (drop_stale q (queue s i))"
    obtain s' where s': "nxt e i q s = (Ok (fst ?p), s')" "queue s' = (queue s)(i := snd ?p)"
      using nxt_pops by blast
    obtain ds s'' where ds: "deliveries enq nxt n calls s' = (ds, s'')"
      by (cases "deliveries enq nxt n calls s'")
    have rest: "subseq ds (queue s' n @ enqueued n calls)" using Cons.IH [of s'] ds by simp
    show ?thesis
    proof (cases "i = n")
      case True
      obtain p where p: "queue s n = p @ drop_stale q (queue s n)" using drop_stale_suffix by blast
      have "subseq (fst (deliveries enq nxt n (call # calls) s))
          (drop_stale q (queue s n) @ enqueued n calls)"
        using True Poll s' ds rest by (cases "drop_stale q (queue s n)") auto
      with p Poll show ?thesis by (metis append.assoc enqueued.simps(3) subseq_drop_many)
    qed (use Poll s' ds rest in \<open>auto split: option.splits\<close>)
  qed
qed simp

lemma delivered_is_newer:
  "nxt e i q s = (Ok (Some c), s') \<Longrightarrow> q < cmd_sequence (src_command c)"
  using nxt_pops [of e i q s] drop_stale_hd
  by (cases "drop_stale q (queue s i)") auto

lemma drain:
  assumes "\<And>c. c \<in> set (queue s n) \<Longrightarrow> q < cmd_sequence (src_command c)"
  shows "fst (deliveries enq nxt n (replicate k (Poll e n q)) s) = take k (queue s n)"
  using assms
proof (induction k arbitrary: s)
  case (Suc k)
  obtain s' where s': "nxt e n q s = (Ok (fst (pop_front (queue s n))), s')"
      "queue s' = (queue s)(n := snd (pop_front (queue s n)))"
    using nxt_pops [of e n q s] drop_stale_fresh [of "queue s n" q] Suc.prems by auto
  have "set (queue s' n) \<subseteq> set (queue s n)" using s'(2) by (cases "queue s n") auto
  then have "fst (deliveries enq nxt n (replicate k (Poll e n q)) s') = take k (queue s' n)"
    using Suc.IH [of s'] Suc.prems by blast
  with s' show ?case
    by (cases "queue s n"; cases "deliveries enq nxt n (replicate k (Poll e n q)) s'") auto
qed simp

end

section \<open>The response cache and the artifact store\<close>

locale response_cache =
  fixes get :: "env \<Rightarrow> string \<Rightarrow> string \<Rightarrow> ('s, json option, store_error) op"
    and put :: "env \<Rightarrow> string \<Rightarrow> string \<Rightarrow> json \<Rightarrow> ('s, unit, store_error) op"
    and cache :: "'s \<Rightarrow> string \<Rightarrow> string \<Rightarrow> json option"
  assumes get_reads: "get e t k s = (Ok (cache s t k), s)"
    and put_if_absent: "\<exists>s'. put e t k v s = (Ok (), s') \<and>
      cache s' t k = Some (case cache s t k of None \<Rightarrow> v | Some w \<Rightarrow> w)"
begin

lemma put_get: "put e t k v s = (Ok (), s') \<Longrightarrow> cache s t k = None \<Longrightarrow>
  get e' t k s' = (Ok (Some v), s')"
  using put_if_absent [of e t k v s] by (auto simp: get_reads)

lemma put_keeps: "put e t k v s = (Ok (), s') \<Longrightarrow> get e' t k s = (Ok (Some w), s) \<Longrightarrow>
  get e' t k s' = (Ok (Some w), s')"
  using put_if_absent [of e t k v s] by (auto simp: get_reads)

end

locale artifact_store =
  fixes put :: "env \<Rightarrow> artifact \<Rightarrow> bytes \<Rightarrow> ('s, unit, store_error) op"
    and get :: "env \<Rightarrow> string \<Rightarrow> ('s, bytes, store_error) op"
    and digest :: "bytes \<Rightarrow> string"
  assumes put_ok: "digest b = art_sha256 a \<Longrightarrow> \<exists>s'. put e a b s = (Ok (), s')"
    and put_bad: "digest b \<noteq> art_sha256 a \<Longrightarrow>
      put e a b s = (Err (ArtifactShaMismatch (art_sha256 a) (digest b)), s)"
    and put_get: "put e a b s = (Ok (), s') \<Longrightarrow> get e' (art_id a) s' = (Ok b, s')"
begin

lemma stored_iff_digest: "is_ok (fst (put e a b s)) \<longleftrightarrow> digest b = art_sha256 a"
  using put_ok [of b a e s] put_bad [of b a e s] by (cases "digest b = art_sha256 a") auto

end

section \<open>The in-memory store fulfils the contracts\<close>

interpretation mq: command_queue "ps_enqueue_runner_command (memory_store L T)"
  "ps_next_runner_command (memory_store L T)" memory_queue
proof unfold_locales
  show "\<exists>s'. ps_enqueue_runner_command (memory_store L T) e i c s = (Ok (), s') \<and>
      memory_queue s' = (memory_queue s)(i := memory_queue s i @ [c])" for e i c s
    by (auto simp: mem_enqueue_runner_command_def memory_queue_def)
  show "\<exists>s'. ps_next_runner_command (memory_store L T) e i q s
        = (Ok (fst (pop_front (drop_stale q (memory_queue s i)))), s') \<and>
      memory_queue s' = (memory_queue s)(i := snd (pop_front (drop_stale q (memory_queue s i))))"
      for e i q s
    by (auto simp: mem_next_runner_command_def memory_queue_def split: option.splits prod.splits)
qed

interpretation mc: response_cache "ps_idempotency_response (memory_store L T)"
  "ps_record_idempotency_response (memory_store L T)" "\<lambda>s t k. map_of (idempotency_responses s) k"
  by unfold_locales
     (auto simp: mem_idempotency_response_def mem_record_idempotency_response_def
       split: option.splits)

interpretation ma: artifact_store "ps_record_artifact_blob (memory_store L T)"
  "ps_artifact_bytes (memory_store L T)" "sha256_hex L"
  by unfold_locales
     (auto simp: mem_record_artifact_blob_def mem_artifact_bytes_def Let_def split: if_splits)

section \<open>Delivery of commands\<close>

text \<open>
  However enqueue and poll calls of all nodes interleave, the commands handed to a node are a
  subsequence of the commands enqueued for it, in that order: none is invented, none crosses to
  another node, none is handed out twice, and increasing sequence numbers stay increasing.
\<close>

theorem commands_delivered_at_most_once:
  "subseq (fst (deliveries (ps_enqueue_runner_command (memory_store L T))
       (ps_next_runner_command (memory_store L T)) n calls s))
     (memory_queue s n @ enqueued n calls)"
  by (rule mq.deliveries_subseq)

text \<open>
  Commands whose sequence number is above the runner's are all delivered, in order, one per
  poll: after as many polls as there are commands none is left out.
\<close>

theorem commands_delivered_eventually:
  assumes "\<forall>c \<in> set (memory_queue s n). q < cmd_sequence (src_command c)"
  shows "fst (deliveries (ps_enqueue_runner_command (memory_store L T))
      (ps_next_runner_command (memory_store L T)) n
      (replicate (length (memory_queue s n)) (Poll e n q)) s) = memory_queue s n"
  using mq.drain [of s n q L T "length (memory_queue s n)" e] assms by simp

theorem commands_delivered_eventually_witness:
  "fst (deliveries (ps_enqueue_runner_command (memory_store demo_libs ''t''))
     (ps_next_runner_command (memory_store demo_libs ''t'')) ''node-a'' [Poll demo_env ''node-a'' 0]
     (snd (mem_enqueue_runner_command ''node-a'' demo_envelope memory_state_default)))
   = [demo_envelope]"
proof -
  let ?s = "snd (mem_enqueue_runner_command ''node-a'' demo_envelope memory_state_default)"
  have "memory_queue ?s ''node-a'' = [demo_envelope]"
    by (simp add: memory_queue_def mem_enqueue_runner_command_def memory_state_default_def)
  then show ?thesis
    using commands_delivered_eventually [of ?s "''node-a''" 0 demo_libs "''t''" demo_env]
    by (simp add: demo_envelope_def demo_command_def)
qed

end
