(* ===== verification/Control_Plane.thy ===== *)
theory Control_Plane
  imports Compiler_Xray Subscription Store_Interface
begin

text \<open>
  The HTTP handlers of the control plane (src/crates/control-plane/src/lib.rs). A handler is an
  operation on \<open>app_state\<close>: the configuration of \<open>AppState\<close>, the store behind its trait
  object with the store's state, the per-node sequence counters and the list of accepted
  results. A successful response is its status code and body, an error response its status code
  and message; a response that is only a status code has an empty message. \<open>E k\<close> are the
  ambient inputs of the k-th call a handler makes (to the store or to a constructor that reads
  the clock), in program order. Handlers are polymorphic in the store.
\<close>

section \<open>Responses and application state\<close>

datatype status_code =
    OK | CREATED | ACCEPTED | NO_CONTENT | BAD_REQUEST | UNAUTHORIZED | NOT_FOUND | CONFLICT
  | INTERNAL_SERVER_ERROR

type_synonym http_error = "status_code \<times> string"

record 's app_state =
  app_default_registration_token :: string
  app_runner_api_token :: string
  app_tenant_id :: string
  app_store :: "'s proxy_store"
  app_store_state :: 's
  app_signing_key :: signing_key
  app_runner_result_verify_key :: verifying_key
  app_node_sequences :: "(string, u64) hashmap"
  app_runner_results :: "deployment_result list"

type_synonym ('s, 'a) handler = "('s app_state, 'a, http_error) op"

text \<open>A header is absent, present but not printable (\<open>Some None\<close>), or a string.\<close>

type_synonym headers = "string \<Rightarrow> string option option"

definition dev_control_plane_signing_key :: signing_key where
  "dev_control_plane_signing_key = replicate 32 11"

definition dev_runner_result_verify_key :: "libs \<Rightarrow> verifying_key" where
  "dev_runner_result_verify_key L = ed_verifying_key L (replicate 32 22)"

definition with_store_and_runner_token ::
  "libs \<Rightarrow> string \<Rightarrow> string \<Rightarrow> string \<Rightarrow> 's proxy_store \<Rightarrow> 's \<Rightarrow> 's app_state" where
  "with_store_and_runner_token L registration_token runner_api_token tenant_id store s =
     \<lparr>app_default_registration_token = registration_token,
      app_runner_api_token = runner_api_token, app_tenant_id = tenant_id,
      app_store = store, app_store_state = s,
      app_signing_key = dev_control_plane_signing_key,
      app_runner_result_verify_key = dev_runner_result_verify_key L,
      app_node_sequences = [], app_runner_results = []\<rparr>"

definition with_store :: "libs \<Rightarrow> string \<Rightarrow> string \<Rightarrow> 's proxy_store \<Rightarrow> 's \<Rightarrow> 's app_state" where
  "with_store L registration_token tenant_id store s =
     with_store_and_runner_token L registration_token ''dev-runner-token'' tenant_id store s"

definition app_dev :: "libs \<Rightarrow> memory_state app_state" where
  "app_dev L = with_store L ''dev-registration-token'' ''tenant-dev''
     (memory_store L ''tenant-dev'') memory_state_default"

fun to_http_error :: "store_error \<Rightarrow> http_error" where
  "to_http_error (NotFound m) = (NOT_FOUND, m)"
| "to_http_error (Conflict m) = (CONFLICT, m)"
| "to_http_error (ArtifactShaMismatch expected actual) =
     (BAD_REQUEST, store_error_to_string (ArtifactShaMismatch expected actual))"
| "to_http_error (Sqlx m) = (INTERNAL_SERVER_ERROR, m)"
| "to_http_error (Serde m) = (INTERNAL_SERVER_ERROR, m)"

text \<open>\<open>state.store.f(..).await\<close>, and the same with \<open>.map_err(to_http_error)\<close>.\<close>

definition store_call ::
  "('s proxy_store \<Rightarrow> ('s, 'a, store_error) op) \<Rightarrow> ('s app_state, 'a, store_error) op" where
  "store_call f st =
     (case f (app_store st) (app_store_state st) of (r, s') \<Rightarrow> (r, st\<lparr>app_store_state := s'\<rparr>))"

definition call :: "('s proxy_store \<Rightarrow> ('s, 'a, store_error) op) \<Rightarrow> ('s, 'a) handler" where
  "call f = map_err_op to_http_error (store_call f)"

definition get_app :: "('s app_state \<Rightarrow> 'a) \<Rightarrow> ('s, 'a) handler" where
  "get_app f st = (Ok (f st), st)"

definition next_sequence :: "string \<Rightarrow> ('s, u64) handler" where
  "next_sequence node_id st =
     (let n = unwrap_or 0 (map_of (app_node_sequences st) node_id) + 1 in
      (Ok n, st\<lparr>app_node_sequences := hm_insert node_id n (app_node_sequences st)\<rparr>))"

section \<open>Helpers\<close>

definition runner_token_valid :: "'s app_state \<Rightarrow> headers \<Rightarrow> bool" where
  "runner_token_valid st headers =
     (case headers ''x-runner-token'' of
        Some (Some v) \<Rightarrow> v = app_runner_api_token st
      | _ \<Rightarrow> False)"

definition require_runner_token :: "headers \<Rightarrow> ('s, unit) handler" where
  "require_runner_token headers st =
     (if \<not> runner_token_valid st headers then (Err (UNAUTHORIZED, []), st) else (Ok (), st))"

definition optional_header_value :: "headers \<Rightarrow> string \<Rightarrow> (string option, http_error) result" where
  "optional_header_value headers name =
     (case headers name of
        None \<Rightarrow> Ok None
      | Some None \<Rightarrow> Err (BAD_REQUEST, ''invalid '' @ name @ '' header'')
      | Some (Some v) \<Rightarrow> Ok (Some v))"

definition parse_runner_result_public_key_hex :: "libs \<Rightarrow> string \<Rightarrow> (verifying_key, string) result" where
  "parse_runner_result_public_key_hex L public_key_hex =
     (case hex_decode L public_key_hex of
        None \<Rightarrow> Err ''invalid runner result public key hex''
      | Some b \<Rightarrow>
          if length b \<noteq> 32 then Err ''invalid runner result public key length''
          else ok_or ''invalid runner result public key'' (vk_from_bytes L b))"

definition runner_result_verify_key_for_node ::
  "libs \<Rightarrow> 's app_state \<Rightarrow> node_record \<Rightarrow> (verifying_key, string) result" where
  "runner_result_verify_key_for_node L st node =
     (if nd_runner_result_public_key_hex node = [] then Ok (app_runner_result_verify_key st)
      else parse_runner_result_public_key_hex L (nd_runner_result_public_key_hex node))"

definition profile_protocol_label :: "profile_ir \<Rightarrow> string" where
  "profile_protocol_label ir =
     (case ir_inbounds ir of
        [] \<Rightarrow> ''unknown''
      | i # _ \<Rightarrow>
          (case in_protocol i of
             Vless \<Rightarrow> (case in_security i of
                 Reality _ _ _ \<Rightarrow> ''vless-reality'' | Tls _ \<Rightarrow> ''vless-tls'' | NoSecurity \<Rightarrow> ''vless'')
           | Shadowsocks \<Rightarrow> ''shadowsocks''
           | Trojan \<Rightarrow> ''trojan''))"

fun credential_kind_label :: "credential_material \<Rightarrow> string" where
  "credential_kind_label (VlessUuid _) = ''vless''"
| "credential_kind_label (ShadowsocksPassword _ _) = ''shadowsocks''"
| "credential_kind_label (TrojanPassword _) = ''trojan''"

fun credential_status_label :: "credential_status \<Rightarrow> string" where
  "credential_status_label Active = ''active''"
| "credential_status_label Revoked = ''revoked''"
| "credential_status_label Expired = ''expired''"

fun deployment_status_label :: "deployment_status \<Rightarrow> string" where
  "deployment_status_label Pending = ''Pending''"
| "deployment_status_label Succeeded = ''Succeeded''"
| "deployment_status_label Failed = ''Failed''"
| "deployment_status_label RolledBack = ''RolledBack''"

section \<open>Nodes\<close>

definition ensure_default_registration_token :: "env \<Rightarrow> env \<Rightarrow> ('s, unit) handler" where
  "ensure_default_registration_token e0 e1 st =
     (let record = node_registration_token_new e0 (app_tenant_id st) ''regtok-dev''
                     (app_default_registration_token st)
      in call (\<lambda>v. ps_create_node_registration_token v e1 record) st)"

record register_node_request =
  rnr_registration_token :: string
  rnr_node_id :: string
  rnr_xray_version :: string
  rnr_runner_result_public_key_hex :: "string option"

fun registration_error :: "store_error \<Rightarrow> http_error" where
  "registration_error (NotFound _) = (UNAUTHORIZED, ''invalid registration token'')"
| "registration_error other = to_http_error other"

text \<open>The body of the response is the node id with the status ''registered''.\<close>

definition register_node ::
  "libs \<Rightarrow> (nat \<Rightarrow> env) \<Rightarrow> register_node_request \<Rightarrow> ('s, status_code \<times> string \<times> string) handler" where
  "register_node L E req =
     and_then (ensure_default_registration_token (E 0) (E 1)) (\<lambda>_.
     and_then (get_app (\<lambda>st. st)) (\<lambda>st.
     let runner_result_public_key_hex =
           unwrap_or (hex_encode L (app_runner_result_verify_key st))
             (rnr_runner_result_public_key_hex req);
         node = with_runner_result_public_key_hex
           (node_record_new (E 2) (app_tenant_id st) (rnr_node_id req)
             (rnr_node_id req @ ''.example'') (rnr_xray_version req))
           runner_result_public_key_hex
     in
     and_then (map_err_op registration_error
         (store_call (\<lambda>v. ps_register_node_with_registration_token v (E 3) node
            (rnr_registration_token req)))) (\<lambda>_.
     return_op (CREATED, rnr_node_id req, ''registered''))))"

definition list_nodes :: "(nat \<Rightarrow> env) \<Rightarrow> ('s, node_record list) handler" where
  "list_nodes E = call (\<lambda>v. ps_list_nodes v (E 0))"

definition list_registration_tokens ::
  "(nat \<Rightarrow> env) \<Rightarrow> ('s, node_registration_token_record list) handler" where
  "list_registration_tokens E =
     and_then (ensure_default_registration_token (E 0) (E 1)) (\<lambda>_.
     call (\<lambda>v. ps_list_node_registration_tokens v (E 2)))"

definition issue_registration_token ::
  "(nat \<Rightarrow> env) \<Rightarrow> string option
    \<Rightarrow> ('s, status_code \<times> node_registration_token_record) handler" where
  "issue_registration_token E req_token =
     and_then (ensure_default_registration_token (E 0) (E 1)) (\<lambda>_ st0.
     let token = unwrap_or (''node-reg-'' @ new_v4 (E 2) 0) req_token in
     (case store_call (\<lambda>v. ps_node_registration_token v (E 3) token) st0 of
        (Ok _, st) \<Rightarrow> (Err (CONFLICT, ''registration token already exists''), st)
      | (Err (NotFound _), st) \<Rightarrow>
          (let record = node_registration_token_new (E 4) (app_tenant_id st)
                 (''regtok-'' @ new_v4 (E 4) 0) token in
           and_then (call (\<lambda>v. ps_create_node_registration_token v (E 5) record)) (\<lambda>_.
           return_op (CREATED, record)) st)
      | (Err error, st) \<Rightarrow> (Err (to_http_error error), st)))"

definition rotate_runner_result_key ::
  "libs \<Rightarrow> (nat \<Rightarrow> env) \<Rightarrow> string \<Rightarrow> string
    \<Rightarrow> ('s, status_code \<times> string \<times> string \<times> string) handler" where
  "rotate_runner_result_key L E node_id public_key_hex =
     and_then (lift_result (map_err (\<lambda>m. (BAD_REQUEST, m))
         (parse_runner_result_public_key_hex L public_key_hex))) (\<lambda>_.
     and_then (call (\<lambda>v. ps_update_node_runner_result_public_key v (E 0) node_id public_key_hex))
       (\<lambda>node. return_op (ACCEPTED, node_id, ''rotated'', nd_runner_result_public_key_hex node)))"

definition runner_heartbeat ::
  "(nat \<Rightarrow> env) \<Rightarrow> string \<Rightarrow> headers \<Rightarrow> json \<Rightarrow> ('s, status_code \<times> string \<times> bool) handler" where
  "runner_heartbeat E node_id headers capability_snapshot =
     and_then (require_runner_token headers) (\<lambda>_.
     and_then (get_app app_tenant_id) (\<lambda>tenant.
     and_then (call (\<lambda>v. ps_record_heartbeat v (E 1)
         (heartbeat_record_new (E 0) tenant node_id capability_snapshot))) (\<lambda>_.
     return_op (ACCEPTED, node_id, True))))"

definition get_node_heartbeat ::
  "(nat \<Rightarrow> env) \<Rightarrow> string \<Rightarrow> ('s, string \<times> json \<times> datetime) handler" where
  "get_node_heartbeat E node_id =
     and_then (call (\<lambda>v. ps_latest_heartbeat v (E 0) node_id)) (\<lambda>h.
     return_op (hb_node_id h, hb_capability_snapshot h, hb_created_at h))"

section \<open>Usage\<close>

record runner_usage_request =
  rur_credential_id :: "string option"
  rur_uplink_bytes :: i64
  rur_downlink_bytes :: i64
  rur_sampled_at :: "datetime option"

definition runner_usage ::
  "(nat \<Rightarrow> env) \<Rightarrow> string \<Rightarrow> headers \<Rightarrow> runner_usage_request
    \<Rightarrow> ('s, status_code \<times> string \<times> bool) handler" where
  "runner_usage E node_id headers req =
     and_then (require_runner_token headers) (\<lambda>_.
     and_then (get_app app_tenant_id) (\<lambda>tenant.
     and_then (call (\<lambda>v. ps_record_usage_sample v (E 1)
         \<lparr>us_tenant_id = tenant, us_node_id = node_id, us_credential_id = rur_credential_id req,
          us_uplink_bytes = rur_uplink_bytes req, us_downlink_bytes = rur_downlink_bytes req,
          us_sampled_at = unwrap_or (utc_now (E 0) 0) (rur_sampled_at req)\<rparr>)) (\<lambda>_.
     return_op (ACCEPTED, node_id, True))))"

definition get_latest_usage :: "(nat \<Rightarrow> env) \<Rightarrow> string \<Rightarrow> ('s, usage_sample_record) handler" where
  "get_latest_usage E node_id = call (\<lambda>v. ps_latest_usage_sample v (E 0) node_id)"

definition get_latest_usage_rollup ::
  "(nat \<Rightarrow> env) \<Rightarrow> string \<Rightarrow> string option \<Rightarrow> ('s, usage_rollup_record) handler" where
  "get_latest_usage_rollup E credential_id bucket =
     call (\<lambda>v. ps_latest_usage_rollup_for_credential v (E 0) credential_id
       (unwrap_or ''hour'' bucket))"

section \<open>Profiles\<close>

record profile_inventory_item =
  pii_profile_id :: string
  pii_protocol :: string
  pii_core :: string
  pii_inbound_count :: nat
  pii_credential_count :: nat
  pii_created_at :: datetime

fun profile_items ::
  "(nat \<Rightarrow> env) \<Rightarrow> nat \<Rightarrow> profile_record list \<Rightarrow> ('s, profile_inventory_item list) handler" where
  "profile_items E k [] = return_op []"
| "profile_items E k (p # ps) =
     and_then (call (\<lambda>v. ps_credentials_for_profile v (E k) (pr_profile_id p))) (\<lambda>credentials.
     and_then (profile_items E (Suc k) ps) (\<lambda>items.
     return_op (\<lparr>pii_profile_id = pr_profile_id p,
                 pii_protocol = profile_protocol_label (pr_ir p),
                 pii_core = rt_core (ir_runtime (pr_ir p)),
                 pii_inbound_count = length (ir_inbounds (pr_ir p)),
                 pii_credential_count = length credentials,
                 pii_created_at = pr_created_at p\<rparr> # items)))"

definition list_profiles :: "(nat \<Rightarrow> env) \<Rightarrow> ('s, profile_inventory_item list) handler" where
  "list_profiles E = and_then (call (\<lambda>v. ps_list_profiles v (E 0))) (profile_items E 1)"

definition set_reality_server_name :: "string \<Rightarrow> profile_ir \<Rightarrow> profile_ir" where
  "set_reality_server_name name ir =
     (case ir_inbounds ir of
        [] \<Rightarrow> ir
      | i # is \<Rightarrow>
          (case in_security i of
             Reality _ r ids \<Rightarrow>
               ir\<lparr>ir_inbounds := i\<lparr>in_security := Reality name r ids\<rparr> # is\<rparr>
           | _ \<Rightarrow> ir))"

text \<open>Storing the profile, the same in the three profile handlers.\<close>

definition store_profile ::
  "env \<Rightarrow> env \<Rightarrow> string \<Rightarrow> profile_ir \<Rightarrow> ('s, status_code \<times> string \<times> string) handler" where
  "store_profile e0 e1 profile_id ir =
     and_then (get_app app_tenant_id) (\<lambda>tenant.
     and_then (call (\<lambda>v. ps_create_profile v e1 (profile_record_new e0 tenant profile_id ir))) (\<lambda>_.
     return_op (CREATED, profile_id, ''created'')))"

definition create_vless_reality_profile ::
  "(nat \<Rightarrow> env) \<Rightarrow> string \<Rightarrow> string \<Rightarrow> ('s, status_code \<times> string \<times> string) handler" where
  "create_vless_reality_profile E profile_id server_name =
     (let ir = set_reality_server_name server_name
                 (vless_reality_example ''group_default'' ''sec_reality_private'')
      in and_then (lift_result (map_err (\<lambda>e. (BAD_REQUEST, domain_error_to_string e))
             (profile_validate ir))) (\<lambda>_.
         store_profile (E 0) (E 1) profile_id ir))"

definition single_inbound_ir :: "inbound \<Rightarrow> string \<Rightarrow> profile_ir" where
  "single_inbound_ir i policy =
     \<lparr>ir_schema_version = ''0.1'',
      ir_runtime = \<lparr>rt_core = ''xray'', rt_core_version = ''1.x''\<rparr>,
      ir_inbounds = [i],
      ir_client_groups = [\<lparr>cg_id = ''group_default'', cg_credential_policy = policy,
                           cg_quota_policy_ref = None\<rparr>],
      ir_routes = [], ir_dns = \<lparr>dns_mode = ''system''\<rparr>\<rparr>"

definition create_shadowsocks_profile ::
  "(nat \<Rightarrow> env) \<Rightarrow> string \<Rightarrow> u16 option \<Rightarrow> ('s, status_code \<times> string \<times> string) handler" where
  "create_shadowsocks_profile E profile_id port =
     store_profile (E 0) (E 1) profile_id
       (single_inbound_ir
          \<lparr>in_id = ''in_ss'', in_protocol = Shadowsocks, in_listen = ''0.0.0.0'',
           in_port = unwrap_or 8388 port, in_security = NoSecurity,
           in_client_group_refs = [''group_default'']\<rparr> ''shadowsocks_password'')"

definition create_trojan_profile ::
  "(nat \<Rightarrow> env) \<Rightarrow> string \<Rightarrow> string \<Rightarrow> u16 option
    \<Rightarrow> ('s, status_code \<times> string \<times> string) handler" where
  "create_trojan_profile E profile_id server_name port =
     store_profile (E 0) (E 1) profile_id
       (single_inbound_ir
          \<lparr>in_id = ''in_trojan'', in_protocol = Trojan, in_listen = ''0.0.0.0'',
           in_port = unwrap_or 443 port, in_security = Tls server_name,
           in_client_group_refs = [''group_default'']\<rparr> ''trojan_password'')"

section \<open>Clients\<close>

record create_client_request =
  ccr_client_id :: string
  ccr_profile_id :: string
  ccr_display_name :: string
  ccr_uuid :: "string option"
  ccr_kind :: "string option"
  ccr_method :: "string option"
  ccr_password :: "string option"
  ccr_quota_bytes :: "i64 option"
  ccr_expires_at :: "datetime option"

record client_inventory_item =
  cii_client_id :: string
  cii_profile_id :: string
  cii_display_name :: string
  cii_kind :: string
  cii_status :: string

definition client_inventory_item_of :: "credential_record \<Rightarrow> client_inventory_item" where
  "client_inventory_item_of r =
     \<lparr>cii_client_id = cr_id (crr_credential r), cii_profile_id = crr_profile_id r,
      cii_display_name = cr_display_name (crr_credential r),
      cii_kind = credential_kind_label (cr_material (crr_credential r)),
      cii_status = credential_status_label (cr_status (crr_credential r))\<rparr>"

definition list_clients :: "(nat \<Rightarrow> env) \<Rightarrow> ('s, client_inventory_item list) handler" where
  "list_clients E =
     and_then (call (\<lambda>v. ps_list_credentials v (E 0))) (\<lambda>credentials.
     return_op (map client_inventory_item_of credentials))"

definition client_with_material :: "create_client_request \<Rightarrow> credential_material \<Rightarrow> credential" where
  "client_with_material req m =
     \<lparr>cr_id = ccr_client_id req, cr_client_group_id = ''group_default'',
      cr_display_name = ccr_display_name req, cr_status = Active, cr_material = m\<rparr>"

definition credential_of_request :: "create_client_request \<Rightarrow> (credential, http_error) result" where
  "credential_of_request req =
     (let kind = unwrap_or ''vless'' (ccr_kind req) in
      if kind = ''vless'' then
        bind_result (ok_or (BAD_REQUEST, ''uuid is required'') (ccr_uuid req)) (\<lambda>uuid.
        Ok (active_vless (ccr_client_id req) ''group_default'' uuid (ccr_display_name req)))
      else if kind = ''shadowsocks'' then
        bind_result (ok_or (BAD_REQUEST, ''method is required'') (ccr_method req)) (\<lambda>m.
        bind_result (ok_or (BAD_REQUEST, ''password is required'') (ccr_password req)) (\<lambda>p.
        Ok (client_with_material req (ShadowsocksPassword m p))))
      else if kind = ''trojan'' then
        bind_result (ok_or (BAD_REQUEST, ''password is required'') (ccr_password req)) (\<lambda>p.
        Ok (client_with_material req (TrojanPassword p)))
      else Err (BAD_REQUEST, ''unsupported client kind: '' @ kind))"

definition create_client ::
  "(nat \<Rightarrow> env) \<Rightarrow> create_client_request \<Rightarrow> ('s, status_code \<times> string \<times> string) handler" where
  "create_client E req =
     and_then (lift_result (credential_of_request req)) (\<lambda>credential.
     and_then (call (\<lambda>v. ps_add_credential v (E 0) (ccr_profile_id req) credential)) (\<lambda>_.
     and_then (case ccr_quota_bytes req of
                 None \<Rightarrow> return_op ()
               | Some q \<Rightarrow> call (\<lambda>v. ps_set_credential_quota v (E 1) (ccr_client_id req) q)) (\<lambda>_.
     and_then (case ccr_expires_at req of
                 None \<Rightarrow> return_op ()
               | Some t \<Rightarrow> call (\<lambda>v. ps_set_credential_expiry v (E 2) (ccr_client_id req) t)) (\<lambda>_.
     return_op (CREATED, ccr_client_id req, ''created'')))))"

definition get_client_quota ::
  "(nat \<Rightarrow> env) \<Rightarrow> string \<Rightarrow> ('s, credential_quota_decision) handler" where
  "get_client_quota E client_id = call (\<lambda>v. ps_credential_quota_decision v (E 0) client_id)"

definition get_client_expiry ::
  "(nat \<Rightarrow> env) \<Rightarrow> string \<Rightarrow> ('s, credential_expiry_decision) handler" where
  "get_client_expiry E client_id = call (\<lambda>v. ps_credential_expiry_decision v (E 0) client_id)"

section \<open>Deployments\<close>

record deployment_inventory_item =
  dii_deployment_id :: string
  dii_node_id :: string
  dii_profile_id :: string
  dii_compiled_config_artifact_id :: string
  dii_status :: string
  dii_created_at :: datetime

fun deployment_items ::
  "(nat \<Rightarrow> env) \<Rightarrow> nat \<Rightarrow> deployment_plan_record list
    \<Rightarrow> ('s, deployment_inventory_item list) handler" where
  "deployment_items E k [] = return_op []"
| "deployment_items E k (d # ds) =
     and_then (call (\<lambda>v. ps_deployment_status v (E k) (dpr_deployment_id d))) (\<lambda>status.
     and_then (deployment_items E (Suc k) ds) (\<lambda>items.
     return_op (\<lparr>dii_deployment_id = dpr_deployment_id d, dii_node_id = dpr_node_id d,
                 dii_profile_id = dpr_profile_id d,
                 dii_compiled_config_artifact_id = dpr_compiled_config_artifact_id d,
                 dii_status = deployment_status_label status,
                 dii_created_at = dpr_created_at d\<rparr> # items)))"

definition list_deployments :: "(nat \<Rightarrow> env) \<Rightarrow> ('s, deployment_inventory_item list) handler" where
  "list_deployments E = and_then (call (\<lambda>v. ps_list_deployment_plans v (E 0))) (deployment_items E 1)"

record compile_deployment_request =
  cdr_profile_id :: string
  cdr_node_id :: string

record compile_deployment_response =
  cdp_status :: string
  cdp_artifact :: artifact
  cdp_deployment_plan :: deployment_plan
  cdp_audit_count :: nat
  cdp_outbox_count :: nat

datatype compile_body = CachedBody json | FreshBody compile_deployment_response

definition DEV_REALITY_PRIVATE_KEY :: string where
  "DEV_REALITY_PRIVATE_KEY = ''qKQ2RRX4uDMX5W-8JbyE8lcl3TVGeM5KAwkbTnEX1VM''"

definition node_compile_context :: "node_record \<Rightarrow> credential list \<Rightarrow> compile_context" where
  "node_compile_context node credentials =
     fold (\<lambda>c ctx. ctx_with_credential ctx c) credentials
       (with_secret (compile_context_new (nd_xray_version node)) ''sec_reality_private''
          DEV_REALITY_PRIVATE_KEY)"

text \<open>
  The tail shared by deployments and rollbacks: take the next sequence number, build a command that
  expires in 60 seconds, sign it and enqueue it for the node.
\<close>

definition sign_and_enqueue ::
  "libs \<Rightarrow> env \<Rightarrow> env \<Rightarrow> string \<Rightarrow> runner_command_kind \<Rightarrow> ('s, u64) handler" where
  "sign_and_enqueue L e0 e1 node_id kind =
     and_then (next_sequence node_id) (\<lambda>sequence.
     and_then (get_app (\<lambda>st. (app_tenant_id st, app_signing_key st))) (\<lambda>(tenant, key).
     and_then (lift_result (map_err (\<lambda>e. (INTERNAL_SERVER_ERROR, domain_error_to_string e))
         (command_sign L
            (runner_command_new e0 tenant node_id sequence (utc_now e0 0 + seconds 60) kind)
            key))) (\<lambda>envelope.
     and_then (call (\<lambda>v. ps_enqueue_runner_command v e1 node_id envelope)) (\<lambda>_.
     return_op sequence))))"

definition deployment_id_of :: "artifact \<Rightarrow> string" where
  "deployment_id_of artifact = ''dep-'' @ take 12 (art_sha256 artifact)"

definition deployment_plan_of ::
  "datetime \<Rightarrow> compile_deployment_request \<Rightarrow> node_record \<Rightarrow> artifact \<Rightarrow> deployment_plan" where
  "deployment_plan_of now req node artifact =
     \<lparr>dp_target_node_id = cdr_node_id req, dp_target_profile_version_id = cdr_profile_id req,
      dp_compiled_config_artifact_id = art_id artifact, dp_core_kind = ''xray'',
      dp_core_version = nd_xray_version node, dp_assets_version = ''dev'',
      dp_rollback_pointer_id = ''rollback-'' @ art_sha256 artifact, dp_created_by = ''admin'',
      dp_created_at = now\<rparr>"

text \<open>Compiling the profile for the node: the configuration and its serialised bytes.\<close>

definition compile_for_node ::
  "libs \<Rightarrow> (nat \<Rightarrow> env) \<Rightarrow> compile_deployment_request \<Rightarrow> ('s, node_record \<times> json \<times> bytes) handler" where
  "compile_for_node L E req =
     and_then (call (\<lambda>v. ps_profile v (E 1) (cdr_profile_id req))) (\<lambda>profile.
     and_then (call (\<lambda>v. ps_node v (E 2) (cdr_node_id req))) (\<lambda>node.
     and_then (call (\<lambda>v. ps_credentials_for_profile v (E 3) (cdr_profile_id req))) (\<lambda>credentials.
     and_then (lift_result (map_err (\<lambda>e. (BAD_REQUEST, compile_error_to_string e))
         (compile_profile_to_xray L (pr_ir profile) (node_compile_context node credentials))))
       (\<lambda>compiled.
     and_then (lift_result (map_err (\<lambda>m. (INTERNAL_SERVER_ERROR, m))
         (to_vec_pretty L (cx_config_json compiled)))) (\<lambda>b.
     return_op (node, cx_config_json compiled, b))))))"

text \<open>
  \<open>compile_uncached\<close> is the handler from the point where no cached response was found.
  \<open>J\<close> is \<open>serde_json::to_value\<close> on the response. The digest of an artifact has 64 hex digits,
  so the slice of its first 12 is always in range.
\<close>

definition compile_uncached ::
  "libs \<Rightarrow> (compile_deployment_response \<Rightarrow> (json, string) result) \<Rightarrow> (nat \<Rightarrow> env) \<Rightarrow> string
    \<Rightarrow> string option \<Rightarrow> compile_deployment_request \<Rightarrow> ('s, compile_deployment_response) handler" where
  "compile_uncached L J E tenant idempotency_key req =
     and_then (compile_for_node L E req) (\<lambda>(node, config_json, b).
     let artifact = artifact_from_bytes L (E 4) tenant CompiledXrayConfig ''application/json'' b
                      ''admin'';
         deployment_id = deployment_id_of artifact in
     and_then (call (\<lambda>v. ps_record_artifact_blob v (E 5) artifact b)) (\<lambda>_.
     and_then (call (\<lambda>v. ps_record_deployment_plan v (E 7)
         (deployment_plan_record_new (E 6) tenant deployment_id (cdr_node_id req)
            (cdr_profile_id req) (art_id artifact)))) (\<lambda>_.
     let deployment_plan = deployment_plan_of (utc_now (E 8) 0) req node artifact in
     and_then (sign_and_enqueue L (E 9) (E 10) (cdr_node_id req)
         (ApplyDeploymentPlan deployment_id (art_sha256 artifact) config_json None)) (\<lambda>_.
     and_then (call (\<lambda>v. ps_audit_count v (E 11))) (\<lambda>audit_count.
     and_then (call (\<lambda>v. ps_outbox_count v (E 12))) (\<lambda>outbox_count.
     let response = \<lparr>cdp_status = ''compiled'', cdp_artifact = artifact,
           cdp_deployment_plan = deployment_plan, cdp_audit_count = audit_count,
           cdp_outbox_count = outbox_count\<rparr> in
     and_then (case idempotency_key of
                 None \<Rightarrow> return_op ()
               | Some key \<Rightarrow>
                   and_then (lift_result (map_err (\<lambda>m. (INTERNAL_SERVER_ERROR, m)) (J response)))
                     (\<lambda>json. call (\<lambda>v. ps_record_idempotency_response v (E 13) tenant key json))) (\<lambda>_.
     return_op response)))))))"

definition compile_deployment ::
  "libs \<Rightarrow> (compile_deployment_response \<Rightarrow> (json, string) result) \<Rightarrow> (nat \<Rightarrow> env) \<Rightarrow> headers
    \<Rightarrow> compile_deployment_request \<Rightarrow> ('s, status_code \<times> compile_body) handler" where
  "compile_deployment L J E headers req =
     and_then (lift_result (optional_header_value headers ''idempotency-key'')) (\<lambda>idempotency_key.
     and_then (get_app app_tenant_id) (\<lambda>tenant.
     and_then (case idempotency_key of
                 None \<Rightarrow> return_op None
               | Some key \<Rightarrow> call (\<lambda>v. ps_idempotency_response v (E 0) tenant key)) (\<lambda>cached.
     case cached of
       Some json \<Rightarrow> return_op (CREATED, CachedBody json)
     | None \<Rightarrow>
         and_then (compile_uncached L J E tenant idempotency_key req) (\<lambda>response.
         return_op (CREATED, FreshBody response)))))"

section \<open>Runner commands and results\<close>

text \<open>The response to a poll without a command is 204 without a body.\<close>

definition next_runner_command ::
  "(nat \<Rightarrow> env) \<Rightarrow> string \<Rightarrow> u64 option \<Rightarrow> headers
    \<Rightarrow> ('s, status_code \<times> signed_runner_command option) handler" where
  "next_runner_command E node_id last_sequence headers =
     and_then (require_runner_token headers) (\<lambda>_.
     and_then (call (\<lambda>v. ps_next_runner_command v (E 0) node_id (unwrap_or 0 last_sequence)))
       (\<lambda>command. return_op (case command of
          Some c \<Rightarrow> (OK, Some c) | None \<Rightarrow> (NO_CONTENT, None))))"

definition push_runner_result :: "deployment_result \<Rightarrow> ('s, unit) handler" where
  "push_runner_result r st = (Ok (), st\<lparr>app_runner_results := app_runner_results st @ [r]\<rparr>)"

definition submit_runner_result ::
  "libs \<Rightarrow> (nat \<Rightarrow> env) \<Rightarrow> string \<Rightarrow> headers \<Rightarrow> signed_deployment_result
    \<Rightarrow> ('s, status_code) handler" where
  "submit_runner_result L E node_id headers signed_result =
     and_then (require_runner_token headers) (\<lambda>_.
     and_then (call (\<lambda>v. ps_node v (E 0) node_id)) (\<lambda>node.
     and_then (get_app (\<lambda>st. runner_result_verify_key_for_node L st node)) (\<lambda>key.
     and_then (lift_result (map_err (\<lambda>m. (UNAUTHORIZED, m)) key)) (\<lambda>verify_key.
     and_then (lift_result (map_err (\<lambda>e. (UNAUTHORIZED, domain_error_to_string e))
         (result_verify L signed_result verify_key node_id))) (\<lambda>result.
     and_then (call (\<lambda>v. ps_record_deployment_result v (E 1) result)) (\<lambda>_.
     and_then (push_runner_result result) (\<lambda>_.
     return_op ACCEPTED)))))))"

definition runner_result_count :: "('s, nat) handler" where
  "runner_result_count = get_app (\<lambda>st. length (app_runner_results st))"

definition get_deployment ::
  "(nat \<Rightarrow> env) \<Rightarrow> string \<Rightarrow> ('s, string \<times> deployment_status) handler" where
  "get_deployment E deployment_id =
     and_then (call (\<lambda>v. ps_deployment_status v (E 0) deployment_id)) (\<lambda>status.
     return_op (deployment_id, status))"

section \<open>Rollback, readiness and rollout\<close>

record rollback_queued_response =
  rqr_deployment_id :: string
  rqr_rollback_to_deployment_id :: string
  rqr_sequence :: u64
  rqr_status :: string

definition enqueue_rollback_command ::
  "libs \<Rightarrow> (nat \<Rightarrow> env) \<Rightarrow> string \<Rightarrow> ('s, rollback_queued_response) handler" where
  "enqueue_rollback_command L E deployment_id =
     and_then (call (\<lambda>v. ps_rollback_pointer v (E 0) deployment_id)) (\<lambda>rollback_pointer.
     and_then (lift_result (ok_or
         (BAD_REQUEST, ''deployment has no previous deployment to roll back to'')
         (rbp_previous_deployment_id rollback_pointer))) (\<lambda>rollback_to_deployment_id.
     and_then (lift_result (ok_or
         (BAD_REQUEST, ''deployment has no previous compiled config artifact'')
         (rbp_previous_compiled_config_artifact_id rollback_pointer))) (\<lambda>previous_artifact_id.
     and_then (call (\<lambda>v. ps_deployment_snapshot v (E 1) deployment_id)) (\<lambda>snapshot.
     and_then (call (\<lambda>v. ps_artifact_bytes v (E 2) previous_artifact_id)) (\<lambda>previous_bytes.
     and_then (sign_and_enqueue L (E 3) (E 4) (snp_node_id snapshot)
         (RollbackDeployment deployment_id rollback_to_deployment_id
            (sha256_hex L previous_bytes))) (\<lambda>sequence.
     return_op \<lparr>rqr_deployment_id = deployment_id,
                rqr_rollback_to_deployment_id = rollback_to_deployment_id,
                rqr_sequence = sequence, rqr_status = ''queued''\<rparr>))))))"

definition queue_rollback ::
  "libs \<Rightarrow> (nat \<Rightarrow> env) \<Rightarrow> string \<Rightarrow> ('s, status_code \<times> rollback_queued_response) handler" where
  "queue_rollback L E deployment_id =
     and_then (enqueue_rollback_command L E deployment_id) (\<lambda>response.
     return_op (ACCEPTED, response))"

definition get_rollback_pointer ::
  "(nat \<Rightarrow> env) \<Rightarrow> string \<Rightarrow> ('s, rollback_pointer_record) handler" where
  "get_rollback_pointer E deployment_id = call (\<lambda>v. ps_rollback_pointer v (E 0) deployment_id)"

definition get_deployment_snapshot ::
  "(nat \<Rightarrow> env) \<Rightarrow> string \<Rightarrow> ('s, deployment_snapshot_record) handler" where
  "get_deployment_snapshot E deployment_id =
     call (\<lambda>v. ps_deployment_snapshot v (E 0) deployment_id)"

definition get_deployment_health ::
  "(nat \<Rightarrow> env) \<Rightarrow> string \<Rightarrow> ('s, deployment_health_check_record) handler" where
  "get_deployment_health E deployment_id =
     call (\<lambda>v. ps_latest_deployment_health v (E 0) deployment_id)"

definition record_runner_deployment_health ::
  "(nat \<Rightarrow> env) \<Rightarrow> string \<Rightarrow> string \<Rightarrow> headers \<Rightarrow> string \<Rightarrow> json \<Rightarrow> ('s, status_code) handler" where
  "record_runner_deployment_health E node_id deployment_id headers status payload_json =
     and_then (require_runner_token headers) (\<lambda>_.
     if status \<noteq> ''healthy'' \<and> status \<noteq> ''unhealthy''
     then fail_op (BAD_REQUEST, ''deployment health status must be healthy or unhealthy'')
     else
     and_then (get_app app_tenant_id) (\<lambda>tenant.
     and_then (call (\<lambda>v. ps_record_deployment_health_check v (E 1)
         \<lparr>hc_tenant_id = tenant, hc_deployment_id = deployment_id, hc_node_id = node_id,
          hc_status = status, hc_payload_json = payload_json, hc_created_at = utc_now (E 0) 0\<rparr>)) (\<lambda>_.
     return_op ACCEPTED)))"

record deployment_readiness_response =
  drr_deployment_id :: string
  drr_status :: string
  drr_reason :: string
  drr_healthy_samples :: nat
  drr_required_healthy_samples :: nat
  drr_latest_health_status :: "string option"

definition REQUIRED_HEALTHY_DEPLOYMENT_SAMPLES :: nat where
  "REQUIRED_HEALTHY_DEPLOYMENT_SAMPLES = 2"

definition readiness_of ::
  "string \<Rightarrow> deployment_status \<Rightarrow> deployment_health_check_record list
    \<Rightarrow> deployment_readiness_response" where
  "readiness_of deployment_id deployment_status health_samples =
     (let healthy_samples = length (filter (\<lambda>h. hc_status h = ''healthy'') health_samples);
          latest_health_status = map_option hc_status (max_by_key hc_created_at health_samples);
          (status, reason) =
            (if deployment_status \<noteq> Succeeded
             then (''blocked'', ''waiting_for_successful_deployment'')
             else if is_some_and (\<lambda>s. s \<noteq> ''healthy'') latest_health_status
             then (''blocked'', ''latest_health_unhealthy'')
             else if healthy_samples < REQUIRED_HEALTHY_DEPLOYMENT_SAMPLES
             then (''blocked'', ''waiting_for_healthy_samples'')
             else (''ready'', ''ready''))
      in \<lparr>drr_deployment_id = deployment_id, drr_status = status, drr_reason = reason,
          drr_healthy_samples = healthy_samples,
          drr_required_healthy_samples = REQUIRED_HEALTHY_DEPLOYMENT_SAMPLES,
          drr_latest_health_status = latest_health_status\<rparr>)"

definition compute_deployment_readiness ::
  "(nat \<Rightarrow> env) \<Rightarrow> string \<Rightarrow> ('s, deployment_readiness_response) handler" where
  "compute_deployment_readiness E deployment_id =
     and_then (call (\<lambda>v. ps_deployment_status v (E 0) deployment_id)) (\<lambda>deployment_status.
     and_then (call (\<lambda>v. ps_deployment_health_checks v (E 1) deployment_id)) (\<lambda>health_samples.
     return_op (readiness_of deployment_id deployment_status health_samples)))"

definition get_deployment_readiness ::
  "(nat \<Rightarrow> env) \<Rightarrow> string \<Rightarrow> ('s, deployment_readiness_response) handler" where
  "get_deployment_readiness E deployment_id = compute_deployment_readiness E deployment_id"

record deployment_advance_response =
  dar_deployment_id :: string
  dar_action :: string
  dar_readiness :: deployment_readiness_response
  dar_rollback_to_deployment_id :: "string option"
  dar_sequence :: "u64 option"

definition advance_deployment_rollout ::
  "libs \<Rightarrow> (nat \<Rightarrow> env) \<Rightarrow> string \<Rightarrow> ('s, status_code \<times> deployment_advance_response) handler" where
  "advance_deployment_rollout L E deployment_id =
     and_then (compute_deployment_readiness E deployment_id) (\<lambda>readiness.
     if drr_status readiness = ''ready'' then
       return_op (ACCEPTED, \<lparr>dar_deployment_id = deployment_id, dar_action = ''promoted'',
         dar_readiness = readiness, dar_rollback_to_deployment_id = None, dar_sequence = None\<rparr>)
     else if drr_reason readiness = ''latest_health_unhealthy'' then
       and_then (enqueue_rollback_command L (\<lambda>k. E (k + 2)) deployment_id) (\<lambda>rollback.
       return_op (ACCEPTED, \<lparr>dar_deployment_id = deployment_id, dar_action = ''rollback_queued'',
         dar_readiness = readiness,
         dar_rollback_to_deployment_id = Some (rqr_rollback_to_deployment_id rollback),
         dar_sequence = Some (rqr_sequence rollback)\<rparr>))
     else
       return_op (OK, \<lparr>dar_deployment_id = deployment_id, dar_action = ''waiting'',
         dar_readiness = readiness, dar_rollback_to_deployment_id = None, dar_sequence = None\<rparr>))"

section \<open>Artifacts and subscriptions\<close>

definition get_artifact_bytes :: "(nat \<Rightarrow> env) \<Rightarrow> string \<Rightarrow> ('s, bytes) handler" where
  "get_artifact_bytes E artifact_id = call (\<lambda>v. ps_artifact_bytes v (E 0) artifact_id)"

definition get_subscription ::
  "libs \<Rightarrow> (nat \<Rightarrow> env) \<Rightarrow> string \<Rightarrow> string option \<Rightarrow> headers \<Rightarrow> ('s, artifact \<times> string) handler" where
  "get_subscription L E profile_id query_token headers =
     and_then (case query_token of
         Some token \<Rightarrow>
           and_then (map_err_op (\<lambda>_. (UNAUTHORIZED, ''invalid subscription token''))
             (store_call (\<lambda>v. ps_verify_subscription_token v (E 0) profile_id token))) (\<lambda>verified.
           let user_agent = (case headers ''user-agent'' of Some (Some a) \<Rightarrow> Some a | _ \<Rightarrow> None) in
           call (\<lambda>v. ps_record_subscription_access v (E 1) (st_token_id verified) None user_agent
             ''ok''))
       | None \<Rightarrow>
           and_then (call (\<lambda>v. ps_subscription_token_required v (E 0) profile_id)) (\<lambda>required.
           if required then fail_op (UNAUTHORIZED, ''subscription token is required'')
           else return_op ())) (\<lambda>_.
     and_then (call (\<lambda>v. ps_deployed_profile_for_subscription v (E 2) profile_id)) (\<lambda>deployed.
     and_then (get_app app_tenant_id) (\<lambda>tenant.
     and_then (lift_result (map_err (\<lambda>m. (INTERNAL_SERVER_ERROR, m))
         (generate_subscription_artifact L (E 3) tenant deployed ''subscription-service'')))
       (\<lambda>artifact. return_op (sub_artifact artifact, sub_body_base64 artifact)))))"

definition issue_subscription_token ::
  "(nat \<Rightarrow> env) \<Rightarrow> string \<Rightarrow> ('s, status_code \<times> issued_subscription_token) handler" where
  "issue_subscription_token E profile_id =
     and_then (call (\<lambda>v. ps_issue_subscription_token v (E 0) profile_id)) (\<lambda>token.
     return_op (CREATED, token))"

definition rotate_subscription_token ::
  "(nat \<Rightarrow> env) \<Rightarrow> string \<Rightarrow> ('s, status_code \<times> issued_subscription_token) handler" where
  "rotate_subscription_token E profile_id =
     and_then (call (\<lambda>v. ps_rotate_subscription_token v (E 0) profile_id)) (\<lambda>token.
     return_op (CREATED, token))"

end
