(* ===== verification/Control_Plane_Inv.thy ===== *)
theory Control_Plane_Inv
  imports Control_Plane
begin

text \<open>
  The invariant of the running control plane over \<open>MemoryStore\<close>: the invariant of the store,
  and, for every node, that the commands waiting for it are addressed to it, carry strictly
  increasing sequence numbers not above the node's counter, and are signed with the key of the
  control plane. \<open>request\<close> has a constructor for every endpoint that writes; \<open>app_reachable\<close>
  are the states any sequence of requests produces while no counter has reached
  \<open>2 ^ 64 - 1\<close>.
\<close>

section \<open>Definitions\<close>

definition counter :: "'s app_state \<Rightarrow> string \<Rightarrow> u64" where
  "counter st n = unwrap_or 0 (map_of (app_node_sequences st) n)"

definition queue_inv ::
  "libs \<Rightarrow> signing_key \<Rightarrow> string \<Rightarrow> u64 \<Rightarrow> signed_runner_command list \<Rightarrow> bool" where
  "queue_inv L key n hi q \<longleftrightarrow>
     sorted_wrt (\<lambda>c d. cmd_sequence (src_command c) < cmd_sequence (src_command d)) q \<and>
     (\<forall>c \<in> set q. cmd_node_id (src_command c) = n \<and> cmd_sequence (src_command c) \<le> hi \<and>
        command_sign L (src_command c) key = Ok c)"

definition app_inv :: "libs \<Rightarrow> string \<Rightarrow> memory_state app_state \<Rightarrow> bool" where
  "app_inv L T st \<longleftrightarrow>
     app_store st = memory_store L T \<and> store_inv L (app_store_state st) \<and>
     (\<forall>n. queue_inv L (app_signing_key st) n (counter st n) (memory_queue (app_store_state st) n))"

text \<open>No counter is about to wrap.\<close>

definition counters_ok :: "'s app_state \<Rightarrow> bool" where
  "counters_ok st \<longleftrightarrow> (\<forall>n. counter st n \<noteq> - 1)"

definition app_ready :: "libs \<Rightarrow> string \<Rightarrow> memory_state app_state \<Rightarrow> bool" where
  "app_ready L T st \<longleftrightarrow> app_inv L T st \<and> counters_ok st"

datatype request =
    RegisterNodeReq register_node_request
  | ListTokensReq
  | IssueRegistrationTokenReq "string option"
  | RotateResultKeyReq string string
  | HeartbeatReq string headers json
  | UsageReq string headers runner_usage_request
  | VlessProfileReq string string
  | ShadowsocksProfileReq string "u16 option"
  | TrojanProfileReq string string "u16 option"
  | CreateClientReq create_client_request
  | CompileReq headers compile_deployment_request
  | NextCommandReq string "u64 option" headers
  | SubmitResultReq string headers signed_deployment_result
  | QueueRollbackReq string
  | HealthReq string string headers string json
  | AdvanceReq string
  | SubscriptionReq string "string option" headers
  | IssueSubscriptionTokenReq string
  | RotateSubscriptionTokenReq string

fun handle ::
  "libs \<Rightarrow> (compile_deployment_response \<Rightarrow> (json, string) result) \<Rightarrow> (nat \<Rightarrow> env) \<Rightarrow> request
    \<Rightarrow> 's app_state \<Rightarrow> 's app_state" where
  "handle L J E (RegisterNodeReq r) st = snd (register_node L E r st)"
| "handle L J E ListTokensReq st = snd (list_registration_tokens E st)"
| "handle L J E (IssueRegistrationTokenReq t) st = snd (issue_registration_token E t st)"
| "handle L J E (RotateResultKeyReq n k) st = snd (rotate_runner_result_key L E n k st)"
| "handle L J E (HeartbeatReq n h j) st = snd (runner_heartbeat E n h j st)"
| "handle L J E (UsageReq n h r) st = snd (runner_usage E n h r st)"
| "handle L J E (VlessProfileReq p sn) st = snd (create_vless_reality_profile E p sn st)"
| "handle L J E (ShadowsocksProfileReq p port) st = snd (create_shadowsocks_profile E p port st)"
| "handle L J E (TrojanProfileReq p sn port) st = snd (create_trojan_profile E p sn port st)"
| "handle L J E (CreateClientReq r) st = snd (create_client E r st)"
| "handle L J E (CompileReq h r) st = snd (compile_deployment L J E h r st)"
| "handle L J E (NextCommandReq n q h) st = snd (next_runner_command E n q h st)"
| "handle L J E (SubmitResultReq n h r) st = snd (submit_runner_result L E n h r st)"
| "handle L J E (QueueRollbackReq d) st = snd (queue_rollback L E d st)"
| "handle L J E (HealthReq n d h s p) st = snd (record_runner_deployment_health E n d h s p st)"
| "handle L J E (AdvanceReq d) st = snd (advance_deployment_rollout L E d st)"
| "handle L J E (SubscriptionReq p t h) st = snd (get_subscription L E p t h st)"
| "handle L J E (IssueSubscriptionTokenReq p) st = snd (issue_subscription_token E p st)"
| "handle L J E (RotateSubscriptionTokenReq p) st = snd (rotate_subscription_token E p st)"

inductive app_reachable ::
  "libs \<Rightarrow> (compile_deployment_response \<Rightarrow> (json, string) result) \<Rightarrow> string \<Rightarrow> memory_state app_state
    \<Rightarrow> bool"
  for L :: libs and J :: "compile_deployment_response \<Rightarrow> (json, string) result" and T :: string
where
  boot: "app_reachable L J T (with_store_and_runner_token L reg tok T (memory_store L T)
     memory_state_default)"
| request: "app_reachable L J T st \<Longrightarrow> counters_ok st \<Longrightarrow> app_reachable L J T (handle L J E r st)"

section \<open>What store calls leave alone\<close>

lemma mem_reads [simp]:
  "snd (mem_list_nodes e s) = s" "snd (mem_list_node_registration_tokens e s) = s"
  "snd (mem_node_registration_token e t s) = s" "snd (mem_latest_heartbeat i s) = s"
  "snd (mem_node i s) = s" "snd (mem_list_profiles e s) = s" "snd (mem_profile i s) = s"
  "snd (mem_list_credentials e s) = s" "snd (mem_credentials_for_profile i s) = s"
  "snd (mem_artifact_bytes i s) = s" "snd (mem_artifact_bytes_by_sha256 i s) = s"
  "snd (mem_idempotency_response t k s) = s" "snd (mem_list_deployment_plans e s) = s"
  "snd (mem_deployment_status i s) = s" "snd (mem_rollback_pointer i s) = s"
  "snd (mem_deployment_snapshot i s) = s" "snd (mem_latest_deployment_health i s) = s"
  "snd (mem_deployment_health_checks i s) = s" "snd (mem_latest_usage_sample i s) = s"
  "snd (mem_latest_usage_rollup_for_credential e c b s) = s"
  "snd (mem_credential_quota_decision e c s) = s" "snd (mem_credential_expiry_decision e c s) = s"
  "snd (mem_audit_count s) = s" "snd (mem_outbox_count s) = s"
  "snd (mem_deployed_profile_for_subscription e i s) = s"
  "snd (mem_verify_subscription_token L e i t s) = s"
  "snd (mem_subscription_token_required e i s) = s"
  "snd (mem_subscription_access_log_count i s) = s"
  by (simp_all add: mem_list_nodes_def mem_list_node_registration_tokens_def
      mem_node_registration_token_def mem_latest_heartbeat_def mem_node_def mem_list_profiles_def
      mem_profile_def mem_list_credentials_def mem_credentials_for_profile_def
      mem_artifact_bytes_def mem_artifact_bytes_by_sha256_def mem_idempotency_response_def
      mem_list_deployment_plans_def mem_deployment_status_def mem_rollback_pointer_def
      mem_deployment_snapshot_def mem_latest_deployment_health_def mem_deployment_health_checks_def
      mem_latest_usage_sample_def mem_latest_usage_rollup_for_credential_def
      mem_credential_quota_decision_def mem_credential_expiry_decision_def mem_audit_count_def
      mem_outbox_count_def mem_deployed_profile_for_subscription_def
      mem_verify_subscription_token_def mem_subscription_token_required_def
      mem_subscription_access_log_count_def split: option.split list.split)

lemma mem_commands_frame [simp]:
  "runner_commands (snd (mem_register_node_with_registration_token T e n t s)) = runner_commands s"
  "runner_commands (snd (mem_create_node_registration_token e t' s)) = runner_commands s"
  "runner_commands (snd (mem_record_heartbeat T e h s)) = runner_commands s"
  "runner_commands (snd (mem_update_node_runner_result_public_key T e i k s)) = runner_commands s"
  "runner_commands (snd (mem_create_profile T e p s)) = runner_commands s"
  "runner_commands (snd (mem_add_credential T e i c s)) = runner_commands s"
  "runner_commands (snd (mem_record_artifact_blob L T e a b s)) = runner_commands s"
  "runner_commands (snd (mem_record_idempotency_response i k v s)) = runner_commands s"
  "runner_commands (snd (mem_record_deployment_plan T e d s)) = runner_commands s"
  "runner_commands (snd (mem_record_deployment_result L T e r s)) = runner_commands s"
  "runner_commands (snd (mem_record_deployment_health_check T e h' s)) = runner_commands s"
  "runner_commands (snd (mem_record_usage_sample L u s)) = runner_commands s"
  "runner_commands (snd (mem_set_credential_quota i q s)) = runner_commands s"
  "runner_commands (snd (mem_set_credential_expiry i x s)) = runner_commands s"
  "runner_commands (snd (mem_issue_subscription_token L T e i s)) = runner_commands s"
  "runner_commands (snd (mem_rotate_subscription_token L T e i s)) = runner_commands s"
  "runner_commands (snd (mem_record_subscription_access e i ad ua k s)) = runner_commands s"
  by (auto simp: mem_writes Let_def split: option.splits)

section \<open>The invariant through store calls\<close>

lemma app_ready_inv: "app_ready L T st \<Longrightarrow> app_inv L T st"
  by (simp add: app_ready_def)

lemma counter_store_state [simp]: "counter (st\<lparr>app_store_state := s\<rparr>) n = counter st n"
  by (simp add: counter_def)

lemma store_call_snd:
  "snd (store_call f st) = st\<lparr>app_store_state := snd (f (app_store st) (app_store_state st))\<rparr>"
  by (simp add: store_call_def split: prod.splits)

lemma call_snd: "snd (call f st) = snd (store_call f st)"
  by (simp add: call_def)

lemma store_call_keeps:
  assumes "\<And>s. store_inv L s \<Longrightarrow> store_inv L (snd (f (memory_store L T) s))"
    and "\<And>s. runner_commands (snd (f (memory_store L T) s)) = runner_commands s"
  shows "triple (app_inv L T) (store_call f) (app_inv L T)"
    and "triple (app_ready L T) (store_call f) (app_ready L T)"
  using assms
  by (auto intro!: tripleI simp: app_ready_def app_inv_def counters_ok_def store_call_snd
      memory_queue_def)

lemma call_keeps:
  assumes "\<And>s. store_inv L s \<Longrightarrow> store_inv L (snd (f (memory_store L T) s))"
    and "\<And>s. runner_commands (snd (f (memory_store L T) s)) = runner_commands s"
  shows "triple (app_inv L T) (call f) (app_inv L T)"
    and "triple (app_ready L T) (call f) (app_ready L T)"
  using store_call_keeps [of L f T] assms by (auto simp: call_def intro!: triple_map_err_op)

lemma triple_get_app: "triple P (get_app f) P"
  by (simp add: triple_def get_app_def)

lemma triple_require_runner_token: "triple P (require_runner_token h) P"
  by (simp add: triple_def require_runner_token_def)

lemma triple_option:
  "triple P m Q \<Longrightarrow> (\<And>a. triple P (f a) Q) \<Longrightarrow> triple P (case x of None \<Rightarrow> m | Some a \<Rightarrow> f a) Q"
  by (cases x) simp_all

lemma triple_if: "triple P m Q \<Longrightarrow> triple P m' Q \<Longrightarrow> triple P (if b then m else m') Q"
  by simp

lemma triple_prod: "(\<And>a b. triple P (f a b) Q) \<Longrightarrow> triple P (case x of (a, b) \<Rightarrow> f a b) Q"
  by (cases x) simp

lemma triple_let: "triple P (f x) Q \<Longrightarrow> triple P (let y = x in f y) Q"
  by simp

lemmas triple_struct = triple_keeps_and_then triple_units triple_get_app
  triple_require_runner_token triple_option triple_if triple_prod triple_let

section \<open>The invariant through the queue\<close>

lemma queue_inv_append:
  assumes "queue_inv L key n hi q" and "hi < cmd_sequence (src_command c)"
    and "cmd_node_id (src_command c) = n" and "command_sign L (src_command c) key = Ok c"
  shows "queue_inv L key n (cmd_sequence (src_command c)) (q @ [c])"
  using assms unfolding queue_inv_def by (auto simp: sorted_wrt_append)

lemma queue_inv_mono: "queue_inv L key n hi q \<Longrightarrow> hi \<le> hi' \<Longrightarrow> queue_inv L key n hi' q"
  unfolding queue_inv_def by auto

lemma queue_inv_suffix:
  "queue_inv L key n hi (p @ q) \<Longrightarrow> queue_inv L key n hi q"
  unfolding queue_inv_def by (auto simp: sorted_wrt_append)

lemma queue_inv_pop:
  assumes "queue_inv L key n hi q"
  shows "queue_inv L key n hi (snd (pop_front (drop_stale k q)))"
proof -
  obtain p where "q = p @ drop_stale k q" using drop_stale_suffix by blast
  then have q: "queue_inv L key n hi (drop_stale k q)" using assms queue_inv_suffix by metis
  show ?thesis
  proof (cases "drop_stale k q")
    case (Cons c rest)
    with q queue_inv_suffix [of L key n hi "[c]" rest] show ?thesis by simp
  qed (use q in simp)
qed

lemma next_runner_command_keeps:
  "triple (app_inv L T) (call (\<lambda>v. ps_next_runner_command v e n k)) (app_inv L T)"
proof (rule tripleI)
  fix st
  assume inv: "app_inv L T st"
  let ?s = "app_store_state st"
  obtain s' where s': "mem_next_runner_command n k ?s
        = (Ok (fst (pop_front (drop_stale k (memory_queue ?s n)))), s')"
      "memory_queue s' = (memory_queue ?s)(n := snd (pop_front (drop_stale k (memory_queue ?s n))))"
    using mq.nxt_pops [of L T e n k ?s] by auto
  have "store_inv L s'"
    using mem_next_runner_command_inv [of L ?s n k] inv s'(1) by (simp add: app_inv_def)
  with inv s' show "app_inv L T (snd (call (\<lambda>v. ps_next_runner_command v e n k) st))"
    by (auto simp: app_inv_def call_snd store_call_snd queue_inv_pop)
qed

text \<open>
  \<open>sign_and_enqueue\<close> either fails to serialise, after taking a sequence number, or appends
  one signed command with the next sequence number to the queue of the node.
\<close>

lemma next_sequence_eq:
  "next_sequence n st = (Ok (counter st n + 1),
     st\<lparr>app_node_sequences := hm_insert n (counter st n + 1) (app_node_sequences st)\<rparr>)"
  by (simp add: next_sequence_def counter_def Let_def)

lemma counter_bump [simp]:
  "counter (st\<lparr>app_node_sequences := hm_insert n k (app_node_sequences st)\<rparr>) m
     = (if m = n then k else counter st m)"
  by (simp add: counter_def)

lemma command_sign_Ok:
  "command_sign L c key = Ok x \<Longrightarrow> src_command x = c \<and> command_sign L (src_command x) key = Ok x"
  by (auto simp: command_sign_def bind_result_eq_Ok)

lemma sign_and_enqueue_cases:
  assumes "app_store st = memory_store L T"
  obtains (fail) x where "sign_and_enqueue L e0 e1 n kind st = (Err x,
      st\<lparr>app_node_sequences := hm_insert n (counter st n + 1) (app_node_sequences st)\<rparr>)"
  | (enqueued) c where "sign_and_enqueue L e0 e1 n kind st = (Ok (counter st n + 1),
      st\<lparr>app_node_sequences := hm_insert n (counter st n + 1) (app_node_sequences st),
         app_store_state := snd (mem_enqueue_runner_command n c (app_store_state st))\<rparr>)"
    and "command_sign L (src_command c) (app_signing_key st) = Ok c"
    and "src_command c = runner_command_new e0 (app_tenant_id st) n (counter st n + 1)
      (utc_now e0 0 + seconds 60) kind"
proof (cases "command_sign L (runner_command_new e0 (app_tenant_id st) n (counter st n + 1)
      (utc_now e0 0 + seconds 60) kind) (app_signing_key st)")
  case (Ok c)
  then show ?thesis
    using command_sign_Ok [OF Ok] assms
    by (intro enqueued [of c])
       (simp_all add: sign_and_enqueue_def and_then_def next_sequence_eq get_app_def lift_result_def
         return_op_def call_def map_err_op_def store_call_def mem_enqueue_runner_command_def)
next
  case (Err x)
  then show ?thesis
    by (intro fail [of "(INTERNAL_SERVER_ERROR, domain_error_to_string x)"])
       (simp add: sign_and_enqueue_def and_then_def next_sequence_eq get_app_def lift_result_def)
qed

lemma word_less_Suc: "(k :: u64) \<noteq> - 1 \<Longrightarrow> k < k + 1"
proof -
  assume "k \<noteq> - 1"
  then have "1 + k \<noteq> 0" using max_word_wrap [of k] by (auto simp: add.commute)
  then have "unat (k + 1) = Suc (unat k)" using unatSuc [of k] by (simp add: add.commute)
  then show ?thesis by (simp add: word_less_nat_alt)
qed

lemma sign_and_enqueue_keeps:
  "triple (app_ready L T) (sign_and_enqueue L e0 e1 n kind) (app_inv L T)"
proof (rule tripleI)
  fix st
  assume ready: "app_ready L T st"
  then have inv: "app_inv L T st" and st: "app_store st = memory_store L T"
      and less: "counter st n < counter st n + 1"
    by (simp_all add: app_ready_def app_inv_def counters_ok_def word_less_Suc)
  let ?q = "memory_queue (app_store_state st)"
  have q: "queue_inv L (app_signing_key st) m (counter st m) (?q m)" for m
    using inv by (simp add: app_inv_def)
  have bump: "queue_inv L (app_signing_key st) n (counter st n + 1) (?q n)"
    using queue_inv_mono [OF q order_less_imp_le [OF less]] .
  show "app_inv L T (snd (sign_and_enqueue L e0 e1 n kind st))"
    using st
  proof (cases rule: sign_and_enqueue_cases [of st L T e0 e1 n kind])
    case (fail x)
    with inv q bump show ?thesis by (simp add: app_inv_def)
  next
    case (enqueued c)
    let ?s = "snd (mem_enqueue_runner_command n c (app_store_state st))"
    have "memory_queue ?s = ?q(n := ?q n @ [c])"
      by (auto simp: mem_enqueue_runner_command_def memory_queue_def)
    moreover have "queue_inv L (app_signing_key st) n (counter st n + 1) (?q n @ [c])"
      using queue_inv_append [OF q [of n], of c] less enqueued(2,3) by (simp add: runner_command_new_def)
    moreover have "store_inv L ?s"
      using inv by (auto simp: app_inv_def intro: mem_enqueue_runner_command_inv)
    moreover have "counter (snd (sign_and_enqueue L e0 e1 n kind st)) m
        = (if m = n then counter st n + 1 else counter st m)" for m
      using enqueued(1) by (simp add: counter_def)
    ultimately show ?thesis
      using st q enqueued(1) by (simp add: app_inv_def)
  qed
qed

section \<open>The invariant through the handlers\<close>

text \<open>
  Handlers that do not enqueue keep both predicates; handlers that do go from \<open>app_ready\<close> to
  \<open>app_inv\<close>, with \<open>app_ready\<close> up to the point where the sequence number is taken.
\<close>

lemma triple_before_enqueue:
  "triple (app_ready L T) m (app_ready L T) \<Longrightarrow> (\<And>a. triple (app_ready L T) (f a) (app_inv L T))
    \<Longrightarrow> triple (app_ready L T) (and_then m f) (app_inv L T)"
  by (rule triple_and_then [where R = "app_ready L T"]) (auto dest: app_ready_inv)

lemma triple_at_enqueue:
  "triple (app_ready L T) m (app_inv L T) \<Longrightarrow> (\<And>a. triple (app_inv L T) (f a) (app_inv L T))
    \<Longrightarrow> triple (app_ready L T) (and_then m f) (app_inv L T)"
  by (rule triple_and_then)

lemma triple_ready_units:
  "triple (app_ready L T) (return_op a) (app_inv L T)"
  "triple (app_ready L T) (fail_op e) (app_inv L T)"
  by (auto simp: triple_def op_units dest: app_ready_inv)

lemma ensure_default_registration_token_keeps:
  "triple (app_inv L T) (ensure_default_registration_token e0 e1) (app_inv L T)"
proof (rule tripleI)
  fix st
  assume "app_inv L T st"
  then show "app_inv L T (snd (ensure_default_registration_token e0 e1 st))"
    unfolding ensure_default_registration_token_def Let_def
    by (intro tripleD [OF call_keeps(1)]) (simp_all add: inv_pres)
qed

lemma store_profile_keeps: "triple (app_inv L T) (store_profile e0 e1 p ir) (app_inv L T)"
  unfolding store_profile_def
  by (intro triple_struct call_keeps) (simp_all add: inv_pres)

lemma issue_registration_token_keeps:
  "triple (app_inv L T) (issue_registration_token E t) (app_inv L T)"
  unfolding issue_registration_token_def
proof (intro triple_keeps_and_then ensure_default_registration_token_keeps tripleI)
  fix st0
  assume inv: "app_inv L T st0"
  let ?token = "unwrap_or (''node-reg-'' @ new_v4 (E 2) 0) t"
  let ?look = "store_call (\<lambda>v. ps_node_registration_token v (E 3) ?token)"
  have st: "snd (?look st0) = st0"
    using inv by (simp add: store_call_snd app_inv_def)
  have "triple (app_inv L T) (and_then (call (\<lambda>v. ps_create_node_registration_token v e r))
      (\<lambda>_. return_op x)) (app_inv L T)" for e r and x :: "status_code \<times> node_registration_token_record"
    by (intro triple_struct call_keeps) (simp_all add: inv_pres)
  note create = tripleD [OF this inv]
  show "app_inv L T (snd (let token = ?token in
      case store_call (\<lambda>v. ps_node_registration_token v (E 3) token) st0 of
        (Ok _, st) \<Rightarrow> (Err (CONFLICT, ''registration token already exists''), st)
      | (Err (NotFound _), st) \<Rightarrow>
          (let record = node_registration_token_new (E 4) (app_tenant_id st)
                 (''regtok-'' @ new_v4 (E 4) 0) token in
           and_then (call (\<lambda>v. ps_create_node_registration_token v (E 5) record)) (\<lambda>_.
           return_op (CREATED, record)) st)
      | (Err error, st) \<Rightarrow> (Err (to_http_error error), st)))"
    using inv st create
    by (cases "?look st0") (auto simp: Let_def split: result.split store_error.split)
qed

lemma enqueue_rollback_command_keeps:
  "triple (app_ready L T) (enqueue_rollback_command L E d) (app_inv L T)"
  unfolding enqueue_rollback_command_def
  by (intro triple_at_enqueue [OF sign_and_enqueue_keeps] triple_before_enqueue triple_units call_keeps)
     (simp_all add: inv_pres)

lemma compute_deployment_readiness_keeps:
  "triple (app_ready L T) (compute_deployment_readiness E d) (app_ready L T)"
  unfolding compute_deployment_readiness_def
  by (intro triple_struct call_keeps) (simp_all add: inv_pres)

lemma compile_for_node_keeps: "triple (app_ready L T) (compile_for_node L E r) (app_ready L T)"
  unfolding compile_for_node_def
  by (intro triple_struct call_keeps) (simp_all add: inv_pres)

lemma compile_uncached_keeps:
  "triple (app_ready L T) (compile_uncached L J E t k r) (app_inv L T)"
  unfolding compile_uncached_def Let_def
  by (rule triple_before_enqueue [OF compile_for_node_keeps]
      triple_at_enqueue [OF sign_and_enqueue_keeps] triple_before_enqueue triple_struct call_keeps
      | simp add: inv_pres)+

lemma compile_deployment_keeps:
  "triple (app_ready L T) (compile_deployment L J E h r) (app_inv L T)"
  unfolding compile_deployment_def
  by (rule triple_at_enqueue [OF compile_uncached_keeps] triple_before_enqueue triple_ready_units
      triple_struct call_keeps | simp add: inv_pres)+

lemma advance_deployment_rollout_keeps:
  "triple (app_ready L T) (advance_deployment_rollout L E d) (app_inv L T)"
  unfolding advance_deployment_rollout_def
  by (intro triple_before_enqueue [OF compute_deployment_readiness_keeps] triple_if
      triple_ready_units triple_at_enqueue [OF enqueue_rollback_command_keeps] triple_units)

lemma push_runner_result_keeps: "triple (app_inv L T) (push_runner_result r) (app_inv L T)"
  by (simp add: triple_def push_runner_result_def app_inv_def counter_def)

lemma register_node_keeps: "triple (app_inv L T) (register_node L E r) (app_inv L T)"
  unfolding register_node_def
  by (intro triple_struct ensure_default_registration_token_keeps triple_map_err_op store_call_keeps)
     (simp_all add: inv_pres)

lemma get_subscription_keeps: "triple (app_inv L T) (get_subscription L E p t h) (app_inv L T)"
  unfolding get_subscription_def
  by (intro triple_struct triple_map_err_op store_call_keeps call_keeps) (simp_all add: inv_pres)

lemma submit_runner_result_keeps:
  "triple (app_inv L T) (submit_runner_result L E n h r) (app_inv L T)"
  unfolding submit_runner_result_def
  by (intro triple_struct call_keeps push_runner_result_keeps) (simp_all add: inv_pres)

lemma simple_handlers_keep:
  "triple (app_inv L T) (list_registration_tokens E) (app_inv L T)"
  "triple (app_inv L T) (rotate_runner_result_key L E n k) (app_inv L T)"
  "triple (app_inv L T) (runner_heartbeat E n h j) (app_inv L T)"
  "triple (app_inv L T) (runner_usage E n h u) (app_inv L T)"
  "triple (app_inv L T) (create_vless_reality_profile E p sn) (app_inv L T)"
  "triple (app_inv L T) (create_shadowsocks_profile E p port) (app_inv L T)"
  "triple (app_inv L T) (create_trojan_profile E p sn port) (app_inv L T)"
  "triple (app_inv L T) (create_client E c) (app_inv L T)"
  "triple (app_inv L T) (next_runner_command E n q h) (app_inv L T)"
  "triple (app_inv L T) (record_runner_deployment_health E n d h st pl) (app_inv L T)"
  "triple (app_inv L T) (issue_subscription_token E p) (app_inv L T)"
  "triple (app_inv L T) (rotate_subscription_token E p) (app_inv L T)"
  unfolding list_registration_tokens_def rotate_runner_result_key_def runner_heartbeat_def
    runner_usage_def create_vless_reality_profile_def create_shadowsocks_profile_def
    create_trojan_profile_def create_client_def next_runner_command_def
    record_runner_deployment_health_def issue_subscription_token_def rotate_subscription_token_def
  by (rule triple_struct ensure_default_registration_token_keeps store_profile_keeps
      next_runner_command_keeps call_keeps | simp add: inv_pres)+

lemma queue_rollback_keeps: "triple (app_ready L T) (queue_rollback L E d) (app_inv L T)"
  unfolding queue_rollback_def
  by (intro triple_at_enqueue [OF enqueue_rollback_command_keeps] triple_units)

lemma handle_keeps:
  assumes "app_ready L T st"
  shows "app_inv L T (handle L J E r st)"
proof -
  note inv = app_ready_inv [OF assms]
  show ?thesis
    by (cases r)
       (simp_all add: simple_handlers_keep [THEN tripleD, OF inv]
         register_node_keeps [THEN tripleD, OF inv] get_subscription_keeps [THEN tripleD, OF inv]
         submit_runner_result_keeps [THEN tripleD, OF inv]
         issue_registration_token_keeps [THEN tripleD, OF inv]
         queue_rollback_keeps [THEN tripleD, OF assms]
         advance_deployment_rollout_keeps [THEN tripleD, OF assms]
         compile_deployment_keeps [THEN tripleD, OF assms])
qed

lemma memory_queue_default [simp]: "memory_queue memory_state_default n = []"
  by (simp add: memory_queue_def memory_state_default_def)

lemma boot_inv: "app_inv L T (with_store_and_runner_token L reg tok T (memory_store L T)
    memory_state_default)"
  by (simp add: app_inv_def with_store_and_runner_token_def memory_state_default_inv queue_inv_def)

lemma app_reachable_inv: "app_reachable L J T st \<Longrightarrow> app_inv L T st"
  by (induction rule: app_reachable.induct)
     (auto simp: boot_inv app_ready_def intro: handle_keeps)

section \<open>Property\<close>

text \<open>
  C7. Whatever requests arrive, the commands waiting for a node are addressed to it, have strictly
  increasing sequence numbers not above the node's counter, and carry the control plane's
  signature of their own content; and the store keeps its invariant.
\<close>

theorem pending_commands_well_formed:
  assumes "app_reachable L J T st"
  shows "store_inv L (app_store_state st) \<and>
    sorted_wrt (\<lambda>c d. cmd_sequence (src_command c) < cmd_sequence (src_command d))
      (memory_queue (app_store_state st) n) \<and>
    (\<forall>c \<in> set (memory_queue (app_store_state st) n).
       cmd_node_id (src_command c) = n \<and> cmd_sequence (src_command c) \<le> counter st n \<and>
       command_sign L (src_command c) (app_signing_key st) = Ok c)"
  using app_reachable_inv [OF assms] by (auto simp: app_inv_def queue_inv_def)

theorem pending_commands_well_formed_witness:
  "store_inv demo_libs (app_store_state (handle demo_libs (\<lambda>_. Ok JNull) (\<lambda>_. demo_env)
     (ShadowsocksProfileReq ''p'' None) (with_store_and_runner_token demo_libs ''r'' ''k'' ''t''
        (memory_store demo_libs ''t'') memory_state_default)))"
proof -
  have "counters_ok (with_store_and_runner_token demo_libs ''r'' ''k'' ''t''
      (memory_store demo_libs ''t'') memory_state_default)"
    by (simp add: counters_ok_def counter_def with_store_and_runner_token_def)
  then show ?thesis
    using pending_commands_well_formed
      [OF app_reachable.request [OF app_reachable.boot], where J = "\<lambda>_. Ok JNull"] by blast
qed

end
