(* ===== verification/Http_Wire.thy ===== *)
theory Http_Wire
  imports Domain
begin

text \<open>
  The vocabulary of the HTTP connection between the runner and the control plane: requests,
  responses and paths. A body that \<open>json(..)\<close> or \<open>Json(..)\<close> makes is its \<open>serde_json::Value\<close>;
  status codes are numbers.
\<close>

section \<open>Requests and responses\<close>

datatype http_method = GET | POST

datatype http_body = NoBody | TextBody string | JsonBody json | BytesBody bytes

record http_request =
  hq_method :: http_method
  hq_url :: string
  hq_headers :: "(string \<times> string) list"
  hq_body :: http_body

record http_response =
  hs_status :: nat
  hs_body :: http_body

definition is_success :: "nat \<Rightarrow> bool" where
  "is_success status \<longleftrightarrow> 200 \<le> status \<and> status < 300"

text \<open>The environment of a process: \<open>std::env::var(name).ok()\<close>.\<close>

type_synonym vars = "string \<Rightarrow> string option"

definition var_or :: "vars \<Rightarrow> string \<Rightarrow> string \<Rightarrow> string" where
  "var_or V name d = unwrap_or d (V name)"

section \<open>Paths\<close>

text \<open>A path is written as its segments, each after a slash.\<close>

fun path_text :: "string list \<Rightarrow> string" where
  "path_text [] = []"
| "path_text (s # ss) = CHR ''/'' # s @ path_text ss"

definition path_segments :: "string \<Rightarrow> string list" where
  "path_segments p = tl (split_on (CHR ''/'') p)"

text \<open>Letters, digits, \<open>-\<close> and \<open>_\<close>: text that stands for itself in every part of a URL.\<close>

definition char_in :: "char \<Rightarrow> char \<Rightarrow> char \<Rightarrow> bool" where
  "char_in lo hi c \<longleftrightarrow> lo \<le> c \<and> c \<le> hi"

definition plain_char :: "char \<Rightarrow> bool" where
  "plain_char c \<longleftrightarrow>
     char_in (CHR ''0'') (CHR ''9'') c \<or> char_in (CHR ''A'') (CHR ''Z'') c \<or>
     char_in (CHR ''a'') (CHR ''z'') c \<or> c = CHR ''-'' \<or> c = CHR ''_''"

definition plain :: "string \<Rightarrow> bool" where
  "plain s \<longleftrightarrow> s \<noteq> [] \<and> list_all plain_char s"

text \<open>Text a header carries unchanged.\<close>

definition header_text :: "string \<Rightarrow> bool" where
  "header_text s \<longleftrightarrow> s \<noteq> [] \<and> list_all (\<lambda>c. CHR ''!'' \<le> c \<and> c \<le> CHR ''~'') s"

section \<open>Lemmas\<close>

lemma split_on_path_text:
  "CHR ''/'' \<notin> set s \<Longrightarrow> list_all (\<lambda>s. CHR ''/'' \<notin> set s) ss \<Longrightarrow>
    split_on (CHR ''/'') (s @ path_text ss) = s # ss"
  by (induction ss arbitrary: s) (simp_all add: split_on_no_sep split_on_append)

lemma path_segments_path_text [simp]:
  "list_all (\<lambda>s. CHR ''/'' \<notin> set s) ss \<Longrightarrow> path_segments (path_text ss) = ss"
  using split_on_path_text [of "[]" ss] by (simp add: path_segments_def)

lemma plain_no_slash: "plain s \<Longrightarrow> CHR ''/'' \<notin> set s"
  by (auto simp: plain_def plain_char_def char_in_def list_all_iff)

lemma plain_show_nat [simp]: "plain (show_nat n)"
proof -
  have "plain_char (digit_char d)" if "d < 10" for d
    using that by (auto simp: plain_char_def char_in_def digit_char_def less_eq_char_def)
  with show_nat_digits [of _ n] show ?thesis by (fastforce simp: plain_def list_all_iff)
qed

lemma is_success_numbers [simp]:
  "is_success 200" "is_success 201" "is_success 202" "is_success 204"
  "\<not> is_success 400" "\<not> is_success 401" "\<not> is_success 404" "\<not> is_success 405"
  "\<not> is_success 409" "\<not> is_success 500"
  by (simp_all add: is_success_def)

end
