(* ===== verification/Control_Plane_Router.thy ===== *)
theory Control_Plane_Router
  imports Control_Plane_Inv Http_Wire
begin

text \<open>
  The HTTP surface of the control plane (src/crates/control-plane/src/lib.rs): the route table of
  \<open>build_router\<close>, the capabilities page, and the way a request reaches its handler. axum and serde
  are the parameter \<open>web\<close>: which route a path belongs to, the decoded path parameters, the \<open>Query\<close>
  and \<open>Json\<close> extractors with their rejections, and the encoding of a response body. The order of the
  extractors is the order of the handlers' arguments: path, query, headers, body.
\<close>

section \<open>Capabilities\<close>

record capability_item =
  ci_name :: string
  ci_status :: string
  ci_evidence :: string

record system_capabilities_response =
  scr_product :: string
  scr_architecture :: string
  scr_p0_status :: string
  scr_core_path :: "capability_item list"
  scr_backend_wheels :: "capability_item list"
  scr_deferred_wheels :: "capability_item list"

abbreviation capability :: "string \<Rightarrow> string \<Rightarrow> string \<Rightarrow> capability_item" where
  "capability n s e \<equiv> \<lparr>ci_name = n, ci_status = s, ci_evidence = e\<rparr>"

definition system_capabilities :: system_capabilities_response where
  "system_capabilities =
     \<lparr>scr_product = ''RelayX'',
      scr_architecture = ''Agent-native proxy infrastructure control plane'',
      scr_p0_status = ''executable'',
      scr_core_path =
        [capability ''Next.js console -> Rust control-plane'' ''implemented''
           ''same-origin /api/control-plane proxy, health check, browser operations'',
         capability ''Rust control-plane -> storage'' ''implemented''
           ''ProxyStore trait with MemoryStore and PostgresStore implementations'',
         capability ''Rust runner -> xray-core'' ''implemented''
           ''signed command polling, xray run -test, atomic active release switch''],
      scr_backend_wheels =
        [capability ''Profile IR'' ''implemented''
           ''VLESS REALITY, Shadowsocks, and Trojan profile constructors plus validation'',
         capability ''Xray compiler adapter'' ''implemented''
           ''compiler-xray crate emits content-addressed xray JSON artifacts'',
         capability ''Runner lifecycle'' ''implemented''
           ''self-registration, heartbeat, command polling, apply, signed result submission'',
         capability ''Node registration lease'' ''p0-implemented''
           ''one-time registration tokens persisted in storage and atomically consumed'',
         capability ''Deployment evidence'' ''implemented''
           ''health samples, readiness, rollback pointer, snapshot, result count'',
         capability ''Subscription and client guards'' ''implemented''
           ''token issue/rotate/verify, quota, expiry, usage rollups''],
      scr_deferred_wheels =
        [capability ''Full Lease Protocol'' ''p1-deferred''
           ''needs explicit node lease artifact, graceful drain, credential rotation workflow'',
         capability ''sing-box compiler adapter'' ''p1-deferred''
           ''compiler boundary exists; xray adapter is the P0 executable path'',
         capability ''A2A boundary'' ''p1-deferred''
           ''internal flow uses direct HTTP/Rust; A2A should wrap external agent capabilities later'',
         capability ''BYOM integration'' ''p1-deferred''
           ''no local model dependency in P0; future API-key-backed or customer connector mode'',
         capability ''Node marketplace agent'' ''p2-deferred''
           ''requires private registry, auth, rate limits, and lease artifact contract first'']\<rparr>"

section \<open>The route table\<close>

datatype endpoint =
    HealthzEp | SystemCapabilitiesEp | ListNodesEp
  | ListRegistrationTokensEp | IssueRegistrationTokenEp | RegisterNodeEp
  | RotateRunnerResultKeyEp | GetNodeHeartbeatEp | GetLatestUsageEp
  | GetLatestUsageRollupEp | GetArtifactBytesEp | ListProfilesEp
  | CreateVlessRealityProfileEp | CreateShadowsocksProfileEp | CreateTrojanProfileEp
  | ListClientsEp | CreateClientEp | GetClientQuotaEp
  | GetClientExpiryEp | ListDeploymentsEp | CompileDeploymentEp
  | GetDeploymentEp | QueueRollbackEp | GetRollbackPointerEp
  | GetDeploymentSnapshotEp | GetDeploymentHealthEp | GetDeploymentReadinessEp
  | AdvanceDeploymentRolloutEp | RunnerHeartbeatEp | RunnerUsageEp
  | RecordRunnerDeploymentHealthEp | NextRunnerCommandEp | SubmitRunnerResultEp
  | RunnerResultCountEp | IssueSubscriptionTokenEp | RotateSubscriptionTokenEp
  | GetSubscriptionEp

definition build_router :: "(string \<times> (http_method \<times> endpoint) list) list" where
  "build_router =
     [(''/healthz'', [(GET, HealthzEp)]),
      (''/system/capabilities'', [(GET, SystemCapabilitiesEp)]),
      (''/nodes'', [(GET, ListNodesEp)]),
      (''/nodes/registration-tokens'',
        [(GET, ListRegistrationTokensEp), (POST, IssueRegistrationTokenEp)]),
      (''/nodes/register'', [(POST, RegisterNodeEp)]),
      (''/nodes/{node_id}/runner-result-key/rotate'', [(POST, RotateRunnerResultKeyEp)]),
      (''/nodes/{node_id}/heartbeat'', [(GET, GetNodeHeartbeatEp)]),
      (''/usage/nodes/{node_id}/latest'', [(GET, GetLatestUsageEp)]),
      (''/usage/credentials/{credential_id}/rollups/latest'', [(GET, GetLatestUsageRollupEp)]),
      (''/artifacts/{artifact_id}/bytes'', [(GET, GetArtifactBytesEp)]),
      (''/profiles'', [(GET, ListProfilesEp)]),
      (''/profiles/vless-reality'', [(POST, CreateVlessRealityProfileEp)]),
      (''/profiles/shadowsocks'', [(POST, CreateShadowsocksProfileEp)]),
      (''/profiles/trojan'', [(POST, CreateTrojanProfileEp)]),
      (''/clients'', [(GET, ListClientsEp), (POST, CreateClientEp)]),
      (''/clients/{client_id}/quota'', [(GET, GetClientQuotaEp)]),
      (''/clients/{client_id}/expiry'', [(GET, GetClientExpiryEp)]),
      (''/deployments'', [(GET, ListDeploymentsEp)]),
      (''/deployments/compile'', [(POST, CompileDeploymentEp)]),
      (''/deployments/{deployment_id}'', [(GET, GetDeploymentEp)]),
      (''/deployments/{deployment_id}/rollback'', [(POST, QueueRollbackEp)]),
      (''/deployments/{deployment_id}/rollback-pointer'', [(GET, GetRollbackPointerEp)]),
      (''/deployments/{deployment_id}/snapshot'', [(GET, GetDeploymentSnapshotEp)]),
      (''/deployments/{deployment_id}/health'', [(GET, GetDeploymentHealthEp)]),
      (''/deployments/{deployment_id}/readiness'', [(GET, GetDeploymentReadinessEp)]),
      (''/deployments/{deployment_id}/advance'', [(POST, AdvanceDeploymentRolloutEp)]),
      (''/runner/nodes/{node_id}/heartbeat'', [(POST, RunnerHeartbeatEp)]),
      (''/runner/nodes/{node_id}/usage'', [(POST, RunnerUsageEp)]),
      (''/runner/nodes/{node_id}/deployments/{deployment_id}/health'',
        [(POST, RecordRunnerDeploymentHealthEp)]),
      (''/runner/nodes/{node_id}/commands/next'', [(GET, NextRunnerCommandEp)]),
      (''/runner/nodes/{node_id}/results'', [(POST, SubmitRunnerResultEp)]),
      (''/runner/results/count'', [(GET, RunnerResultCountEp)]),
      (''/subscriptions/{profile_id}/tokens'', [(POST, IssueSubscriptionTokenEp)]),
      (''/subscriptions/{profile_id}/tokens/rotate'', [(POST, RotateSubscriptionTokenEp)]),
      (''/subscriptions/{profile_id}'', [(GET, GetSubscriptionEp)])]"

text \<open>
  A segment in braces captures one segment of the path, any other segment stands for itself. These
  are the rules axum documents; \<open>wb_match\<close> below is its matcher.
\<close>

definition is_capture :: "string \<Rightarrow> bool" where
  "is_capture s \<longleftrightarrow> s \<noteq> [] \<and> hd s = CHR ''{''"

fun match_segments :: "string list \<Rightarrow> string list \<Rightarrow> string list option" where
  "match_segments [] [] = Some []"
| "match_segments (p # ps) (s # ss) =
     (if is_capture p
      then (if s = [] then None else map_option ((#) s) (match_segments ps ss))
      else if p = s then match_segments ps ss else None)"
| "match_segments _ _ = None"

definition pattern_match :: "string \<Rightarrow> string \<Rightarrow> string list option" where
  "pattern_match pattern path = match_segments (path_segments pattern) (path_segments path)"

section \<open>Responses and extractors\<close>

datatype reply =
    CapabilitiesReply system_capabilities_response
  | NodesReply "node_record list"
  | TokensReply "node_registration_token_record list"
  | TokenReply node_registration_token_record
  | RegisteredReply string string
  | RotatedReply string string string
  | AcceptedReply string bool
  | HeartbeatReply string json datetime
  | UsageReply usage_sample_record
  | RollupReply usage_rollup_record
  | ProfilesReply "profile_inventory_item list"
  | CreatedReply string string
  | ClientsReply "client_inventory_item list"
  | QuotaReply credential_quota_decision
  | ExpiryReply credential_expiry_decision
  | DeploymentsReply "deployment_inventory_item list"
  | CompileReply compile_body
  | DeploymentReply string deployment_status
  | RollbackReply rollback_queued_response
  | PointerReply rollback_pointer_record
  | SnapshotReply deployment_snapshot_record
  | HealthCheckReply deployment_health_check_record
  | ReadinessReply deployment_readiness_response
  | AdvanceReply deployment_advance_response
  | CommandReply signed_runner_command
  | CountReply nat
  | SubscriptionTokenReply issued_subscription_token
  | SubscriptionReply artifact string

type_synonym ('i, 'a) extractor = "'i \<Rightarrow> ('a, http_response) result"

record web =
  wb_match :: "string list \<Rightarrow> string \<Rightarrow> (string \<times> string list) option"
  wb_param :: "(string, string) extractor"
  wb_header :: "string \<Rightarrow> string option"
  wb_json :: "reply \<Rightarrow> (json, string) result"
  qx_bucket :: "(string option, string option) extractor"
  qx_last_sequence :: "(string option, u64 option) extractor"
  qx_token :: "(string option, string option) extractor"
  jx_register_node :: "(http_body, register_node_request) extractor"
  jx_issue_token :: "(http_body, string option) extractor"
  jx_rotate_key :: "(http_body, string) extractor"
  jx_heartbeat :: "(http_body, json) extractor"
  jx_usage :: "(http_body, runner_usage_request) extractor"
  jx_vless :: "(http_body, string \<times> string) extractor"
  jx_shadowsocks :: "(http_body, string \<times> u16 option) extractor"
  jx_trojan :: "(http_body, string \<times> string \<times> u16 option) extractor"
  jx_client :: "(http_body, create_client_request) extractor"
  jx_compile :: "(http_body, compile_deployment_request) extractor"
  jx_health :: "(http_body, string \<times> json) extractor"
  jx_result :: "(http_body, signed_deployment_result) extractor"

fun status_number :: "status_code \<Rightarrow> nat" where
  "status_number OK = 200"
| "status_number CREATED = 201"
| "status_number ACCEPTED = 202"
| "status_number NO_CONTENT = 204"
| "status_number BAD_REQUEST = 400"
| "status_number UNAUTHORIZED = 401"
| "status_number NOT_FOUND = 404"
| "status_number CONFLICT = 409"
| "status_number INTERNAL_SERVER_ERROR = 500"

definition plain_response :: "nat \<Rightarrow> http_body \<Rightarrow> http_response" where
  "plain_response status b = \<lparr>hs_status = status, hs_body = b\<rparr>"

definition json_response :: "web \<Rightarrow> status_code \<Rightarrow> reply \<Rightarrow> http_response" where
  "json_response W c r =
     (case wb_json W r of
        Ok j \<Rightarrow> plain_response (status_number c) (JsonBody j)
      | Err m \<Rightarrow> plain_response 500 (TextBody m))"

text \<open>\<open>into_response\<close> of what a handler returns.\<close>

definition respond ::
  "('a \<Rightarrow> http_response) \<Rightarrow> ('s, 'a) handler \<Rightarrow> 's app_state \<Rightarrow> http_response \<times> 's app_state" where
  "respond f h st =
     (case h st of
        (Ok a, st') \<Rightarrow> (f a, st')
      | (Err (c, m), st') \<Rightarrow>
          (plain_response (status_number c) (if m = [] then NoBody else TextBody m), st'))"

definition extracting ::
  "('a, http_response) result \<Rightarrow> ('a \<Rightarrow> 's app_state \<Rightarrow> http_response \<times> 's app_state)
    \<Rightarrow> 's app_state \<Rightarrow> http_response \<times> 's app_state" where
  "extracting x f st = (case x of Ok a \<Rightarrow> f a st | Err r \<Rightarrow> (r, st))"

definition param :: "string list \<Rightarrow> nat \<Rightarrow> string" where
  "param ps k = (if k < length ps then ps ! k else [])"

fun dispatch ::
  "libs \<Rightarrow> (compile_deployment_response \<Rightarrow> (json, string) result) \<Rightarrow> web \<Rightarrow> (nat \<Rightarrow> env) \<Rightarrow> endpoint
    \<Rightarrow> string list \<Rightarrow> string option \<Rightarrow> headers \<Rightarrow> http_body \<Rightarrow> 's app_state
    \<Rightarrow> http_response \<times> 's app_state" where
  "dispatch L J W E HealthzEp ps q h b = (\<lambda>st. (plain_response 200 (TextBody ''ok''), st))"
| "dispatch L J W E SystemCapabilitiesEp ps q h b =
     (\<lambda>st. (json_response W OK (CapabilitiesReply system_capabilities), st))"
| "dispatch L J W E ListNodesEp ps q h b = respond (json_response W OK \<circ> NodesReply) (list_nodes E)"
| "dispatch L J W E ListRegistrationTokensEp ps q h b =
     respond (json_response W OK \<circ> TokensReply) (list_registration_tokens E)"
| "dispatch L J W E IssueRegistrationTokenEp ps q h b =
     extracting (jx_issue_token W b) (\<lambda>t.
     respond (\<lambda>(c, r). json_response W c (TokenReply r)) (issue_registration_token E t))"
| "dispatch L J W E RegisterNodeEp ps q h b =
     extracting (jx_register_node W b) (\<lambda>req.
     respond (\<lambda>(c, n, s). json_response W c (RegisteredReply n s)) (register_node L E req))"
| "dispatch L J W E RotateRunnerResultKeyEp ps q h b =
     extracting (jx_rotate_key W b) (\<lambda>k.
     respond (\<lambda>(c, n, s, k). json_response W c (RotatedReply n s k))
       (rotate_runner_result_key L E (param ps 0) k))"
| "dispatch L J W E GetNodeHeartbeatEp ps q h b =
     respond (\<lambda>(n, j, t). json_response W OK (HeartbeatReply n j t)) (get_node_heartbeat E (param ps 0))"
| "dispatch L J W E GetLatestUsageEp ps q h b =
     respond (json_response W OK \<circ> UsageReply) (get_latest_usage E (param ps 0))"
| "dispatch L J W E GetLatestUsageRollupEp ps q h b =
     extracting (qx_bucket W q) (\<lambda>bucket.
     respond (json_response W OK \<circ> RollupReply) (get_latest_usage_rollup E (param ps 0) bucket))"
| "dispatch L J W E GetArtifactBytesEp ps q h b =
     respond (plain_response 200 \<circ> BytesBody) (get_artifact_bytes E (param ps 0))"
| "dispatch L J W E ListProfilesEp ps q h b =
     respond (json_response W OK \<circ> ProfilesReply) (list_profiles E)"
| "dispatch L J W E CreateVlessRealityProfileEp ps q h b =
     extracting (jx_vless W b) (\<lambda>(p, sn).
     respond (\<lambda>(c, n, s). json_response W c (CreatedReply n s)) (create_vless_reality_profile E p sn))"
| "dispatch L J W E CreateShadowsocksProfileEp ps q h b =
     extracting (jx_shadowsocks W b) (\<lambda>(p, port).
     respond (\<lambda>(c, n, s). json_response W c (CreatedReply n s)) (create_shadowsocks_profile E p port))"
| "dispatch L J W E CreateTrojanProfileEp ps q h b =
     extracting (jx_trojan W b) (\<lambda>(p, sn, port).
     respond (\<lambda>(c, n, s). json_response W c (CreatedReply n s)) (create_trojan_profile E p sn port))"
| "dispatch L J W E ListClientsEp ps q h b =
     respond (json_response W OK \<circ> ClientsReply) (list_clients E)"
| "dispatch L J W E CreateClientEp ps q h b =
     extracting (jx_client W b) (\<lambda>req.
     respond (\<lambda>(c, n, s). json_response W c (CreatedReply n s)) (create_client E req))"
| "dispatch L J W E GetClientQuotaEp ps q h b =
     respond (json_response W OK \<circ> QuotaReply) (get_client_quota E (param ps 0))"
| "dispatch L J W E GetClientExpiryEp ps q h b =
     respond (json_response W OK \<circ> ExpiryReply) (get_client_expiry E (param ps 0))"
| "dispatch L J W E ListDeploymentsEp ps q h b =
     respond (json_response W OK \<circ> DeploymentsReply) (list_deployments E)"
| "dispatch L J W E CompileDeploymentEp ps q h b =
     extracting (jx_compile W b) (\<lambda>req.
     respond (\<lambda>(c, r). json_response W c (CompileReply r)) (compile_deployment L J E h req))"
| "dispatch L J W E GetDeploymentEp ps q h b =
     respond (\<lambda>(i, s). json_response W OK (DeploymentReply i s)) (get_deployment E (param ps 0))"
| "dispatch L J W E QueueRollbackEp ps q h b =
     respond (\<lambda>(c, r). json_response W c (RollbackReply r)) (queue_rollback L E (param ps 0))"
| "dispatch L J W E GetRollbackPointerEp ps q h b =
     respond (json_response W OK \<circ> PointerReply) (get_rollback_pointer E (param ps 0))"
| "dispatch L J W E GetDeploymentSnapshotEp ps q h b =
     respond (json_response W OK \<circ> SnapshotReply) (get_deployment_snapshot E (param ps 0))"
| "dispatch L J W E GetDeploymentHealthEp ps q h b =
     respond (json_response W OK \<circ> HealthCheckReply) (get_deployment_health E (param ps 0))"
| "dispatch L J W E GetDeploymentReadinessEp ps q h b =
     respond (json_response W OK \<circ> ReadinessReply) (get_deployment_readiness E (param ps 0))"
| "dispatch L J W E AdvanceDeploymentRolloutEp ps q h b =
     respond (\<lambda>(c, r). json_response W c (AdvanceReply r)) (advance_deployment_rollout L E (param ps 0))"
| "dispatch L J W E RunnerHeartbeatEp ps q h b =
     extracting (jx_heartbeat W b) (\<lambda>snapshot.
     respond (\<lambda>(c, n, ok). json_response W c (AcceptedReply n ok))
       (runner_heartbeat E (param ps 0) h snapshot))"
| "dispatch L J W E RunnerUsageEp ps q h b =
     extracting (jx_usage W b) (\<lambda>req.
     respond (\<lambda>(c, n, ok). json_response W c (AcceptedReply n ok)) (runner_usage E (param ps 0) h req))"
| "dispatch L J W E RecordRunnerDeploymentHealthEp ps q h b =
     extracting (jx_health W b) (\<lambda>(s, p).
     respond (\<lambda>c. plain_response (status_number c) NoBody)
       (record_runner_deployment_health E (param ps 0) (param ps 1) h s p))"
| "dispatch L J W E NextRunnerCommandEp ps q h b =
     extracting (qx_last_sequence W q) (\<lambda>last_sequence.
     respond (\<lambda>(c, x). case x of
         Some command \<Rightarrow> json_response W c (CommandReply command)
       | None \<Rightarrow> plain_response (status_number c) NoBody)
       (next_runner_command E (param ps 0) last_sequence h))"
| "dispatch L J W E SubmitRunnerResultEp ps q h b =
     extracting (jx_result W b) (\<lambda>r.
     respond (\<lambda>c. plain_response (status_number c) NoBody)
       (submit_runner_result L E (param ps 0) h r))"
| "dispatch L J W E RunnerResultCountEp ps q h b =
     respond (json_response W OK \<circ> CountReply) runner_result_count"
| "dispatch L J W E IssueSubscriptionTokenEp ps q h b =
     respond (\<lambda>(c, t). json_response W c (SubscriptionTokenReply t))
       (issue_subscription_token E (param ps 0))"
| "dispatch L J W E RotateSubscriptionTokenEp ps q h b =
     respond (\<lambda>(c, t). json_response W c (SubscriptionTokenReply t))
       (rotate_subscription_token E (param ps 0))"
| "dispatch L J W E GetSubscriptionEp ps q h b =
     extracting (qx_token W q) (\<lambda>token.
     respond (\<lambda>(a, body). json_response W OK (SubscriptionReply a body))
       (get_subscription L E (param ps 0) token h))"

fun extract_params :: "(string, string) extractor \<Rightarrow> string list \<Rightarrow> (string list, http_response) result" where
  "extract_params x [] = Ok []"
| "extract_params x (s # ss) =
     bind_result (x s) (\<lambda>p. bind_result (extract_params x ss) (\<lambda>ps. Ok (p # ps)))"

text \<open>
  Serving one request: 404 for a path without a route, 405 for a method the route does not have,
  otherwise the extractors and the handler.
\<close>

definition serve ::
  "libs \<Rightarrow> (compile_deployment_response \<Rightarrow> (json, string) result) \<Rightarrow> web \<Rightarrow> (nat \<Rightarrow> env) \<Rightarrow> http_method
    \<Rightarrow> string \<Rightarrow> string option \<Rightarrow> (string \<times> string) list \<Rightarrow> http_body \<Rightarrow> 's app_state
    \<Rightarrow> http_response \<times> 's app_state" where
  "serve L J W E m path query hs b st =
     (case wb_match W (map fst build_router) path of
        None \<Rightarrow> (plain_response 404 NoBody, st)
      | Some (pattern, captures) \<Rightarrow>
          (case map_of build_router pattern of
             None \<Rightarrow> (plain_response 404 NoBody, st)
           | Some methods \<Rightarrow>
               (case map_of methods m of
                  None \<Rightarrow> (plain_response 405 NoBody, st)
                | Some ep \<Rightarrow>
                    extracting (extract_params (wb_param W) captures) (\<lambda>ps.
                    dispatch L J W E ep ps query (\<lambda>name. map_option (wb_header W) (map_of hs name)) b)
                    st)))"

end
