(* ===== verification/Control_Plane_Routes.thy ===== *)
theory Control_Plane_Routes
  imports Control_Plane_Router
begin

text \<open>
  Facts about the HTTP surface: the route table is unambiguous, so that the documented rules of
  axum's matcher leave it no choice; the requests of the runners need the runner token, which the
  router passes on from the request as it came; and serving a request is one of the requests of
  \<open>app_reachable\<close> or changes nothing, so that what holds of the reachable states holds over HTTP.
\<close>

section \<open>Definitions\<close>

definition route_patterns :: "string list" where
  "route_patterns = map fst build_router"

definition static_pattern :: "string \<Rightarrow> bool" where
  "static_pattern p \<longleftrightarrow> list_all (\<lambda>s. \<not> is_capture s) (path_segments p)"

text \<open>
  What axum documents of its matcher, at the patterns of the table: a path without a matching
  pattern has no route, a pattern without captures wins, and a pattern that is the only one to
  match is taken.
\<close>

definition axum_routing :: "(string list \<Rightarrow> string \<Rightarrow> (string \<times> string list) option) \<Rightarrow> bool" where
  "axum_routing M \<longleftrightarrow> (\<forall>path.
     ((\<forall>p \<in> set route_patterns. pattern_match p path = None) \<longrightarrow> M route_patterns path = None) \<and>
     (\<forall>p \<in> set route_patterns. \<forall>c. pattern_match p path = Some c \<longrightarrow>
        static_pattern p \<or> (\<forall>q \<in> set route_patterns. q \<noteq> p \<longrightarrow> pattern_match q path = None) \<longrightarrow>
        M route_patterns path = Some (p, c)))"

text \<open>A search of the table, patterns without captures first.\<close>

definition search_routes :: "string list \<Rightarrow> string \<Rightarrow> (string \<times> string list) option" where
  "search_routes ps path =
     (case filter (\<lambda>p. pattern_match p path \<noteq> None) (filter static_pattern ps @ filter (Not \<circ> static_pattern) ps) of
        [] \<Rightarrow> None
      | p # _ \<Rightarrow> Some (p, the (pattern_match p path)))"

fun overlap :: "string list \<Rightarrow> string list \<Rightarrow> bool" where
  "overlap [] [] = True"
| "overlap (p # ps) (q # qs) = ((is_capture p \<or> is_capture q \<or> p = q) \<and> overlap ps qs)"
| "overlap _ _ = False"

definition disjoint_segments :: "string list list \<Rightarrow> bool" where
  "disjoint_segments ss = list_all (\<lambda>p. list_all (\<lambda>q. p = q \<or> \<not> overlap p q \<or>
     list_all (Not \<circ> is_capture) p \<noteq> list_all (Not \<circ> is_capture) q) ss) ss"

text \<open>
  A path below \<open>/runner\<close>, other than the result count; the requests a runner makes. What axum
  documents of its extractors: one that rejects a request answers with an error status.
\<close>

definition below_runner :: "string \<Rightarrow> bool" where
  "below_runner path \<longleftrightarrow> take 1 (path_segments path) = [''runner''] \<and>
     path_segments path \<noteq> [''runner'', ''results'', ''count'']"

definition rejects :: "('i, 'a) extractor \<Rightarrow> bool" where
  "rejects x \<longleftrightarrow> (\<forall>i r. x i = Err r \<longrightarrow> 400 \<le> hs_status r)"

definition runner_extractors_reject :: "web \<Rightarrow> bool" where
  "runner_extractors_reject W \<longleftrightarrow> rejects (wb_param W) \<and> rejects (qx_last_sequence W) \<and>
     rejects (jx_heartbeat W) \<and> rejects (jx_usage W) \<and> rejects (jx_health W) \<and> rejects (jx_result W)"

definition runner_endpoint :: "endpoint \<Rightarrow> bool" where
  "runner_endpoint ep \<longleftrightarrow> ep \<in> {RunnerHeartbeatEp, RunnerUsageEp, RecordRunnerDeploymentHealthEp,
     NextRunnerCommandEp, SubmitRunnerResultEp}"

text \<open>A refused request: an error status, and the state as it was.\<close>

definition refused :: "'s app_state \<Rightarrow> http_response \<times> 's app_state \<Rightarrow> bool" where
  "refused st x \<longleftrightarrow> 400 \<le> hs_status (fst x) \<and> snd x = st"

text \<open>Serving a request is one of the requests of \<open>app_reachable\<close>, or changes nothing.\<close>

definition one_request ::
  "libs \<Rightarrow> (compile_deployment_response \<Rightarrow> (json, string) result) \<Rightarrow> (nat \<Rightarrow> env) \<Rightarrow> memory_state app_state
    \<Rightarrow> memory_state app_state \<Rightarrow> bool" where
  "one_request L J E st st' \<longleftrightarrow> st' = st \<or> (\<exists>r. st' = handle L J E r st)"

text \<open>A concrete \<open>web\<close> for a poll: the table search, plain text, and no JSON body accepted.\<close>

definition poll_web :: web where
  "poll_web = \<lparr>wb_match = search_routes, wb_param = Ok, wb_header = Some, wb_json = \<lambda>_. Ok JNull,
     qx_bucket = Ok, qx_last_sequence = \<lambda>_. Ok None, qx_token = Ok,
     jx_register_node = \<lambda>_. Err (plain_response 422 NoBody), jx_issue_token = \<lambda>_. Err (plain_response 422 NoBody),
     jx_rotate_key = \<lambda>_. Err (plain_response 422 NoBody), jx_heartbeat = \<lambda>_. Err (plain_response 422 NoBody),
     jx_usage = \<lambda>_. Err (plain_response 422 NoBody), jx_vless = \<lambda>_. Err (plain_response 422 NoBody),
     jx_shadowsocks = \<lambda>_. Err (plain_response 422 NoBody), jx_trojan = \<lambda>_. Err (plain_response 422 NoBody),
     jx_client = \<lambda>_. Err (plain_response 422 NoBody), jx_compile = \<lambda>_. Err (plain_response 422 NoBody),
     jx_health = \<lambda>_. Err (plain_response 422 NoBody), jx_result = \<lambda>_. Err (plain_response 422 NoBody)\<rparr>"

section \<open>The table is unambiguous\<close>

lemma match_overlap:
  "match_segments ps ss \<noteq> None \<Longrightarrow> match_segments qs ss \<noteq> None \<Longrightarrow> overlap ps qs"
proof (induction ps ss arbitrary: qs rule: match_segments.induct)
  case (2 p ps s ss)
  then show ?case by (cases qs) (auto split: if_splits)
qed (auto elim: match_segments.elims)


lemma table_overlaps: "disjoint_segments (map path_segments route_patterns)"
  by code_simp

lemma table_distinct: "distinct (map path_segments route_patterns)"
  by code_simp

lemma two_matches:
  assumes "p \<in> set route_patterns" "q \<in> set route_patterns" "p \<noteq> q"
    and "pattern_match p path = Some c" "pattern_match q path = Some d"
  shows "static_pattern p \<noteq> static_pattern q"
proof -
  have "path_segments p \<noteq> path_segments q"
    using table_distinct assms(1-3) by (auto simp: distinct_map dest: inj_onD)
  moreover have "overlap (path_segments p) (path_segments q)"
    using assms(4,5) by (intro match_overlap [of _ "path_segments path"]) (simp_all add: pattern_match_def)
  ultimately show ?thesis
    using table_overlaps assms(1,2) by (auto simp: disjoint_segments_def list_all_iff static_pattern_def)
qed

lemma search_routes_cases:
  obtains (none) "search_routes ps path = None" "\<forall>p \<in> set ps. pattern_match p path = None"
  | (static) p c where "search_routes ps path = Some (p, c)" "p \<in> set ps" "pattern_match p path = Some c"
      "static_pattern p"
  | (capture) p c where "search_routes ps path = Some (p, c)" "p \<in> set ps" "pattern_match p path = Some c"
      "\<forall>q \<in> set ps. static_pattern q \<longrightarrow> pattern_match q path = None"
proof -
  let ?m = "\<lambda>p. pattern_match p path \<noteq> None"
  let ?st = "filter ?m (filter static_pattern ps)" and ?ca = "filter ?m (filter (Not \<circ> static_pattern) ps)"
  have search: "search_routes ps path = (case ?st @ ?ca of [] \<Rightarrow> None
      | p # _ \<Rightarrow> Some (p, the (pattern_match p path)))"
    by (simp add: search_routes_def)
  show ?thesis
  proof (cases ?st)
    case (Cons p rest)
    then have "p \<in> set ?st" by simp
    then obtain c where "p \<in> set ps" "static_pattern p" "pattern_match p path = Some c" by auto
    moreover from this Cons search have "search_routes ps path = Some (p, c)" by simp
    ultimately show ?thesis using static by blast
  next
    case st: Nil
    then have no: "\<forall>q \<in> set ps. static_pattern q \<longrightarrow> pattern_match q path = None"
      by (simp add: filter_empty_conv)
    show ?thesis
    proof (cases ?ca)
      case Nil
      with st no search none show ?thesis by (auto simp: filter_empty_conv)
    next
      case (Cons p rest)
      then have "p \<in> set ?ca" by simp
      then obtain c where "p \<in> set ps" "pattern_match p path = Some c" by auto
      moreover from this Cons st search have "search_routes ps path = Some (p, c)" by simp
      ultimately show ?thesis using no capture by blast
    qed
  qed
qed

lemma axum_routing_search:
  assumes "axum_routing M"
  shows "M route_patterns path = search_routes route_patterns path"
proof (cases rule: search_routes_cases [of route_patterns path])
  case none
  with assms show ?thesis by (simp add: axum_routing_def)
next
  case (static p c)
  with assms show ?thesis by (simp add: axum_routing_def)
next
  case (capture p c)
  have "pattern_match q path = None" if "q \<in> set route_patterns" "q \<noteq> p" for q
    using two_matches [of p q path c] capture that by (cases "pattern_match q path") auto
  with assms capture show ?thesis by (simp add: axum_routing_def)
qed

lemma search_routes_axum: "axum_routing search_routes"
  unfolding axum_routing_def
proof (intro allI conjI ballI impI)
  fix path
  assume "\<forall>p \<in> set route_patterns. pattern_match p path = None"
  then show "search_routes route_patterns path = None"
    by (cases rule: search_routes_cases [of route_patterns path]) auto
next
  fix path p c
  assume p: "p \<in> set route_patterns" "pattern_match p path = Some c"
    and only: "static_pattern p \<or> (\<forall>q \<in> set route_patterns. q \<noteq> p \<longrightarrow> pattern_match q path = None)"
  show "search_routes route_patterns path = Some (p, c)"
  proof (cases rule: search_routes_cases [of route_patterns path])
    case none
    with p show ?thesis by simp
  next
    case (static q d)
    with p only two_matches [of p q path c d] show ?thesis by (cases "q = p") auto
  next
    case (capture q d)
    with p only show ?thesis by (cases "q = p") auto
  qed
qed

section \<open>Reads\<close>

lemma call_reads:
  "snd (f (app_store st) (app_store_state st)) = app_store_state st \<Longrightarrow> snd (call f st) = st"
  by (simp add: call_snd store_call_snd)

lemma and_then_reads:
  "snd (m st) = st \<Longrightarrow> (\<And>a. snd (f a st) = st) \<Longrightarrow> snd (and_then m f st) = st"
  by (auto simp: and_then_def split: prod.split result.split)

lemma return_reads: "snd (return_op a st) = st"
  by (simp add: op_units)

lemma profile_items_reads:
  "app_store st = memory_store L T \<Longrightarrow> snd (profile_items E k ps st) = st"
  by (induction ps arbitrary: k) (simp_all add: return_reads and_then_reads call_reads)

lemma deployment_items_reads:
  "app_store st = memory_store L T \<Longrightarrow> snd (deployment_items E k ps st) = st"
  by (induction ps arbitrary: k) (simp_all add: return_reads and_then_reads call_reads)

lemma read_handlers:
  assumes "app_store st = memory_store L T"
  shows "snd (list_nodes E st) = st" "snd (get_node_heartbeat E n st) = st"
    "snd (get_latest_usage E n st) = st" "snd (get_latest_usage_rollup E c b st) = st"
    "snd (get_artifact_bytes E a st) = st" "snd (list_profiles E st) = st"
    "snd (list_clients E st) = st" "snd (get_client_quota E c st) = st"
    "snd (get_client_expiry E c st) = st" "snd (list_deployments E st) = st"
    "snd (get_deployment E d st) = st" "snd (get_rollback_pointer E d st) = st"
    "snd (get_deployment_snapshot E d st) = st" "snd (get_deployment_health E d st) = st"
    "snd (get_deployment_readiness E d st) = st" "snd (runner_result_count st) = st"
  using assms
  by (simp_all add: list_nodes_def get_node_heartbeat_def get_latest_usage_def
      get_latest_usage_rollup_def get_artifact_bytes_def list_profiles_def list_clients_def
      get_client_quota_def get_client_expiry_def list_deployments_def get_deployment_def
      get_rollback_pointer_def get_deployment_snapshot_def get_deployment_health_def
      get_deployment_readiness_def compute_deployment_readiness_def runner_result_count_def
      get_app_def call_reads and_then_reads return_reads profile_items_reads deployment_items_reads)

section \<open>Every request\<close>

lemma respond_snd [simp]: "snd (respond f h st) = snd (h st)"
  by (simp add: respond_def split: prod.split result.split)

lemma one_request_refl: "one_request L J E st st"
  by (simp add: one_request_def)

lemma one_request_handle: "one_request L J E st (handle L J E r st)"
  by (auto simp: one_request_def)

lemmas one_request_step = one_request_handle [of _ _ _ _ "RegisterNodeReq r" for r, simplified]
  one_request_handle [of _ _ _ _ ListTokensReq, simplified]
  one_request_handle [of _ _ _ _ "IssueRegistrationTokenReq t" for t, simplified]
  one_request_handle [of _ _ _ _ "RotateResultKeyReq n k" for n k, simplified]
  one_request_handle [of _ _ _ _ "HeartbeatReq n h j" for n h j, simplified]
  one_request_handle [of _ _ _ _ "UsageReq n h r" for n h r, simplified]
  one_request_handle [of _ _ _ _ "VlessProfileReq p s" for p s, simplified]
  one_request_handle [of _ _ _ _ "ShadowsocksProfileReq p k" for p k, simplified]
  one_request_handle [of _ _ _ _ "TrojanProfileReq p s k" for p s k, simplified]
  one_request_handle [of _ _ _ _ "CreateClientReq r" for r, simplified]
  one_request_handle [of _ _ _ _ "CompileReq h r" for h r, simplified]
  one_request_handle [of _ _ _ _ "NextCommandReq n q h" for n q h, simplified]
  one_request_handle [of _ _ _ _ "SubmitResultReq n h r" for n h r, simplified]
  one_request_handle [of _ _ _ _ "QueueRollbackReq d" for d, simplified]
  one_request_handle [of _ _ _ _ "HealthReq n d h s p" for n d h s p, simplified]
  one_request_handle [of _ _ _ _ "AdvanceReq d" for d, simplified]
  one_request_handle [of _ _ _ _ "SubscriptionReq p t h" for p t h, simplified]
  one_request_handle [of _ _ _ _ "IssueSubscriptionTokenReq p" for p, simplified]
  one_request_handle [of _ _ _ _ "RotateSubscriptionTokenReq p" for p, simplified]

lemma one_request_extracting:
  assumes "\<And>a. one_request L J E st (snd (f a st))"
  shows "one_request L J E st (snd (extracting x f st))"
  using assms by (simp add: extracting_def one_request_refl split: result.split)

lemma dispatch_one_request:
  assumes "app_store st = memory_store L T"
  shows "one_request L J E st (snd (dispatch L J W E ep ps q h b st))"
  by (cases ep; simp only: dispatch.simps respond_snd read_handlers [OF assms] snd_conv one_request_refl
      one_request_step case_prod_beta; (rule one_request_extracting)?;
      (simp only: respond_snd read_handlers [OF assms] one_request_refl one_request_step case_prod_beta)?)

lemma serve_one_request:
  assumes "app_store st = memory_store L T"
  shows "one_request L J E st (snd (serve L J W E m path q hs b st))"
  unfolding serve_def
  by (simp add: one_request_refl one_request_extracting dispatch_one_request [OF assms] split: option.split)

lemma serve_reachable:
  assumes "app_reachable L J T st" and "counters_ok st"
  shows "app_reachable L J T (snd (serve L J W E m path q hs b st))"
proof -
  from app_reachable_inv [OF assms(1)] have "app_store st = memory_store L T"
    by (simp add: app_inv_def)
  from serve_one_request [OF this, of J E W m path q hs b] show ?thesis
    using assms by (auto simp: one_request_def intro: app_reachable.request)
qed

section \<open>The requests of the runners\<close>

lemma runner_table:
  "list_all (\<lambda>(p, methods). case path_segments p of [] \<Rightarrow> False | x # _ \<Rightarrow> \<not> is_capture x \<and>
     (x = ''runner'' \<longrightarrow> list_all (runner_endpoint \<circ> snd) methods \<or>
        path_segments p = [''runner'', ''results'', ''count''])) build_router"
  by code_simp

lemma match_static:
  "match_segments ps ss \<noteq> None \<Longrightarrow> list_all (\<lambda>s. \<not> is_capture s) ps \<Longrightarrow> ps = ss"
  by (induction ps ss rule: match_segments.induct) (auto split: if_splits)

lemma runner_route:
  assumes "below_runner path" and "pattern_match p path = Some c" and "map_of build_router p = Some methods"
  shows "list_all (runner_endpoint \<circ> snd) methods"
proof -
  have "(p, methods) \<in> set build_router" by (rule map_of_SomeD [OF assms(3)])
  with runner_table have row: "case path_segments p of [] \<Rightarrow> False | x # _ \<Rightarrow> \<not> is_capture x \<and>
     (x = ''runner'' \<longrightarrow> list_all (runner_endpoint \<circ> snd) methods \<or>
        path_segments p = [''runner'', ''results'', ''count''])"
    by (auto simp: list_all_iff)
  obtain ss where path: "path_segments path = ''runner'' # ss"
    using assms(1) by (cases "path_segments path") (auto simp: below_runner_def)
  obtain x ps where p: "path_segments p = x # ps" using row by (cases "path_segments p") auto
  have "x = ''runner''" using assms(2) row p path by (auto simp: pattern_match_def split: if_splits)
  moreover have "path_segments p \<noteq> [''runner'', ''results'', ''count'']"
  proof
    assume count: "path_segments p = [''runner'', ''results'', ''count'']"
    have "[''runner'', ''results'', ''count''] = path_segments path"
      using assms(2) count by (intro match_static) (simp_all add: pattern_match_def is_capture_def)
    with assms(1) show False by (simp add: below_runner_def)
  qed
  ultimately show ?thesis using row p by simp
qed

lemma refused_extracting:
  assumes "\<And>r. x = Err r \<Longrightarrow> 400 \<le> hs_status r" and "\<And>a. refused st (f a st)"
  shows "refused st (extracting x f st)"
  using assms by (auto simp: extracting_def refused_def split: result.split)

lemma refused_token:
  "\<not> runner_token_valid st h \<Longrightarrow> refused st (respond f (and_then (require_runner_token h) g) st)"
  by (simp add: refused_def respond_def require_runner_token_def and_then_def plain_response_def)

lemma dispatch_refused:
  assumes "runner_endpoint ep" and "runner_extractors_reject W" and "\<not> runner_token_valid st h"
  shows "refused st (dispatch L J W E ep ps q h b st)"
proof -
  have r: "\<And>b r. jx_heartbeat W b = Err r \<Longrightarrow> 400 \<le> hs_status r"
      "\<And>b r. jx_usage W b = Err r \<Longrightarrow> 400 \<le> hs_status r"
      "\<And>b r. jx_health W b = Err r \<Longrightarrow> 400 \<le> hs_status r"
      "\<And>b r. jx_result W b = Err r \<Longrightarrow> 400 \<le> hs_status r"
      "\<And>q r. qx_last_sequence W q = Err r \<Longrightarrow> 400 \<le> hs_status r"
    using assms(2) by (auto simp: runner_extractors_reject_def rejects_def)
  note t = refused_token [OF assms(3)]
  from assms(1) show ?thesis
    by (auto simp: runner_endpoint_def runner_heartbeat_def runner_usage_def next_runner_command_def
        record_runner_deployment_health_def submit_runner_result_def
        intro!: refused_extracting t dest: r)
qed

lemma params_rejected:
  "rejects x \<Longrightarrow> extract_params x cs = Err r \<Longrightarrow> 400 \<le> hs_status r"
  by (induction cs arbitrary: r) (auto simp: rejects_def bind_result_def split: result.splits)

section \<open>Properties\<close>

text \<open>
  C18. The routes leave axum no choice: on every path, a matcher that follows the documented rules
  finds the same route as a plain search of the table, patterns without captures first. No two
  patterns with captures match the same path.
\<close>

theorem routes_unambiguous:
  assumes "axum_routing M"
  shows "M route_patterns path = search_routes route_patterns path"
  by (rule axum_routing_search [OF assms])

lemma path_chars: "''/deployments/compile'' = path_text [''deployments'', ''compile'']"
    "''/deployments/dep-1'' = path_text [''deployments'', ''dep-1'']"
  by simp_all

lemma search_deployments:
  "search_routes route_patterns ''/deployments/compile'' = Some (''/deployments/compile'', [])"
  "search_routes route_patterns ''/deployments/dep-1'' = Some (''/deployments/{deployment_id}'', [''dep-1''])"
  by code_simp+

theorem routes_unambiguous_witness:
  "axum_routing search_routes \<and>
   search_routes route_patterns ''/deployments/compile'' = Some (''/deployments/compile'', []) \<and>
   search_routes route_patterns ''/deployments/dep-1'' = Some (''/deployments/{deployment_id}'', [''dep-1''])"
  using routes_unambiguous [OF search_routes_axum, of "''/deployments/compile''"]
    routes_unambiguous [OF search_routes_axum, of "''/deployments/dep-1''"]
    search_routes_axum search_deployments by simp

text \<open>
  C8. Over HTTP, a request below \<open>/runner\<close> (but for the result count, which is open) that does not
  carry the runner token of the control plane in its header is refused, whether GET or POST and whatever
  its path, query, other headers and body, on either store: the answer has an error status, and the state is
  as it was; no heartbeat, usage, health or result is recorded and no command is handed out.
\<close>

theorem http_runner_needs_token:
  assumes "axum_routing (wb_match W)" and "runner_extractors_reject W" and "below_runner path"
    and "\<And>v. map_of hs ''x-runner-token'' = Some v \<Longrightarrow> wb_header W v \<noteq> Some (app_runner_api_token st)"
  shows "400 \<le> hs_status (fst (serve L J W E m path q hs b st)) \<and> snd (serve L J W E m path q hs b st) = st"
proof -
  let ?h = "\<lambda>name. map_option (wb_header W) (map_of hs name)"
  have no_token: "\<not> runner_token_valid st ?h"
    using assms(4) by (auto simp: runner_token_valid_def split: option.split)
  have params: "\<And>cs r. extract_params (wb_param W) cs = Err r \<Longrightarrow> 400 \<le> hs_status r"
    using assms(2) by (intro params_rejected [of "wb_param W"]) (simp_all add: runner_extractors_reject_def)
  have "refused st (serve L J W E m path q hs b st)"
  proof (cases "wb_match W (map fst build_router) path")
    case None
    then show ?thesis by (simp add: serve_def refused_def plain_response_def)
  next
    case (Some pc)
    obtain p c where pc: "pc = (p, c)" by fastforce
    with Some axum_routing_search [OF assms(1), of path]
    have "search_routes route_patterns path = Some (p, c)" by (simp add: route_patterns_def)
    then have match: "pattern_match p path = Some c"
      by (cases rule: search_routes_cases [of route_patterns path]) auto
    have "refused st (extracting (extract_params (wb_param W) c) (\<lambda>ps. dispatch L J W E ep ps q ?h b) st)"
      if "map_of build_router p = Some methods" "map_of methods m = Some ep" for methods ep
      using runner_route [OF assms(3) match that(1)] map_of_SomeD [OF that(2)]
      by (intro refused_extracting params dispatch_refused assms(2) no_token) (auto simp: list_all_iff)
    with Some pc show ?thesis
      by (auto simp: serve_def refused_def plain_response_def split: option.split)
  qed
  then show ?thesis by (simp add: refused_def)
qed

theorem http_runner_needs_token_witness:
  "let st = with_store_and_runner_token demo_libs ''reg'' ''run'' ''t'' (memory_store demo_libs ''t'')
         memory_state_default;
       x = serve demo_libs (\<lambda>_. Ok JNull) poll_web (\<lambda>_. demo_env) GET ''/runner/nodes/node-a/commands/next''
         None [(''x-runner-token'', ''guess'')] NoBody st
   in map_of build_router ''/runner/nodes/{node_id}/commands/next'' = Some [(GET, NextRunnerCommandEp)] \<and>
      400 \<le> hs_status (fst x) \<and> snd x = st"
proof -
  have "axum_routing (wb_match poll_web)" "runner_extractors_reject poll_web"
    by (simp_all add: poll_web_def search_routes_axum runner_extractors_reject_def rejects_def plain_response_def)
  moreover have "below_runner ''/runner/nodes/node-a/commands/next''"
    "map_of build_router ''/runner/nodes/{node_id}/commands/next'' = Some [(GET, NextRunnerCommandEp)]" by code_simp+
  ultimately show ?thesis
    using http_runner_needs_token [where W = poll_web and path = "''/runner/nodes/node-a/commands/next''"
        and hs = "[(''x-runner-token'', ''guess'')]" and L = demo_libs and J = "\<lambda>_. Ok JNull"
        and E = "\<lambda>_. demo_env" and m = GET and q = None and b = NoBody
        and st = "with_store_and_runner_token demo_libs ''reg'' ''run'' ''t'' (memory_store demo_libs ''t'') memory_state_default"]
    by (simp add: with_store_and_runner_token_def Let_def poll_web_def)
qed

end
