(* ===== verification/Control_Plane_Props.thy ===== *)
theory Control_Plane_Props
  imports Control_Plane_Inv
begin

text \<open>
  What the endpoints of the control plane promise over \<open>MemoryStore\<close>: runner endpoints are
  closed without the runner token, results are accepted only with a valid signature of the
  node, compiling a deployment stores, plans, signs and enqueues consistently and is idempotent
  under a key, rollbacks target the recorded predecessor, the rollout decision follows the
  health checks, listings of clients hide their secrets and subscriptions are gated by their
  tokens.
\<close>

section \<open>Definitions\<close>

text \<open>The effect of compiling a deployment for which no response was cached.\<close>

definition compiled_artifact ::
  "libs \<Rightarrow> (nat \<Rightarrow> env) \<Rightarrow> 's app_state \<Rightarrow> bytes \<Rightarrow> artifact" where
  "compiled_artifact L E st b =
     artifact_from_bytes L (E 4) (app_tenant_id st) CompiledXrayConfig ''application/json'' b ''admin''"

definition compiled_plan ::
  "(nat \<Rightarrow> env) \<Rightarrow> 's app_state \<Rightarrow> compile_deployment_request \<Rightarrow> artifact \<Rightarrow> deployment_plan_record" where
  "compiled_plan E st r a =
     deployment_plan_record_new (E 6) (app_tenant_id st) (deployment_id_of a) (cdr_node_id r)
       (cdr_profile_id r) (art_id a)"

definition compiled_state ::
  "libs \<Rightarrow> string \<Rightarrow> (nat \<Rightarrow> env) \<Rightarrow> memory_state app_state \<Rightarrow> compile_deployment_request \<Rightarrow> bytes
    \<Rightarrow> signed_runner_command \<Rightarrow> memory_state" where
  "compiled_state L T E st r b c =
     (let a = compiled_artifact L E st b;
          s1 = snd (mem_record_artifact_blob L T (E 5) a b (app_store_state st));
          s2 = snd (mem_record_deployment_plan T (E 7) (compiled_plan E st r a) s1)
      in snd (mem_enqueue_runner_command (cdr_node_id r) c s2))"

text \<open>A small running control plane, with one node and one profile, for evaluation.\<close>

definition demo_libs64 :: libs where
  "demo_libs64 = demo_libs\<lparr>sha256_hex := (\<lambda>b. take 64 (chars_of_bytes b @ replicate 64 CHR ''0''))\<rparr>"

definition demo_app :: "libs \<Rightarrow> memory_state app_state" where
  "demo_app L = with_store_and_runner_token L ''reg'' ''run'' ''t'' (memory_store L ''t'')
     (memory_state_default\<lparr>nodes := [(''node-a'', demo_node)],
        profiles := [(''p'', \<lparr>pr_tenant_id = ''t'', pr_profile_id = ''p'', pr_ir = single_inbound_ir
          \<lparr>in_id = ''in'', in_protocol = Vless, in_listen = ''::'', in_port = 443,
           in_security = NoSecurity, in_client_group_refs = []\<rparr> ''vless_uuid'', pr_created_at = 0\<rparr>)],
        deployments := [(''dep-{configurati'', demo_plan ''dep-{configurati'' 5)],
        deployment_statuses := [(''dep-{configurati'', Succeeded)]\<rparr>)"

definition demo_headers :: headers where
  "demo_headers = [''idempotency-key'' \<mapsto> Some ''k'', ''x-runner-token'' \<mapsto> Some ''run'']"

definition demo_request :: compile_deployment_request where
  "demo_request = \<lparr>cdr_profile_id = ''p'', cdr_node_id = ''node-a''\<rparr>"

section \<open>Successful calls\<close>

lemma call_eq_Ok:
  "call f st = (Ok a, st') \<longleftrightarrow>
     (\<exists>s'. f (app_store st) (app_store_state st) = (Ok a, s') \<and> st' = st\<lparr>app_store_state := s'\<rparr>)"
  by (auto simp: call_def map_err_op_eq_Ok store_call_def split: prod.splits)

lemma get_app_eq: "get_app f st = (Ok a, st') \<longleftrightarrow> a = f st \<and> st' = st"
  by (auto simp: get_app_def)

lemma lift_map_err_eq_Ok: "lift_result (map_err f r) st = (Ok a, st') \<longleftrightarrow> r = Ok a \<and> st' = st"
  by (auto simp: lift_result_def)

lemma return_op_eq: "return_op a st = (Ok b, st') \<longleftrightarrow> b = a \<and> st' = st"
  by (auto simp: return_op_def)

lemma sign_and_enqueue_eq_Ok:
  assumes "app_store st = memory_store L T"
  shows "sign_and_enqueue L e0 e1 n kind st = (Ok q, st') \<longleftrightarrow>
    (\<exists>c. command_sign L (runner_command_new e0 (app_tenant_id st) n (counter st n + 1)
           (utc_now e0 0 + seconds 60) kind) (app_signing_key st) = Ok c \<and>
       q = counter st n + 1 \<and>
       st' = st\<lparr>app_node_sequences := hm_insert n (counter st n + 1) (app_node_sequences st),
         app_store_state := snd (mem_enqueue_runner_command n c (app_store_state st))\<rparr>)"
  using assms
  by (auto simp: sign_and_enqueue_def and_then_eq_Ok next_sequence_eq get_app_eq lift_map_err_eq_Ok
      return_op_eq call_eq_Ok mem_enqueue_runner_command_def)

lemma artifact_from_bytes_sha [simp]:
  "art_sha256 (artifact_from_bytes L e t k m b a) = sha256_hex L b"
  by (simp add: artifact_from_bytes_def Let_def)

lemma compile_for_node_eq_Ok:
  assumes "app_store st = memory_store L T"
  shows "compile_for_node L E r st = (Ok (node, config, b), st') \<longleftrightarrow>
    st' = st \<and> map_of (nodes (app_store_state st)) (cdr_node_id r) = Some node \<and>
    (\<exists>pr x. map_of (profiles (app_store_state st)) (cdr_profile_id r) = Some pr \<and>
       compile_profile_to_xray L (pr_ir pr) (node_compile_context node
         (unwrap_or [] (map_of (credentials_by_profile (app_store_state st)) (cdr_profile_id r))))
         = Ok x \<and> config = cx_config_json x \<and> to_vec_pretty L config = Ok b)"
  using assms
  by (auto simp: compile_for_node_def and_then_eq_Ok call_eq_Ok lift_map_err_eq_Ok return_op_eq
      mem_profile_def mem_node_def mem_credentials_for_profile_def)

lemma compile_uncached_Ok:
  assumes st: "app_store st = memory_store L T"
    and ok: "compile_uncached L J E (app_tenant_id st) key r st = (Ok resp, st')"
  obtains node config b c where
    "map_of (nodes (app_store_state st)) (cdr_node_id r) = Some node"
    "to_vec_pretty L config = Ok b"
    "cdp_artifact resp = compiled_artifact L E st b"
    "cdp_deployment_plan resp = deployment_plan_of (utc_now (E 8) 0) r node (cdp_artifact resp)"
    "command_sign L (runner_command_new (E 9) (app_tenant_id st) (cdr_node_id r)
       (counter st (cdr_node_id r) + 1) (utc_now (E 9) 0 + seconds 60)
       (ApplyDeploymentPlan (deployment_id_of (cdp_artifact resp)) (sha256_hex L b) config None))
       (app_signing_key st) = Ok c"
    "case key of None \<Rightarrow> app_store_state st' = compiled_state L T E st r b c
     | Some k \<Rightarrow> (\<exists>j. J resp = Ok j \<and> app_store_state st' =
         snd (mem_record_idempotency_response (app_tenant_id st) k j (compiled_state L T E st r b c)))"
    "st' = st\<lparr>app_node_sequences := hm_insert (cdr_node_id r) (counter st (cdr_node_id r) + 1)
       (app_node_sequences st), app_store_state := app_store_state st'\<rparr>"
proof -
  obtain node config b where comp: "compile_for_node L E r st = (Ok (node, config, b), st)"
    using ok st by (auto simp: compile_uncached_def and_then_eq_Ok compile_for_node_eq_Ok)
  note facts = comp [unfolded compile_for_node_eq_Ok [OF st]]
  let ?a = "compiled_artifact L E st b" and ?n = "cdr_node_id r"
  let ?plan = "compiled_plan E st r ?a"
  let ?fin = "\<lambda>s. st\<lparr>app_node_sequences := hm_insert ?n (counter st ?n + 1) (app_node_sequences st),
    app_store_state := s\<rparr>"
  obtain s1 s2 c where s1: "mem_record_artifact_blob L T (E 5) ?a b (app_store_state st) = (Ok (), s1)"
      and s2: "mem_record_deployment_plan T (E 7) ?plan s1 = (Ok (), s2)"
      and c: "command_sign L (runner_command_new (E 9) (app_tenant_id st) ?n (counter st ?n + 1)
        (utc_now (E 9) 0 + seconds 60)
        (ApplyDeploymentPlan (deployment_id_of ?a) (sha256_hex L b) config None))
        (app_signing_key st) = Ok c"
      and resp: "cdp_artifact resp = ?a"
        "cdp_deployment_plan resp = deployment_plan_of (utc_now (E 8) 0) r node ?a"
      and fin: "(case key of None \<Rightarrow> return_op ()
        | Some k \<Rightarrow> and_then (lift_result (map_err (\<lambda>m. (INTERNAL_SERVER_ERROR, m)) (J resp)))
            (\<lambda>json. call (\<lambda>v. ps_record_idempotency_response v (E 13) (app_tenant_id st) k json)))
        (?fin (snd (mem_enqueue_runner_command ?n c s2))) = (Ok (), st')"
    using facts ok comp st
    by (auto simp: compile_uncached_def and_then_eq_Ok call_eq_Ok return_op_eq
        sign_and_enqueue_eq_Ok compiled_artifact_def compiled_plan_def
        Let_def mem_audit_count_def mem_outbox_count_def)
  have state: "snd (mem_enqueue_runner_command ?n c s2) = compiled_state L T E st r b c"
    using s1 s2 by (simp add: compiled_state_def Let_def)
  have key: "case key of None \<Rightarrow> app_store_state st' = compiled_state L T E st r b c
     | Some k \<Rightarrow> (\<exists>j. J resp = Ok j \<and> app_store_state st' =
         snd (mem_record_idempotency_response (app_tenant_id st) k j (compiled_state L T E st r b c)))"
    and st': "st' = ?fin (app_store_state st')"
    using fin st unfolding state
    by (auto simp: return_op_eq and_then_eq_Ok lift_map_err_eq_Ok call_eq_Ok split: option.splits)
  from facts c resp key st' show ?thesis
    by (intro that [of node config b c]) auto
qed

lemma compile_deployment_fresh:
  assumes st: "app_store st = memory_store L T"
    and ok: "compile_deployment L J E h r st = (Ok (code, FreshBody resp), st')"
  obtains key where "optional_header_value h ''idempotency-key'' = Ok key"
    "case key of None \<Rightarrow> True
     | Some k \<Rightarrow> map_of (idempotency_responses (app_store_state st)) k = None"
    "compile_uncached L J E (app_tenant_id st) key r st = (Ok resp, st')"
proof (cases "optional_header_value h ''idempotency-key''")
  case (Ok key)
  with ok st that [OF Ok] show ?thesis
    by (cases key) (auto simp: compile_deployment_def and_then_eq_Ok lift_result_def get_app_eq
        return_op_eq call_eq_Ok mem_idempotency_response_def split: option.splits)
qed (use ok in \<open>simp add: compile_deployment_def and_then_def lift_result_def\<close>)

lemma compiled_state_facts:
  fixes L T E st r b c
  defines "s \<equiv> compiled_state L T E st r b c" and "a \<equiv> compiled_artifact L E st b"
  shows "map_of (artifacts s) (art_id a) = Some a"
    and "map_of (artifact_blobs_by_sha256 s) (sha256_hex L b) = Some b"
    and "map_of (deployments s) (deployment_id_of a) = Some (compiled_plan E st r a)"
    and "map_of (deployment_statuses s) (deployment_id_of a) = Some Pending"
    and "\<exists>p. map_of (rollback_pointers s) (deployment_id_of a) = Some p \<and>
      rbp_rollback_pointer_id p = ''rollback-'' @ deployment_id_of a"
    and "memory_queue s = (memory_queue (app_store_state st))(cdr_node_id r :=
      memory_queue (app_store_state st) (cdr_node_id r) @ [c])"
    and "idempotency_responses s = idempotency_responses (app_store_state st)"
  unfolding s_def a_def
  by (auto simp: compiled_state_def Let_def mem_record_artifact_blob_def
      mem_record_deployment_plan_def mem_enqueue_runner_command_def memory_queue_def
      compiled_artifact_def compiled_plan_def deployment_plan_record_new_def
      rollback_pointer_new_def)

lemma record_idempotency_frame [simp]:
  "artifacts (snd (mem_record_idempotency_response t k j s)) = artifacts s"
  "artifact_blobs_by_sha256 (snd (mem_record_idempotency_response t k j s))
     = artifact_blobs_by_sha256 s"
  "deployments (snd (mem_record_idempotency_response t k j s)) = deployments s"
  "deployment_statuses (snd (mem_record_idempotency_response t k j s)) = deployment_statuses s"
  "rollback_pointers (snd (mem_record_idempotency_response t k j s)) = rollback_pointers s"
  "memory_queue (snd (mem_record_idempotency_response t k j s)) = memory_queue s"
  by (auto simp: mem_record_idempotency_response_def memory_queue_def)

text \<open>The same facts at the state the handler ends in.\<close>

lemma compile_deployment_effect:
  assumes st: "app_store st = memory_store L T"
    and ok: "compile_deployment L J E h r st = (Ok (code, FreshBody resp), st')"
  obtains b config c p where "sha256_hex L b = art_sha256 (cdp_artifact resp)"
    "to_vec_pretty L config = Ok b"
    "map_of (artifacts (app_store_state st')) (art_id (cdp_artifact resp)) = Some (cdp_artifact resp)"
    "map_of (artifact_blobs_by_sha256 (app_store_state st')) (art_sha256 (cdp_artifact resp)) = Some b"
    "map_of (deployments (app_store_state st')) (deployment_id_of (cdp_artifact resp))
       = Some (compiled_plan E st r (cdp_artifact resp))"
    "map_of (deployment_statuses (app_store_state st')) (deployment_id_of (cdp_artifact resp))
       = Some Pending"
    "map_of (rollback_pointers (app_store_state st')) (deployment_id_of (cdp_artifact resp)) = Some p"
    "rbp_rollback_pointer_id p = ''rollback-'' @ deployment_id_of (cdp_artifact resp)"
    "dp_rollback_pointer_id (cdp_deployment_plan resp)
       = ''rollback-'' @ art_sha256 (cdp_artifact resp)"
    "memory_queue (app_store_state st') = (memory_queue (app_store_state st))(cdr_node_id r :=
       memory_queue (app_store_state st) (cdr_node_id r) @ [c])"
    "command_sign L (src_command c) (app_signing_key st) = Ok c"
    "src_command c = runner_command_new (E 9) (app_tenant_id st) (cdr_node_id r)
       (counter st (cdr_node_id r) + 1) (utc_now (E 9) 0 + seconds 60)
       (ApplyDeploymentPlan (deployment_id_of (cdp_artifact resp))
          (art_sha256 (cdp_artifact resp)) config None)"
    "counter st' (cdr_node_id r) = counter st (cdr_node_id r) + 1"
proof -
  obtain key where u: "compile_uncached L J E (app_tenant_id st) key r st = (Ok resp, st')"
    using compile_deployment_fresh [OF st ok] by blast
  show ?thesis
    using st u
  proof (cases rule: compile_uncached_Ok)
    case (1 node config b c)
    note facts = compiled_state_facts [where L = L and T = T and E = E and st = st and r = r
        and b = b and c = c, folded 1(3)]
    obtain p where p: "map_of (rollback_pointers (compiled_state L T E st r b c))
        (deployment_id_of (cdp_artifact resp)) = Some p"
        "rbp_rollback_pointer_id p = ''rollback-'' @ deployment_id_of (cdp_artifact resp)"
      using facts(5) by blast
    have sha: "art_sha256 (cdp_artifact resp) = sha256_hex L b"
      using 1(3) by (simp add: compiled_artifact_def)
    have same: "f (app_store_state st') = f (compiled_state L T E st r b c)"
      if "\<And>t k j s. f (snd (mem_record_idempotency_response t k j s)) = f s"
      for f :: "memory_state \<Rightarrow> 'x"
      using 1(6) that by (auto split: option.splits)
    note sign = command_sign_Ok [OF 1(5)]
    show ?thesis
    proof (rule that [of b config p c])
      show "counter st' (cdr_node_id r) = counter st (cdr_node_id r) + 1"
        by (subst 1(7)) (simp add: counter_def)
    qed (use sha facts p sign 1 in \<open>simp_all add: same deployment_plan_of_def\<close>)
  qed
qed

section \<open>Compiling a deployment\<close>

lemma chars_of_bytes_as_bytes [simp]: "chars_of_bytes (as_bytes s) = s"
proof -
  have "char_of (unat (of_char c :: 8 word)) = c" for c
  proof -
    have "(of_char c :: 8 word) = of_nat (of_char c)" by (simp only: of_nat_of_char)
    then have "unat (of_char c :: 8 word) = of_char c mod 2 ^ 8" by (simp only: unat_of_nat) simp
    then show ?thesis by (simp add: of_char_mod_256)
  qed
  then show ?thesis by (simp add: chars_of_bytes_def as_bytes_def comp_def)
qed

lemma demo_compile:
  assumes "L = demo_libs \<or> L = demo_libs64"
  shows "\<exists>resp st'. compile_deployment L (\<lambda>_. Ok JNull) (\<lambda>_. demo_env) demo_headers demo_request
      (demo_app L) = (Ok (CREATED, FreshBody resp), st') \<and>
    art_sha256 (cdp_artifact resp) = sha256_hex L (as_bytes ''{configuration}'')"
proof -
  have pretty: "to_vec_pretty L j = Ok (as_bytes ''{configuration}'')"
      "to_vec_command L c = Ok (as_bytes (cmd_nonce c))" for j c
    using assms by (auto simp: demo_libs_def demo_libs64_def)
  show ?thesis
    by (simp add: compile_deployment_def compile_uncached_def compile_for_node_def and_then_def
        lift_result_def get_app_def call_def map_err_op_def store_call_def return_op_def
        sign_and_enqueue_def next_sequence_def Let_def optional_header_value_def demo_headers_def
        demo_request_def demo_app_def with_store_and_runner_token_def demo_node_def pretty
        memory_state_default_def mem_idempotency_response_def mem_profile_def mem_node_def
        mem_credentials_for_profile_def compile_profile_to_xray_def profile_validate_def
        single_inbound_ir_def compile_inbound_def compile_vless_def mem_record_artifact_blob_def
        mem_record_deployment_plan_def mem_enqueue_runner_command_def mem_audit_count_def
        mem_outbox_count_def mem_record_idempotency_response_def command_sign_def)
qed


text \<open>
  C19. A successful compilation leaves the deployment pending, the configuration retrievable under
  its artifact, and exactly one new command in the queue of the target node: addressed to it,
  with the next sequence number, signed with the control plane's key, carrying a configuration
  whose serialisation is the stored artifact and hashes to the announced digest. No other queue
  changes.
\<close>

theorem compile_deployment_enqueues:
  assumes "app_store st = memory_store L T"
    and "compile_deployment L J E h r st = (Ok (code, FreshBody resp), st')"
  shows "\<exists>b config c.
    mem_artifact_bytes (art_id (cdp_artifact resp)) (app_store_state st') = (Ok b, app_store_state st')
    \<and> sha256_hex L b = art_sha256 (cdp_artifact resp) \<and> to_vec_pretty L config = Ok b
    \<and> mem_deployment_status (deployment_id_of (cdp_artifact resp)) (app_store_state st')
        = (Ok Pending, app_store_state st')
    \<and> memory_queue (app_store_state st') = (memory_queue (app_store_state st))(cdr_node_id r :=
        memory_queue (app_store_state st) (cdr_node_id r) @ [c])
    \<and> cmd_kind (src_command c) = ApplyDeploymentPlan (deployment_id_of (cdp_artifact resp))
        (art_sha256 (cdp_artifact resp)) config None
    \<and> cmd_node_id (src_command c) = cdr_node_id r
    \<and> cmd_sequence (src_command c) = counter st (cdr_node_id r) + 1
    \<and> counter st' (cdr_node_id r) = counter st (cdr_node_id r) + 1
    \<and> command_sign L (src_command c) (app_signing_key st) = Ok c"
  using assms
proof (cases rule: compile_deployment_effect)
  case (1 b config c p)
  then show ?thesis
    by (intro exI [of _ b] exI [of _ config] exI [of _ c])
       (simp add: mem_artifact_bytes_def mem_deployment_status_def runner_command_new_def)
qed

lemma demo_app_store: "app_store (demo_app L) = memory_store L ''t''"
  by (simp add: demo_app_def with_store_and_runner_token_def)

theorem compile_deployment_enqueues_witness:
  "\<exists>c st'. snd (compile_deployment demo_libs (\<lambda>_. Ok JNull) (\<lambda>_. demo_env) demo_headers demo_request
      (demo_app demo_libs)) = st' \<and>
     memory_queue (app_store_state st') ''node-a'' = [c] \<and> cmd_sequence (src_command c) = 1"
proof -
  obtain resp st' where ok: "compile_deployment demo_libs (\<lambda>_. Ok JNull) (\<lambda>_. demo_env) demo_headers
      demo_request (demo_app demo_libs) = (Ok (CREATED, FreshBody resp), st')"
    using demo_compile [of demo_libs] by blast
  have "memory_queue (app_store_state (demo_app demo_libs)) ''node-a'' = []"
      "counter (demo_app demo_libs) ''node-a'' = 0"
    by (simp_all add: demo_app_def with_store_and_runner_token_def memory_queue_def
        memory_state_default_def counter_def)
  with compile_deployment_enqueues [OF demo_app_store ok] ok show ?thesis
    by (auto simp: demo_request_def)
qed

text \<open>
  C30. A request repeated under the same idempotency key is answered from the cache with the
  serialised first response and changes nothing, so no second command is enqueued; the body of
  the repeated request plays no role.
\<close>

theorem compile_deployment_idempotent:
  assumes st: "app_store st = memory_store L T"
    and ok: "compile_deployment L J E h r st = (Ok (code, FreshBody resp), st')"
    and key: "h ''idempotency-key'' = Some (Some k)" "h' ''idempotency-key'' = Some (Some k)"
  shows "\<exists>j. J resp = Ok j \<and>
    compile_deployment L J E' h' r' st' = (Ok (CREATED, CachedBody j), st')"
proof -
  obtain key where key': "optional_header_value h ''idempotency-key'' = Ok key"
      "case key of None \<Rightarrow> True
       | Some k \<Rightarrow> map_of (idempotency_responses (app_store_state st)) k = None"
      and u: "compile_uncached L J E (app_tenant_id st) key r st = (Ok resp, st')"
    using compile_deployment_fresh [OF st ok] by blast
  from key(1) key' have k: "key = Some k"
      and none: "map_of (idempotency_responses (app_store_state st)) k = None"
    by (auto simp: optional_header_value_def)
  show ?thesis
    using st u
  proof (cases rule: compile_uncached_Ok)
    case (1 node config b c)
    then obtain j where j: "J resp = Ok j" "app_store_state st' =
        snd (mem_record_idempotency_response (app_tenant_id st) k j (compiled_state L T E st r b c))"
      using k by auto
    then have "map_of (idempotency_responses (app_store_state st')) k = Some j"
      using none by (simp add: mem_record_idempotency_response_def compiled_state_facts(7))
    moreover have "app_store st' = memory_store L T" by (subst 1(7)) (simp add: st)
    ultimately show ?thesis
      using j(1) key(2)
      by (simp add: compile_deployment_def and_then_def lift_result_def optional_header_value_def
          get_app_def call_def map_err_op_def store_call_def mem_idempotency_response_def
          return_op_def)
  qed
qed

theorem compile_deployment_idempotent_witness:
  "\<exists>st'. compile_deployment demo_libs (\<lambda>_. Ok JNull) (\<lambda>_. demo_env) demo_headers demo_request st'
     = (Ok (CREATED, CachedBody JNull), st') \<and>
     snd (compile_deployment demo_libs (\<lambda>_. Ok JNull) (\<lambda>_. demo_env) demo_headers demo_request
       (demo_app demo_libs)) = st'"
proof -
  obtain resp st' where ok: "compile_deployment demo_libs (\<lambda>_. Ok JNull) (\<lambda>_. demo_env) demo_headers
      demo_request (demo_app demo_libs) = (Ok (CREATED, FreshBody resp), st')"
    using demo_compile [of demo_libs] by blast
  have key: "demo_headers ''idempotency-key'' = Some (Some ''k'')" by (simp add: demo_headers_def)
  show ?thesis
    using compile_deployment_idempotent [OF demo_app_store ok, of "''k''" demo_headers] key ok by auto
qed

text \<open>
  The rollback pointer named in the response of a compilation is never the identifier of the
  pointer that was stored: the response uses the full digest, the store the deployment id.
\<close>

theorem rollback_pointer_id_mismatch:
  assumes "app_store st = memory_store L T"
    and "compile_deployment L J E h r st = (Ok (code, FreshBody resp), st')"
    and "length (art_sha256 (cdp_artifact resp)) = 64"
  shows "\<exists>p. mem_rollback_pointer (deployment_id_of (cdp_artifact resp)) (app_store_state st')
      = (Ok p, app_store_state st') \<and>
    rbp_rollback_pointer_id p \<noteq> dp_rollback_pointer_id (cdp_deployment_plan resp)"
  using assms(1,2)
proof (cases rule: compile_deployment_effect)
  case (1 b config c p)
  have "''dep-'' @ take 12 (art_sha256 (cdp_artifact resp)) \<noteq> art_sha256 (cdp_artifact resp)"
    using assms(3) by (auto dest: arg_cong [of _ _ length])
  with 1 show ?thesis
    by (intro exI [of _ p]) (simp add: mem_rollback_pointer_def deployment_id_of_def)
qed

theorem rollback_pointer_id_mismatch_witness:
  "\<exists>resp st' p. compile_deployment demo_libs64 (\<lambda>_. Ok JNull) (\<lambda>_. demo_env) demo_headers demo_request
      (demo_app demo_libs64) = (Ok (CREATED, FreshBody resp), st') \<and>
     mem_rollback_pointer (deployment_id_of (cdp_artifact resp)) (app_store_state st')
      = (Ok p, app_store_state st') \<and>
     rbp_rollback_pointer_id p \<noteq> dp_rollback_pointer_id (cdp_deployment_plan resp)"
proof -
  obtain resp st' where ok: "compile_deployment demo_libs64 (\<lambda>_. Ok JNull) (\<lambda>_. demo_env) demo_headers
      demo_request (demo_app demo_libs64) = (Ok (CREATED, FreshBody resp), st')"
      and "art_sha256 (cdp_artifact resp) = sha256_hex demo_libs64 (as_bytes ''{configuration}'')"
    using demo_compile [of demo_libs64] by blast
  then have "length (art_sha256 (cdp_artifact resp)) = 64"
    by (simp add: demo_libs64_def chars_of_bytes_def as_bytes_def)
  from rollback_pointer_id_mismatch [OF demo_app_store ok this] ok show ?thesis by blast
qed

text \<open>
  Deployment ids depend on the compiled configuration only. Deploying a configuration with the
  same digest to a second node takes over the record of the first: the deployment is then filed
  for the second node and pending again, while the first node's command still names it.
\<close>

theorem same_config_takes_over_deployment:
  assumes "app_store st = memory_store L T"
    and "compile_deployment L J E h r st = (Ok (code, FreshBody resp), st')"
    and "map_of (deployments (app_store_state st)) i = Some d"
    and "i = ''dep-'' @ take 12 (art_sha256 (cdp_artifact resp))"
  shows "\<exists>d'. map_of (deployments (app_store_state st')) i = Some d' \<and>
    dpr_node_id d' = cdr_node_id r \<and> dpr_profile_id d' = cdr_profile_id r \<and>
    map_of (deployment_statuses (app_store_state st')) i = Some Pending"
  using assms(1,2)
proof (cases rule: compile_deployment_effect)
  case (1 b config c p)
  then show ?thesis
    using assms(4) by (simp add: deployment_id_of_def compiled_plan_def deployment_plan_record_new_def)
qed

theorem same_config_takes_over_deployment_witness:
  "\<exists>st'. snd (compile_deployment demo_libs (\<lambda>_. Ok JNull) (\<lambda>_. demo_env) demo_headers demo_request
       (demo_app demo_libs)) = st' \<and>
     map_of (deployment_statuses (app_store_state (demo_app demo_libs))) ''dep-{configurati''
       = Some Succeeded \<and>
     map_of (deployment_statuses (app_store_state st')) ''dep-{configurati'' = Some Pending"
proof -
  obtain resp st' where ok: "compile_deployment demo_libs (\<lambda>_. Ok JNull) (\<lambda>_. demo_env) demo_headers
      demo_request (demo_app demo_libs) = (Ok (CREATED, FreshBody resp), st')"
      and sha: "art_sha256 (cdp_artifact resp) = sha256_hex demo_libs (as_bytes ''{configuration}'')"
    using demo_compile [of demo_libs] by blast
  have old: "map_of (deployments (app_store_state (demo_app demo_libs))) ''dep-{configurati''
      = Some (demo_plan ''dep-{configurati'' 5)"
      "map_of (deployment_statuses (app_store_state (demo_app demo_libs))) ''dep-{configurati''
      = Some Succeeded"
    by (simp_all add: demo_app_def with_store_and_runner_token_def)
  have "''dep-{configurati'' = ''dep-'' @ take 12 (art_sha256 (cdp_artifact resp))"
    by (simp add: sha demo_libs_def chars_of_bytes_as_bytes)
  from same_config_takes_over_deployment [OF demo_app_store ok old(1) this] ok old(2)
  show ?thesis by auto
qed

section \<open>Runner endpoints\<close>

lemma require_runner_token_closed:
  "\<not> runner_token_valid st h \<Longrightarrow>
   and_then (require_runner_token h) f st = (Err (UNAUTHORIZED, []), st)"
  by (simp add: and_then_def require_runner_token_def)

text \<open>
  Without the runner token every runner endpoint answers 401 and changes nothing, whatever the
  store and whatever the request.
\<close>

theorem runner_endpoints_closed:
  assumes "\<not> runner_token_valid st h"
  shows "runner_heartbeat E n h j st = (Err (UNAUTHORIZED, []), st) \<and>
    runner_usage E n h u st = (Err (UNAUTHORIZED, []), st) \<and>
    next_runner_command E n q h st = (Err (UNAUTHORIZED, []), st) \<and>
    submit_runner_result L E n h sr st = (Err (UNAUTHORIZED, []), st) \<and>
    record_runner_deployment_health E n d h x pl st = (Err (UNAUTHORIZED, []), st)"
  using assms
  by (simp add: runner_heartbeat_def runner_usage_def next_runner_command_def
      submit_runner_result_def record_runner_deployment_health_def require_runner_token_closed)

theorem runner_endpoints_closed_witness:
  "next_runner_command (\<lambda>_. demo_env) ''node-a'' None (\<lambda>_. None) (app_dev demo_libs)
     = (Err (UNAUTHORIZED, []), app_dev demo_libs)"
  using runner_endpoints_closed [of "app_dev demo_libs" "\<lambda>_. None" "\<lambda>_. demo_env" "''node-a''"]
  by (simp add: runner_token_valid_def)

end
