(* ===== verification/Control_Plane_Access.thy ===== *)
theory Control_Plane_Access
  imports Control_Plane_Props
begin

text \<open>
  Results, rollouts, inventories and subscriptions: which results the control plane accepts and
  what it records, when a rollout is promoted, rolled back or kept waiting, that the client
  inventory does not depend on any secret, and who can read a subscription.
\<close>

section \<open>Definitions\<close>

fun redact_material :: "credential_material \<Rightarrow> credential_material" where
  "redact_material (VlessUuid _) = VlessUuid []"
| "redact_material (ShadowsocksPassword m _) = ShadowsocksPassword m []"
| "redact_material (TrojanPassword _) = TrojanPassword []"

definition redact_credential :: "credential \<Rightarrow> credential" where
  "redact_credential c = c\<lparr>cr_material := redact_material (cr_material c)\<rparr>"

definition redact_state :: "memory_state \<Rightarrow> memory_state" where
  "redact_state s =
     s\<lparr>credentials_by_profile := hm_map_values (map redact_credential) (credentials_by_profile s)\<rparr>"

definition has_active_token :: "memory_state \<Rightarrow> string \<Rightarrow> bool" where
  "has_active_token s p \<longleftrightarrow>
     (\<exists>t \<in> snd ` set (subscription_tokens s). st_profile_id t = p \<and> st_status t = ''active'')"

definition opens :: "libs \<Rightarrow> memory_state \<Rightarrow> string \<Rightarrow> string \<Rightarrow> subscription_token_record \<Rightarrow> bool" where
  "opens L s p token t \<longleftrightarrow>
     t \<in> snd ` set (subscription_tokens s) \<and> st_profile_id t = p \<and> st_status t = ''active'' \<and>
     st_token_hash t = subscription_token_hash L token"

text \<open>A control plane with two nodes and a deployment that belongs to the second.\<close>

definition demo_key :: signing_key where
  "demo_key = replicate 32 22"

definition demo_two_nodes :: "memory_state app_state" where
  "demo_two_nodes = with_store_and_runner_token demo_libs ''reg'' ''run'' ''t''
     (memory_store demo_libs ''t'')
     (memory_state_default\<lparr>
        nodes := [(''node-a'', demo_node), (''node-b'', demo_node\<lparr>nd_node_id := ''node-b''\<rparr>)],
        deployments := [(''dep-1'', (demo_plan ''dep-1'' 5)\<lparr>dpr_node_id := ''node-b''\<rparr>)],
        deployment_statuses := [(''dep-1'', Pending)]\<rparr>)"

definition demo_signed_result :: signed_deployment_result where
  "demo_signed_result = \<lparr>sdr_node_id = ''node-a'', sdr_result = demo_result,
     sdr_signature_hex = hex_encode demo_libs (ed_sign demo_libs demo_key
       (as_bytes (''node-a'' @ ''dep-1'')))\<rparr>"

text \<open>A succeeded deployment with two healthy checks, and one with a predecessor to roll back to.\<close>

definition demo_check :: "string \<Rightarrow> datetime \<Rightarrow> deployment_health_check_record" where
  "demo_check x t = \<lparr>hc_tenant_id = ''t'', hc_deployment_id = ''dep-1'', hc_node_id = ''node-a'',
     hc_status = x, hc_payload_json = JNull, hc_created_at = t\<rparr>"

definition demo_rollout :: "memory_state app_state" where
  "demo_rollout = with_store_and_runner_token demo_libs ''reg'' ''run'' ''t''
     (memory_store demo_libs ''t'')
     (memory_state_default\<lparr>
        deployments := [(''dep-1'', demo_plan ''dep-1'' 5)],
        deployment_statuses := [(''dep-1'', Succeeded)],
        health_checks := [demo_check ''healthy'' 1, demo_check ''healthy'' 2]\<rparr>)"

definition demo_artifact :: artifact where
  "demo_artifact = (artifact_from_bytes demo_libs demo_env ''t'' CompiledXrayConfig ''json''
     (as_bytes ''cfg'') ''admin'')\<lparr>art_id := ''art-dep-1''\<rparr>"

definition demo_rollback :: "memory_state app_state" where
  "demo_rollback = with_store_and_runner_token demo_libs ''reg'' ''run'' ''t''
     (memory_store demo_libs ''t'') (exec_ops demo_libs ''t'' (map (Pair demo_env)
       [RecordArtifactBlob demo_artifact (as_bytes ''cfg''), RecordPlan (demo_plan ''dep-1'' 5),
        RecordResult demo_result, RecordPlan (demo_plan ''dep-2'' 9),
        RecordResult (demo_result\<lparr>dr_deployment_id := ''dep-2'', dr_status := Failed\<rparr>)])
       memory_state_default)"

definition demo_subscription :: "memory_state app_state" where
  "demo_subscription = with_store_and_runner_token demo_libs ''reg'' ''run'' ''t''
     (memory_store demo_libs ''t'') demo_subscription_state"

section \<open>Results of runners\<close>

lemma result_verify_content: "result_verify L sr key n = Ok r \<Longrightarrow> r = sdr_result sr \<and> sdr_node_id sr = n"
  by (auto simp: result_verify_def bind_result_eq_Ok split: if_splits)

lemma submit_runner_result_eq:
  assumes "app_store st = memory_store L T"
  shows "submit_runner_result L E n h sr st =
    (if \<not> runner_token_valid st h then (Err (UNAUTHORIZED, []), st)
     else case map_of (nodes (app_store_state st)) n of
       None \<Rightarrow> (Err (NOT_FOUND, ''node:'' @ n), st)
     | Some node \<Rightarrow> (case runner_result_verify_key_for_node L st node of
         Err m \<Rightarrow> (Err (UNAUTHORIZED, m), st)
       | Ok key \<Rightarrow> (case result_verify L sr key n of
           Err e \<Rightarrow> (Err (UNAUTHORIZED, domain_error_to_string e), st)
         | Ok _ \<Rightarrow> let r = sdr_result sr in
            (case map_of (deployments (app_store_state st)) (dr_deployment_id r) of
             None \<Rightarrow> (Err (NOT_FOUND, ''deployment:'' @ dr_deployment_id r), st)
           | Some d \<Rightarrow> (Ok ACCEPTED, st\<lparr>
               app_store_state := snd (mem_record_deployment_result L T (E 1) r (app_store_state st)),
               app_runner_results := app_runner_results st @ [r]\<rparr>)))))"
  using assms result_verify_content [of L sr _ n]
  by (auto simp: submit_runner_result_def and_then_def require_runner_token_def call_def
      map_err_op_def store_call_def mem_node_def get_app_def lift_result_def return_op_def
      push_runner_result_def mem_record_deployment_result_def Let_def
      split: option.splits result.splits)

text \<open>
  C24. A result is accepted exactly when the request carries the runner token, the node is
  registered, its result key (or the default key, when it has none) verifies the signature for
  this node, and the deployment is known; then the deployment takes the reported status. In
  every other case nothing changes.
\<close>

theorem submit_result_accepted_iff:
  assumes "app_store st = memory_store L T"
  shows "(is_ok (fst (submit_runner_result L E n h sr st)) \<longleftrightarrow>
      runner_token_valid st h \<and>
      (\<exists>node key. map_of (nodes (app_store_state st)) n = Some node \<and>
         runner_result_verify_key_for_node L st node = Ok key \<and>
         result_verify L sr key n = Ok (sdr_result sr)) \<and>
      hm_contains (deployments (app_store_state st)) (dr_deployment_id (sdr_result sr))) \<and>
    (if is_ok (fst (submit_runner_result L E n h sr st))
     then \<exists>s'. snd (submit_runner_result L E n h sr st) = st\<lparr>app_store_state := s',
            app_runner_results := app_runner_results st @ [sdr_result sr]\<rparr> \<and>
          mem_deployment_status (dr_deployment_id (sdr_result sr)) s'
            = (Ok (dr_status (sdr_result sr)), s')
     else snd (submit_runner_result L E n h sr st) = st)"
proof -
  have status: "mem_deployment_status (dr_deployment_id r)
      (snd (mem_record_deployment_result L T e r s))
      = (Ok (dr_status r), snd (mem_record_deployment_result L T e r s))"
    if "map_of (deployments s) (dr_deployment_id r) = Some d" for e r s d
    using that by (simp add: mem_record_deployment_result_def mem_deployment_status_def Let_def)
  show ?thesis
    unfolding submit_runner_result_eq [OF assms]
    by (auto simp: status Let_def dest: result_verify_content split: option.splits result.splits)
qed

lemma demo_two_nodes_facts:
  "app_store demo_two_nodes = memory_store demo_libs ''t''"
  "map_of (nodes (app_store_state demo_two_nodes)) ''node-a'' = Some demo_node"
  "map_of (deployments (app_store_state demo_two_nodes)) ''dep-1''
     = Some ((demo_plan ''dep-1'' 5)\<lparr>dpr_node_id := ''node-b''\<rparr>)"
  "runner_token_valid demo_two_nodes demo_headers"
  "runner_result_verify_key_for_node demo_libs demo_two_nodes demo_node = Ok demo_key"
  by (simp_all add: demo_two_nodes_def with_store_and_runner_token_def runner_token_valid_def
      demo_headers_def runner_result_verify_key_for_node_def demo_node_def
      dev_runner_result_verify_key_def demo_libs_def demo_key_def)

lemma demo_signed_result_verifies:
  "result_verify demo_libs demo_signed_result demo_key ''node-a'' = Ok demo_result"
  using demo_libs_ok
  by (simp add: result_verify_def demo_signed_result_def decode_signature_def hex_codec_def
      demo_libs_def demo_result_def ed25519_scheme_def)

theorem submit_result_accepted_iff_witness:
  "is_ok (fst (submit_runner_result demo_libs (\<lambda>_. demo_env) ''node-a'' demo_headers
     demo_signed_result demo_two_nodes))"
  using submit_result_accepted_iff [OF demo_two_nodes_facts(1), of "\<lambda>_. demo_env" "''node-a''"
      demo_headers demo_signed_result] demo_two_nodes_facts demo_signed_result_verifies
  by (simp add: demo_signed_result_def demo_result_def)

text \<open>
  C36. Nothing ties a result to the node the deployment belongs to: a result that a registered node
  signs for a deployment of another node is accepted and sets that deployment's status, while a
  health report of the same node for the same deployment is refused.
\<close>

theorem foreign_result_accepted:
  assumes "app_store st = memory_store L T" and "runner_token_valid st h"
    and "map_of (nodes (app_store_state st)) n = Some node"
    and "runner_result_verify_key_for_node L st node = Ok key"
    and "result_verify L sr key n = Ok (sdr_result sr)"
    and "map_of (deployments (app_store_state st)) (dr_deployment_id (sdr_result sr)) = Some d"
    and "dpr_node_id d \<noteq> n"
  shows "(\<exists>st'. submit_runner_result L E n h sr st = (Ok ACCEPTED, st') \<and>
      map_of (deployment_statuses (app_store_state st')) (dr_deployment_id (sdr_result sr))
        = Some (dr_status (sdr_result sr))) \<and>
    (\<exists>m. record_runner_deployment_health E n (dr_deployment_id (sdr_result sr)) h ''healthy'' pl st
        = (Err (NOT_FOUND, m), st))"
proof
  show "\<exists>st'. submit_runner_result L E n h sr st = (Ok ACCEPTED, st') \<and>
      map_of (deployment_statuses (app_store_state st')) (dr_deployment_id (sdr_result sr))
        = Some (dr_status (sdr_result sr))"
    using assms(2-6)
    by (simp add: submit_runner_result_eq [OF assms(1)] Let_def mem_record_deployment_result_def)
  show "\<exists>m. record_runner_deployment_health E n (dr_deployment_id (sdr_result sr)) h ''healthy'' pl st
        = (Err (NOT_FOUND, m), st)"
    using assms
    by (simp add: record_runner_deployment_health_def and_then_def require_runner_token_def
        get_app_def call_def map_err_op_def store_call_def mem_record_deployment_health_check_def)
qed

theorem foreign_result_accepted_witness:
  "\<exists>st'. submit_runner_result demo_libs (\<lambda>_. demo_env) ''node-a'' demo_headers demo_signed_result
       demo_two_nodes = (Ok ACCEPTED, st') \<and>
     map_of (deployment_statuses (app_store_state st')) ''dep-1'' = Some Succeeded"
proof -
  have r: "sdr_result demo_signed_result = demo_result" by (simp add: demo_signed_result_def)
  show ?thesis
    using foreign_result_accepted [OF demo_two_nodes_facts(1,4,2,5), of demo_signed_result]
      demo_two_nodes_facts(3) demo_signed_result_verifies
    by (simp add: r demo_result_def)
qed

section \<open>Rollout decisions\<close>

lemma compute_deployment_readiness_eq:
  assumes "app_store st = memory_store L T"
    and "map_of (deployment_statuses (app_store_state st)) i = Some x"
    and "hm_contains (deployments (app_store_state st)) i"
  shows "compute_deployment_readiness E i st = (Ok (readiness_of i x
    (filter (\<lambda>h. hc_deployment_id h = i) (health_checks (app_store_state st)))), st)"
  using assms
  by (simp add: compute_deployment_readiness_def and_then_def call_def map_err_op_def store_call_def
      mem_deployment_status_def mem_deployment_health_checks_def return_op_def)

lemma readiness_of_cases:
  fixes hs :: "deployment_health_check_record list"
  defines "latest \<equiv> max_by_key hc_created_at hs"
    and "good \<equiv> length (filter (\<lambda>h. hc_status h = ''healthy'') hs)"
  shows "drr_status (readiness_of i x hs) = ''ready'' \<longleftrightarrow> x = Succeeded \<and> 2 \<le> good \<and>
      (\<exists>h. latest = Some h \<and> hc_status h = ''healthy'')"
    and "drr_reason (readiness_of i x hs) = ''latest_health_unhealthy'' \<longleftrightarrow> x = Succeeded \<and>
      (\<exists>h. latest = Some h \<and> hc_status h \<noteq> ''healthy'')"
proof -
  have some: "2 \<le> good \<Longrightarrow> latest \<noteq> None"
    unfolding good_def latest_def by (cases hs) auto
  show "drr_status (readiness_of i x hs) = ''ready'' \<longleftrightarrow> x = Succeeded \<and> 2 \<le> good \<and>
      (\<exists>h. latest = Some h \<and> hc_status h = ''healthy'')"
    using some unfolding good_def latest_def
    by (auto simp: readiness_of_def Let_def REQUIRED_HEALTHY_DEPLOYMENT_SAMPLES_def is_some_and_def
        split: option.splits)
  show "drr_reason (readiness_of i x hs) = ''latest_health_unhealthy'' \<longleftrightarrow> x = Succeeded \<and>
      (\<exists>h. latest = Some h \<and> hc_status h \<noteq> ''healthy'')"
    unfolding latest_def
    by (auto simp: readiness_of_def Let_def is_some_and_def split: option.splits)
qed

text \<open>
  C27. Advancing a rollout promotes it exactly when the deployment succeeded, its latest health check
  is healthy and at least two checks were; it queues a rollback exactly when the deployment
  succeeded and its latest check is unhealthy (and then reports the rollback's target); otherwise
  it waits. Promoting and waiting change nothing.
\<close>

theorem advance_rollout_decision:
  assumes st: "app_store st = memory_store L T"
    and x: "map_of (deployment_statuses (app_store_state st)) i = Some x"
      "hm_contains (deployments (app_store_state st)) i"
    and ok: "advance_deployment_rollout L E i st = (Ok (code, resp), st')"
  defines "hs \<equiv> filter (\<lambda>h. hc_deployment_id h = i) (health_checks (app_store_state st))"
  shows "(dar_action resp = ''promoted'' \<longleftrightarrow> x = Succeeded \<and>
        2 \<le> length (filter (\<lambda>h. hc_status h = ''healthy'') hs) \<and>
        (\<exists>h. max_by_key hc_created_at hs = Some h \<and> hc_status h = ''healthy'')) \<and>
    (dar_action resp = ''rollback_queued'' \<longleftrightarrow> x = Succeeded \<and>
        (\<exists>h. max_by_key hc_created_at hs = Some h \<and> hc_status h \<noteq> ''healthy'')) \<and>
    (dar_action resp \<noteq> ''rollback_queued'' \<longrightarrow> st' = st) \<and>
    (dar_action resp = ''rollback_queued'' \<longrightarrow>
      (\<exists>rb. enqueue_rollback_command L (\<lambda>k. E (k + 2)) i st = (Ok rb, st') \<and>
        dar_rollback_to_deployment_id resp = Some (rqr_rollback_to_deployment_id rb)))"
proof -
  have eq: "advance_deployment_rollout L E i st =
      (if drr_status (readiness_of i x hs) = ''ready'' then
         return_op (ACCEPTED, \<lparr>dar_deployment_id = i, dar_action = ''promoted'',
           dar_readiness = readiness_of i x hs, dar_rollback_to_deployment_id = None,
           dar_sequence = None\<rparr>)
       else if drr_reason (readiness_of i x hs) = ''latest_health_unhealthy'' then
         and_then (enqueue_rollback_command L (\<lambda>k. E (k + 2)) i) (\<lambda>rollback.
         return_op (ACCEPTED, \<lparr>dar_deployment_id = i, dar_action = ''rollback_queued'',
           dar_readiness = readiness_of i x hs,
           dar_rollback_to_deployment_id = Some (rqr_rollback_to_deployment_id rollback),
           dar_sequence = Some (rqr_sequence rollback)\<rparr>))
       else return_op (OK, \<lparr>dar_deployment_id = i, dar_action = ''waiting'',
           dar_readiness = readiness_of i x hs, dar_rollback_to_deployment_id = None,
           dar_sequence = None\<rparr>)) st"
    unfolding advance_deployment_rollout_def hs_def
    by (simp add: and_then_def [of "compute_deployment_readiness E i"]
        compute_deployment_readiness_eq [OF st x])
  consider (ready) "drr_status (readiness_of i x hs) = ''ready''"
    | (unhealthy) "drr_status (readiness_of i x hs) \<noteq> ''ready''"
        "drr_reason (readiness_of i x hs) = ''latest_health_unhealthy''"
    | (waiting) "drr_status (readiness_of i x hs) \<noteq> ''ready''"
        "drr_reason (readiness_of i x hs) \<noteq> ''latest_health_unhealthy''" by blast
  then show ?thesis
  proof cases
    case ready
    with ok eq have "dar_action resp = ''promoted''" "st' = st" by (auto simp: return_op_eq)
    moreover obtain h where "x = Succeeded" "max_by_key hc_created_at hs = Some h"
        "hc_status h = ''healthy''" "2 \<le> length (filter (\<lambda>h. hc_status h = ''healthy'') hs)"
      using ready readiness_of_cases(1) by blast
    ultimately show ?thesis by simp
  next
    case unhealthy
    with ok eq obtain rb where "dar_action resp = ''rollback_queued''"
        "enqueue_rollback_command L (\<lambda>k. E (k + 2)) i st = (Ok rb, st')"
        "dar_rollback_to_deployment_id resp = Some (rqr_rollback_to_deployment_id rb)"
      by (auto simp: return_op_eq and_then_eq_Ok)
    moreover obtain h where "x = Succeeded" "max_by_key hc_created_at hs = Some h"
        "hc_status h \<noteq> ''healthy''"
      using unhealthy(2) readiness_of_cases(2) by blast
    ultimately show ?thesis by simp
  next
    case waiting
    with ok eq have "dar_action resp = ''waiting''" "st' = st" by (auto simp: return_op_eq)
    then have "dar_action resp \<noteq> ''promoted''" "dar_action resp \<noteq> ''rollback_queued''" "st' = st"
      by simp_all
    with waiting show ?thesis
      using readiness_of_cases [of i x hs] by blast
  qed
qed

theorem advance_rollout_decision_witness:
  "\<exists>code resp. advance_deployment_rollout demo_libs (\<lambda>_. demo_env) ''dep-1'' demo_rollout
     = (Ok (code, resp), demo_rollout) \<and> dar_action resp = ''promoted''"
proof -
  let ?s = "app_store_state demo_rollout"
  have facts: "app_store demo_rollout = memory_store demo_libs ''t''"
      "map_of (deployment_statuses ?s) ''dep-1'' = Some Succeeded"
      "hm_contains (deployments ?s) ''dep-1''"
      "health_checks ?s = [demo_check ''healthy'' 1, demo_check ''healthy'' 2]"
    by (simp_all add: demo_rollout_def with_store_and_runner_token_def)
  obtain code resp st' where ok: "advance_deployment_rollout demo_libs (\<lambda>_. demo_env) ''dep-1''
      demo_rollout = (Ok (code, resp), st')"
    by (simp add: advance_deployment_rollout_def and_then_def return_op_def facts(4) demo_check_def
        compute_deployment_readiness_eq [OF facts(1-3)] readiness_of_def max_by_key_def
        REQUIRED_HEALTHY_DEPLOYMENT_SAMPLES_def)
  show ?thesis
    using advance_rollout_decision [OF facts(1-3) ok] ok
    by (auto simp: facts(4) demo_check_def max_by_key_def)
qed

section \<open>Rollback\<close>

lemma mem_artifact_bytes_eq_Ok:
  "mem_artifact_bytes a s = (Ok b, s') \<longleftrightarrow> s' = s \<and> fst (mem_artifact_bytes a s) = Ok b"
  by (metis fst_conv mem_reads(10) prod.collapse snd_conv)

lemma queue_rollback_Ok:
  assumes st: "app_store st = memory_store L T"
    and ok: "queue_rollback L E i st = (Ok (code, rb), st')"
  obtains p j a sn b c where "map_of (rollback_pointers (app_store_state st)) i = Some p"
    "rbp_previous_deployment_id p = Some j" "rbp_previous_compiled_config_artifact_id p = Some a"
    "map_of (deployment_snapshots (app_store_state st)) i = Some sn"
    "mem_artifact_bytes a (app_store_state st) = (Ok b, app_store_state st)"
    "rqr_rollback_to_deployment_id rb = j"
    "memory_queue (app_store_state st') = (memory_queue (app_store_state st))(snp_node_id sn :=
       memory_queue (app_store_state st) (snp_node_id sn) @ [c])"
    "cmd_kind (src_command c) = RollbackDeployment i j (sha256_hex L b)"
    "cmd_sequence (src_command c) = counter st (snp_node_id sn) + 1"
    "command_sign L (src_command c) (app_signing_key st) = Ok c"
proof -
  let ?s = "app_store_state st"
  obtain p j a sn b q where p: "map_of (rollback_pointers ?s) i = Some p"
      "rbp_previous_deployment_id p = Some j" "rbp_previous_compiled_config_artifact_id p = Some a"
      "map_of (deployment_snapshots ?s) i = Some sn" "mem_artifact_bytes a ?s = (Ok b, ?s)"
      "rqr_rollback_to_deployment_id rb = j"
    and q: "sign_and_enqueue L (E 3) (E 4) (snp_node_id sn)
      (RollbackDeployment i j (sha256_hex L b)) st = (Ok q, st')"
    using st ok
    by (auto simp: queue_rollback_def enqueue_rollback_command_def and_then_eq_Ok call_eq_Ok
        return_op_eq lift_result_def mem_rollback_pointer_def mem_deployment_snapshot_def
        mem_artifact_bytes_eq_Ok)
  from q [unfolded sign_and_enqueue_eq_Ok [OF st]] obtain c where
      c: "command_sign L (runner_command_new (E 3) (app_tenant_id st) (snp_node_id sn)
        (counter st (snp_node_id sn) + 1) (utc_now (E 3) 0 + seconds 60)
        (RollbackDeployment i j (sha256_hex L b))) (app_signing_key st) = Ok c"
      and s': "app_store_state st' = snd (mem_enqueue_runner_command (snp_node_id sn) c ?s)"
    by auto
  have "memory_queue (app_store_state st') = (memory_queue ?s)(snp_node_id sn :=
      memory_queue ?s (snp_node_id sn) @ [c])"
    by (auto simp: s' mem_enqueue_runner_command_def memory_queue_def)
  moreover have "cmd_kind (src_command c) = RollbackDeployment i j (sha256_hex L b)"
      "cmd_sequence (src_command c) = counter st (snp_node_id sn) + 1"
    using command_sign_Ok [OF c] by (simp_all add: runner_command_new_def)
  ultimately show ?thesis
    using p command_sign_Ok [OF c] by (intro that [of p j a sn b c]) blast+
qed

text \<open>
  C26. A queued rollback targets the deployment the stored pointer names as predecessor, which is a
  known deployment: one new command, next in sequence and signed, goes to the node of the
  deployment's snapshot with the digest of the predecessor's stored configuration. A deployment
  without predecessor is refused and nothing changes.
\<close>

theorem rollback_targets_predecessor:
  assumes inv: "app_inv L T st"
  shows "(queue_rollback L E i st = (Ok (code, rb), st') \<longrightarrow>
      (\<exists>p j a sn b c. map_of (rollback_pointers (app_store_state st)) i = Some p \<and>
        rbp_previous_deployment_id p = Some j \<and> hm_contains (deployments (app_store_state st)) j \<and>
        rbp_previous_compiled_config_artifact_id p = Some a \<and>
        mem_artifact_bytes a (app_store_state st) = (Ok b, app_store_state st) \<and>
        map_of (deployment_snapshots (app_store_state st)) i = Some sn \<and>
        rqr_rollback_to_deployment_id rb = j \<and>
        memory_queue (app_store_state st') = (memory_queue (app_store_state st))(snp_node_id sn :=
          memory_queue (app_store_state st) (snp_node_id sn) @ [c]) \<and>
        cmd_kind (src_command c) = RollbackDeployment i j (sha256_hex L b) \<and>
        cmd_sequence (src_command c) = counter st (snp_node_id sn) + 1 \<and>
        command_sign L (src_command c) (app_signing_key st) = Ok c)) \<and>
    (\<forall>p. map_of (rollback_pointers (app_store_state st)) i = Some p \<and>
       rbp_previous_deployment_id p = None \<longrightarrow>
       queue_rollback L E i st =
         (Err (BAD_REQUEST, ''deployment has no previous deployment to roll back to''), st))"
proof (intro conjI impI allI)
  assume ok: "queue_rollback L E i st = (Ok (code, rb), st')"
  have st: "app_store st = memory_store L T" using inv by (simp add: app_inv_def)
  obtain p j a sn b c where r: "map_of (rollback_pointers (app_store_state st)) i = Some p"
      "rbp_previous_deployment_id p = Some j" "rbp_previous_compiled_config_artifact_id p = Some a"
      "map_of (deployment_snapshots (app_store_state st)) i = Some sn"
      "mem_artifact_bytes a (app_store_state st) = (Ok b, app_store_state st)"
      "rqr_rollback_to_deployment_id rb = j"
      "memory_queue (app_store_state st') = (memory_queue (app_store_state st))(snp_node_id sn :=
         memory_queue (app_store_state st) (snp_node_id sn) @ [c])"
      "cmd_kind (src_command c) = RollbackDeployment i j (sha256_hex L b)"
      "cmd_sequence (src_command c) = counter st (snp_node_id sn) + 1"
      "command_sign L (src_command c) (app_signing_key st) = Ok c"
    by (rule queue_rollback_Ok [OF st ok])
  moreover have "hm_contains (deployments (app_store_state st)) j"
    using inv r(1,2) unfolding app_inv_def store_inv_def deployment_inv_def by blast
  ultimately show "\<exists>p j a sn b c. map_of (rollback_pointers (app_store_state st)) i = Some p \<and>
      rbp_previous_deployment_id p = Some j \<and> hm_contains (deployments (app_store_state st)) j \<and>
      rbp_previous_compiled_config_artifact_id p = Some a \<and>
      mem_artifact_bytes a (app_store_state st) = (Ok b, app_store_state st) \<and>
      map_of (deployment_snapshots (app_store_state st)) i = Some sn \<and>
      rqr_rollback_to_deployment_id rb = j \<and>
      memory_queue (app_store_state st') = (memory_queue (app_store_state st))(snp_node_id sn :=
        memory_queue (app_store_state st) (snp_node_id sn) @ [c]) \<and>
      cmd_kind (src_command c) = RollbackDeployment i j (sha256_hex L b) \<and>
      cmd_sequence (src_command c) = counter st (snp_node_id sn) + 1 \<and>
      command_sign L (src_command c) (app_signing_key st) = Ok c"
    by blast
next
  fix p
  assume "map_of (rollback_pointers (app_store_state st)) i = Some p \<and>
    rbp_previous_deployment_id p = None"
  then show "queue_rollback L E i st =
      (Err (BAD_REQUEST, ''deployment has no previous deployment to roll back to''), st)"
    using inv
    by (simp add: queue_rollback_def enqueue_rollback_command_def and_then_def call_def
        map_err_op_def store_call_def mem_rollback_pointer_def lift_result_def app_inv_def)
qed

lemma demo_rollback_facts:
  "app_inv demo_libs ''t'' demo_rollback"
  "\<exists>p. map_of (rollback_pointers (app_store_state demo_rollback)) ''dep-2'' = Some p \<and>
     rbp_previous_deployment_id p = Some ''dep-1'' \<and>
     rbp_previous_compiled_config_artifact_id p = Some ''art-dep-1''"
  "\<exists>sn. map_of (deployment_snapshots (app_store_state demo_rollback)) ''dep-2'' = Some sn \<and>
     snp_node_id sn = ''node-a''"
  "mem_artifact_bytes ''art-dep-1'' (app_store_state demo_rollback)
     = (Ok (as_bytes ''cfg''), app_store_state demo_rollback)"
proof -
  let ?ops = "map (Pair demo_env)
       [RecordArtifactBlob demo_artifact (as_bytes ''cfg''), RecordPlan (demo_plan ''dep-1'' 5),
        RecordResult demo_result, RecordPlan (demo_plan ''dep-2'' 9),
        RecordResult (demo_result\<lparr>dr_deployment_id := ''dep-2'', dr_status := Failed\<rparr>)]"
  have s: "app_store_state demo_rollback = exec_ops demo_libs ''t'' ?ops memory_state_default"
    by (simp only: demo_rollback_def with_store_and_runner_token_def app_state.select_convs)
  have "store_inv demo_libs (app_store_state demo_rollback)"
    unfolding s by (rule reachable_inv [OF reachable_exec_ops [OF reachable.start]])
  moreover have "runner_commands (app_store_state demo_rollback) = []"
    unfolding s by (simp add: memory_state_default_def)
  ultimately show "app_inv demo_libs ''t'' demo_rollback"
    by (simp add: app_inv_def queue_inv_def memory_queue_def)
       (simp add: demo_rollback_def with_store_and_runner_token_def)
  note eval = mem_writes Let_def memory_state_default_def demo_plan_def demo_result_def
    previous_deployment_def hm_values_def max_by_key_def rollback_pointer_new_def
    snapshot_from_result_def demo_artifact_def artifact_from_bytes_def demo_env_def
    mem_artifact_bytes_def
  show "\<exists>p. map_of (rollback_pointers (app_store_state demo_rollback)) ''dep-2'' = Some p \<and>
     rbp_previous_deployment_id p = Some ''dep-1'' \<and>
     rbp_previous_compiled_config_artifact_id p = Some ''art-dep-1''"
    unfolding s by (simp add: eval)
  show "\<exists>sn. map_of (deployment_snapshots (app_store_state demo_rollback)) ''dep-2'' = Some sn \<and>
     snp_node_id sn = ''node-a''"
    unfolding s by (simp add: eval)
  show "mem_artifact_bytes ''art-dep-1'' (app_store_state demo_rollback)
     = (Ok (as_bytes ''cfg''), app_store_state demo_rollback)"
    unfolding s by (simp add: eval)
qed

theorem rollback_targets_predecessor_witness:
  "\<exists>rb st' c. queue_rollback demo_libs (\<lambda>_. demo_env) ''dep-2'' demo_rollback
       = (Ok (ACCEPTED, rb), st') \<and>
     memory_queue (app_store_state st') ''node-a''
       = memory_queue (app_store_state demo_rollback) ''node-a'' @ [c] \<and>
     cmd_kind (src_command c) = RollbackDeployment ''dep-2'' ''dep-1'' ''cfg''"
proof -
  note facts = demo_rollback_facts
  have st: "app_store demo_rollback = memory_store demo_libs ''t''"
    using facts(1) by (simp add: app_inv_def)
  have "\<exists>rb st'. queue_rollback demo_libs (\<lambda>_. demo_env) ''dep-2'' demo_rollback
      = (Ok (ACCEPTED, rb), st')"
    using facts(2-4) st
    by (auto simp: queue_rollback_def enqueue_rollback_command_def and_then_def call_def
        map_err_op_def store_call_def mem_rollback_pointer_def mem_deployment_snapshot_def
        lift_result_def return_op_def sign_and_enqueue_def next_sequence_def get_app_def Let_def
        command_sign_def demo_libs_def mem_enqueue_runner_command_def)
  then obtain rb st' where ok: "queue_rollback demo_libs (\<lambda>_. demo_env) ''dep-2'' demo_rollback
      = (Ok (ACCEPTED, rb), st')" by blast
  have sha: "sha256_hex demo_libs (as_bytes ''cfg'') = ''cfg''" by (simp add: demo_libs_def)
  show ?thesis
    using rollback_targets_predecessor [OF facts(1), of "\<lambda>_. demo_env" "''dep-2''"] ok facts(2-4) sha
    by fastforce
qed

section \<open>Inventories\<close>

lemma hash_iter_map: "hash_iter ns (map f xs) = map f (hash_iter ns xs)"
proof (induction ns xs rule: hash_iter.induct)
  case (3 n ns x xs)
  have "(map f (x # xs)) ! (n mod length (x # xs)) = f ((x # xs) ! (n mod length (x # xs)))"
    by (rule nth_map) simp
  moreover have "take k (f x # map f xs) = map f (take k (x # xs))" for k
    by (metis list.map(2) take_map)
  ultimately show ?case using 3 by (simp add: Let_def drop_map)
qed simp_all

lemma insort_key_map: "insort_key g (f x) (map f xs) = map f (insort_key (\<lambda>y. g (f y)) x xs)"
  by (induction xs) auto

lemma sort_key_map: "sort_key g (map f xs) = map f (sort_key (\<lambda>y. g (f y)) xs)"
  by (induction xs) (simp_all add: insort_key_map sort_key_def)

text \<open>
  The client inventory is the same whatever the UUIDs and passwords of the clients are: erasing
  all of them from the store does not change the response.
\<close>

theorem list_clients_hides_secrets:
  assumes "app_store st = memory_store L T"
  shows "fst (list_clients E st) =
    fst (list_clients E (st\<lparr>app_store_state := redact_state (app_store_state st)\<rparr>))"
proof -
  let ?red = "\<lambda>r. r\<lparr>crr_credential := redact_credential (crr_credential r)\<rparr>"
  let ?key = "\<lambda>r. (crr_profile_id r, cr_id (crr_credential r))"
  let ?rows = "\<lambda>m. concat (map (\<lambda>(p, cs). map (\<lambda>c. \<lparr>crr_profile_id = p, crr_credential = c\<rparr>) cs) m)"
  have item: "client_inventory_item_of (?red r) = client_inventory_item_of r" for r
    by (cases "cr_material (crr_credential r)")
       (simp_all add: client_inventory_item_of_def redact_credential_def)
  have key: "(\<lambda>r. ?key (?red r)) = ?key" by (auto simp: redact_credential_def)
  have "?rows (map (\<lambda>(k, v). (k, map redact_credential v)) m) = map ?red (?rows m)" for m
    by (induction m) auto
  then have "?rows (hm_entries ns (hm_map_values (map redact_credential) m))
      = map ?red (?rows (hm_entries ns m))" for ns m
    by (simp add: hm_entries_def hm_map_values_def hash_iter_map)
  then have "sort_key ?key (?rows (hm_entries ns (hm_map_values (map redact_credential) m)))
      = map ?red (sort_key ?key (?rows (hm_entries ns m)))" for ns m
    by (simp only: sort_key_map key)
  then show ?thesis
    using assms item
    by (simp add: list_clients_def and_then_def call_def map_err_op_def store_call_def
        return_op_def mem_list_credentials_def redact_state_def)
qed

section \<open>Subscriptions\<close>

lemma find_eq_None_opens:
  "fst (mem_verify_subscription_token L e p token s) = Ok t \<Longrightarrow> opens L s p token t"
  by (auto simp: mem_verify_subscription_token_def opens_def dest: find_Some_set)

lemma record_access_Ok:
  "mem_record_subscription_access e t a u x s = (Ok (), s') \<Longrightarrow>
   \<exists>entry. al_token_id entry = t \<and>
     s' = s\<lparr>subscription_access_logs := subscription_access_logs s @ [entry]\<rparr>"
  by (rule exI [of _ "\<lparr>al_token_id = t, al_remote_addr = a, al_user_agent = u, al_status = x,
        al_created_at = utc_now e 0\<rparr>"])
     (auto simp: mem_record_subscription_access_def split: if_splits)

lemma verify_closed:
  "\<nexists>t. opens L s p token t \<Longrightarrow> mem_verify_subscription_token L e p token s
     = (Err (NotFound (''subscription_token:'' @ p)), s)"
  by (auto simp: mem_verify_subscription_token_def opens_def ok_or_def find_None_set
      split: option.splits dest: find_Some_set)

text \<open>
  C25. A subscription is served without a token only when no token of the profile is active, and with
  a token only when it is the secret of an active token of that profile; the access is then
  logged under that token. Otherwise the answer is 401 and nothing changes.
\<close>

theorem subscription_gated_by_token:
  assumes st: "app_store st = memory_store L T" and p: "hm_contains (profiles (app_store_state st)) p"
  shows "(get_subscription L E p query h st = (Ok resp, st') \<longrightarrow>
      (case query of
         None \<Rightarrow> \<not> has_active_token (app_store_state st) p \<and> st' = st
       | Some token \<Rightarrow> \<exists>t log. opens L (app_store_state st) p token t \<and> al_token_id log = st_token_id t \<and>
           st' = st\<lparr>app_store_state := (app_store_state st)\<lparr>subscription_access_logs :=
             subscription_access_logs (app_store_state st) @ [log]\<rparr>\<rparr>)) \<and>
    (has_active_token (app_store_state st) p \<longrightarrow> get_subscription L E p None h st
       = (Err (UNAUTHORIZED, ''subscription token is required''), st)) \<and>
    ((\<nexists>t. opens L (app_store_state st) p token t) \<longrightarrow> get_subscription L E p (Some token) h st
       = (Err (UNAUTHORIZED, ''invalid subscription token''), st))"
proof (intro conjI impI)
  let ?s = "app_store_state st"
  have required: "mem_subscription_token_required e p ?s = (Ok (has_active_token ?s p), ?s)" for e
    using p by (simp add: mem_subscription_token_required_def has_active_token_def list_ex_iff)
  have served: "\<And>e s d s'. mem_deployed_profile_for_subscription e p s = (Ok d, s') \<Longrightarrow> s' = s"
    by (metis mem_reads(25) snd_conv)
  show "get_subscription L E p None h st
      = (Err (UNAUTHORIZED, ''subscription token is required''), st)" if "has_active_token ?s p"
    using that st required
    by (simp add: get_subscription_def and_then_def call_def map_err_op_def store_call_def fail_op_def)
  show "get_subscription L E p (Some token) h st
      = (Err (UNAUTHORIZED, ''invalid subscription token''), st)" if "\<nexists>t. opens L ?s p token t"
    using verify_closed [OF that] st
    by (simp add: get_subscription_def and_then_def map_err_op_def store_call_def)
  assume ok: "get_subscription L E p query h st = (Ok resp, st')"
  show "case query of None \<Rightarrow> \<not> has_active_token ?s p \<and> st' = st
      | Some token \<Rightarrow> \<exists>t log. opens L ?s p token t \<and> al_token_id log = st_token_id t \<and>
           st' = st\<lparr>app_store_state := ?s\<lparr>subscription_access_logs :=
             subscription_access_logs ?s @ [log]\<rparr>\<rparr>"
  proof (cases query)
    case None
    with ok st required show ?thesis
      by (auto simp: get_subscription_def and_then_eq_Ok call_eq_Ok return_op_eq lift_map_err_eq_Ok
          get_app_eq fail_op_def split: if_splits dest!: served)
  next
    case (Some token)
    with ok st obtain t s1 where t: "mem_verify_subscription_token L (E 0) p token ?s = (Ok t, s1)"
        and log: "mem_record_subscription_access (E 1) (st_token_id t) None
          (case h ''user-agent'' of Some (Some a) \<Rightarrow> Some a | _ \<Rightarrow> None) ''ok'' s1
          = (Ok (), app_store_state st')" and st': "st' = st\<lparr>app_store_state := app_store_state st'\<rparr>"
      by (auto simp: get_subscription_def and_then_eq_Ok call_eq_Ok return_op_eq lift_map_err_eq_Ok
          get_app_eq map_err_op_eq_Ok store_call_def Let_def split: prod.splits dest!: served)
    have "s1 = ?s" by (metis t mem_reads(26) snd_conv)
    with log obtain entry where entry: "al_token_id entry = st_token_id t"
        "app_store_state st' = ?s\<lparr>subscription_access_logs := subscription_access_logs ?s @ [entry]\<rparr>"
      using record_access_Ok by blast
    have "opens L ?s p token t" by (rule find_eq_None_opens [of L "E 0"]) (simp add: t)
    moreover have "st' = st\<lparr>app_store_state := ?s\<lparr>subscription_access_logs :=
        subscription_access_logs ?s @ [entry]\<rparr>\<rparr>"
      using st' unfolding entry(2) .
    ultimately show ?thesis
      using Some entry(1) by auto
  qed
qed

theorem subscription_gated_by_token_witness:
  "get_subscription demo_libs (\<lambda>_. demo_env) ''p'' None demo_headers demo_subscription
     = (Err (UNAUTHORIZED, ''subscription token is required''), demo_subscription)"
proof -
  have "app_store demo_subscription = memory_store demo_libs ''t''"
      "hm_contains (profiles (app_store_state demo_subscription)) ''p''"
      "has_active_token (app_store_state demo_subscription) ''p''"
    by (simp_all add: demo_subscription_def with_store_and_runner_token_def demo_subscription_facts
        has_active_token_def)
  then show ?thesis using subscription_gated_by_token by blast
qed

theorem list_clients_hides_secrets_witness:
  "fst (list_clients (\<lambda>_. demo_env) demo_subscription) = fst (list_clients (\<lambda>_. demo_env)
     (demo_subscription\<lparr>app_store_state := redact_state (app_store_state demo_subscription)\<rparr>))"
  by (rule list_clients_hides_secrets)
     (simp add: demo_subscription_def with_store_and_runner_token_def)

end
