(* ===== verification/Runner.thy ===== *)
theory Runner
  imports Store_Interface
begin

text \<open>
  The runner (src/crates/runner/src/lib.rs): \<open>LocalRunner\<close> with the file system below its work
  directory, the command sources and \<open>OutboundRunner\<close>. A path is the list of its components
  below the work directory; deployment ids are single components (the control plane makes them
  from hex digits). Executables are parameters: \<open>h_xray\<close> is \<open>xray run -test\<close> on the bytes of
  the configuration, \<open>h_core\<close> the reload and health commands, which may look at the files but
  do not write below the work directory. Any I/O call may fail: \<open>h_fault\<close> says which.
\<close>

section \<open>The file system\<close>

type_synonym path = "string list"

datatype fs_node = Dir | File bytes | Symlink path

type_synonym files = "path \<Rightarrow> fs_node option"

record process_output =
  po_success :: bool
  po_status :: string
  po_stderr :: string

record host =
  h_fault :: "nat \<Rightarrow> bool"
  h_keep :: "nat \<Rightarrow> path \<Rightarrow> bool"
  h_written :: "nat \<Rightarrow> nat option"
  h_xray :: "bytes \<Rightarrow> (process_output, string) result"
  h_core :: "string \<Rightarrow> string \<Rightarrow> files \<Rightarrow> (process_output, string) result"

record disk =
  d_files :: files
  d_calls :: nat

type_synonym 'a disk_op = "(disk, 'a, string) op"

text \<open>
  One call: when it fails the files become \<open>bad k fs\<close> for the number \<open>k\<close> of the call, otherwise
  \<open>f\<close> decides.
\<close>

definition io ::
  "host \<Rightarrow> (nat \<Rightarrow> files \<Rightarrow> files) \<Rightarrow> (files \<Rightarrow> ('a, string) result \<times> files) \<Rightarrow> 'a disk_op" where
  "io H bad f d =
     (if h_fault H (d_calls d)
      then (Err ''io error'', \<lparr>d_files = bad (d_calls d) (d_files d), d_calls = Suc (d_calls d)\<rparr>)
      else (case f (d_files d) of (r, fs) \<Rightarrow> (r, \<lparr>d_files = fs, d_calls = Suc (d_calls d)\<rparr>)))"

abbreviation unharmed :: "nat \<Rightarrow> files \<Rightarrow> files" where
  "unharmed k fs \<equiv> fs"

fun ancestors :: "path \<Rightarrow> path list" where
  "ancestors [] = [[]]"
| "ancestors (c # p) = [] # map ((#) c) (ancestors p)"

definition create_dir_all :: "host \<Rightarrow> path \<Rightarrow> unit disk_op" where
  "create_dir_all H p = io H unharmed (\<lambda>fs.
     if list_all (\<lambda>q. fs q = None \<or> fs q = Some Dir) (ancestors p)
     then (Ok (), \<lambda>q. if q \<in> set (ancestors p) then Some Dir else fs q)
     else (Err ''not a directory'', fs))"

text \<open>A failed write may leave a prefix of the bytes behind.\<close>

definition write_file :: "host \<Rightarrow> path \<Rightarrow> bytes \<Rightarrow> unit disk_op" where
  "write_file H p b = io H
     (\<lambda>k fs. case h_written H k of None \<Rightarrow> fs | Some n \<Rightarrow> fs(p \<mapsto> File (take n b)))
     (\<lambda>fs. case fs p of
        Some Dir \<Rightarrow> (Err ''is a directory'', fs)
      | Some (Symlink _) \<Rightarrow> (Err ''is a link'', fs)
      | _ \<Rightarrow> if fs (butlast p) = Some Dir then (Ok (), fs(p \<mapsto> File b))
             else (Err ''not found'', fs))"

text \<open>A failed removal may have removed any part of the tree.\<close>

definition remove_dir_all :: "host \<Rightarrow> path \<Rightarrow> unit disk_op" where
  "remove_dir_all H p = io H
     (\<lambda>k fs q. if prefix p q \<and> \<not> h_keep H k q then None else fs q)
     (\<lambda>fs. case fs p of
        Some Dir \<Rightarrow> (Ok (), \<lambda>q. if prefix p q then None else fs q)
      | Some (Symlink _) \<Rightarrow> (Ok (), fs(p := None))
      | Some (File _) \<Rightarrow> (Err ''not a directory'', fs)
      | None \<Rightarrow> (Err ''not found'', fs))"

definition move_tree :: "path \<Rightarrow> path \<Rightarrow> files \<Rightarrow> files" where
  "move_tree src dst fs = (\<lambda>q.
     if prefix dst q then fs (src @ drop (length dst) q)
     else if prefix src q then None else fs q)"

definition empty_dir :: "files \<Rightarrow> path \<Rightarrow> bool" where
  "empty_dir fs p \<longleftrightarrow> (\<forall>q. strict_prefix p q \<longrightarrow> fs q = None)"

definition rename :: "host \<Rightarrow> path \<Rightarrow> path \<Rightarrow> unit disk_op" where
  "rename H src dst = io H unharmed (\<lambda>fs.
     case fs src of
       None \<Rightarrow> (Err ''not found'', fs)
     | Some s \<Rightarrow>
         if fs (butlast dst) \<noteq> Some Dir then (Err ''not found'', fs)
         else (case fs dst of
             None \<Rightarrow> (Ok (), move_tree src dst fs)
           | Some Dir \<Rightarrow> if s = Dir \<and> empty_dir fs dst then (Ok (), move_tree src dst fs)
                         else (Err ''directory not empty'', fs)
           | Some _ \<Rightarrow> if s = Dir then (Err ''not a directory'', fs)
                       else (Ok (), move_tree src dst fs)))"

definition symlink :: "host \<Rightarrow> path \<Rightarrow> path \<Rightarrow> unit disk_op" where
  "symlink H target link = io H unharmed (\<lambda>fs.
     if fs link \<noteq> None then (Err ''already exists'', fs)
     else if fs (butlast link) \<noteq> Some Dir then (Err ''not found'', fs)
     else (Ok (), fs(link \<mapsto> Symlink target)))"

definition remove_file :: "host \<Rightarrow> path \<Rightarrow> unit disk_op" where
  "remove_file H p = io H unharmed (\<lambda>fs.
     case fs p of
       None \<Rightarrow> (Err ''not found'', fs)
     | Some Dir \<Rightarrow> (Err ''is a directory'', fs)
     | Some _ \<Rightarrow> (Ok (), fs(p := None)))"

definition read_link :: "host \<Rightarrow> path \<Rightarrow> path disk_op" where
  "read_link H p = io H unharmed (\<lambda>fs.
     case fs p of Some (Symlink t) \<Rightarrow> (Ok t, fs) | _ \<Rightarrow> (Err ''not a link'', fs))"

definition symlink_metadata :: "host \<Rightarrow> path \<Rightarrow> unit disk_op" where
  "symlink_metadata H p = io H unharmed (\<lambda>fs.
     if fs p = None then (Err ''not found'', fs) else (Ok (), fs))"

text \<open>\<open>Path::exists\<close> follows a link to its target.\<close>

definition metadata :: "host \<Rightarrow> path \<Rightarrow> unit disk_op" where
  "metadata H p = io H unharmed (\<lambda>fs.
     case fs p of
       None \<Rightarrow> (Err ''not found'', fs)
     | Some (Symlink t) \<Rightarrow> if fs t = None then (Err ''not found'', fs) else (Ok (), fs)
     | Some _ \<Rightarrow> (Ok (), fs))"

text \<open>\<open>.is_ok()\<close> and \<open>.ok()\<close> turn a failure into a value.\<close>

definition attempt :: "('s, 'a, 'e) op \<Rightarrow> ('s, ('a, 'e) result, 'e) op" where
  "attempt m s = (case m s of (r, s') \<Rightarrow> (Ok r, s'))"

definition path_exists :: "host \<Rightarrow> path \<Rightarrow> bool disk_op" where
  "path_exists H p = and_then (attempt (metadata H p)) (\<lambda>r. return_op (is_ok r))"

definition path_present :: "host \<Rightarrow> path \<Rightarrow> bool disk_op" where
  "path_present H p = and_then (attempt (symlink_metadata H p)) (\<lambda>r. return_op (is_ok r))"

section \<open>LocalRunner\<close>

record local_runner =
  lr_node_id :: string
  lr_control_plane_key :: verifying_key
  lr_last_sequence :: u64
  lr_seen_nonces :: "string set"
  lr_reload_command :: "string option"
  lr_health_command :: "string option"
  lr_disk :: disk

definition local_runner_new :: "string \<Rightarrow> verifying_key \<Rightarrow> disk \<Rightarrow> local_runner" where
  "local_runner_new node_id key d =
     \<lparr>lr_node_id = node_id, lr_control_plane_key = key, lr_last_sequence = 0, lr_seen_nonces = {},
      lr_reload_command = None, lr_health_command = None, lr_disk = d\<rparr>"

definition active :: path where
  "active = [''active'']"

definition active_next :: path where
  "active_next = [''active.next'']"

definition release_dir_of :: "string \<Rightarrow> path" where
  "release_dir_of i = [''releases'', i]"

definition tmp_dir_of :: "string \<Rightarrow> path" where
  "tmp_dir_of i = [''tmp'', i]"

definition switch_active :: "host \<Rightarrow> path \<Rightarrow> unit disk_op" where
  "switch_active H release_dir =
     and_then (path_exists H active_next) (\<lambda>e.
     and_then (if e then return_op True else path_present H active_next) (\<lambda>stale.
     and_then (if stale then and_then (attempt (remove_file H active_next)) (\<lambda>_. return_op ())
               else return_op ()) (\<lambda>_.
     and_then (symlink H release_dir active_next) (\<lambda>_.
     and_then (path_exists H active) (\<lambda>a.
     and_then (if a then return_op True else path_present H active) (\<lambda>there.
     and_then (if there then remove_file H active else return_op ()) (\<lambda>_.
     rename H active_next active)))))))"

definition result_of ::
  "env \<Rightarrow> string \<Rightarrow> deployment_status \<Rightarrow> string \<Rightarrow> string \<Rightarrow> deployment_result" where
  "result_of e deployment_id status message artifact_sha256 =
     \<lparr>dr_deployment_id = deployment_id, dr_status = status, dr_message = message,
      dr_artifact_sha256 = artifact_sha256, dr_observed_at = utc_now e 1\<rparr>"

definition run_core_command :: "host \<Rightarrow> string \<Rightarrow> string \<Rightarrow> unit disk_op" where
  "run_core_command H command deployment_id d =
     (case h_core H command deployment_id (d_files d) of
        Err m \<Rightarrow> (Err m, d)
      | Ok out \<Rightarrow>
          if po_success out then (Ok (), d)
          else (Err (''status='' @ po_status out @ '' stderr='' @ po_stderr out), d))"

definition rollback_after_apply_failure ::
  "host \<Rightarrow> env \<Rightarrow> string \<Rightarrow> string \<Rightarrow> path option \<Rightarrow> string \<Rightarrow> deployment_result disk_op" where
  "rollback_after_apply_failure H e deployment_id artifact_sha256 previous_active failure =
     (case previous_active of
        Some previous \<Rightarrow>
          and_then (switch_active H previous) (\<lambda>_.
          return_op (result_of e deployment_id RolledBack
            (failure @ ''; rolled back to previous active release'') artifact_sha256))
      | None \<Rightarrow>
          and_then (path_present H active) (\<lambda>there.
          and_then (if there then and_then (attempt (remove_file H active)) (\<lambda>_. return_op ())
                    else return_op ()) (\<lambda>_.
          return_op (result_of e deployment_id Failed
            (failure @ ''; no previous active release available'') artifact_sha256))))"

definition xray_test :: "host \<Rightarrow> path \<Rightarrow> process_output disk_op" where
  "xray_test H config_path d =
     (case d_files d config_path of
        Some (File b) \<Rightarrow> (h_xray H b, d)
      | _ \<Rightarrow> (Err ''config not readable'', d))"

definition test_failure_message :: "process_output \<Rightarrow> bool \<Rightarrow> string" where
  "test_failure_message out rolled_back =
     ''xray config test failed: status='' @ po_status out @ '' stderr='' @ po_stderr out @
     (if rolled_back then ''; rolled back to previous active release''
      else ''; no previous active release available'')"

text \<open>Writing the configuration below \<open>tmp\<close> and testing it.\<close>

definition stage_config ::
  "libs \<Rightarrow> host \<Rightarrow> string \<Rightarrow> json \<Rightarrow> process_output disk_op" where
  "stage_config L H deployment_id config_json =
     (let tmp_dir = tmp_dir_of deployment_id; config_path = tmp_dir @ [''config.json''] in
      and_then (create_dir_all H tmp_dir) (\<lambda>_.
      and_then (lift_result (to_vec_pretty L config_json)) (\<lambda>rendered.
      and_then (write_file H config_path rendered) (\<lambda>_.
      xray_test H config_path))))"

text \<open>Moving the tested configuration to its release directory.\<close>

definition publish_release :: "host \<Rightarrow> string \<Rightarrow> unit disk_op" where
  "publish_release H deployment_id =
     (let release_dir = release_dir_of deployment_id in
      and_then (path_exists H release_dir) (\<lambda>there.
      and_then (if there then remove_dir_all H release_dir else return_op ()) (\<lambda>_.
      and_then (create_dir_all H [''releases'']) (\<lambda>_.
      rename H (tmp_dir_of deployment_id) release_dir))))"

fun run_core_commands ::
  "host \<Rightarrow> string \<Rightarrow> (string \<times> string option) list \<Rightarrow> string option disk_op" where
  "run_core_commands H deployment_id [] = return_op None"
| "run_core_commands H deployment_id ((label, None) # cs) = run_core_commands H deployment_id cs"
| "run_core_commands H deployment_id ((label, Some command) # cs) =
     and_then (attempt (run_core_command H command deployment_id)) (\<lambda>r.
     case r of
       Err m \<Rightarrow> return_op (Some (label @ m))
     | Ok _ \<Rightarrow> run_core_commands H deployment_id cs)"

definition success_message :: "string option \<Rightarrow> string option \<Rightarrow> string" where
  "success_message reload health =
     ''deployment applied, active config switched, '' @
     (if reload \<noteq> None then ''reload/restart command succeeded''
      else ''reload/restart command not configured'') @ '', '' @
     (if health \<noteq> None then ''process health check succeeded''
      else ''process health check not configured'')"

text \<open>
  Activating the release: remember the previous link, switch, run the reload and then the health
  command, and roll back when one of them fails.
\<close>

definition activate_release ::
  "host \<Rightarrow> env \<Rightarrow> string option \<Rightarrow> string option \<Rightarrow> string \<Rightarrow> string
    \<Rightarrow> deployment_result disk_op" where
  "activate_release H e reload health deployment_id artifact_sha256 =
     and_then (attempt (read_link H active)) (\<lambda>link.
     let previous_active = (case link of Ok t \<Rightarrow> Some t | Err _ \<Rightarrow> None) in
     and_then (switch_active H (release_dir_of deployment_id)) (\<lambda>_.
     and_then (run_core_commands H deployment_id
         [(''xray reload/restart command failed: '', reload),
          (''xray process health check failed: '', health)]) (\<lambda>failure.
     case failure of
       Some m \<Rightarrow> rollback_after_apply_failure H e deployment_id artifact_sha256 previous_active m
     | None \<Rightarrow> return_op (result_of e deployment_id Succeeded (success_message reload health)
                 artifact_sha256))))"

definition apply_deployment ::
  "libs \<Rightarrow> host \<Rightarrow> env \<Rightarrow> string option \<Rightarrow> string option \<Rightarrow> string \<Rightarrow> string \<Rightarrow> json
    \<Rightarrow> deployment_result disk_op" where
  "apply_deployment L H e reload health deployment_id artifact_sha256 config_json =
     and_then (stage_config L H deployment_id config_json) (\<lambda>out.
     if \<not> po_success out then
       and_then (path_present H active) (\<lambda>rolled_back.
       return_op (result_of e deployment_id (if rolled_back then RolledBack else Failed)
         (test_failure_message out rolled_back) artifact_sha256))
     else
       and_then (publish_release H deployment_id) (\<lambda>_.
       activate_release H e reload health deployment_id artifact_sha256))"

definition rollback_deployment ::
  "host \<Rightarrow> env \<Rightarrow> string \<Rightarrow> string \<Rightarrow> string \<Rightarrow> deployment_result disk_op" where
  "rollback_deployment H e deployment_id rollback_to artifact_sha256 =
     (let release_dir = release_dir_of rollback_to in
      and_then (path_present H release_dir) (\<lambda>there.
      if \<not> there then
        return_op (result_of e deployment_id Failed
          (''rollback target release not found: '' @ rollback_to) artifact_sha256)
      else
        and_then (switch_active H release_dir) (\<lambda>_.
        return_op (result_of e deployment_id RolledBack
          (''deployment rolled back to '' @ rollback_to) artifact_sha256))))"

definition on_disk :: "'a disk_op \<Rightarrow> (local_runner, 'a, string) op" where
  "on_disk m r = (case m (lr_disk r) of (x, d) \<Rightarrow> (x, r\<lparr>lr_disk := d\<rparr>))"

definition runner_apply ::
  "libs \<Rightarrow> host \<Rightarrow> env \<Rightarrow> signed_runner_command \<Rightarrow> (local_runner, deployment_result, string) op" where
  "runner_apply L H e envelope r =
     (case command_verify L envelope (lr_control_plane_key r) (lr_node_id r) (lr_last_sequence r)
             (lr_seen_nonces r) (utc_now e 0) of
        (Err x, seen) \<Rightarrow> (Err (domain_error_to_string x), r\<lparr>lr_seen_nonces := seen\<rparr>)
      | (Ok command, seen) \<Rightarrow>
          (let r1 = r\<lparr>lr_seen_nonces := seen, lr_last_sequence := cmd_sequence command\<rparr> in
           case cmd_kind command of
             ApplyDeploymentPlan deployment_id artifact_sha256 config_json _ \<Rightarrow>
               on_disk (apply_deployment L H e (lr_reload_command r1) (lr_health_command r1)
                 deployment_id artifact_sha256 config_json) r1
           | RollbackDeployment deployment_id rollback_to artifact_sha256 \<Rightarrow>
               on_disk (rollback_deployment H e deployment_id rollback_to artifact_sha256) r1
           | _ \<Rightarrow> (Err ''unsupported local runner command for apply()'', r1)))"

section \<open>Command sources and OutboundRunner\<close>

text \<open>The trait \<open>RunnerCommandSource\<close>, over the state of the source.\<close>

record 'c command_source =
  cs_next_command :: "string \<Rightarrow> u64 \<Rightarrow> ('c, signed_runner_command option, string) op"
  cs_submit_result :: "deployment_result \<Rightarrow> ('c, unit, string) op"

record recording_source =
  rs_commands :: "signed_runner_command list"
  rs_results :: "deployment_result list"

definition recording_next_command ::
  "string \<Rightarrow> u64 \<Rightarrow> (recording_source, signed_runner_command option, string) op" where
  "recording_next_command node_id last_seq s =
     (case pop_front (drop_stale last_seq (rs_commands s)) of
        (c, q) \<Rightarrow> (Ok c, s\<lparr>rs_commands := q\<rparr>))"

definition recording_submit_result ::
  "deployment_result \<Rightarrow> (recording_source, unit, string) op" where
  "recording_submit_result result s = (Ok (), s\<lparr>rs_results := rs_results s @ [result]\<rparr>)"

definition recording_command_source :: "recording_source command_source" where
  "recording_command_source =
     \<lparr>cs_next_command = recording_next_command, cs_submit_result = recording_submit_result\<rparr>"

record 'c outbound_runner =
  ob_local :: local_runner
  ob_source :: 'c

definition on_source :: "('c, 'a, string) op \<Rightarrow> ('c outbound_runner, 'a, string) op" where
  "on_source m r = (case m (ob_source r) of (x, s) \<Rightarrow> (x, r\<lparr>ob_source := s\<rparr>))"

definition on_local :: "(local_runner, 'a, string) op \<Rightarrow> ('c outbound_runner, 'a, string) op" where
  "on_local m r = (case m (ob_local r) of (x, l) \<Rightarrow> (x, r\<lparr>ob_local := l\<rparr>))"

definition poll_apply_once ::
  "libs \<Rightarrow> host \<Rightarrow> env \<Rightarrow> 'c command_source
    \<Rightarrow> ('c outbound_runner, deployment_result option, string) op" where
  "poll_apply_once L H e S r =
     (let node_id = lr_node_id (ob_local r); last_seq = lr_last_sequence (ob_local r) in
      and_then (on_source (cs_next_command S node_id last_seq)) (\<lambda>next.
      case next of
        None \<Rightarrow> return_op None
      | Some command \<Rightarrow>
          and_then (on_local (runner_apply L H e command)) (\<lambda>result.
          and_then (on_source (cs_submit_result S result)) (\<lambda>_.
          return_op (Some result)))) r)"

definition dev_runner_result_signing_key :: signing_key where
  "dev_runner_result_signing_key = replicate 32 22"

text \<open>The text of a decoding error is the hex crate's; only that it is an error matters here.\<close>

definition runner_result_signing_key_from_hex :: "libs \<Rightarrow> string \<Rightarrow> (signing_key, string) result" where
  "runner_result_signing_key_from_hex L raw =
     bind_result (ok_or ''invalid hex'' (hex_decode L raw)) (\<lambda>b.
       if length b = 32 then Ok b else Err ''runner result signing key must be 32 bytes'')"

end
