(* ===== verification/Runner_Http.thy ===== *)
theory Runner_Http
  imports Runner Http_Wire
begin

text \<open>
  \<open>HttpCommandSource\<close> (src/crates/runner/src/lib.rs) and the process that uses it
  (src/crates/runner/src/main.rs). The reqwest client is a parameter: \<open>cl_send\<close> sends a request
  and changes the world behind the connection, whose state is the field \<open>hcs_client\<close>. The loop of
  \<open>main\<close> is a partial function: \<open>None\<close> means that it polls forever.
\<close>

section \<open>HttpCommandSource\<close>

text \<open>
  What the source uses of reqwest and serde: sending a request, the text of a status code, and the
  encodings of a signed result and a signed command.
\<close>

record 'w http_client =
  cl_send :: "http_request \<Rightarrow> ('w, http_response, string) op"
  cl_status_text :: "nat \<Rightarrow> string"
  cl_result_json :: "signed_deployment_result \<Rightarrow> json"
  cl_command_of :: "http_body \<Rightarrow> (signed_runner_command, string) result"

record 'w http_source =
  hcs_base_url :: string
  hcs_client :: 'w
  hcs_runner_token :: "string option"
  hcs_last_node_id :: "string option"
  hcs_result_signing_key :: signing_key

fun trim_start_slashes :: "string \<Rightarrow> string" where
  "trim_start_slashes [] = []"
| "trim_start_slashes (c # cs) = (if c = CHR ''/'' then trim_start_slashes cs else c # cs)"

definition trim_end_slashes :: "string \<Rightarrow> string" where
  "trim_end_slashes s = rev (trim_start_slashes (rev s))"

definition http_source_new :: "string \<Rightarrow> 'w \<Rightarrow> 'w http_source" where
  "http_source_new base_url w =
     \<lparr>hcs_base_url = trim_end_slashes base_url, hcs_client = w, hcs_runner_token = None,
      hcs_last_node_id = None, hcs_result_signing_key = dev_runner_result_signing_key\<rparr>"

definition with_runner_token :: "string \<Rightarrow> 'w http_source \<Rightarrow> 'w http_source" where
  "with_runner_token token s = s\<lparr>hcs_runner_token := Some token\<rparr>"

definition with_result_signing_key :: "signing_key \<Rightarrow> 'w http_source \<Rightarrow> 'w http_source" where
  "with_result_signing_key k s = s\<lparr>hcs_result_signing_key := k\<rparr>"

definition add_auth :: "'w http_source \<Rightarrow> http_request \<Rightarrow> http_request" where
  "add_auth s request =
     (case hcs_runner_token s of
        Some token \<Rightarrow> request\<lparr>hq_headers := hq_headers request @ [(''x-runner-token'', token)]\<rparr>
      | None \<Rightarrow> request)"

definition next_url :: "'w http_source \<Rightarrow> string \<Rightarrow> u64 \<Rightarrow> string" where
  "next_url s node_id last_sequence =
     hcs_base_url s @ ''/runner/nodes/'' @ node_id @ ''/commands/next?last_sequence='' @
     show_nat (unat last_sequence)"

definition result_url :: "'w http_source \<Rightarrow> string \<Rightarrow> string" where
  "result_url s node_id = hcs_base_url s @ ''/runner/nodes/'' @ node_id @ ''/results''"

definition heartbeat_url :: "'w http_source \<Rightarrow> string \<Rightarrow> string" where
  "heartbeat_url s node_id = hcs_base_url s @ ''/runner/nodes/'' @ node_id @ ''/heartbeat''"

definition register_url :: "'w http_source \<Rightarrow> string" where
  "register_url s = hcs_base_url s @ ''/nodes/register''"

definition http_get :: "string \<Rightarrow> http_request" where
  "http_get url = \<lparr>hq_method = GET, hq_url = url, hq_headers = [], hq_body = NoBody\<rparr>"

definition http_post :: "string \<Rightarrow> json \<Rightarrow> http_request" where
  "http_post url j = \<lparr>hq_method = POST, hq_url = url, hq_headers = [], hq_body = JsonBody j\<rparr>"

definition send :: "'w http_client \<Rightarrow> http_request \<Rightarrow> ('w http_source, http_response, string) op" where
  "send C request s =
     (case cl_send C request (hcs_client s) of (r, w) \<Rightarrow> (r, s\<lparr>hcs_client := w\<rparr>))"

text \<open>\<open>if !response.status().is_success() { return Err(..) }\<close>\<close>

definition require_success :: "'w http_client \<Rightarrow> string \<Rightarrow> http_response \<Rightarrow> ('c, unit, string) op" where
  "require_success C what response =
     (if \<not> is_success (hs_status response)
      then fail_op (what @ '' failed: status='' @ cl_status_text C (hs_status response))
      else return_op ())"

definition http_register_node ::
  "libs \<Rightarrow> 'w http_client \<Rightarrow> string \<Rightarrow> string \<Rightarrow> string \<Rightarrow> ('w http_source, unit, string) op" where
  "http_register_node L C node_id registration_token xray_version s =
     (let runner_result_public_key_hex = hex_encode L (ed_verifying_key L (hcs_result_signing_key s)) in
      and_then (send C (http_post (register_url s) (JObject
          [(''registration_token'', JString registration_token), (''node_id'', JString node_id),
           (''xray_version'', JString xray_version),
           (''runner_result_public_key_hex'', JString runner_result_public_key_hex)])))
        (require_success C ''control-plane node registration'') s)"

definition http_send_heartbeat ::
  "'w http_client \<Rightarrow> string \<Rightarrow> json \<Rightarrow> ('w http_source, unit, string) op" where
  "http_send_heartbeat C node_id capability_snapshot s =
     and_then (send C (add_auth s (http_post (heartbeat_url s node_id)
         (JObject [(''capability_snapshot'', capability_snapshot)]))))
       (require_success C ''control-plane heartbeat'') s"

definition http_next_command ::
  "'w http_client \<Rightarrow> string \<Rightarrow> u64 \<Rightarrow> ('w http_source, signed_runner_command option, string) op" where
  "http_next_command C node_id last_sequence s0 =
     (let s = s0\<lparr>hcs_last_node_id := Some node_id\<rparr> in
      and_then (send C (add_auth s (http_get (next_url s node_id last_sequence)))) (\<lambda>response.
      if hs_status response = 204 then return_op None
      else
        and_then (require_success C ''control-plane command poll'' response) (\<lambda>_.
        and_then (lift_result (cl_command_of C (hs_body response))) (\<lambda>command.
        return_op (Some command)))) s)"

definition http_submit_result ::
  "libs \<Rightarrow> 'w http_client \<Rightarrow> vars \<Rightarrow> deployment_result \<Rightarrow> ('w http_source, unit, string) op" where
  "http_submit_result L C V result s =
     (let node_id = unwrap_or (var_or V ''RUNNER_NODE_ID'' ''dev-node-1'') (hcs_last_node_id s) in
      and_then (lift_result (map_err domain_error_to_string
          (result_sign L node_id result (hcs_result_signing_key s)))) (\<lambda>signed_result.
      and_then (send C (add_auth s (http_post (result_url s node_id)
          (cl_result_json C signed_result))))
        (require_success C ''control-plane result submit'')) s)"

definition http_command_source ::
  "libs \<Rightarrow> 'w http_client \<Rightarrow> vars \<Rightarrow> 'w http_source command_source" where
  "http_command_source L C V =
     \<lparr>cs_next_command = http_next_command C, cs_submit_result = http_submit_result L C V\<rparr>"

section \<open>The runner process\<close>

definition dev_control_plane_verify_key :: "libs \<Rightarrow> verifying_key" where
  "dev_control_plane_verify_key L = ed_verifying_key L (replicate 32 11)"

definition outbound_runner_new :: "local_runner \<Rightarrow> 'c \<Rightarrow> 'c outbound_runner" where
  "outbound_runner_new local source = \<lparr>ob_local = local, ob_source = source\<rparr>"

definition with_reload_command :: "string \<Rightarrow> local_runner \<Rightarrow> local_runner" where
  "with_reload_command command r = r\<lparr>lr_reload_command := Some command\<rparr>"

definition with_health_command :: "string \<Rightarrow> local_runner \<Rightarrow> local_runner" where
  "with_health_command command r = r\<lparr>lr_health_command := Some command\<rparr>"

definition runner_once :: "vars \<Rightarrow> bool" where
  "runner_once V = is_some_and (\<lambda>value. value = ''1'' \<or> to_ascii_lowercase value = ''true'')
     (V ''RUNNER_ONCE'')"

definition runner_interval :: "vars \<Rightarrow> nat" where
  "runner_interval V = unwrap_or 1000 (Option.bind (V ''RUNNER_POLL_INTERVAL_MS'') parse_u64)"

text \<open>The runner and the command source, configured from the environment.\<close>

definition runner_local :: "libs \<Rightarrow> vars \<Rightarrow> (string \<Rightarrow> disk) \<Rightarrow> local_runner" where
  "runner_local L V disk_at =
     (let node_id = var_or V ''RUNNER_NODE_ID'' ''dev-node-1'';
          work_dir = var_or V ''RUNNER_WORK_DIR'' ''.data/runner'';
          r0 = local_runner_new node_id (dev_control_plane_verify_key L) (disk_at work_dir);
          r1 = (case V ''RUNNER_XRAY_RELOAD_CMD'' of Some c \<Rightarrow> with_reload_command c r0 | None \<Rightarrow> r0)
      in (case V ''RUNNER_XRAY_HEALTH_CMD'' of Some c \<Rightarrow> with_health_command c r1 | None \<Rightarrow> r1))"

definition runner_source :: "libs \<Rightarrow> vars \<Rightarrow> string \<Rightarrow> 'w \<Rightarrow> ('w http_source, string) result" where
  "runner_source L V url w =
     (let s0 = http_source_new url w;
          s1 = (case V ''RUNNER_API_TOKEN'' of Some t \<Rightarrow> with_runner_token t s0 | None \<Rightarrow> s0)
      in (case V ''RUNNER_RESULT_SIGNING_KEY_HEX'' of
            None \<Rightarrow> Ok s1
          | Some h \<Rightarrow> bind_result (runner_result_signing_key_from_hex L h)
              (\<lambda>k. Ok (with_result_signing_key k s1))))"

definition capability_snapshot :: "vars \<Rightarrow> json" where
  "capability_snapshot V = JObject
     [(''xray_bin'', JString (var_or V ''RUNNER_XRAY_BIN'' ''xray'')),
      (''work_dir'', JString (var_or V ''RUNNER_WORK_DIR'' ''.data/runner'')),
      (''runner_version'', JString ''0.1.0'')]"

text \<open>Self-registration, when a token is configured, and the first heartbeat.\<close>

definition announce :: "libs \<Rightarrow> 'w http_client \<Rightarrow> vars \<Rightarrow> ('w http_source, unit, string) op" where
  "announce L C V =
     (let node_id = var_or V ''RUNNER_NODE_ID'' ''dev-node-1'' in
      and_then (case V ''NODE_REGISTRATION_TOKEN'' of
                  None \<Rightarrow> return_op ()
                | Some t \<Rightarrow> http_register_node L C node_id t (var_or V ''RUNNER_XRAY_VERSION'' ''unknown''))
        (\<lambda>_. http_send_heartbeat C node_id (capability_snapshot V)))"

text \<open>The lines on standard output, and what the process leaves behind when it ends.\<close>

definition ready_line :: "vars \<Rightarrow> string" where
  "ready_line V =
     ''runner '' @ var_or V ''RUNNER_NODE_ID'' ''dev-node-1'' @ '' ready; work_dir='' @
     var_or V ''RUNNER_WORK_DIR'' ''.data/runner'' @ '' xray_bin='' @ var_or V ''RUNNER_XRAY_BIN'' ''xray'' @
     '' (set CONTROL_PLANE_BASE_URL to start outbound polling)''"

definition polling_line :: "vars \<Rightarrow> string \<Rightarrow> string" where
  "polling_line V url =
     ''runner '' @ var_or V ''RUNNER_NODE_ID'' ''dev-node-1'' @ '' polling '' @ url @ ''; work_dir='' @
     var_or V ''RUNNER_WORK_DIR'' ''.data/runner'' @ '' xray_bin='' @ var_or V ''RUNNER_XRAY_BIN'' ''xray''"

fun status_debug :: "deployment_status \<Rightarrow> string" where
  "status_debug Pending = ''Pending''"
| "status_debug Succeeded = ''Succeeded''"
| "status_debug Failed = ''Failed''"
| "status_debug RolledBack = ''RolledBack''"

definition poll_line :: "vars \<Rightarrow> deployment_result option \<Rightarrow> string" where
  "poll_line V r =
     (case r of
        Some result \<Rightarrow>
          ''deployment '' @ dr_deployment_id result @ '' -> '' @ status_debug (dr_status result)
      | None \<Rightarrow>
          ''no runner command available for '' @ var_or V ''RUNNER_NODE_ID'' ''dev-node-1'')"

record 'w process =
  pc_outbound :: "'w http_source outbound_runner"
  pc_stdout :: "string list"

definition poll_step ::
  "libs \<Rightarrow> host \<Rightarrow> 'w http_client \<Rightarrow> vars \<Rightarrow> env \<Rightarrow> ('w process, unit, string) op" where
  "poll_step L H C V e p =
     (case poll_apply_once L H e (http_command_source L C V) (pc_outbound p) of
        (Err m, ob) \<Rightarrow> (Err m, p\<lparr>pc_outbound := ob\<rparr>)
      | (Ok r, ob) \<Rightarrow>
          (Ok (), p\<lparr>pc_outbound := ob, pc_stdout := pc_stdout p @ [poll_line V r]\<rparr>))"

text \<open>While the process sleeps, the world behind the connection goes on.\<close>

definition sleep :: "(nat \<Rightarrow> nat \<Rightarrow> 'w \<Rightarrow> 'w) \<Rightarrow> nat \<Rightarrow> nat \<Rightarrow> 'w process \<Rightarrow> 'w process" where
  "sleep others interval k p =
     (let ob = pc_outbound p; src = ob_source ob in
      p\<lparr>pc_outbound := ob\<lparr>ob_source := src\<lparr>hcs_client := others interval k (hcs_client src)\<rparr>\<rparr>\<rparr>)"

partial_function (option) poll_loop ::
  "libs \<Rightarrow> host \<Rightarrow> 'w http_client \<Rightarrow> vars \<Rightarrow> (nat \<Rightarrow> env) \<Rightarrow> (nat \<Rightarrow> nat \<Rightarrow> 'w \<Rightarrow> 'w) \<Rightarrow> nat
    \<Rightarrow> 'w process \<Rightarrow> ((unit, string) result \<times> 'w process) option" where
  "poll_loop L H C V E others k p =
     (case poll_step L H C V (E k) p of
        (Err m, p') \<Rightarrow> Some (Err m, p')
      | (Ok _, p') \<Rightarrow>
          if runner_once V then Some (Ok (), p')
          else poll_loop L H C V E others (Suc k) (sleep others (runner_interval V) k p'))"

text \<open>
  The whole process: its result, its output, the world and, once it has started to poll, the state
  of its runner. \<open>host_of\<close> is the machine with the configured Xray binary, \<open>disk_at\<close> the files below
  a work directory.
\<close>

record 'w outcome =
  oc_result :: "(unit, string) result"
  oc_stdout :: "string list"
  oc_world :: 'w
  oc_local :: "local_runner option"

definition runner_main ::
  "libs \<Rightarrow> (string \<Rightarrow> host) \<Rightarrow> 'w http_client \<Rightarrow> vars \<Rightarrow> (nat \<Rightarrow> env) \<Rightarrow> (nat \<Rightarrow> nat \<Rightarrow> 'w \<Rightarrow> 'w)
    \<Rightarrow> (string \<Rightarrow> disk) \<Rightarrow> 'w \<Rightarrow> 'w outcome option" where
  "runner_main L host_of C V E others disk_at w =
     (case V ''CONTROL_PLANE_BASE_URL'' of
        None \<Rightarrow> Some \<lparr>oc_result = Ok (), oc_stdout = [ready_line V], oc_world = w, oc_local = None\<rparr>
      | Some url \<Rightarrow>
          (case runner_source L V url w of
             Err m \<Rightarrow> Some \<lparr>oc_result = Err m, oc_stdout = [], oc_world = w, oc_local = None\<rparr>
           | Ok source \<Rightarrow>
               (case announce L C V source of
                  (Err m, s) \<Rightarrow>
                    Some \<lparr>oc_result = Err m, oc_stdout = [], oc_world = hcs_client s, oc_local = None\<rparr>
                | (Ok _, s) \<Rightarrow>
                    map_option (\<lambda>(r, p). \<lparr>oc_result = r, oc_stdout = pc_stdout p,
                        oc_world = hcs_client (ob_source (pc_outbound p)),
                        oc_local = Some (ob_local (pc_outbound p))\<rparr>)
                      (poll_loop L (host_of (var_or V ''RUNNER_XRAY_BIN'' ''xray'')) C V E others 0
                        \<lparr>pc_outbound = outbound_runner_new (runner_local L V disk_at) s,
                         pc_stdout = [polling_line V url]\<rparr>))))"

end
