(* ===== verification/Command_Source.thy ===== *)
theory Command_Source
  imports Runner_Http
begin

text \<open>
  The contract of the trait \<open>RunnerCommandSource\<close> (src/crates/runner/src/lib.rs) as \<open>OutboundRunner\<close>
  uses it: a poll takes the next new command for the node, and a result submitted after a poll is
  recorded. \<open>poll_apply_once\<close> is verified against the contract; the recording source satisfies it
  here, the HTTP source in \<open>Runner_Network\<close>.
\<close>

section \<open>A new recording source\<close>

definition recording_source_new :: "signed_runner_command list \<Rightarrow> recording_source" where
  "recording_source_new commands = \<lparr>rs_commands = commands, rs_results = []\<rparr>"

section \<open>The contract\<close>

locale command_source_contract =
  fixes S :: "'c command_source"
    and ready :: "'c \<Rightarrow> string \<Rightarrow> bool"
    and polled :: "'c \<Rightarrow> string \<Rightarrow> bool"
    and waiting :: "'c \<Rightarrow> string \<Rightarrow> signed_runner_command list"
    and accepts :: "'c \<Rightarrow> deployment_result \<Rightarrow> bool"
    and recorded :: "'c \<Rightarrow> deployment_result \<Rightarrow> bool"
  assumes next_pops: "ready c n \<Longrightarrow> \<exists>c'. cs_next_command S n k c
        = (Ok (fst (pop_front (drop_stale k (waiting c n)))), c') \<and> ready c' n \<and> polled c' n \<and>
      waiting c' n = snd (pop_front (drop_stale k (waiting c n))) \<and> accepts c' = accepts c"
    and submit_records: "ready c n \<Longrightarrow> polled c n \<Longrightarrow> accepts c r \<Longrightarrow> \<exists>c'. cs_submit_result S r c = (Ok (), c') \<and>
      recorded c' r \<and> waiting c' n = waiting c n"
begin

lemma poll_executes:
  assumes "ready (ob_source ob) n" and "lr_node_id (ob_local ob) = n"
    and "waiting (ob_source ob) n = x # q" and "lr_last_sequence (ob_local ob) < cmd_sequence (src_command x)"
    and "runner_apply L H e x (ob_local ob) = (Ok res, l')" and "accepts (ob_source ob) res"
  obtains ob' where "poll_apply_once L H e S ob = (Ok (Some res), ob')" and "ob_local ob' = l'"
    and "waiting (ob_source ob') n = q" and "recorded (ob_source ob') res"
proof -
  have new: "drop_stale (lr_last_sequence (ob_local ob)) (waiting (ob_source ob) n) = x # q"
    using assms(3,4) by (simp add: linorder_not_le [THEN iffD2])
  obtain c1 where c1: "cs_next_command S n (lr_last_sequence (ob_local ob)) (ob_source ob) = (Ok (Some x), c1)"
      "ready c1 n" "polled c1 n" "waiting c1 n = q" "accepts c1 res"
    using next_pops [OF assms(1), of "lr_last_sequence (ob_local ob)"] assms(6) unfolding new by auto
  obtain c2 where c2: "cs_submit_result S res c1 = (Ok (), c2)" "recorded c2 res" "waiting c2 n = q"
    using submit_records [OF c1(2,3,5)] c1(4) by auto
  have "poll_apply_once L H e S ob = (Ok (Some res), ob\<lparr>ob_local := l', ob_source := c2\<rparr>)"
    using c1(1) c2(1) assms(2,5)
    by (simp add: poll_apply_once_def and_then_def on_source_def on_local_def Let_def return_op_def)
  then show ?thesis by (rule that) (use c2 in simp_all)
qed

lemma poll_idle:
  assumes "ready (ob_source ob) n" and "lr_node_id (ob_local ob) = n"
    and "drop_stale (lr_last_sequence (ob_local ob)) (waiting (ob_source ob) n) = []"
  obtains ob' where "poll_apply_once L H e S ob = (Ok None, ob')" and "ob_local ob' = ob_local ob"
    and "ready (ob_source ob') n"
proof -
  obtain c1 where c1: "cs_next_command S n (lr_last_sequence (ob_local ob)) (ob_source ob) = (Ok None, c1)"
      "ready c1 n"
    using next_pops [OF assms(1), of "lr_last_sequence (ob_local ob)"] assms(3) by auto
  have "poll_apply_once L H e S ob = (Ok None, ob\<lparr>ob_source := c1\<rparr>)"
    using c1(1) assms(2)
    by (simp add: poll_apply_once_def and_then_def on_source_def Let_def return_op_def)
  then show ?thesis by (rule that) (use c1 in simp_all)
qed

end

section \<open>The recording source\<close>

interpretation rec_source: command_source_contract recording_command_source "\<lambda>_ _. True" "\<lambda>_ _. True"
    "\<lambda>c _. rs_commands c" "\<lambda>_ _. True" "\<lambda>c r. r \<in> set (rs_results c)"
  by unfold_locales
     (auto simp: recording_command_source_def recording_next_command_def recording_submit_result_def
       split: prod.split)

end
