(* ===== verification/Runner_Network.thy ===== *)
theory Runner_Network
  imports Control_Plane_Routes Control_Plane_Access Command_Source
begin

text \<open>
  The runner connected to the control plane: the requests of \<open>HttpCommandSource\<close> are served by the
  router, over a link that may lose a request or a response. The predicate \<open>conforms\<close> states what
  both sides rely on of axum, reqwest and serde: routing by the documented rules, plain text in
  paths and headers unchanged, and that a value sent as JSON is the value received.
\<close>

section \<open>Definitions\<close>

datatype link = Delivered | RequestLost | ResponseLost

record net =
  nt_url :: "string \<Rightarrow> (string \<times> string option) option"
  nt_link :: "nat \<Rightarrow> link"
  nt_env :: "nat \<Rightarrow> nat \<Rightarrow> env"

record 's server =
  sv_app :: "'s app_state"
  sv_requests :: nat

text \<open>One request over the link; \<open>nt_env\<close> are the clocks and UUIDs of the server for it.\<close>

definition deliver ::
  "libs \<Rightarrow> (compile_deployment_response \<Rightarrow> (json, string) result) \<Rightarrow> web \<Rightarrow> net \<Rightarrow> http_request
    \<Rightarrow> ('s server, http_response, string) op" where
  "deliver L J W N rq sv =
     (let k = sv_requests sv; sv1 = sv\<lparr>sv_requests := Suc k\<rparr> in
      case nt_url N (hq_url rq) of
        None \<Rightarrow> (Err ''builder error'', sv1)
      | Some (path, query) \<Rightarrow>
          if nt_link N k = RequestLost then (Err ''error sending request'', sv1)
          else (case serve L J W (nt_env N k) (hq_method rq) path query (hq_headers rq) (hq_body rq)
                       (sv_app sv) of
                  (response, st) \<Rightarrow>
                    (if nt_link N k = ResponseLost then Err ''error sending request'' else Ok response,
                     sv1\<lparr>sv_app := st\<rparr>)))"

text \<open>The base URL of the control plane: what follows it is the path and the query.\<close>

definition base_url :: "net \<Rightarrow> string \<Rightarrow> bool" where
  "base_url N b \<longleftrightarrow> (\<forall>ss. ss \<noteq> [] \<longrightarrow> list_all plain ss \<longrightarrow>
     nt_url N (b @ path_text ss) = Some (path_text ss, None) \<and>
     (\<forall>k v. plain k \<longrightarrow> plain v \<longrightarrow>
        nt_url N (b @ path_text ss @ ''?'' @ k @ ''='' @ v) = Some (path_text ss, Some (k @ ''='' @ v))))"

definition registration_json :: "register_node_request \<Rightarrow> string \<Rightarrow> json" where
  "registration_json r k = JObject
     [(''registration_token'', JString (rnr_registration_token r)),
      (''node_id'', JString (rnr_node_id r)), (''xray_version'', JString (rnr_xray_version r)),
      (''runner_result_public_key_hex'', JString k)]"

definition conforms :: "web \<Rightarrow> 'w http_client \<Rightarrow> bool" where
  "conforms W C \<longleftrightarrow>
     axum_routing (wb_match W) \<and>
     (\<forall>s. plain s \<longrightarrow> wb_param W s = Ok s) \<and>
     (\<forall>s. header_text s \<longrightarrow> wb_header W s = Some s) \<and>
     (\<forall>n. qx_last_sequence W (Some (''last_sequence='' @ show_nat (unat n))) = Ok (Some n)) \<and>
     (\<forall>r. is_ok (wb_json W r)) \<and>
     (\<forall>c j. wb_json W (CommandReply c) = Ok j \<longrightarrow> cl_command_of C (JsonBody j) = Ok c) \<and>
     (\<forall>r. jx_result W (JsonBody (cl_result_json C r)) = Ok r) \<and>
     (\<forall>j. jx_heartbeat W (JsonBody (JObject [(''capability_snapshot'', j)])) = Ok j) \<and>
     (\<forall>r k. jx_register_node W (JsonBody (registration_json r k))
        = Ok (r\<lparr>rnr_runner_result_public_key_hex := Some k\<rparr>))"

text \<open>A client whose requests reach the control plane.\<close>

definition connected ::
  "libs \<Rightarrow> (compile_deployment_response \<Rightarrow> (json, string) result) \<Rightarrow> web \<Rightarrow> net
    \<Rightarrow> memory_state server http_client \<Rightarrow> bool" where
  "connected L J W N C \<longleftrightarrow> cl_send C = deliver L J W N \<and> conforms W C"

text \<open>The headers as the handlers see them.\<close>

definition received :: "web \<Rightarrow> (string \<times> string) list \<Rightarrow> headers" where
  "received W hs = (\<lambda>name. map_option (wb_header W) (map_of hs name))"

definition runner_path :: "string \<Rightarrow> string list \<Rightarrow> string" where
  "runner_path n rest = path_text (''runner'' # ''nodes'' # n # rest)"

section \<open>Routing the runner's requests\<close>

lemma static_patterns_short:
  "list_all (\<lambda>p. static_pattern p \<longrightarrow> length (path_segments p) \<le> 3) route_patterns"
  by code_simp

lemma routed:
  assumes "axum_routing M" and "p \<in> set route_patterns" and "pattern_match p path = Some c"
    and "3 < length (path_segments path)"
  shows "M route_patterns path = Some (p, c)"
proof -
  have long: "\<not> static_pattern q" if "q \<in> set route_patterns" "pattern_match q path = Some d" for q d
  proof
    assume st: "static_pattern q"
    with that have "path_segments q = path_segments path"
      by (intro match_static) (simp_all add: pattern_match_def static_pattern_def)
    with st that(1) static_patterns_short assms(4) show False by (auto simp: list_all_iff)
  qed
  have "pattern_match q path = None" if "q \<in> set route_patterns" "q \<noteq> p" for q
    using two_matches [OF assms(2) that(1) _ assms(3)] that long [OF that(1)] long [OF assms(2,3)]
    by (cases "pattern_match q path") auto
  with assms(1-3) show ?thesis by (auto simp: axum_routing_def)
qed

lemma runner_routes:
  "path_segments ''/runner/nodes/{node_id}/commands/next''
     = [''runner'', ''nodes'', ''{node_id}'', ''commands'', ''next'']"
  "path_segments ''/runner/nodes/{node_id}/results'' = [''runner'', ''nodes'', ''{node_id}'', ''results'']"
  "path_segments ''/runner/nodes/{node_id}/heartbeat'' = [''runner'', ''nodes'', ''{node_id}'', ''heartbeat'']"
  "''/runner/nodes/{node_id}/commands/next'' \<in> set route_patterns"
  "''/runner/nodes/{node_id}/results'' \<in> set route_patterns"
  "''/runner/nodes/{node_id}/heartbeat'' \<in> set route_patterns"
  "map_of build_router ''/runner/nodes/{node_id}/commands/next'' = Some [(GET, NextRunnerCommandEp)]"
  "map_of build_router ''/runner/nodes/{node_id}/results'' = Some [(POST, SubmitRunnerResultEp)]"
  "map_of build_router ''/runner/nodes/{node_id}/heartbeat'' = Some [(POST, RunnerHeartbeatEp)]"
  by code_simp+

lemma route_runner_path:
  assumes "axum_routing M" and "plain n" and "p \<in> set route_patterns" and "rest \<noteq> []"
    and "path_segments p = ''runner'' # ''nodes'' # ''{node_id}'' # rest"
    and "list_all (\<lambda>s. \<not> is_capture s \<and> CHR ''/'' \<notin> set s) rest"
  shows "M route_patterns (runner_path n rest) = Some (p, [n])"
proof (rule routed [OF assms(1,3)])
  have slashes: "list_all (\<lambda>s. CHR ''/'' \<notin> set s) (''runner'' # ''nodes'' # n # rest)"
    using assms(2,6) plain_no_slash by (auto simp: list_all_iff)
  then show "3 < length (path_segments (runner_path n rest))"
    using assms(4) by (simp add: runner_path_def path_segments_path_text del: path_text.simps)
  have same: "match_segments rest rest = Some []"
    using assms(6) by (induction rest) simp_all
  have "n \<noteq> []" using assms(2) by (simp add: plain_def)
  with same show "pattern_match p (runner_path n rest) = Some [n]"
    unfolding pattern_match_def runner_path_def path_segments_path_text [OF slashes] assms(5)
    by (simp add: is_capture_def)
qed

lemma serve_runner_path:
  assumes "conforms W C" and "plain n" and "p \<in> set route_patterns" and "rest \<noteq> []"
    and "path_segments p = ''runner'' # ''nodes'' # ''{node_id}'' # rest"
    and "list_all (\<lambda>s. \<not> is_capture s \<and> CHR ''/'' \<notin> set s) rest"
    and "map_of build_router p = Some [(m, ep)]"
  shows "serve L J W E m (runner_path n rest) q hs b st
    = dispatch L J W E ep [n] q (received W hs) b st"
  using route_runner_path [OF _ assms(2-6), of "wb_match W"] assms(1,2,7)
  by (simp add: serve_def conforms_def route_patterns_def extracting_def received_def)

lemma runner_plain: "plain ''runner''" "plain ''nodes''" "plain ''commands''" "plain ''next''"
  "plain ''results''" "plain ''heartbeat''" "plain ''last_sequence''"
  by (simp_all add: plain_def plain_char_def char_in_def)

lemmas runner_segments = is_capture_def runner_routes

lemma serve_runner_requests:
  assumes "conforms W C" and "plain n"
  shows "serve L J W E GET (runner_path n [''commands'', ''next'']) q hs b st
      = dispatch L J W E NextRunnerCommandEp [n] q (received W hs) b st"
    and "serve L J W E POST (runner_path n [''results'']) q hs b st
      = dispatch L J W E SubmitRunnerResultEp [n] q (received W hs) b st"
    and "serve L J W E POST (runner_path n [''heartbeat'']) q hs b st
      = dispatch L J W E RunnerHeartbeatEp [n] q (received W hs) b st"
  by (rule serve_runner_path [OF assms runner_routes(4) _ runner_routes(1) _ runner_routes(7)]
        serve_runner_path [OF assms runner_routes(5) _ runner_routes(2) _ runner_routes(8)]
        serve_runner_path [OF assms runner_routes(6) _ runner_routes(3) _ runner_routes(9)];
      simp add: is_capture_def)+

lemma runner_urls:
  assumes "base_url N b" and "plain n" and "hcs_base_url s = b"
  shows "nt_url N (next_url s n k) = Some (runner_path n [''commands'', ''next''],
      Some (''last_sequence='' @ show_nat (unat k)))"
    and "nt_url N (result_url s n) = Some (runner_path n [''results''], None)"
    and "nt_url N (heartbeat_url s n) = Some (runner_path n [''heartbeat''], None)"
proof -
  have "nt_url N (b @ runner_path n [''commands'', ''next''] @ ''?'' @ ''last_sequence'' @ ''='' @ show_nat (unat k))
      = Some (runner_path n [''commands'', ''next''], Some (''last_sequence'' @ ''='' @ show_nat (unat k)))"
    using assms(1,2) unfolding base_url_def runner_path_def
    by (simp add: runner_plain del: path_text.simps append.simps)
  then show "nt_url N (next_url s n k) = Some (runner_path n [''commands'', ''next''],
      Some (''last_sequence='' @ show_nat (unat k)))"
    by (simp add: next_url_def runner_path_def assms(3))
  have "nt_url N (b @ runner_path n [r]) = Some (runner_path n [r], None)" if "plain r" for r
    using assms(1,2) that unfolding base_url_def runner_path_def
    by (simp add: runner_plain del: path_text.simps append.simps)
  from this [OF runner_plain(5)] this [OF runner_plain(6)]
  show "nt_url N (result_url s n) = Some (runner_path n [''results''], None)"
      "nt_url N (heartbeat_url s n) = Some (runner_path n [''heartbeat''], None)"
    by (simp_all add: result_url_def heartbeat_url_def runner_path_def assms(3))
qed

lemma received_token_valid:
  "conforms W C \<Longrightarrow> header_text tok \<Longrightarrow>
    runner_token_valid st (received W [(''x-runner-token'', tok)]) \<longleftrightarrow> tok = app_runner_api_token st"
  by (simp add: runner_token_valid_def received_def conforms_def)

section \<open>Polling and reporting over the link\<close>

lemma next_runner_command_eq:
  assumes "app_store st = memory_store L T"
  shows "next_runner_command E n (Some k) h st =
    (if \<not> runner_token_valid st h then (Err (UNAUTHORIZED, []), st)
     else (Ok (case fst (pop_front (drop_stale k (memory_queue (app_store_state st) n))) of
               Some c \<Rightarrow> (OK, Some c) | None \<Rightarrow> (NO_CONTENT, None)),
           st\<lparr>app_store_state := snd (mem_next_runner_command n k (app_store_state st))\<rparr>))"
proof -
  obtain s' where "mem_next_runner_command n k (app_store_state st)
      = (Ok (fst (pop_front (drop_stale k (memory_queue (app_store_state st) n)))), s')"
    using mq.nxt_pops [of L T undefined n k "app_store_state st"] by auto
  then show ?thesis
    by (simp add: next_runner_command_def and_then_def require_runner_token_def call_def
        map_err_op_def store_call_def assms return_op_def unwrap_or_def)
qed

text \<open>The source is configured for this control plane and carries its runner token.\<close>

definition authorised :: "net \<Rightarrow> 's server http_source \<Rightarrow> bool" where
  "authorised N s \<longleftrightarrow> base_url N (hcs_base_url s) \<and>
     (\<exists>tok. hcs_runner_token s = Some tok \<and> header_text tok \<and>
        tok = app_runner_api_token (sv_app (hcs_client s)))"

text \<open>A request that reaches the control plane, whether or not its response comes back.\<close>

lemma deliver_next:
  assumes "connected L J W N C" and "authorised N s" and "plain n"
    and "app_store (sv_app (hcs_client s)) = memory_store L T"
    and "nt_link N (sv_requests (hcs_client s)) \<noteq> RequestLost"
  shows "\<exists>r sv'. cl_send C (add_auth (s\<lparr>hcs_last_node_id := Some n\<rparr>)
        (http_get (next_url (s\<lparr>hcs_last_node_id := Some n\<rparr>) n k))) (hcs_client s) = (r, sv') \<and>
      (nt_link N (sv_requests (hcs_client s)) = ResponseLost \<longrightarrow> r = Err ''error sending request'') \<and>
      (nt_link N (sv_requests (hcs_client s)) = Delivered \<longrightarrow> r = Ok
        (case fst (pop_front (drop_stale k (memory_queue (app_store_state (sv_app (hcs_client s))) n))) of
           None \<Rightarrow> plain_response 204 NoBody
         | Some c \<Rightarrow> json_response W OK (CommandReply c))) \<and>
      sv' = \<lparr>sv_app = (sv_app (hcs_client s))\<lparr>app_store_state :=
          snd (mem_next_runner_command n k (app_store_state (sv_app (hcs_client s))))\<rparr>,
        sv_requests = Suc (sv_requests (hcs_client s))\<rparr>"
proof -
  from assms(1) have C: "cl_send C = deliver L J W N" "conforms W C" by (simp_all add: connected_def)
  from assms(2) obtain tok where tok: "hcs_runner_token s = Some tok" "header_text tok"
      "tok = app_runner_api_token (sv_app (hcs_client s))" and b: "base_url N (hcs_base_url s)"
    by (auto simp: authorised_def)
  let ?st = "sv_app (hcs_client s)"
  have valid: "runner_token_valid ?st (received W [(''x-runner-token'', tok)])"
    unfolding received_token_valid [OF C(2) tok(2)] by (rule tok(3))
  define qs where "qs = ''last_sequence='' @ show_nat (unat k)"
  have q: "qx_last_sequence W (Some qs) = Ok (Some k)"
    using C(2) unfolding qs_def conforms_def by blast
  have url: "nt_url N (next_url (s\<lparr>hcs_last_node_id := Some n\<rparr>) n k)
      = Some (runner_path n [''commands'', ''next''], Some qs)"
    unfolding qs_def by (rule runner_urls(1) [OF b assms(3)]) simp
  show ?thesis
    by (cases "nt_link N (sv_requests (hcs_client s))")
       (simp_all add: assms(5) C(1) deliver_def add_auth_def http_get_def tok(1) url q valid Let_def
        serve_runner_requests(1) [OF C(2) assms(3)] next_runner_command_eq [OF assms(4)]
        extracting_def param_def respond_def split: option.split)
qed

lemma http_next_command_eq:
  assumes "connected L J W N C" and "authorised N s" and "plain n"
    and "app_store (sv_app (hcs_client s)) = memory_store L T"
    and "nt_link N (sv_requests (hcs_client s)) = Delivered"
  shows "http_next_command C n k s =
    (Ok (fst (pop_front (drop_stale k (memory_queue (app_store_state (sv_app (hcs_client s))) n)))),
     s\<lparr>hcs_last_node_id := Some n,
       hcs_client := \<lparr>sv_app = (sv_app (hcs_client s))\<lparr>app_store_state :=
          snd (mem_next_runner_command n k (app_store_state (sv_app (hcs_client s))))\<rparr>,
        sv_requests = Suc (sv_requests (hcs_client s))\<rparr>\<rparr>)"
proof -
  have json: "\<exists>j. wb_json W (CommandReply c) = Ok j \<and> cl_command_of C (JsonBody j) = Ok c" for c
    using assms(1) unfolding connected_def conforms_def is_ok_iff by blast
  note steps = http_next_command_def send_def Let_def and_then_def return_op_def plain_response_def
    json_response_def require_success_def lift_result_def
  show ?thesis
  proof (cases "fst (pop_front (drop_stale k (memory_queue (app_store_state (sv_app (hcs_client s))) n)))")
    case None
    with deliver_next [OF assms(1-4), of k] assms(5) show ?thesis by (auto simp: steps)
  next
    case (Some c)
    obtain j where "wb_json W (CommandReply c) = Ok j" "cl_command_of C (JsonBody j) = Ok c"
      using json by blast
    with Some deliver_next [OF assms(1-4), of k] assms(5) show ?thesis by (auto simp: steps)
  qed
qed

text \<open>The node is registered, and its result key is the one the source signs with.\<close>

definition enrolled :: "libs \<Rightarrow> string \<Rightarrow> memory_state server http_source \<Rightarrow> bool" where
  "enrolled L n s \<longleftrightarrow> (let st = sv_app (hcs_client s) in
     \<exists>node. map_of (nodes (app_store_state st)) n = Some node \<and>
       runner_result_verify_key_for_node L st node
         = Ok (ed_verifying_key L (hcs_result_signing_key s)))"

lemma result_key_frame [simp]:
  "runner_result_verify_key_for_node L (st\<lparr>app_store_state := s\<rparr>) node
     = runner_result_verify_key_for_node L st node"
  by (simp add: runner_result_verify_key_for_node_def)

lemma http_submit_result_eq:
  assumes "connected L J W N C" and "authorised N s" and "plain n" and "hcs_last_node_id s = Some n"
    and st: "app_store (sv_app (hcs_client s)) = memory_store L T"
    and "nt_link N (sv_requests (hcs_client s)) = Delivered"
    and "hex_codec L" and "ed25519_scheme L" and "to_vec_result L (n, r) = Ok m"
    and "enrolled L n s"
    and "hm_contains (deployments (app_store_state (sv_app (hcs_client s)))) (dr_deployment_id r)"
  shows "\<exists>s'. http_submit_result L C V r s = (Ok (), s\<lparr>hcs_client := \<lparr>sv_app = (sv_app (hcs_client s))
      \<lparr>app_store_state := s', app_runner_results := app_runner_results (sv_app (hcs_client s)) @ [r]\<rparr>,
      sv_requests = Suc (sv_requests (hcs_client s))\<rparr>\<rparr>) \<and>
    mem_deployment_status (dr_deployment_id r) s' = (Ok (dr_status r), s') \<and>
    memory_queue s' = memory_queue (app_store_state (sv_app (hcs_client s)))"
proof -
  from assms(1) have C: "cl_send C = deliver L J W N" "conforms W C" by (simp_all add: connected_def)
  from assms(2) obtain tok where tok: "hcs_runner_token s = Some tok" "header_text tok"
      "tok = app_runner_api_token (sv_app (hcs_client s))" and b: "base_url N (hcs_base_url s)"
    by (auto simp: authorised_def)
  let ?st = "sv_app (hcs_client s)" and ?key = "hcs_result_signing_key s"
  have valid: "runner_token_valid ?st (received W [(''x-runner-token'', tok)])"
    unfolding received_token_valid [OF C(2) tok(2)] by (rule tok(3))
  obtain sr where sr: "result_sign L n r ?key = Ok sr" "sdr_result sr = r"
    using assms(9) by (simp add: result_sign_def)
  have jx: "jx_result W (JsonBody (cl_result_json C sr)) = Ok sr"
    using C(2) by (simp add: conforms_def)
  have verify: "result_verify L sr (ed_verifying_key L ?key) n = Ok r"
    using result_sign_verify [OF assms(7,8) sr(1), of n] by simp
  obtain node where node: "map_of (nodes (app_store_state ?st)) n = Some node"
      "runner_result_verify_key_for_node L ?st node = Ok (ed_verifying_key L ?key)"
    using assms(10) by (auto simp: enrolled_def Let_def)
  obtain d where d: "map_of (deployments (app_store_state ?st)) (dr_deployment_id r) = Some d"
    using assms(11) by auto
  let ?s = "snd (mem_record_deployment_result L T (nt_env N (sv_requests (hcs_client s)) 1) r
      (app_store_state ?st))"
  have "http_submit_result L C V r s = (Ok (), s\<lparr>hcs_client := \<lparr>sv_app = ?st\<lparr>app_store_state := ?s,
      app_runner_results := app_runner_results ?st @ [r]\<rparr>,
      sv_requests = Suc (sv_requests (hcs_client s))\<rparr>\<rparr>)"
    by (simp add: http_submit_result_def unwrap_or_def assms(4,6) sr lift_result_def and_then_def send_def
        C(1) deliver_def add_auth_def http_post_def tok(1) runner_urls(2) [OF b assms(3) refl] Let_def
        serve_runner_requests(2) [OF C(2) assms(3)] extracting_def jx
        param_def respond_def submit_runner_result_eq [OF st] valid node verify d plain_response_def
        require_success_def return_op_def)
  moreover have "mem_deployment_status (dr_deployment_id r) ?s = (Ok (dr_status r), ?s)"
      "memory_queue ?s = memory_queue (app_store_state ?st)"
    using d by (auto simp: mem_record_deployment_result_def mem_deployment_status_def Let_def memory_queue_def)
  ultimately show ?thesis by blast
qed

lemma mem_next_runner_command_frame:
  "nodes (snd (mem_next_runner_command n k s)) = nodes s"
  "deployments (snd (mem_next_runner_command n k s)) = deployments s"
  by (simp_all add: mem_next_runner_command_def split: option.split prod.split)

lemma mem_next_runner_command_pops:
  assumes "memory_queue s n = x # q" and "k < cmd_sequence (src_command x)"
  shows "memory_queue (snd (mem_next_runner_command n k s)) = (memory_queue s)(n := q)"
    and "fst (pop_front (drop_stale k (memory_queue s n))) = Some x"
  using mq.nxt_pops [of undefined undefined undefined n k s] assms by auto

section \<open>The HTTP source satisfies the contract\<close>

text \<open>
  The source is connected over a link that loses nothing, authorised, and its node is enrolled; the
  control plane runs on the memory store.
\<close>

definition http_ready ::
  "libs \<Rightarrow> (compile_deployment_response \<Rightarrow> (json, string) result) \<Rightarrow> web \<Rightarrow> net
    \<Rightarrow> memory_state server http_client \<Rightarrow> string \<Rightarrow> memory_state server http_source \<Rightarrow> string \<Rightarrow> bool" where
  "http_ready L J W N C T s n \<longleftrightarrow> connected L J W N C \<and> (\<forall>k. nt_link N k = Delivered) \<and>
     authorised N s \<and> plain n \<and> enrolled L n s \<and>
     app_store (sv_app (hcs_client s)) = memory_store L T \<and>
     hex_codec L \<and> ed25519_scheme L \<and> serde_total L"

definition http_recorded :: "memory_state server http_source \<Rightarrow> deployment_result \<Rightarrow> bool" where
  "http_recorded s r \<longleftrightarrow> (let st = sv_app (hcs_client s) in
     r \<in> set (app_runner_results st) \<and>
     mem_deployment_status (dr_deployment_id r) (app_store_state st) = (Ok (dr_status r), app_store_state st))"

lemma http_next_contract:
  assumes "http_ready L J W N C T s n"
  shows "\<exists>s'. http_next_command C n k s
      = (Ok (fst (pop_front (drop_stale k (memory_queue (app_store_state (sv_app (hcs_client s))) n)))), s') \<and>
    http_ready L J W N C T s' n \<and> hcs_last_node_id s' = Some n \<and>
    memory_queue (app_store_state (sv_app (hcs_client s'))) n
      = snd (pop_front (drop_stale k (memory_queue (app_store_state (sv_app (hcs_client s))) n))) \<and>
    deployments (app_store_state (sv_app (hcs_client s'))) = deployments (app_store_state (sv_app (hcs_client s)))"
proof -
  let ?st = "sv_app (hcs_client s)"
  have r: "connected L J W N C" "authorised N s" "plain n" "app_store ?st = memory_store L T"
      "nt_link N (sv_requests (hcs_client s)) = Delivered"
    using assms by (simp_all add: http_ready_def)
  have "memory_queue (snd (mem_next_runner_command n k (app_store_state ?st))) n
      = snd (pop_front (drop_stale k (memory_queue (app_store_state ?st) n)))"
    using mq.nxt_pops [of L T undefined n k "app_store_state ?st"] by auto
  then show ?thesis
    unfolding http_next_command_eq [OF r]
    using assms by (simp add: http_ready_def authorised_def enrolled_def Let_def mem_next_runner_command_frame)
qed

lemma http_submit_contract:
  assumes "http_ready L J W N C T s n" and "hcs_last_node_id s = Some n"
    and "hm_contains (deployments (app_store_state (sv_app (hcs_client s)))) (dr_deployment_id r)"
  shows "\<exists>s'. http_submit_result L C V r s = (Ok (), s') \<and> http_recorded s' r \<and>
    memory_queue (app_store_state (sv_app (hcs_client s'))) n
      = memory_queue (app_store_state (sv_app (hcs_client s))) n"
proof -
  have h: "connected L J W N C" "authorised N s" "plain n" "app_store (sv_app (hcs_client s)) = memory_store L T"
      "nt_link N (sv_requests (hcs_client s)) = Delivered" "hex_codec L" "ed25519_scheme L" "enrolled L n s"
    using assms(1) by (simp_all add: http_ready_def)
  obtain m where "to_vec_result L (n, r) = Ok m"
    using assms(1) unfolding http_ready_def serde_total_def is_ok_iff by blast
  from http_submit_result_eq [OF h(1-3) assms(2) h(4-7) this h(8) assms(3), of V]
  obtain s' where "http_submit_result L C V r s = (Ok (), s\<lparr>hcs_client := \<lparr>sv_app = (sv_app (hcs_client s))
      \<lparr>app_store_state := s', app_runner_results := app_runner_results (sv_app (hcs_client s)) @ [r]\<rparr>,
      sv_requests = Suc (sv_requests (hcs_client s))\<rparr>\<rparr>)"
    "mem_deployment_status (dr_deployment_id r) s' = (Ok (dr_status r), s')"
    "memory_queue s' = memory_queue (app_store_state (sv_app (hcs_client s)))" by blast
  then show ?thesis by (simp add: http_recorded_def Let_def)
qed

interpretation http_source: command_source_contract "http_command_source L C V" "http_ready L J W N C T"
    "\<lambda>s n. hcs_last_node_id s = Some n" "\<lambda>s n. memory_queue (app_store_state (sv_app (hcs_client s))) n"
    "\<lambda>s r. hm_contains (deployments (app_store_state (sv_app (hcs_client s)))) (dr_deployment_id r)"
    http_recorded
proof unfold_locales
  fix s :: "memory_state server http_source" and n k
  assume "http_ready L J W N C T s n"
  from http_next_contract [OF this, of k]
  show "\<exists>c'. cs_next_command (http_command_source L C V) n k s
      = (Ok (fst (pop_front (drop_stale k (memory_queue (app_store_state (sv_app (hcs_client s))) n)))), c') \<and>
    http_ready L J W N C T c' n \<and> hcs_last_node_id c' = Some n \<and>
    memory_queue (app_store_state (sv_app (hcs_client c'))) n
      = snd (pop_front (drop_stale k (memory_queue (app_store_state (sv_app (hcs_client s))) n))) \<and>
    (\<lambda>r. hm_contains (deployments (app_store_state (sv_app (hcs_client c')))) (dr_deployment_id r))
      = (\<lambda>r. hm_contains (deployments (app_store_state (sv_app (hcs_client s)))) (dr_deployment_id r))"
    by (auto simp: http_command_source_def)
next
  fix s :: "memory_state server http_source" and n and r :: deployment_result
  assume "http_ready L J W N C T s n" "hcs_last_node_id s = Some n"
    "hm_contains (deployments (app_store_state (sv_app (hcs_client s)))) (dr_deployment_id r)"
  from http_submit_contract [OF this, of V]
  show "\<exists>c'. cs_submit_result (http_command_source L C V) r s = (Ok (), c') \<and> http_recorded c' r \<and>
    memory_queue (app_store_state (sv_app (hcs_client c'))) n
      = memory_queue (app_store_state (sv_app (hcs_client s))) n"
    by (simp add: http_command_source_def)
qed

end
