(* ===== verification/Network_Demo.thy ===== *)
theory Network_Demo
  imports Runner_Network
begin

text \<open>
  A concrete wire between runner and control plane that satisfies \<open>connected\<close> and \<open>base_url\<close>: the
  JSON forms of signed commands and results with their decoders, a URL parser for one host, and a
  matcher that searches the route table. The theorems that assume \<open>connected\<close> are evaluated at it.
\<close>

section \<open>JSON forms\<close>

fun json_of_kind :: "runner_command_kind \<Rightarrow> json" where
  "json_of_kind (runner_command_kind.RegisterNode n) = JArray [JString ''register'', JString n]"
| "json_of_kind (runner_command_kind.Heartbeat j) = JArray [JString ''heartbeat'', j]"
| "json_of_kind (ApplyDeploymentPlan d s c p) =
     JArray [JString ''apply'', JString d, JString s, c, case p of None \<Rightarrow> JArray [] | Some j \<Rightarrow> JArray [j]]"
| "json_of_kind (ValidateConfig c) = JArray [JString ''validate'', c]"
| "json_of_kind ReloadCore = JString ''reload''"
| "json_of_kind RestartCore = JString ''restart''"
| "json_of_kind (RollbackDeployment d r s) = JArray [JString ''rollback'', JString d, JString r, JString s]"
| "json_of_kind CollectMetrics = JString ''metrics''"
| "json_of_kind (CollectLogWindow w) = JNumber (uint w)"

definition text_of :: "json \<Rightarrow> string" where
  "text_of j = (case j of JString s \<Rightarrow> s | _ \<Rightarrow> [])"

definition number_of :: "json \<Rightarrow> int" where
  "number_of j = (case j of JNumber n \<Rightarrow> n | _ \<Rightarrow> 0)"

definition kind_of_list :: "json list \<Rightarrow> runner_command_kind option" where
  "kind_of_list xs =
     (let tag = text_of (hd xs) in
      if length xs = 2 then
        Some (if tag = ''validate'' then ValidateConfig (xs ! 1)
              else if tag = ''heartbeat'' then runner_command_kind.Heartbeat (xs ! 1)
              else runner_command_kind.RegisterNode (text_of (xs ! 1)))
      else if length xs = 4 then
        Some (RollbackDeployment (text_of (xs ! 1)) (text_of (xs ! 2)) (text_of (xs ! 3)))
      else if length xs = 5 then
        Some (ApplyDeploymentPlan (text_of (xs ! 1)) (text_of (xs ! 2)) (xs ! 3)
          (case json_elems (xs ! 4) of [] \<Rightarrow> None | p # _ \<Rightarrow> Some p))
      else None)"

definition kind_of_json :: "json \<Rightarrow> runner_command_kind option" where
  "kind_of_json j =
     (case j of
        JString s \<Rightarrow>
          (if s = ''reload'' then Some ReloadCore else if s = ''restart'' then Some RestartCore
           else if s = ''metrics'' then Some CollectMetrics else None)
      | JNumber w \<Rightarrow> Some (CollectLogWindow (word_of_int w))
      | JArray xs \<Rightarrow> kind_of_list xs
      | _ \<Rightarrow> None)"

definition json_of_command :: "signed_runner_command \<Rightarrow> json" where
  "json_of_command x = (let c = src_command x in JArray
     [JString (cmd_tenant_id c), JString (cmd_node_id c), JNumber (uint (cmd_sequence c)),
      JString (cmd_nonce c), JNumber (cmd_expires_at c), json_of_kind (cmd_kind c),
      JString (src_signature_hex x)])"

definition command_of_json :: "json \<Rightarrow> signed_runner_command option" where
  "command_of_json j =
     (let xs = json_elems j in
      if length xs \<noteq> 7 then None
      else map_option (\<lambda>kind. \<lparr>src_command = \<lparr>cmd_tenant_id = text_of (xs ! 0),
          cmd_node_id = text_of (xs ! 1), cmd_sequence = word_of_int (number_of (xs ! 2)),
          cmd_nonce = text_of (xs ! 3), cmd_expires_at = number_of (xs ! 4), cmd_kind = kind\<rparr>,
        src_signature_hex = text_of (xs ! 6)\<rparr>) (kind_of_json (xs ! 5)))"

fun status_of_json :: "string \<Rightarrow> deployment_status" where
  "status_of_json s = (if s = ''Pending'' then Pending else if s = ''Succeeded'' then Succeeded
     else if s = ''Failed'' then Failed else RolledBack)"

definition json_of_result :: "signed_deployment_result \<Rightarrow> json" where
  "json_of_result x = (let r = sdr_result x in JArray
     [JString (sdr_node_id x), JString (dr_deployment_id r), JString (status_debug (dr_status r)),
      JString (dr_message r), JString (dr_artifact_sha256 r), JNumber (dr_observed_at r),
      JString (sdr_signature_hex x)])"

definition result_of_json :: "json \<Rightarrow> signed_deployment_result option" where
  "result_of_json j =
     (let xs = json_elems j in
      if length xs \<noteq> 7 then None
      else Some \<lparr>sdr_node_id = text_of (xs ! 0), sdr_result = \<lparr>dr_deployment_id = text_of (xs ! 1),
          dr_status = status_of_json (text_of (xs ! 2)), dr_message = text_of (xs ! 3),
          dr_artifact_sha256 = text_of (xs ! 4), dr_observed_at = number_of (xs ! 5)\<rparr>,
        sdr_signature_hex = text_of (xs ! 6)\<rparr>)"

section \<open>The concrete wire\<close>

definition decoded :: "(json \<Rightarrow> 'a option) \<Rightarrow> http_body \<Rightarrow> ('a, http_response) result" where
  "decoded f b = (case b of
     JsonBody j \<Rightarrow> ok_or (plain_response 422 NoBody) (f j)
   | _ \<Rightarrow> Err (plain_response 415 NoBody))"

definition json_text :: "string \<Rightarrow> json \<Rightarrow> string option" where
  "json_text k j = (case json_get k j of Some (JString s) \<Rightarrow> Some s | _ \<Rightarrow> None)"

definition registration_of_json :: "json \<Rightarrow> register_node_request option" where
  "registration_of_json j =
     (case (json_text ''registration_token'' j, json_text ''node_id'' j, json_text ''xray_version'' j) of
        (Some t, Some n, Some v) \<Rightarrow> Some \<lparr>rnr_registration_token = t, rnr_node_id = n, rnr_xray_version = v,
          rnr_runner_result_public_key_hex = json_text ''runner_result_public_key_hex'' j\<rparr>
      | _ \<Rightarrow> None)"

definition sequence_of_query :: "string option \<Rightarrow> (u64 option, http_response) result" where
  "sequence_of_query q = (case q of
     None \<Rightarrow> Ok None
   | Some s \<Rightarrow> (case parse_u64 (drop (length ''last_sequence='') s) of
        None \<Rightarrow> Err (plain_response 400 NoBody)
      | Some n \<Rightarrow> Ok (Some (of_nat n))))"

definition demo_web :: web where
  "demo_web =
     \<lparr>wb_match = search_routes, wb_param = Ok, wb_header = Some,
      wb_json = (\<lambda>r. Ok (case r of CommandReply c \<Rightarrow> json_of_command c | _ \<Rightarrow> JNull)),
      qx_bucket = Ok, qx_last_sequence = sequence_of_query, qx_token = Ok,
      jx_register_node = decoded registration_of_json, jx_issue_token = (\<lambda>_. Ok None),
      jx_rotate_key = (\<lambda>_. Ok ''''), jx_heartbeat = decoded (json_get ''capability_snapshot''),
      jx_usage = (\<lambda>_. Ok \<lparr>rur_credential_id = None, rur_uplink_bytes = 0, rur_downlink_bytes = 0,
        rur_sampled_at = None\<rparr>),
      jx_vless = (\<lambda>_. Ok ('''', '''')), jx_shadowsocks = (\<lambda>_. Ok ('''', None)),
      jx_trojan = (\<lambda>_. Ok ('''', '''', None)),
      jx_client = (\<lambda>_. Ok \<lparr>ccr_client_id = '''', ccr_profile_id = '''', ccr_display_name = '''',
        ccr_uuid = None, ccr_kind = None, ccr_method = None, ccr_password = None,
        ccr_quota_bytes = None, ccr_expires_at = None\<rparr>),
      jx_compile = (\<lambda>_. Ok \<lparr>cdr_profile_id = '''', cdr_node_id = ''''\<rparr>),
      jx_health = (\<lambda>_. Ok ('''', JNull)), jx_result = decoded result_of_json\<rparr>"

text \<open>The part after \<open>http://cp\<close>, split at the question mark.\<close>

definition demo_url :: "string \<Rightarrow> (string \<times> string option) option" where
  "demo_url u = (if take 9 u = ''http://cp'' then
       (let rest = drop 9 u; path = takeWhile (\<lambda>c. c \<noteq> CHR ''?'') rest in
        Some (path, if path = rest then None else Some (drop (Suc (length path)) rest)))
     else None)"

definition demo_net :: net where
  "demo_net = \<lparr>nt_url = demo_url, nt_link = (\<lambda>_. Delivered), nt_env = (\<lambda>_ _. demo_env)\<rparr>"

definition demo_client :: "net \<Rightarrow> memory_state server http_client" where
  "demo_client N = \<lparr>cl_send = deliver demo_libs (\<lambda>_. Ok JNull) demo_web N, cl_status_text = show_nat,
     cl_result_json = json_of_result,
     cl_command_of = (\<lambda>b. case b of JsonBody j \<Rightarrow> ok_or ''decode error'' (command_of_json j)
        | _ \<Rightarrow> Err ''decode error'')\<rparr>"

section \<open>It conforms\<close>

lemma kind_round_trip: "kind_of_json (json_of_kind k) = Some k"
  by (cases k) (simp_all add: kind_of_json_def kind_of_list_def text_of_def Let_def split: option.split)

lemma command_round_trip: "command_of_json (json_of_command c) = Some c"
  by (simp add: json_of_command_def command_of_json_def Let_def kind_round_trip text_of_def number_of_def)

lemma result_round_trip: "result_of_json (json_of_result r) = Some r"
proof -
  have "status_of_json (status_debug s) = s" for s by (cases s) simp_all
  then show ?thesis by (simp add: json_of_result_def result_of_json_def Let_def text_of_def number_of_def
        del: status_of_json.simps)
qed

lemma sequence_round_trip:
  "sequence_of_query (Some (''last_sequence='' @ show_nat (unat n))) = Ok (Some n)" for n :: u64
proof -
  have "unat n < 2 ^ 64" using unsigned_less [of n] by simp
  then show ?thesis by (simp add: sequence_of_query_def parse_u64_show_nat)
qed

lemma demo_web_conforms: "conforms demo_web (demo_client N)"
  unfolding conforms_def
proof (intro conjI allI impI)
  show "axum_routing (wb_match demo_web)" by (simp add: demo_web_def search_routes_axum)
  fix n :: u64
  show "qx_last_sequence demo_web (Some (''last_sequence='' @ show_nat (unat n))) = Ok (Some n)"
    using sequence_round_trip [of n] by (simp add: demo_web_def)
qed (simp_all add: demo_web_def demo_client_def decoded_def registration_json_def registration_of_json_def
    json_text_def result_round_trip command_round_trip ok_or_def)

lemma demo_connected: "connected demo_libs (\<lambda>_. Ok JNull) demo_web N (demo_client N)"
  using demo_web_conforms [of N] by (simp add: connected_def demo_client_def)

lemma plain_no_question: "plain s \<Longrightarrow> \<forall>c \<in> set s. c \<noteq> CHR ''?''"
  by (auto simp: plain_def plain_char_def char_in_def list_all_iff)

lemma path_no_question: "list_all plain ss \<Longrightarrow> \<forall>c \<in> set (path_text ss). c \<noteq> CHR ''?''"
  by (induction ss) (auto dest: plain_no_question)

lemma demo_base_url: "nt_url N = demo_url \<Longrightarrow> base_url N ''http://cp''"
  unfolding base_url_def
  by (auto simp: demo_url_def Let_def takeWhile_append2 path_no_question takeWhile_eq_all_conv)

end
