(* ===== verification/Runner_Process.thy ===== *)
theory Runner_Process
  imports Runner_Http
begin

text \<open>
  When the runner process ends: the loop of \<open>main\<close> returns after one poll when \<open>RUNNER_ONCE\<close> asks
  for it, and otherwise exactly when a poll fails, with the error of the first poll that fails.
\<close>

section \<open>Definitions\<close>

text \<open>The n-th poll counted from 0, with the sleep before it, after the polls before it succeeded.\<close>

fun nth_poll ::
  "libs \<Rightarrow> host \<Rightarrow> 'w http_client \<Rightarrow> vars \<Rightarrow> (nat \<Rightarrow> env) \<Rightarrow> (nat \<Rightarrow> nat \<Rightarrow> 'w \<Rightarrow> 'w) \<Rightarrow> nat \<Rightarrow> nat
    \<Rightarrow> ('w process, unit, string) op" where
  "nth_poll L H C V E others 0 k p = poll_step L H C V (E k) p"
| "nth_poll L H C V E others (Suc n) k p = nth_poll L H C V E others n (Suc k)
     (sleep others (runner_interval V) k (snd (poll_step L H C V (E k) p)))"

text \<open>The process when it starts to poll.\<close>

definition polling_process :: "libs \<Rightarrow> vars \<Rightarrow> (string \<Rightarrow> disk) \<Rightarrow> string \<Rightarrow> 'w http_source \<Rightarrow> 'w process" where
  "polling_process L V disk_at url s =
     \<lparr>pc_outbound = outbound_runner_new (runner_local L V disk_at) s, pc_stdout = [polling_line V url]\<rparr>"

definition xray_host :: "(string \<Rightarrow> host) \<Rightarrow> vars \<Rightarrow> host" where
  "xray_host host_of V = host_of (var_or V ''RUNNER_XRAY_BIN'' ''xray'')"

text \<open>\<open>y\<close> is the outcome of the first poll that fails.\<close>

definition first_failure ::
  "libs \<Rightarrow> host \<Rightarrow> 'w http_client \<Rightarrow> vars \<Rightarrow> (nat \<Rightarrow> env) \<Rightarrow> (nat \<Rightarrow> nat \<Rightarrow> 'w \<Rightarrow> 'w) \<Rightarrow> nat \<Rightarrow> 'w process
    \<Rightarrow> (unit, string) result \<times> 'w process \<Rightarrow> bool" where
  "first_failure L H C V E others k p y \<longleftrightarrow> (\<exists>n. nth_poll L H C V E others n k p = y \<and>
     \<not> is_ok (fst y) \<and> (\<forall>i < n. is_ok (fst (nth_poll L H C V E others i k p))))"

text \<open>A control plane that accepts the first heartbeat and then cannot be reached.\<close>

definition flaky_client :: "nat http_client" where
  "flaky_client = \<lparr>cl_send = (\<lambda>rq w. (if w = 0 then Ok \<lparr>hs_status = 202, hs_body = NoBody\<rparr>
       else Err ''connection refused'', Suc w)),
     cl_status_text = show_nat, cl_result_json = (\<lambda>_. JNull), cl_command_of = (\<lambda>_. Err ''no command'')\<rparr>"

definition flaky_vars :: vars where
  "flaky_vars = [''CONTROL_PLANE_BASE_URL'' \<mapsto> ''http://cp'']"

definition idle_disk :: disk where
  "idle_disk = \<lparr>d_files = [[] \<mapsto> Dir], d_calls = 0\<rparr>"

definition idle_host :: host where
  "idle_host = \<lparr>h_fault = (\<lambda>_. False), h_keep = (\<lambda>_ _. False), h_written = (\<lambda>_. None),
     h_xray = (\<lambda>_. Err ''no xray''), h_core = (\<lambda>_ _ _. Err ''no command'')\<rparr>"

section \<open>The loop\<close>

lemma poll_loop_once:
  "runner_once V \<Longrightarrow> poll_loop L H C V E others k p = Some (poll_step L H C V (E k) p)"
  by (subst poll_loop.simps) (auto split: prod.split result.split)

lemma poll_loop_Err:
  "poll_step L H C V (E k) p = (Err m, p') \<Longrightarrow> poll_loop L H C V E others k p = Some (Err m, p')"
  by (subst poll_loop.simps) simp

lemma poll_loop_Ok:
  "poll_step L H C V (E k) p = (Ok (), p') \<Longrightarrow> \<not> runner_once V \<Longrightarrow>
    poll_loop L H C V E others k p
      = poll_loop L H C V E others (Suc k) (sleep others (runner_interval V) k p')"
  by (subst poll_loop.simps) simp

lemma first_failure_Err:
  "poll_step L H C V (E k) p = (Err m, p') \<Longrightarrow> first_failure L H C V E others k p (Err m, p')"
  by (auto simp: first_failure_def intro: exI [of _ 0])

lemma first_failure_Ok:
  assumes "poll_step L H C V (E k) p = (Ok (), p')"
  shows "first_failure L H C V E others k p y \<longleftrightarrow>
    first_failure L H C V E others (Suc k) (sleep others (runner_interval V) k p') y"
proof
  assume "first_failure L H C V E others k p y"
  then obtain n where n: "nth_poll L H C V E others n k p = y" "\<not> is_ok (fst y)"
      "\<forall>i < n. is_ok (fst (nth_poll L H C V E others i k p))"
    by (auto simp: first_failure_def)
  have "n \<noteq> 0"
  proof
    assume "n = 0"
    with n(1,2) assms show False by auto
  qed
  then obtain j where j: "n = Suc j" by (cases n) auto
  have "is_ok (fst (nth_poll L H C V E others i (Suc k) (sleep others (runner_interval V) k p')))"
    if "i < j" for i using n(3) [rule_format, of "Suc i"] that j assms by simp
  with n(1,2) j assms show
    "first_failure L H C V E others (Suc k) (sleep others (runner_interval V) k p') y"
    by (auto simp: first_failure_def)
next
  assume "first_failure L H C V E others (Suc k) (sleep others (runner_interval V) k p') y"
  then obtain n where n: "nth_poll L H C V E others n (Suc k) (sleep others (runner_interval V) k p') = y"
      "\<not> is_ok (fst y)"
      "\<forall>i < n. is_ok (fst (nth_poll L H C V E others i (Suc k) (sleep others (runner_interval V) k p')))"
    by (auto simp: first_failure_def)
  have "is_ok (fst (nth_poll L H C V E others i k p))" if "i < Suc n" for i
    using n(3) that assms by (cases i) simp_all
  moreover from n(1) assms have "nth_poll L H C V E others (Suc n) k p = y" by simp
  ultimately show "first_failure L H C V E others k p y"
    using n(2) unfolding first_failure_def by blast
qed

lemma poll_loop_result:
  assumes "poll_loop L H C V E others k p = Some y"
  shows "\<not> runner_once V \<longrightarrow> first_failure L H C V E others k p y"
proof (rule poll_loop.raw_induct [of "\<lambda>L H C V E others k p y. \<not> runner_once V \<longrightarrow>
    first_failure L H C V E others k p y", OF _ assms], intro impI)
  fix poll_loop L H and C :: "'a http_client" and V E others k p y
  assume IH: "\<And>L H C V E others k p y. poll_loop L H C V E others k p = Some y \<Longrightarrow>
      \<not> runner_once V \<longrightarrow> first_failure L H C V E others k p y"
    and step: "(case poll_step L H C V (E k) p of
        (Ok x, p') \<Rightarrow> if runner_once V then Some (Ok (), p')
          else poll_loop L H C V E others (Suc k) (sleep others (runner_interval V) k p')
      | (Err m, p') \<Rightarrow> Some (Err m, p')) = Some y"
    and forever: "\<not> runner_once V"
  obtain r p' where q: "poll_step L H C V (E k) p = (r, p')" by fastforce
  show "first_failure L H C V E others k p y"
  proof (cases r)
    case (Ok u)
    with step forever q have
      "poll_loop L H C V E others (Suc k) (sleep others (runner_interval V) k p') = Some y" by simp
    from IH [OF this] forever q Ok show ?thesis by (simp add: first_failure_Ok)
  next
    case (Err m)
    with step q show ?thesis by (auto intro: first_failure_Err)
  qed
qed

lemma poll_loop_at_failure:
  "\<not> runner_once V \<Longrightarrow> nth_poll L H C V E others n k p = y \<Longrightarrow> \<not> is_ok (fst y) \<Longrightarrow>
    \<forall>i < n. is_ok (fst (nth_poll L H C V E others i k p)) \<Longrightarrow>
    poll_loop L H C V E others k p = Some y"
proof (induction n arbitrary: k p)
  case 0
  then show ?case by (cases y; cases "fst y") (auto simp: poll_loop_Err)
next
  case (Suc n)
  from Suc.prems(4) [rule_format, of 0] obtain q where q: "poll_step L H C V (E k) p = (Ok (), q)"
    by (cases "poll_step L H C V (E k) p") (auto simp: is_ok_iff)
  have "is_ok (fst (nth_poll L H C V E others i (Suc k) (sleep others (runner_interval V) k q)))"
    if "i < n" for i using Suc.prems(4) [rule_format, of "Suc i"] that q by simp
  with Suc.IH [of "Suc k" "sleep others (runner_interval V) k q"] Suc.prems(1-3) q
  show ?case by (simp add: poll_loop_Ok)
qed

lemma poll_loop_eq_Some:
  "poll_loop L H C V E others k p = Some y \<longleftrightarrow>
    (if runner_once V then y = poll_step L H C V (E k) p
     else first_failure L H C V E others k p y)"
  using poll_loop_result [of L H C V E others k p y] poll_loop_at_failure [of V L H C E others _ k p y]
  by (auto simp: poll_loop_once first_failure_def)

lemma first_failure_exists:
  "(\<exists>y. first_failure L H C V E others k p y) \<longleftrightarrow> (\<exists>n. \<not> is_ok (fst (nth_poll L H C V E others n k p)))"
proof
  assume "\<exists>n. \<not> is_ok (fst (nth_poll L H C V E others n k p))"
  then obtain n where n: "\<not> is_ok (fst (nth_poll L H C V E others n k p))"
      "\<forall>i < n. is_ok (fst (nth_poll L H C V E others i k p))"
    using exists_least_iff [of "\<lambda>n. \<not> is_ok (fst (nth_poll L H C V E others n k p))"] by blast
  then have "first_failure L H C V E others k p (nth_poll L H C V E others n k p)"
    unfolding first_failure_def by blast
  then show "\<exists>y. first_failure L H C V E others k p y" ..
next
  assume "\<exists>y. first_failure L H C V E others k p y"
  then show "\<exists>n. \<not> is_ok (fst (nth_poll L H C V E others n k p))"
    unfolding first_failure_def by metis
qed

lemma poll_loop_eq_None:
  "poll_loop L H C V E others k p = None \<longleftrightarrow>
    \<not> runner_once V \<and> (\<forall>n. is_ok (fst (nth_poll L H C V E others n k p)))"
proof -
  have "poll_loop L H C V E others k p = None \<longleftrightarrow> (\<nexists>y. poll_loop L H C V E others k p = Some y)"
    using not_None_eq [of "poll_loop L H C V E others k p"] by blast
  also have "\<dots> \<longleftrightarrow> \<not> runner_once V \<and> (\<nexists>y. first_failure L H C V E others k p y)"
    unfolding poll_loop_eq_Some by (cases "runner_once V") (simp_all del: split_paired_All split_paired_Ex)
  finally show ?thesis unfolding first_failure_exists by simp
qed

section \<open>Properties\<close>

text \<open>
  C14. The runner process runs forever exactly when it reached the polling loop, is not asked to
  poll once, and every poll succeeds. In every other case \<open>main\<close> returns.
\<close>

theorem runner_main_runs_forever_iff:
  "runner_main L host_of C V E others disk_at w = None \<longleftrightarrow>
    (\<exists>url source s. V ''CONTROL_PLANE_BASE_URL'' = Some url \<and> runner_source L V url w = Ok source \<and>
       announce L C V source = (Ok (), s) \<and> \<not> runner_once V \<and>
       (\<forall>n. is_ok (fst (nth_poll L (xray_host host_of V) C V E others n 0
          (polling_process L V disk_at url s)))))"
  by (auto simp: runner_main_def polling_process_def [symmetric] xray_host_def [symmetric]
      poll_loop_eq_None split: option.split result.split prod.split)

text \<open>
  A runner that polls in a loop stops at the first poll that fails, whatever the reason, and
  then the process ends with the error of that poll; it never ends successfully.
\<close>

theorem polling_stops_at_first_error:
  assumes "V ''CONTROL_PLANE_BASE_URL'' = Some url" and "runner_source L V url w = Ok source"
    and "announce L C V source = (Ok (), s)" and "\<not> runner_once V"
    and "runner_main L host_of C V E others disk_at w = Some out"
  shows "\<exists>m p. oc_result out = Err m \<and>
    first_failure L (xray_host host_of V) C V E others 0 (polling_process L V disk_at url s) (Err m, p) \<and>
    oc_stdout out = pc_stdout p \<and> oc_local out = Some (ob_local (pc_outbound p))"
proof -
  from assms obtain r p where "poll_loop L (xray_host host_of V) C V E others 0
      (polling_process L V disk_at url s) = Some (r, p)" "oc_result out = r" "oc_stdout out = pc_stdout p"
      "oc_local out = Some (ob_local (pc_outbound p))"
    by (auto simp: runner_main_def polling_process_def [symmetric] xray_host_def [symmetric])
  with assms(4) show ?thesis
    by (cases r) (auto simp: poll_loop_eq_Some first_failure_def)
qed

lemma flaky_announce:
  "\<exists>source s. runner_source demo_libs flaky_vars ''http://cp'' 0 = Ok source \<and>
     announce demo_libs flaky_client flaky_vars source = (Ok (), s) \<and> hcs_client s = 1"
  by (simp add: runner_source_def flaky_vars_def Let_def announce_def and_then_def return_op_def
      http_send_heartbeat_def send_def flaky_client_def require_success_def http_source_new_def)

theorem polling_stops_at_first_error_witness:
  "\<exists>out. runner_main demo_libs (\<lambda>_. idle_host) flaky_client flaky_vars (\<lambda>_. demo_env) (\<lambda>_ _ w. w)
      (\<lambda>_. idle_disk) 0 = Some out \<and> oc_result out = Err ''connection refused''"
proof -
  obtain source s where s: "runner_source demo_libs flaky_vars ''http://cp'' 0 = Ok source"
      "announce demo_libs flaky_client flaky_vars source = (Ok (), s)" "hcs_client s = 1"
    using flaky_announce by blast
  let ?p = "polling_process demo_libs flaky_vars (\<lambda>_. idle_disk) ''http://cp'' s"
  have url: "flaky_vars ''CONTROL_PLANE_BASE_URL'' = Some ''http://cp''" "\<not> runner_once flaky_vars"
    by (simp_all add: flaky_vars_def runner_once_def is_some_and_def)
  obtain p where fails: "poll_step demo_libs (xray_host (\<lambda>_. idle_host) flaky_vars) flaky_client
      flaky_vars demo_env ?p = (Err ''connection refused'', p)"
    using s(3) by (simp add: poll_step_def polling_process_def outbound_runner_new_def poll_apply_once_def
        and_then_def on_source_def http_command_source_def http_next_command_def send_def Let_def
        flaky_client_def add_auth_def split: option.split)
  then have loop: "poll_loop demo_libs (xray_host (\<lambda>_. idle_host) flaky_vars) flaky_client flaky_vars
      (\<lambda>_. demo_env) (\<lambda>_ _ w. w) 0 ?p = Some (Err ''connection refused'', p)"
    by (rule poll_loop_Err)
  then obtain out where out: "runner_main demo_libs (\<lambda>_. idle_host) flaky_client flaky_vars
      (\<lambda>_. demo_env) (\<lambda>_ _ w. w) (\<lambda>_. idle_disk) 0 = Some out"
    using url(1) s(1,2)
    by (simp add: runner_main_def polling_process_def [symmetric] xray_host_def)
  obtain m q where mq: "oc_result out = Err m" "first_failure demo_libs (xray_host (\<lambda>_. idle_host) flaky_vars)
      flaky_client flaky_vars (\<lambda>_. demo_env) (\<lambda>_ _ w. w) 0 ?p (Err m, q)"
    using polling_stops_at_first_error [OF url(1) s(1,2) url(2) out] by blast
  have "poll_loop demo_libs (xray_host (\<lambda>_. idle_host) flaky_vars) flaky_client flaky_vars
      (\<lambda>_. demo_env) (\<lambda>_ _ w. w) 0 ?p = Some (Err m, q)"
    using mq(2) url(2) by (simp add: poll_loop_eq_Some)
  with loop out mq(1) show ?thesis by simp
qed

end
