(* ===== verification/Runner_Lemmas.thy ===== *)
theory Runner_Lemmas
  imports Runner
begin

text \<open>
  The proof library of the runner. \<open>tested\<close> and \<open>layout\<close> are kept by every file operation,
  whichever calls fail (\<open>triple\<close>, from the prelude); \<open>on_ok\<close> says what holds when an operation
  returned a value; \<open>runs\<close> that it does return when no call fails. The guarantees built from them
  are in \<open>Runner_Props\<close>.
\<close>

section \<open>Definitions\<close>

definition passes :: "host \<Rightarrow> bytes \<Rightarrow> bool" where
  "passes H b \<longleftrightarrow> (\<exists>out. h_xray H b = Ok out \<and> po_success out)"

definition config_of :: "path \<Rightarrow> path" where
  "config_of p = p @ [''config.json'']"

text \<open>Every release holds a tested configuration and the links of the runner lead to releases.\<close>

definition tested :: "host \<Rightarrow> files \<Rightarrow> bool" where
  "tested H fs \<longleftrightarrow>
     (\<forall>i b. fs (config_of (release_dir_of i)) = Some (File b) \<longrightarrow> passes H b) \<and>
     (\<forall>p \<in> {active, active_next}. \<forall>x. fs p = Some x \<longrightarrow> (\<exists>i. x = Symlink (release_dir_of i)))"

definition staged :: "host \<Rightarrow> string \<Rightarrow> bytes \<Rightarrow> files \<Rightarrow> bool" where
  "staged H i b fs \<longleftrightarrow> fs (config_of (tmp_dir_of i)) = Some (File b) \<and> passes H b"

text \<open>
  The shape of the work directory: directories, configuration files and links are where the
  runner puts them, so a leftover of an interrupted run never blocks the next one.
\<close>

definition layout :: "files \<Rightarrow> bool" where
  "layout fs \<longleftrightarrow> fs [] = Some Dir \<and>
     (\<forall>p \<in> {[''releases''], [''tmp'']} \<union> range tmp_dir_of \<union> range release_dir_of.
        fs p = None \<or> fs p = Some Dir) \<and>
     (\<forall>i. fs (config_of (tmp_dir_of i)) = None \<or> (\<exists>b. fs (config_of (tmp_dir_of i)) = Some (File b))) \<and>
     (\<forall>p \<in> {active, active_next}. fs p = None \<or> (\<exists>t. fs p = Some (Symlink t)))"

definition no_faults :: "host \<Rightarrow> bool" where
  "no_faults H \<longleftrightarrow> (\<forall>k. \<not> h_fault H k)"

definition runs :: "('s \<Rightarrow> bool) \<Rightarrow> ('s, 'a, 'e) op \<Rightarrow> ('a \<Rightarrow> 's \<Rightarrow> bool) \<Rightarrow> bool" where
  "runs P m Q \<longleftrightarrow> (\<forall>s. P s \<longrightarrow> (\<exists>a s'. m s = (Ok a, s') \<and> Q a s'))"

text \<open>What holds after an operation that returned a value.\<close>

definition on_ok :: "('s \<Rightarrow> bool) \<Rightarrow> ('s, 'a, 'e) op \<Rightarrow> ('a \<Rightarrow> 's \<Rightarrow> bool) \<Rightarrow> bool" where
  "on_ok P m Q \<longleftrightarrow> (\<forall>s a s'. P s \<longrightarrow> m s = (Ok a, s') \<longrightarrow> Q a s')"

text \<open>The commands a runner accepts from a sequence of envelopes.\<close>

fun runner_run ::
  "libs \<Rightarrow> host \<Rightarrow> (env \<times> signed_runner_command) list \<Rightarrow> local_runner
    \<Rightarrow> runner_command list \<times> local_runner" where
  "runner_run L H [] r = ([], r)"
| "runner_run L H ((e, x) # xs) r =
     (let r' = snd (runner_apply L H e x r); (cs, r'') = runner_run L H xs r' in
      (case fst (command_verify L x (lr_control_plane_key r) (lr_node_id r) (lr_last_sequence r)
               (lr_seen_nonces r) (utc_now e 0)) of
         Ok c \<Rightarrow> c # cs | Err _ \<Rightarrow> cs, r''))"

section \<open>Operations on the disk\<close>

lemmas path_defs = active_def active_next_def release_dir_of_def tmp_dir_of_def config_of_def

lemma triple_io:
  "(\<And>k fs. P fs \<Longrightarrow> Q (bad k fs)) \<Longrightarrow> (\<And>fs. P fs \<Longrightarrow> Q (snd (f fs)))
    \<Longrightarrow> triple (\<lambda>d. P (d_files d)) (io H bad f) (\<lambda>d. Q (d_files d))"
  by (auto intro!: tripleI simp: io_def split: prod.splits) (metis snd_conv)

lemma triple_attempt: "triple P m Q \<Longrightarrow> triple P (attempt m) Q"
  by (auto simp: triple_def attempt_def split: prod.splits)

lemma ancestors_simps [simp]:
  "ancestors (tmp_dir_of i) = [[], [''tmp''], tmp_dir_of i]"
  "ancestors [''releases''] = [[], [''releases'']]"
  by (simp_all add: tmp_dir_of_def)

text \<open>Reading operations leave the files as they are.\<close>

lemma reading_keeps_files [simp]:
  "d_files (snd (metadata H p d)) = d_files d" "d_files (snd (symlink_metadata H p d)) = d_files d"
  "d_files (snd (read_link H p d)) = d_files d" "d_files (snd (path_exists H p d)) = d_files d"
  "d_files (snd (path_present H p d)) = d_files d"
  by (auto simp: metadata_def symlink_metadata_def read_link_def path_exists_def path_present_def
      io_def attempt_def and_then_def return_op_def
      split: option.splits fs_node.splits prod.splits if_splits)

lemma read_then_return_files [simp]:
  "(\<And>d. d_files (snd (m d)) = d_files d) \<Longrightarrow>
    d_files (snd (and_then m (\<lambda>a. return_op (f a)) d)) = d_files d"
  by (cases "m d"; cases "fst (m d)") (auto simp: and_then_def return_op_def dest: meta_spec [of _ d])

lemma run_core_command_disk [simp]: "snd (run_core_command H c i d) = d"
  by (simp add: run_core_command_def split: result.splits)

lemma run_core_commands_disk [simp]: "snd (run_core_commands H i cs d) = d"
proof (induction H i cs arbitrary: d rule: run_core_commands.induct)
  case (3 H i label c cs)
  then show ?case
    by (cases "run_core_command H c i d")
       (auto simp: and_then_def attempt_def return_op_def split: result.splits
         dest: arg_cong [where f = snd])
qed (simp_all add: return_op_def)

lemma xray_test_disk [simp]: "snd (xray_test H p d) = d"
  by (simp add: xray_test_def split: option.splits fs_node.splits)

lemma triple_reads:
  "(\<And>d. d_files (snd (m d)) = d_files d) \<Longrightarrow> triple (\<lambda>d. P (d_files d)) m (\<lambda>d. P (d_files d))"
  by (simp add: triple_def)

lemma triple_cond: "(b \<Longrightarrow> triple P m Q) \<Longrightarrow> (\<not> b \<Longrightarrow> triple P m' Q) \<Longrightarrow> triple P (if b then m else m') Q"
  by simp

section \<open>Releases are tested\<close>

text \<open>The invariant survives losing entries, new directories, and writes in the staging area.\<close>

lemma tested_shrink: "tested H fs \<Longrightarrow> (\<And>q. fs' q = fs q \<or> fs' q = None) \<Longrightarrow> tested H fs'"
  unfolding tested_def by (metis option.distinct(1))

lemma tested_update_other:
  assumes "tested H fs" and "\<And>q. fs' q \<noteq> fs q \<Longrightarrow> q \<notin> {active, active_next} \<and>
    (\<forall>i. q \<noteq> config_of (release_dir_of i))"
  shows "tested H fs'"
  using assms unfolding tested_def by (metis insertCI)

lemma create_dir_all_tested:
  assumes "\<And>q. q \<in> set (ancestors p) \<Longrightarrow> q \<notin> {active, active_next} \<and>
    (\<forall>i. q \<noteq> config_of (release_dir_of i))"
  shows "triple (\<lambda>d. tested H (d_files d)) (create_dir_all H p) (\<lambda>d. tested H (d_files d))"
proof -
  have "active \<notin> set (ancestors p)" "active_next \<notin> set (ancestors p)"
      "config_of (release_dir_of i) \<notin> set (ancestors p)" for i
    using assms by blast+
  then show ?thesis
    unfolding create_dir_all_def
    by (intro triple_io) (auto elim!: tested_update_other split: if_splits)
qed

lemma tmp_ancestors_elsewhere:
  "q \<in> set (ancestors (tmp_dir_of i)) \<Longrightarrow> q \<notin> {active, active_next} \<and>
    (\<forall>i. q \<noteq> config_of (release_dir_of i))"
  "q \<in> set (ancestors [''releases'']) \<Longrightarrow> q \<notin> {active, active_next} \<and>
    (\<forall>i. q \<noteq> config_of (release_dir_of i))"
  by (auto simp: path_defs)

lemma write_staging_tested:
  "triple (\<lambda>d. tested H (d_files d)) (write_file H (config_of (tmp_dir_of i)) b)
    (\<lambda>d. tested H (d_files d))"
  unfolding write_file_def
  by (rule triple_io)
     (auto elim!: tested_update_other simp: path_defs split: option.splits fs_node.splits if_splits)

lemma stage_config_tested:
  "triple (\<lambda>d. tested H (d_files d)) (stage_config L H i c) (\<lambda>d. tested H (d_files d))"
  unfolding stage_config_def Let_def
  by (intro triple_keeps_and_then create_dir_all_tested tmp_ancestors_elsewhere triple_units
      write_staging_tested [unfolded config_of_def] triple_reads) simp_all

lemma remove_file_tested:
  "triple (\<lambda>d. tested H (d_files d)) (remove_file H p) (\<lambda>d. tested H (d_files d))"
  unfolding remove_file_def
  by (rule triple_io) (auto elim!: tested_shrink split: option.splits fs_node.splits if_splits)

lemma remove_dir_all_tested:
  "triple (\<lambda>d. tested H (d_files d)) (remove_dir_all H p) (\<lambda>d. tested H (d_files d))"
  unfolding remove_dir_all_def
  by (rule triple_io) (auto elim!: tested_shrink split: option.splits fs_node.splits if_splits)

lemma symlink_tested:
  "triple (\<lambda>d. tested H (d_files d)) (symlink H (release_dir_of i) active_next)
    (\<lambda>d. tested H (d_files d))"
  unfolding symlink_def
  by (rule triple_io) (auto simp: tested_def path_defs)

lemma move_link_tested: "tested H fs \<Longrightarrow> tested H (move_tree active_next active fs)"
  unfolding tested_def move_tree_def path_defs by (auto simp: prefix_def split: if_splits)

lemma rename_link_tested:
  "triple (\<lambda>d. tested H (d_files d)) (rename H active_next active) (\<lambda>d. tested H (d_files d))"
  unfolding rename_def
  by (rule triple_io) (auto intro: move_link_tested split: option.splits fs_node.splits)

lemma switch_active_tested:
  "triple (\<lambda>d. tested H (d_files d)) (switch_active H (release_dir_of i)) (\<lambda>d. tested H (d_files d))"
  unfolding switch_active_def
  by (intro triple_keeps_and_then triple_cond triple_units triple_attempt remove_file_tested
      symlink_tested rename_link_tested triple_reads) simp_all

lemma run_core_commands_tested:
  "triple (\<lambda>d. tested H (d_files d)) (run_core_commands H i cs) (\<lambda>d. tested H (d_files d))"
  by (rule triple_reads) simp

text \<open>A link of the runner that was read leads to a release.\<close>

lemma attempt_eq: "attempt m d = (Ok (fst (m d)), snd (m d))"
  by (simp add: attempt_def split: prod.splits)

lemma read_link_eq:
  "fst (read_link H p d) = Ok t \<Longrightarrow> d_files d p = Some (Symlink t)"
  by (auto simp: read_link_def io_def split: option.splits fs_node.splits if_splits)

lemma rollback_after_tested:
  assumes "\<And>t. prev = Some t \<Longrightarrow> \<exists>j. t = release_dir_of j"
  shows "triple (\<lambda>d. tested H (d_files d)) (rollback_after_apply_failure H e i sha prev m)
    (\<lambda>d. tested H (d_files d))"
proof (cases prev)
  case None
  then show ?thesis
    unfolding rollback_after_apply_failure_def option.case
    by (simp, intro triple_keeps_and_then triple_cond triple_units triple_attempt
        remove_file_tested triple_reads) simp_all
next
  case (Some t)
  then obtain j where "t = release_dir_of j" using assms by blast
  with Some show ?thesis
    unfolding rollback_after_apply_failure_def
    by (auto intro!: triple_keeps_and_then switch_active_tested triple_units)
qed

lemma activate_release_tested:
  "triple (\<lambda>d. tested H (d_files d)) (activate_release H e rl he i sha) (\<lambda>d. tested H (d_files d))"
proof (rule tripleI)
  fix d :: disk
  assume t: "tested H (d_files d)"
  let ?d = "snd (read_link H active d)" and ?link = "fst (read_link H active d)"
  let ?prev = "case ?link of Ok t \<Rightarrow> Some t | Err _ \<Rightarrow> None"
  have prev: "\<exists>j. u = release_dir_of j" if "?prev = Some u" for u
    using that t read_link_eq [of H active d u] unfolding tested_def
    by (auto split: result.splits)
  have "triple (\<lambda>d. tested H (d_files d))
      (and_then (switch_active H (release_dir_of i)) (\<lambda>_.
       and_then (run_core_commands H i
         [(''xray reload/restart command failed: '', rl),
          (''xray process health check failed: '', he)]) (\<lambda>failure.
       case failure of
         Some m \<Rightarrow> rollback_after_apply_failure H e i sha ?prev m
       | None \<Rightarrow> return_op (result_of e i Succeeded (success_message rl he) sha))))
      (\<lambda>d. tested H (d_files d))"
    by (intro triple_keeps_and_then switch_active_tested run_core_commands_tested)
       (auto split: option.split intro!: triple_units rollback_after_tested prev)
  from tripleD [OF this, of ?d] t
  show "tested H (d_files (snd (activate_release H e rl he i sha d)))"
    by (simp add: activate_release_def and_then_def [of "attempt (read_link H active)"] attempt_eq
        Let_def)
qed

section \<open>Publishing a tested configuration\<close>

lemma on_okI: "(\<And>s a s'. P s \<Longrightarrow> m s = (Ok a, s') \<Longrightarrow> Q a s') \<Longrightarrow> on_ok P m Q"
  by (simp add: on_ok_def)

lemma on_okD: "on_ok P m Q \<Longrightarrow> P s \<Longrightarrow> m s = (Ok a, s') \<Longrightarrow> Q a s'"
  by (simp add: on_ok_def)

lemma on_ok_and_then:
  assumes "on_ok P m R" and "\<And>a. on_ok (R a) (f a) Q"
  shows "on_ok P (and_then m f) Q"
proof (rule on_okI)
  fix s b t
  assume "P s" "and_then m f s = (Ok b, t)"
  then obtain a u where "m s = (Ok a, u)" "f a u = (Ok b, t)"
    by (auto simp: and_then_def split: prod.splits result.splits)
  with \<open>P s\<close> assms show "Q b t" by (blast dest: on_okD)
qed

lemma on_ok_triple: "triple P m Q \<Longrightarrow> on_ok P m (\<lambda>_. Q)"
  by (fastforce simp: triple_def on_ok_def)

lemma on_ok_return: "(\<And>s. P s \<Longrightarrow> Q a s) \<Longrightarrow> on_ok P (return_op a) Q"
  by (auto simp: on_ok_def return_op_def)

lemma on_ok_lift: "on_ok P (lift_result r) (\<lambda>a s. r = Ok a \<and> P s)"
  by (auto simp: on_ok_def lift_result_def)

lemma on_ok_io:
  "(\<And>fs a fs'. P fs \<Longrightarrow> f fs = (Ok a, fs') \<Longrightarrow> Q a fs')
    \<Longrightarrow> on_ok (\<lambda>d. P (d_files d)) (io H bad f) (\<lambda>a d. Q a (d_files d))"
  by (auto simp: on_ok_def io_def split: prod.splits if_splits)

lemma on_ok_cond:
  "(b \<Longrightarrow> on_ok P m Q) \<Longrightarrow> (\<not> b \<Longrightarrow> on_ok P m' Q) \<Longrightarrow> on_ok P (if b then m else m') Q"
  by simp

lemma on_ok_weaken:
  "on_ok P m Q \<Longrightarrow> (\<And>s. P' s \<Longrightarrow> P s) \<Longrightarrow> (\<And>a s. Q a s \<Longrightarrow> Q' a s) \<Longrightarrow> on_ok P' m Q'"
  unfolding on_ok_def by blast

lemma stage_config_ok:
  "on_ok (\<lambda>_. True) (stage_config L H i c)
    (\<lambda>out d. \<exists>b. to_vec_pretty L c = Ok b \<and> d_files d (config_of (tmp_dir_of i)) = Some (File b) \<and>
       h_xray H b = Ok out)"
proof -
  have wrote: "on_ok (\<lambda>d. to_vec_pretty L c = Ok b) (write_file H (config_of (tmp_dir_of i)) b)
      (\<lambda>_ d. to_vec_pretty L c = Ok b \<and> d_files d (config_of (tmp_dir_of i)) = Some (File b))" for b
    by (auto simp: on_ok_def write_file_def io_def split: prod.splits if_splits option.splits fs_node.splits)
  have xtest: "on_ok (\<lambda>d. to_vec_pretty L c = Ok b \<and>
        d_files d (config_of (tmp_dir_of i)) = Some (File b))
      (xray_test H (config_of (tmp_dir_of i)))
      (\<lambda>out d. \<exists>b. to_vec_pretty L c = Ok b \<and> d_files d (config_of (tmp_dir_of i)) = Some (File b) \<and>
        h_xray H b = Ok out)" for b
    by (auto simp: on_ok_def xray_test_def)
  have lift: "on_ok (\<lambda>_. True) (lift_result (to_vec_pretty L c)) (\<lambda>b d. to_vec_pretty L c = Ok b)"
    by (rule on_ok_weaken [OF on_ok_lift]) auto
  have make: "on_ok (\<lambda>_. True) (create_dir_all H (tmp_dir_of i)) (\<lambda>_ _. True)"
    by (simp add: on_ok_def)
  show ?thesis
    unfolding stage_config_def Let_def config_of_def [symmetric]
    by (intro on_ok_and_then [OF make] on_ok_and_then [OF lift] on_ok_and_then [OF wrote] xtest)
qed

lemma triple_conj:
  "triple P m P \<Longrightarrow> triple S m S \<Longrightarrow> triple (\<lambda>s. P s \<and> S s) m (\<lambda>s. P s \<and> S s)"
  by (auto simp: triple_def)

lemma remove_release_staged:
  "triple (\<lambda>d. staged H i b (d_files d)) (remove_dir_all G (release_dir_of i))
    (\<lambda>d. staged H i b (d_files d))"
  unfolding remove_dir_all_def
  by (rule triple_io) (auto simp: staged_def path_defs split: option.splits fs_node.splits)

lemma create_releases_staged:
  "triple (\<lambda>d. staged H i b (d_files d)) (create_dir_all G [''releases''])
    (\<lambda>d. staged H i b (d_files d))"
  unfolding create_dir_all_def
  by (rule triple_io) (auto simp: staged_def path_defs)

lemma move_release_tested:
  assumes "tested H fs" and "staged H i b fs"
  shows "tested H (move_tree (tmp_dir_of i) (release_dir_of i) fs)"
  using assms unfolding tested_def staged_def move_tree_def path_defs
  by (auto simp: prefix_def split: if_splits)

lemma rename_release_tested:
  "triple (\<lambda>d. tested H (d_files d) \<and> staged H i b (d_files d))
    (rename G (tmp_dir_of i) (release_dir_of i)) (\<lambda>d. tested H (d_files d))"
  unfolding rename_def
  by (rule triple_io)
     (auto intro: move_release_tested split: option.splits fs_node.splits)

lemma publish_release_tested:
  "triple (\<lambda>d. tested H (d_files d) \<and> staged H i b (d_files d)) (publish_release H i)
    (\<lambda>d. tested H (d_files d))"
  unfolding publish_release_def Let_def
  by (intro triple_and_then [where R = "\<lambda>d. tested H (d_files d) \<and> staged H i b (d_files d)"]
      triple_conj triple_cond rename_release_tested remove_release_staged create_releases_staged
      remove_dir_all_tested create_dir_all_tested tmp_ancestors_elsewhere triple_units
      triple_reads [where m = "path_exists H (release_dir_of i)"])
     simp_all

lemma apply_deployment_tested:
  "triple (\<lambda>d. tested H (d_files d)) (apply_deployment L H e rl he i sha c)
    (\<lambda>d. tested H (d_files d))"
proof (rule tripleI)
  fix d :: disk
  assume t: "tested H (d_files d)"
  obtain r d1 where st: "stage_config L H i c d = (r, d1)" by fastforce
  from tripleD [OF stage_config_tested, OF t, of L i c] st have t1: "tested H (d_files d1)" by simp
  show "tested H (d_files (snd (apply_deployment L H e rl he i sha c d)))"
  proof (cases "\<exists>out. r = Ok out \<and> po_success out")
    case True
    then obtain out where out: "r = Ok out" "po_success out" by blast
    from on_okD [OF stage_config_ok TrueI st [unfolded out(1)]] out(2)
    obtain b where "staged H i b (d_files d1)" by (auto simp: staged_def passes_def)
    with t1 have "tested H (d_files (snd (and_then (publish_release H i)
        (\<lambda>_. activate_release H e rl he i sha) d1)))"
      by (intro tripleD [OF triple_and_then [OF publish_release_tested activate_release_tested]]) auto
    with st out show ?thesis by (simp add: apply_deployment_def and_then_def)
  next
    case False
    from False st t1 show ?thesis
      by (cases r) (auto simp: apply_deployment_def and_then_def [of "stage_config L H i c"])
  qed
qed

lemma rollback_deployment_tested:
  "triple (\<lambda>d. tested H (d_files d)) (rollback_deployment H e i t sha) (\<lambda>d. tested H (d_files d))"
  unfolding rollback_deployment_def Let_def
  by (intro triple_keeps_and_then triple_cond switch_active_tested triple_units triple_reads) simp_all

lemma on_disk_eq:
  "fst (on_disk m r) = fst (m (lr_disk r))" "snd (on_disk m r) = r\<lparr>lr_disk := snd (m (lr_disk r))\<rparr>"
  by (simp_all add: on_disk_def split: prod.splits)

section \<open>The commands that are executed\<close>

lemma runner_apply_bookkeeping:
  assumes "command_verify L x (lr_control_plane_key r) (lr_node_id r) (lr_last_sequence r)
             (lr_seen_nonces r) (utc_now e 0) = (v, seen)"
  shows "lr_seen_nonces (snd (runner_apply L H e x r)) = seen"
    and "lr_last_sequence (snd (runner_apply L H e x r)) =
       (case v of Ok c \<Rightarrow> cmd_sequence c | Err _ \<Rightarrow> lr_last_sequence r)"
    and "lr_node_id (snd (runner_apply L H e x r)) = lr_node_id r"
    and "lr_control_plane_key (snd (runner_apply L H e x r)) = lr_control_plane_key r"
  using assms
  by (auto simp: runner_apply_def Let_def on_disk_eq split: result.splits runner_command_kind.splits)

lemma runner_run_trace:
  "sorted_wrt (<) (map cmd_sequence (fst (runner_run L H xs r))) \<and>
   distinct (map cmd_nonce (fst (runner_run L H xs r))) \<and>
   (\<forall>c \<in> set (fst (runner_run L H xs r)).
      lr_last_sequence r < cmd_sequence c \<and> cmd_nonce c \<notin> lr_seen_nonces r \<and>
      cmd_node_id c = lr_node_id r \<and>
      (\<exists>x \<in> snd ` set xs. src_command x = c \<and>
        (\<exists>sg m. hex_decode L (src_signature_hex x) = Some sg \<and> to_vec_command L c = Ok m \<and>
           ed_verify L (lr_control_plane_key r) m sg)))"
proof (induction xs arbitrary: r)
  case (Cons ex xs)
  obtain e x where ex: "ex = (e, x)" by fastforce
  obtain v seen where v: "command_verify L x (lr_control_plane_key r) (lr_node_id r)
      (lr_last_sequence r) (lr_seen_nonces r) (utc_now e 0) = (v, seen)" by fastforce
  note book = runner_apply_bookkeeping [OF v, of H]
  have mono: "lr_seen_nonces r \<subseteq> seen"
    using command_verify_seen_mono v by (metis snd_conv)
  show ?case
  proof (cases v)
    case (Ok c)
    with v have c: "c = src_command x" "seen = insert (cmd_nonce c) (lr_seen_nonces r)"
      "cmd_node_id c = lr_node_id r" "lr_last_sequence r < cmd_sequence c"
      "cmd_nonce c \<notin> lr_seen_nonces r"
      "\<exists>sg m. hex_decode L (src_signature_hex x) = Some sg \<and> to_vec_command L c = Ok m \<and>
         ed_verify L (lr_control_plane_key r) m sg"
      by (auto simp: command_verify_Ok decode_signature_Ok)
    have "fst (runner_run L H (ex # xs) r) = c # fst (runner_run L H xs (snd (runner_apply L H e x r)))"
      using ex v Ok by (simp add: Let_def split: prod.splits)
    with Cons.IH [of "snd (runner_apply L H e x r)"] book Ok c ex show ?thesis
      by (fastforce simp: image_iff)
  next
    case (Err y)
    have "fst (runner_run L H (ex # xs) r) = fst (runner_run L H xs (snd (runner_apply L H e x r)))"
      using ex v Err by (simp add: Let_def split: prod.splits)
    with Cons.IH [of "snd (runner_apply L H e x r)"] book Err mono show ?thesis
      by (fastforce simp: image_iff)
  qed
qed simp

section \<open>What each operation leaves behind\<close>

text \<open>The switch touches nothing but \<open>active\<close> and \<open>active.next\<close>.\<close>

lemma remove_file_frame:
  "q \<noteq> p \<Longrightarrow> triple (\<lambda>d. d_files d q = v) (remove_file H p) (\<lambda>d. d_files d q = v)"
  unfolding remove_file_def by (rule triple_io) (auto split: option.splits fs_node.splits)

lemma symlink_frame:
  "q \<noteq> p \<Longrightarrow> triple (\<lambda>d. d_files d q = v) (symlink H t p) (\<lambda>d. d_files d q = v)"
  unfolding symlink_def by (rule triple_io) auto

lemma rename_frame:
  "\<not> prefix src q \<Longrightarrow> \<not> prefix dst q \<Longrightarrow>
    triple (\<lambda>d. d_files d q = v) (rename H src dst) (\<lambda>d. d_files d q = v)"
  unfolding rename_def by (rule triple_io) (auto simp: move_tree_def split: option.splits fs_node.splits)

lemma read_frame:
  "(\<And>d. d_files (snd (m d)) = d_files d) \<Longrightarrow> triple (\<lambda>d. d_files d q = v) m (\<lambda>d. d_files d q = v)"
  by (simp add: triple_def)

lemma switch_active_frame:
  assumes "\<not> prefix active q" and "\<not> prefix active_next q"
  shows "triple (\<lambda>d. d_files d q = v) (switch_active H t) (\<lambda>d. d_files d q = v)"
proof -
  from assms have "q \<noteq> active" "q \<noteq> active_next" by auto
  with assms show ?thesis
    unfolding switch_active_def
    by (intro triple_keeps_and_then triple_cond triple_units triple_attempt remove_file_frame
        symlink_frame rename_frame read_frame) simp_all
qed

lemma switch_active_ok:
  "on_ok (\<lambda>_. True) (switch_active H t) (\<lambda>_ d. d_files d active = Some (Symlink t))"
proof -
  let ?N = "\<lambda>d. d_files d active_next = Some (Symlink t)"
  have link: "on_ok (\<lambda>_. True) (symlink H t active_next) (\<lambda>_. ?N)"
    by (auto simp: on_ok_def symlink_def io_def split: if_splits)
  have mv: "on_ok ?N (rename H active_next active) (\<lambda>_ d. d_files d active = Some (Symlink t))"
    by (auto simp: on_ok_def rename_def io_def move_tree_def path_defs
        split: if_splits option.splits fs_node.splits)
  have rm: "on_ok ?N (remove_file H active) (\<lambda>_. ?N)"
    by (rule on_ok_triple, rule remove_file_frame) (simp add: path_defs)
  have any: "on_ok (\<lambda>_. True) m (\<lambda>_ _. True)" for m :: "'a disk_op"
    by (simp add: on_ok_def)
  have read: "on_ok ?N (path_exists H active) (\<lambda>_. ?N)" "on_ok ?N (path_present H active) (\<lambda>_. ?N)"
    by (rule on_ok_triple, rule read_frame, simp)+
  show ?thesis
    unfolding switch_active_def
    by (intro on_ok_and_then [OF any] on_ok_and_then [OF link] on_ok_and_then [OF read(1)]
        on_ok_and_then [where R = "\<lambda>_. ?N"] on_ok_cond rm read mv on_ok_return)
qed

lemma create_dir_all_frame:
  "q \<notin> set (ancestors p) \<Longrightarrow> triple (\<lambda>d. d_files d q = v) (create_dir_all H p) (\<lambda>d. d_files d q = v)"
  unfolding create_dir_all_def by (rule triple_io) auto

lemma write_file_frame:
  "q \<noteq> p \<Longrightarrow> triple (\<lambda>d. d_files d q = v) (write_file H p b) (\<lambda>d. d_files d q = v)"
  unfolding write_file_def by (rule triple_io) (auto split: option.splits fs_node.splits)

text \<open>Staging writes only below \<open>tmp\<close>.\<close>

lemma stage_config_frame:
  assumes "q \<noteq> []" and "hd q \<noteq> ''tmp''"
  shows "triple (\<lambda>d. d_files d q = v) (stage_config L H i c) (\<lambda>d. d_files d q = v)"
proof -
  have q: "q \<notin> set (ancestors (tmp_dir_of i))" "q \<noteq> tmp_dir_of i @ [''config.json'']"
    using assms by (auto simp: tmp_dir_of_def)
  then show ?thesis
    unfolding stage_config_def Let_def
    by (intro triple_keeps_and_then triple_units create_dir_all_frame write_file_frame read_frame)
       simp_all
qed

text \<open>Publishing moves the staged configuration and leaves the links alone.\<close>

lemma remove_dir_all_frame:
  "\<not> prefix p q \<Longrightarrow> triple (\<lambda>d. d_files d q = v) (remove_dir_all H p) (\<lambda>d. d_files d q = v)"
  unfolding remove_dir_all_def by (rule triple_io) (auto split: option.splits fs_node.splits)

lemma publish_release_frame:
  assumes "q \<noteq> []" "q \<noteq> [''releases'']" "\<not> prefix (release_dir_of i) q" "\<not> prefix (tmp_dir_of i) q"
  shows "triple (\<lambda>d. d_files d q = v) (publish_release H i) (\<lambda>d. d_files d q = v)"
  using assms unfolding publish_release_def Let_def
  by (intro triple_keeps_and_then triple_cond triple_units rename_frame remove_dir_all_frame
      create_dir_all_frame read_frame) auto

lemma publish_release_ok:
  "on_ok (\<lambda>d. d_files d (config_of (tmp_dir_of i)) = Some (File b)) (publish_release H i)
    (\<lambda>_ d. d_files d (config_of (release_dir_of i)) = Some (File b))"
proof -
  let ?S = "\<lambda>d. d_files d (config_of (tmp_dir_of i)) = Some (File b)"
  have "on_ok ?S (rename H (tmp_dir_of i) (release_dir_of i))
      (\<lambda>_ d. d_files d (config_of (release_dir_of i)) = Some (File b))"
    by (auto simp: on_ok_def rename_def io_def move_tree_def path_defs
        split: if_splits option.splits fs_node.splits)
  moreover have "on_ok ?S (create_dir_all H [''releases'']) (\<lambda>_. ?S)"
    by (rule on_ok_triple, rule create_dir_all_frame) (auto simp: path_defs)
  moreover have "on_ok ?S (remove_dir_all H (release_dir_of i)) (\<lambda>_. ?S)"
    by (rule on_ok_triple, rule remove_dir_all_frame) (auto simp: path_defs)
  moreover have "on_ok ?S (path_exists H (release_dir_of i)) (\<lambda>_. ?S)"
    by (rule on_ok_triple, rule read_frame) simp
  ultimately show ?thesis
    unfolding publish_release_def Let_def
    by (intro on_ok_and_then [where R = "\<lambda>_. ?S"] on_ok_cond on_ok_return)
qed

text \<open>Activating ends in one of three ways.\<close>

lemma rollback_after_frame:
  assumes "\<not> prefix active q" and "\<not> prefix active_next q"
  shows "triple (\<lambda>d. d_files d q = v) (rollback_after_apply_failure H e i sha prev m)
    (\<lambda>d. d_files d q = v)"
proof -
  from assms have "q \<noteq> active" by auto
  with assms show ?thesis
    unfolding rollback_after_apply_failure_def
    by (auto split: option.split intro!: triple_keeps_and_then triple_units triple_attempt
        remove_file_frame read_frame [of "path_present H active"] switch_active_frame)
qed

lemma activate_release_frame:
  assumes "\<not> prefix active q" and "\<not> prefix active_next q"
  shows "triple (\<lambda>d. d_files d q = v) (activate_release H e rl he i sha) (\<lambda>d. d_files d q = v)"
proof -
  have fin: "triple (\<lambda>d. d_files d q = v) (case f of
       Some m \<Rightarrow> rollback_after_apply_failure H e i sha prev m
     | None \<Rightarrow> return_op x) (\<lambda>d. d_files d q = v)" for f prev x
    using rollback_after_frame [OF assms] triple_units(1) by (cases f) auto
  show ?thesis
    unfolding activate_release_def Let_def
    by (intro triple_keeps_and_then triple_attempt switch_active_frame assms fin
        read_frame [of "read_link H active"] read_frame [of "run_core_commands H i x" for x]) simp_all
qed

lemma result_of_status [simp]: "dr_status (result_of e i st m sha) = st"
  by (simp add: result_of_def)

lemma rollback_after_ok:
  "on_ok (\<lambda>_. True) (rollback_after_apply_failure H e i sha prev m)
    (\<lambda>res d. case prev of
        Some t \<Rightarrow> dr_status res = RolledBack \<and> d_files d active = Some (Symlink t)
      | None \<Rightarrow> dr_status res = Failed)"
proof (cases prev)
  case None
  have any: "on_ok (\<lambda>_. True) m (\<lambda>_ _. True)" for m :: "'a disk_op"
    by (simp add: on_ok_def)
  from None show ?thesis
    unfolding rollback_after_apply_failure_def
    by (simp, intro on_ok_and_then [OF any] on_ok_return) simp
next
  case (Some t)
  then show ?thesis
    unfolding rollback_after_apply_failure_def
    by (simp, intro on_ok_and_then [OF switch_active_ok] on_ok_return) simp
qed

lemma activate_release_ok:
  assumes "activate_release H e rl he i sha d = (Ok res, d')"
  shows "dr_status res = Succeeded \<and> d_files d' active = Some (Symlink (release_dir_of i))
    \<or> dr_status res = RolledBack \<and>
        (\<exists>t. d_files d active = Some (Symlink t) \<and> d_files d' active = Some (Symlink t))
    \<or> dr_status res = Failed"
proof -
  let ?link = "fst (read_link H active d)"
  let ?prev = "case ?link of Ok t \<Rightarrow> Some t | Err _ \<Rightarrow> None"
  let ?A = "\<lambda>d. d_files d active = Some (Symlink (release_dir_of i))"
  let ?Q = "\<lambda>res d'. dr_status res = Succeeded \<and> ?A d' \<or>
    (case ?prev of Some t \<Rightarrow> dr_status res = RolledBack \<and> d_files d' active = Some (Symlink t)
     | None \<Rightarrow> dr_status res = Failed)"
  have run: "on_ok ?A (run_core_commands H i cs) (\<lambda>_. ?A)" for cs
    by (rule on_ok_triple, rule read_frame) simp
  have fin: "on_ok ?A (case f of
       Some m \<Rightarrow> rollback_after_apply_failure H e i sha ?prev m
     | None \<Rightarrow> return_op (result_of e i Succeeded x sha)) ?Q" for f x
  proof (cases f)
    case None
    then show ?thesis by (auto intro: on_ok_return)
  next
    case (Some m)
    then show ?thesis
      using on_ok_weaken [OF rollback_after_ok [of H e i sha ?prev m], of ?A ?Q] by simp
  qed
  have "on_ok (\<lambda>_. True)
      (and_then (switch_active H (release_dir_of i)) (\<lambda>_.
       and_then (run_core_commands H i
         [(''xray reload/restart command failed: '', rl),
          (''xray process health check failed: '', he)]) (\<lambda>failure.
       case failure of
         Some m \<Rightarrow> rollback_after_apply_failure H e i sha ?prev m
       | None \<Rightarrow> return_op (result_of e i Succeeded (success_message rl he) sha)))) ?Q"
    by (intro on_ok_and_then [OF switch_active_ok] on_ok_and_then [OF run] fin)
  from on_okD [OF this TrueI, of "snd (read_link H active d)" res d'] assms have "?Q res d'"
    by (simp add: activate_release_def and_then_def [of "attempt (read_link H active)"] attempt_eq
        Let_def)
  then show ?thesis
    using read_link_eq [of H active d] by (cases ?link) auto
qed

lemma apply_deployment_cases:
  assumes "apply_deployment L H e rl he i sha c d = (Ok res, d')"
  obtains (refused) out d1 where "stage_config L H i c d = (Ok out, d1)" "\<not> po_success out"
      "dr_status res \<noteq> Succeeded" "d_files d' = d_files d1"
    | (activated) out d1 d2 where "stage_config L H i c d = (Ok out, d1)" "po_success out"
      "publish_release H i d1 = (Ok (), d2)" "activate_release H e rl he i sha d2 = (Ok res, d')"
proof -
  from assms obtain out d1 where st: "stage_config L H i c d = (Ok out, d1)"
    by (auto simp: apply_deployment_def and_then_def split: prod.splits result.splits)
  show ?thesis
  proof (cases "po_success out")
    case True
    with assms st obtain u d2 where "publish_release H i d1 = (Ok u, d2)"
        "activate_release H e rl he i sha d2 = (Ok res, d')"
      by (auto simp: apply_deployment_def and_then_def split: prod.splits result.splits)
    with st True activated show ?thesis by simp
  next
    case False
    with assms st have "and_then (path_present H active) (\<lambda>rolled_back.
        return_op (result_of e i (if rolled_back then RolledBack else Failed)
          (test_failure_message out rolled_back) sha)) d1 = (Ok res, d')"
      by (simp add: apply_deployment_def and_then_def [of "stage_config L H i c"])
    then obtain a where "path_present H active d1 = (Ok a, d')"
      and a: "res = result_of e i (if a then RolledBack else Failed) (test_failure_message out a) sha"
      by (auto simp: and_then_def return_op_def split: prod.splits result.splits)
    then have "d_files d' = d_files d1"
      using reading_keeps_files(5) [of H active d1] by simp
    moreover from a have "dr_status res \<noteq> Succeeded" by simp
    ultimately show ?thesis using st False refused by blast
  qed
qed

end
