(* ===== verification/Runner_Layout.thy ===== *)
theory Runner_Layout
  imports Runner_Lemmas
begin

text \<open>
  The work directory keeps its shape under every fault (\<open>layout\<close>), and from that shape a run
  without faults always reaches its end (\<open>runs\<close>).
\<close>

definition runner_inv :: "host \<Rightarrow> local_runner \<Rightarrow> bool" where
  "runner_inv H r \<longleftrightarrow> tested H (d_files (lr_disk r)) \<and> layout (d_files (lr_disk r))"

text \<open>The reload and health commands of the runner, where they are configured, succeed.\<close>

definition core_succeeds :: "host \<Rightarrow> string option \<Rightarrow> string \<Rightarrow> bool" where
  "core_succeeds H cmd i \<longleftrightarrow>
     (\<forall>c fs. cmd = Some c \<longrightarrow> (\<exists>out. h_core H c i fs = Ok out \<and> po_success out))"

section \<open>The layout is kept\<close>

lemma layout_shrink:
  assumes "layout fs" and "\<And>q. fs' q = fs q \<or> fs' q = None" and "fs' [] = fs []"
  shows "layout fs'"
proof -
  have keep: "fs' q = None \<or> P (fs' q)" if "fs q = None \<or> P (fs q)" for P q
    using that assms(2) [of q] by auto
  show ?thesis
    unfolding layout_def
  proof (intro conjI ballI allI)
    show "fs' [] = Some Dir" using assms(1,3) by (simp add: layout_def)
  next
    fix p assume "p \<in> {[''releases''], [''tmp'']} \<union> range tmp_dir_of \<union> range release_dir_of"
    with assms(1) show "fs' p = None \<or> fs' p = Some Dir"
      by (intro keep [of p "\<lambda>x. x = Some Dir"]) (auto simp: layout_def)
  next
    fix i
    from assms(1) show "fs' (config_of (tmp_dir_of i)) = None \<or>
        (\<exists>b. fs' (config_of (tmp_dir_of i)) = Some (File b))"
      by (intro keep [of _ "\<lambda>x. \<exists>b. x = Some (File b)"]) (simp add: layout_def)
  next
    fix p assume "p \<in> {active, active_next}"
    with assms(1) show "fs' p = None \<or> (\<exists>t. fs' p = Some (Symlink t))"
      by (intro keep [of p "\<lambda>x. \<exists>t. x = Some (Symlink t)"]) (auto simp: layout_def)
  qed
qed

lemma remove_file_layout:
  "p \<noteq> [] \<Longrightarrow> triple (\<lambda>d. layout (d_files d)) (remove_file H p) (\<lambda>d. layout (d_files d))"
  unfolding remove_file_def
  by (rule triple_io) (auto elim!: layout_shrink split: option.splits fs_node.splits if_splits)

lemma remove_dir_all_layout:
  "p \<noteq> [] \<Longrightarrow> triple (\<lambda>d. layout (d_files d)) (remove_dir_all H p) (\<lambda>d. layout (d_files d))"
  unfolding remove_dir_all_def
  by (rule triple_io) (auto elim!: layout_shrink split: option.splits fs_node.splits if_splits)

lemma create_dir_all_layout:
  assumes "\<And>i. config_of (tmp_dir_of i) \<notin> set (ancestors p)"
    and "active \<notin> set (ancestors p)" "active_next \<notin> set (ancestors p)"
  shows "triple (\<lambda>d. layout (d_files d)) (create_dir_all H p) (\<lambda>d. layout (d_files d))"
  unfolding create_dir_all_def using assms
  by (intro triple_io) (auto simp: layout_def)

lemma write_staging_layout:
  "triple (\<lambda>d. layout (d_files d)) (write_file H (config_of (tmp_dir_of i)) b)
    (\<lambda>d. layout (d_files d))"
  unfolding write_file_def
  by (rule triple_io)
     (auto simp: layout_def path_defs split: option.splits fs_node.splits if_splits)

lemma symlink_layout:
  "triple (\<lambda>d. layout (d_files d)) (symlink H t active_next) (\<lambda>d. layout (d_files d))"
  unfolding symlink_def by (rule triple_io) (auto simp: layout_def path_defs)

lemma move_layout:
  "layout fs \<Longrightarrow> fs active_next \<noteq> None \<Longrightarrow> layout (move_tree active_next active fs)"
  "layout fs \<Longrightarrow> layout (move_tree (tmp_dir_of i) (release_dir_of i) fs)"
  unfolding layout_def move_tree_def path_defs by (auto simp: prefix_def)

lemma rename_layout:
  "triple (\<lambda>d. layout (d_files d)) (rename H active_next active) (\<lambda>d. layout (d_files d))"
  "triple (\<lambda>d. layout (d_files d)) (rename H (tmp_dir_of i) (release_dir_of i))
    (\<lambda>d. layout (d_files d))"
  unfolding rename_def
  by (rule triple_io; auto intro: move_layout split: option.splits fs_node.splits)+

lemma links_not_root [simp]: "active \<noteq> []" "active_next \<noteq> []" "release_dir_of i \<noteq> []"
  by (simp_all add: path_defs)

lemma butlast_active: "butlast active = []"
  by (simp add: active_def)

lemma butlast_release: "butlast (release_dir_of i) = [''releases'']"
  by (simp add: release_dir_of_def)

lemma layout_paths:
  "config_of (tmp_dir_of j) \<notin> set (ancestors (tmp_dir_of i))"
  "active \<notin> set (ancestors (tmp_dir_of i))" "active_next \<notin> set (ancestors (tmp_dir_of i))"
  "config_of (tmp_dir_of j) \<notin> set (ancestors [''releases''])"
  "active \<notin> set (ancestors [''releases''])" "active_next \<notin> set (ancestors [''releases''])"
  by (simp_all add: path_defs)

lemmas layout_ops = triple_keeps_and_then triple_cond triple_units triple_attempt
  remove_file_layout remove_dir_all_layout create_dir_all_layout write_staging_layout symlink_layout
  rename_layout layout_paths links_not_root

lemma switch_active_layout:
  "triple (\<lambda>d. layout (d_files d)) (switch_active H t) (\<lambda>d. layout (d_files d))"
  unfolding switch_active_def by (intro layout_ops triple_reads) simp_all

lemma stage_config_layout:
  "triple (\<lambda>d. layout (d_files d)) (stage_config L H i c) (\<lambda>d. layout (d_files d))"
  unfolding stage_config_def Let_def config_of_def [symmetric]
  by (intro layout_ops triple_reads) simp_all

lemma publish_release_layout:
  "triple (\<lambda>d. layout (d_files d)) (publish_release H i) (\<lambda>d. layout (d_files d))"
  unfolding publish_release_def Let_def by (intro layout_ops triple_reads) simp_all

lemma rollback_after_layout:
  "triple (\<lambda>d. layout (d_files d)) (rollback_after_apply_failure H e i sha prev m)
    (\<lambda>d. layout (d_files d))"
  unfolding rollback_after_apply_failure_def
  by (auto split: option.split intro!: layout_ops switch_active_layout
      triple_reads [of "path_present H active"])

lemma activate_release_layout:
  "triple (\<lambda>d. layout (d_files d)) (activate_release H e rl he i sha) (\<lambda>d. layout (d_files d))"
proof -
  have "triple (\<lambda>d. layout (d_files d)) (case f of
       Some m \<Rightarrow> rollback_after_apply_failure H e i sha prev m
     | None \<Rightarrow> return_op x) (\<lambda>d. layout (d_files d))" for f prev x
    using rollback_after_layout triple_units(1) by (cases f) auto
  then show ?thesis
    unfolding activate_release_def Let_def
    by (intro triple_keeps_and_then triple_attempt switch_active_layout
        triple_reads [of "read_link H active"] triple_reads [of "run_core_commands H i x" for x])
       simp_all
qed

lemma apply_deployment_layout:
  "triple (\<lambda>d. layout (d_files d)) (apply_deployment L H e rl he i sha c) (\<lambda>d. layout (d_files d))"
  unfolding apply_deployment_def
  by (intro triple_keeps_and_then triple_cond stage_config_layout publish_release_layout
      activate_release_layout triple_units triple_reads [of "path_present H active"]) simp_all

lemma rollback_deployment_layout:
  "triple (\<lambda>d. layout (d_files d)) (rollback_deployment H e i t sha) (\<lambda>d. layout (d_files d))"
  unfolding rollback_deployment_def Let_def
  by (intro triple_keeps_and_then triple_cond switch_active_layout triple_units
      triple_reads [of "path_present H (release_dir_of t)"]) simp_all

section \<open>The invariant of a runner\<close>

lemma runner_apply_inv: "runner_inv H r \<Longrightarrow> runner_inv H (snd (runner_apply L H e x r))"
  using tripleD [OF apply_deployment_tested] tripleD [OF rollback_deployment_tested]
    tripleD [OF apply_deployment_layout] tripleD [OF rollback_deployment_layout]
  by (auto simp: runner_inv_def runner_apply_def Let_def on_disk_eq
      split: prod.splits result.splits runner_command_kind.splits)

lemma runner_run_inv: "runner_inv H r \<Longrightarrow> runner_inv H (snd (runner_run L H xs r))"
  by (induction L H xs r rule: runner_run.induct)
     (auto simp: Let_def runner_apply_inv split: prod.splits)

section \<open>A run without faults ends\<close>

lemma runsI: "(\<And>s. P s \<Longrightarrow> \<exists>a s'. m s = (Ok a, s') \<and> Q a s') \<Longrightarrow> runs P m Q"
  by (simp add: runs_def)

lemma runsD: "runs P m Q \<Longrightarrow> P s \<Longrightarrow> \<exists>a s'. m s = (Ok a, s') \<and> Q a s'"
  by (simp add: runs_def)

lemma runs_and_then:
  assumes "runs P m R" and "\<And>a. runs (R a) (f a) Q"
  shows "runs P (and_then m f) Q"
proof (rule runsI)
  fix s assume "P s"
  with assms(1) obtain a t where "m s = (Ok a, t)" "R a t" by (blast dest: runsD)
  moreover from this assms(2) obtain b u where "f a t = (Ok b, u)" "Q b u" by (blast dest: runsD)
  ultimately show "\<exists>b u. and_then m f s = (Ok b, u) \<and> Q b u" by (simp add: and_then_def)
qed

lemma runs_return: "(\<And>s. P s \<Longrightarrow> Q a s) \<Longrightarrow> runs P (return_op a) Q"
  by (simp add: runs_def return_op_def)

lemma runs_cond: "(b \<Longrightarrow> runs P m Q) \<Longrightarrow> (\<not> b \<Longrightarrow> runs P m' Q) \<Longrightarrow> runs P (if b then m else m') Q"
  by simp

lemma runs_weaken:
  "runs P m Q \<Longrightarrow> (\<And>s. P' s \<Longrightarrow> P s) \<Longrightarrow> (\<And>a s. Q a s \<Longrightarrow> Q' a s) \<Longrightarrow> runs P' m Q'"
  unfolding runs_def by blast

lemma runs_io:
  assumes "no_faults H" and "\<And>fs. P fs \<Longrightarrow> \<exists>a fs'. f fs = (Ok a, fs') \<and> Q a fs'"
  shows "runs (\<lambda>d. P (d_files d)) (io H bad f) (\<lambda>a d. Q a (d_files d))"
proof (rule runsI)
  fix d :: disk assume "P (d_files d)"
  from assms(2) [OF this] obtain a fs' where "f (d_files d) = (Ok a, fs')" "Q a fs'" by blast
  with assms(1) show "\<exists>a d'. io H bad f d = (Ok a, d') \<and> Q a (d_files d')"
    by (simp add: io_def no_faults_def)
qed

text \<open>The two probes of \<open>switch_active\<close> together say whether the entry is there.\<close>

lemma runs_probe:
  assumes "no_faults H" and "runs (\<lambda>d. P (d_files d) \<and> d_files d p \<noteq> None) (f True) Q"
    and "runs (\<lambda>d. P (d_files d) \<and> d_files d p = None) (f False) Q"
  shows "runs (\<lambda>d. P (d_files d))
    (and_then (path_exists H p) (\<lambda>e. and_then (if e then return_op True else path_present H p) f)) Q"
proof (intro runs_and_then)
  let ?R = "\<lambda>e d. P (d_files d) \<and> (e \<longrightarrow> d_files d p \<noteq> None)"
  show "runs (\<lambda>d. P (d_files d)) (path_exists H p) ?R"
    using assms(1) by (auto simp: runs_def path_exists_def metadata_def io_def no_faults_def
        and_then_def attempt_def return_op_def split: option.splits fs_node.splits)
  fix e
  show "runs (?R e) (if e then return_op True else path_present H p)
      (\<lambda>there d. P (d_files d) \<and> there = (d_files d p \<noteq> None))"
    using assms(1) by (auto simp: runs_def path_present_def symlink_metadata_def io_def no_faults_def
        and_then_def attempt_def return_op_def)
next
  fix there
  show "runs (\<lambda>d. P (d_files d) \<and> there = (d_files d p \<noteq> None)) (f there) Q"
    by (cases there) (use assms(2,3) in simp_all)
qed

lemma runs_on_ok: "runs P m R \<Longrightarrow> on_ok P m Q \<Longrightarrow> runs P m (\<lambda>a s. R a s \<and> Q a s)"
  unfolding runs_def on_ok_def by blast

lemma layout_links:
  "layout fs \<Longrightarrow> fs [] = Some Dir"
  "layout fs \<Longrightarrow> p \<in> {active, active_next} \<Longrightarrow> fs p \<noteq> None \<Longrightarrow> \<exists>t. fs p = Some (Symlink t)"
  by (auto simp: layout_def)

lemma layout_config:
  "layout fs \<Longrightarrow> fs (config_of (tmp_dir_of i)) = None \<or> (\<exists>b. fs (config_of (tmp_dir_of i)) = Some (File b))"
  by (simp add: layout_def)

lemma remove_link_runs:
  assumes "no_faults H" and "p \<in> {active, active_next}" and "q \<noteq> p"
  shows "runs (\<lambda>d. (layout (d_files d) \<and> d_files d q = v) \<and> d_files d p \<noteq> None) (remove_file H p)
    (\<lambda>_ d. layout (d_files d) \<and> d_files d q = v \<and> d_files d p = None)"
proof -
  from assms(2) have "p \<noteq> []" by (auto simp: path_defs)
  then have keep: "layout (fs(p := None))" if "layout fs" for fs
    using that layout_shrink [of fs "fs(p := None)"] by auto
  show ?thesis
    unfolding remove_file_def
  proof (rule runs_io [OF assms(1)])
    fix fs assume "(layout fs \<and> fs q = v) \<and> fs p \<noteq> None"
    moreover from this obtain t where "fs p = Some (Symlink t)"
      using layout_links(2) assms(2) by blast
    ultimately show "\<exists>a fs'. (case fs p of None \<Rightarrow> (Err ''not found'', fs)
        | Some Dir \<Rightarrow> (Err ''is a directory'', fs) | Some _ \<Rightarrow> (Ok (), fs(p := None))) = (Ok a, fs') \<and>
        layout fs' \<and> fs' q = v \<and> fs' p = None"
      using keep assms(3) by auto
  qed
qed

lemma runs_attempt: "runs P m Q \<Longrightarrow> runs P (attempt m) (\<lambda>_ s. \<exists>a. Q a s)"
  by (fastforce simp: runs_def attempt_eq)

lemma switch_active_runs:
  assumes "no_faults H"
  shows "runs (\<lambda>d. layout (d_files d)) (switch_active H t) (\<lambda>_ d. layout (d_files d))"
proof -
  have ne: "active \<noteq> active_next" by (simp add: path_defs)
  let ?N = "\<lambda>fs. layout fs \<and> fs active_next = Some (Symlink t)"
  have mv: "runs (\<lambda>d. layout (d_files d) \<and> d_files d active_next = Some (Symlink t) \<and>
      d_files d active = None) (rename H active_next active) (\<lambda>_ d. layout (d_files d))"
    unfolding rename_def
    by (rule runs_io [OF assms]) (auto simp: move_layout butlast_active dest: layout_links(1))
  have link: "runs (\<lambda>d. layout (d_files d) \<and> d_files d active_next = None)
      (symlink H t active_next) (\<lambda>_ d. ?N (d_files d))"
    unfolding symlink_def
    by (rule runs_io [OF assms]) (auto simp: layout_def path_defs)
  have rm: "runs (\<lambda>d. ?N (d_files d) \<and> d_files d active \<noteq> None) (remove_file H active)
      (\<lambda>_ d. layout (d_files d) \<and> d_files d active_next = Some (Symlink t) \<and> d_files d active = None)"
    using remove_link_runs [OF assms, of active active_next] ne by simp
  have stale: "runs (\<lambda>d. layout (d_files d) \<and> d_files d active_next \<noteq> None)
      (attempt (remove_file H active_next)) (\<lambda>_ d. layout (d_files d) \<and> d_files d active_next = None)"
  proof (rule runsI)
    fix d :: disk assume "layout (d_files d) \<and> d_files d active_next \<noteq> None"
    with runsD [OF runs_attempt [OF remove_link_runs
        [OF assms, of active_next active "d_files d active"]], of d] ne
    show "\<exists>a d'. attempt (remove_file H active_next) d = (Ok a, d') \<and>
        layout (d_files d') \<and> d_files d' active_next = None"
      by auto
  qed
  have tail: "runs (\<lambda>d. layout (d_files d) \<and> d_files d active_next = None)
      (and_then (symlink H t active_next) (\<lambda>_.
       and_then (path_exists H active) (\<lambda>a.
       and_then (if a then return_op True else path_present H active) (\<lambda>there.
       and_then (if there then remove_file H active else return_op ()) (\<lambda>_.
       rename H active_next active)))))
      (\<lambda>_ d. layout (d_files d))"
    by (intro runs_and_then [OF link] runs_probe [OF assms] runs_and_then [OF _ mv] runs_cond rm
        runs_return) auto
  show ?thesis
    unfolding switch_active_def
    by (intro runs_probe [OF assms, of layout] runs_and_then [OF _ tail] runs_cond
        runs_and_then [OF stale] runs_return) auto
qed

lemma stage_config_runs:
  assumes "no_faults H" and "to_vec_pretty L c = Ok b" and "h_xray H b = Ok out"
  shows "runs (\<lambda>d. layout (d_files d)) (stage_config L H i c)
    (\<lambda>out' d. out' = out \<and> layout (d_files d) \<and> d_files d (tmp_dir_of i) = Some Dir)"
proof -
  let ?D = "\<lambda>fs. layout fs \<and> fs (tmp_dir_of i) = Some Dir"
  let ?C = "config_of (tmp_dir_of i)"
  have make: "runs (\<lambda>d. layout (d_files d)) (create_dir_all H (tmp_dir_of i)) (\<lambda>_ d. ?D (d_files d))"
    unfolding create_dir_all_def
    by (rule runs_io [OF assms(1)]) (auto simp: layout_def path_defs)
  have lift: "runs (\<lambda>d. ?D (d_files d)) (lift_result (to_vec_pretty L c))
      (\<lambda>r d. r = b \<and> ?D (d_files d))"
    using assms(2) by (simp add: runs_def lift_result_def)
  have wrote: "runs (\<lambda>d. r = b \<and> ?D (d_files d)) (write_file H ?C r)
      (\<lambda>_ d. ?D (d_files d) \<and> d_files d ?C = Some (File b))" for r
    unfolding write_file_def
  proof (rule runs_io [OF assms(1)], elim conjE)
    fix fs assume fs: "r = b" "layout fs" "fs (tmp_dir_of i) = Some Dir"
    from layout_config [OF fs(2), of i] consider "fs ?C = None" | f where "fs ?C = Some (File f)" by metis
    moreover have "butlast ?C = tmp_dir_of i" by (simp add: path_defs)
    moreover have "layout (fs(?C \<mapsto> File b))" using fs(2) by (auto simp: layout_def path_defs)
    moreover have "tmp_dir_of i \<noteq> ?C" by (simp add: path_defs)
    ultimately show "\<exists>a fs'. (case fs ?C of None \<Rightarrow> if fs (butlast ?C) = Some Dir then (Ok (), fs(?C \<mapsto> File r))
          else (Err ''not found'', fs)
        | Some Dir \<Rightarrow> (Err ''is a directory'', fs)
        | Some (File _) \<Rightarrow> if fs (butlast ?C) = Some Dir then (Ok (), fs(?C \<mapsto> File r))
          else (Err ''not found'', fs)
        | Some (Symlink _) \<Rightarrow> (Err ''is a link'', fs)) = (Ok a, fs') \<and>
        ?D fs' \<and> fs' ?C = Some (File b)"
      using fs by cases auto
  qed
  have xtest: "runs (\<lambda>d. ?D (d_files d) \<and> d_files d ?C = Some (File b)) (xray_test H ?C)
      (\<lambda>out' d. out' = out \<and> ?D (d_files d))"
    using assms(3) by (simp add: runs_def xray_test_def)
  show ?thesis
    unfolding stage_config_def Let_def config_of_def [symmetric]
    by (intro runs_and_then [OF make] runs_and_then [OF lift] runs_and_then [OF wrote] xtest)
qed

lemma publish_release_runs:
  assumes "no_faults H"
  shows "runs (\<lambda>d. layout (d_files d) \<and> d_files d (tmp_dir_of i) = Some Dir) (publish_release H i)
    (\<lambda>_ d. layout (d_files d))"
proof -
  let ?D = "\<lambda>fs. layout fs \<and> fs (tmp_dir_of i) = Some Dir"
  have ex: "runs (\<lambda>d. ?D (d_files d)) (path_exists H (release_dir_of i))
      (\<lambda>e d. ?D (d_files d) \<and> (e \<longleftrightarrow> d_files d (release_dir_of i) = Some Dir) \<and>
        (\<not> e \<longrightarrow> d_files d (release_dir_of i) = None))"
    using assms by (auto simp: runs_def path_exists_def metadata_def io_def no_faults_def
        and_then_def attempt_def return_op_def layout_def split: option.splits fs_node.splits)
  let ?E = "\<lambda>fs. ?D fs \<and> fs (release_dir_of i) = None"
  have rm: "runs (\<lambda>d. ?D (d_files d) \<and> d_files d (release_dir_of i) = Some Dir)
      (remove_dir_all H (release_dir_of i)) (\<lambda>_ d. ?E (d_files d))"
    unfolding remove_dir_all_def
  proof (rule runs_io [OF assms])
    fix fs assume fs: "?D fs \<and> fs (release_dir_of i) = Some Dir"
    let ?fs = "\<lambda>q. if prefix (release_dir_of i) q then None else fs q"
    have "layout ?fs" using fs by (intro layout_shrink [of fs ?fs]) auto
    moreover have "\<not> prefix (release_dir_of i) (tmp_dir_of i)" by (simp add: path_defs)
    ultimately show "\<exists>a fs'. (case fs (release_dir_of i) of None \<Rightarrow> (Err ''not found'', fs)
        | Some Dir \<Rightarrow> (Ok (), ?fs) | Some (File x) \<Rightarrow> (Err ''not a directory'', fs)
        | Some (Symlink x) \<Rightarrow> (Ok (), fs(release_dir_of i := None))) = (Ok a, fs') \<and> ?E fs'"
      using fs by auto
  qed
  have mk: "runs (\<lambda>d. ?E (d_files d)) (create_dir_all H [''releases''])
      (\<lambda>_ d. ?E (d_files d) \<and> d_files d [''releases''] = Some Dir)"
    unfolding create_dir_all_def
    by (rule runs_io [OF assms]) (auto simp: layout_def path_defs)
  have mv: "runs (\<lambda>d. ?E (d_files d) \<and> d_files d [''releases''] = Some Dir)
      (rename H (tmp_dir_of i) (release_dir_of i)) (\<lambda>_ d. layout (d_files d))"
    unfolding rename_def
    by (rule runs_io [OF assms]) (auto simp: move_layout butlast_release)
  have clear: "runs (\<lambda>d. ?D (d_files d) \<and> (e \<longleftrightarrow> d_files d (release_dir_of i) = Some Dir) \<and>
        (\<not> e \<longrightarrow> d_files d (release_dir_of i) = None))
      (if e then remove_dir_all H (release_dir_of i) else return_op ()) (\<lambda>_ d. ?E (d_files d))" for e
    by (intro runs_cond runs_weaken [OF rm] runs_return) auto
  show ?thesis
    unfolding publish_release_def Let_def
    by (intro runs_and_then [OF ex] runs_and_then [OF clear] runs_and_then [OF mk] mv)
qed

lemma run_core_commands_succeed:
  assumes "list_all (\<lambda>(_, cmd). core_succeeds H cmd i) cs"
  shows "run_core_commands H i cs d = (Ok None, d)"
  using assms
proof (induction H i cs rule: run_core_commands.induct)
  case (3 H i label c cs)
  then obtain out where "h_core H c i (d_files d) = Ok out" "po_success out"
    by (auto simp: core_succeeds_def)
  with 3 show ?case by (simp add: and_then_def attempt_eq run_core_command_def)
qed (simp_all add: return_op_def)

lemma activate_release_runs:
  assumes "no_faults H" and "core_succeeds H rl i" and "core_succeeds H he i"
  shows "runs (\<lambda>d. layout (d_files d)) (activate_release H e rl he i sha)
    (\<lambda>res d. layout (d_files d) \<and> dr_status res = Succeeded)"
proof -
  have link: "runs (\<lambda>d. layout (d_files d)) (attempt (read_link H active)) (\<lambda>_ d. layout (d_files d))"
    by (simp add: runs_def attempt_eq)
  have core: "runs (\<lambda>d. layout (d_files d)) (run_core_commands H i [(a, rl), (b, he)])
      (\<lambda>failure d. layout (d_files d) \<and> failure = None)" for a b
    using assms(2,3) by (simp add: runs_def run_core_commands_succeed)
  have fin: "runs (\<lambda>d. layout (d_files d) \<and> failure = None) (case failure of
       Some m \<Rightarrow> f m | None \<Rightarrow> return_op (result_of e i Succeeded x sha))
      (\<lambda>res d. layout (d_files d) \<and> dr_status res = Succeeded)"
    for failure :: "string option" and f x
    by (cases failure) (simp_all add: runs_def return_op_def)
  show ?thesis
    unfolding activate_release_def Let_def
    by (intro runs_and_then [OF link] runs_and_then [OF switch_active_runs [OF assms(1)]]
        runs_and_then [OF core] fin)
qed

lemma apply_deployment_runs:
  assumes "no_faults H" and "to_vec_pretty L c = Ok b" and "passes H b"
    and "core_succeeds H rl i" and "core_succeeds H he i"
  shows "runs (\<lambda>d. layout (d_files d)) (apply_deployment L H e rl he i sha c)
    (\<lambda>res d. layout (d_files d) \<and> dr_status res = Succeeded)"
proof -
  from assms(3) obtain out where out: "h_xray H b = Ok out" "po_success out"
    by (auto simp: passes_def)
  let ?D = "\<lambda>out' d. out' = out \<and> layout (d_files d) \<and> d_files d (tmp_dir_of i) = Some Dir"
  have go: "runs (?D out') (and_then (publish_release H i) (\<lambda>_. activate_release H e rl he i sha))
      (\<lambda>res d. layout (d_files d) \<and> dr_status res = Succeeded)" for out'
    by (intro runs_weaken [OF runs_and_then [OF publish_release_runs activate_release_runs]])
       (use assms in auto)
  have "runs (?D out') (if \<not> po_success out' then m
      else and_then (publish_release H i) (\<lambda>_. activate_release H e rl he i sha))
      (\<lambda>res d. layout (d_files d) \<and> dr_status res = Succeeded)" for out' m
    using go [of out'] out(2) by (cases "out' = out") (simp_all add: runs_def)
  then show ?thesis
    unfolding apply_deployment_def
    by (intro runs_and_then [OF stage_config_runs [OF assms(1,2) out(1)]])
qed

end
