(* ===== verification/Runner_Props.thy ===== *)
theory Runner_Props
  imports Runner_Layout
begin

text \<open>
  Guarantees of the runner: commands are executed in increasing sequence and never twice, only
  configurations that passed the Xray test are reachable through \<open>active\<close> whatever I/O calls
  fail, a failed test touches nothing outside the staging directory, success and rollback leave
  \<open>active\<close> where they say, an interrupted runner recovers, and the switch of \<open>active\<close> is not
  atomic.
\<close>

section \<open>Definitions\<close>

definition fresh_disk :: disk where
  "fresh_disk = \<lparr>d_files = (\<lambda>q. if q = [] then Some Dir else None), d_calls = 0\<rparr>"

text \<open>A host whose Xray accepts exactly the rendered demo configuration.\<close>

definition demo_host :: host where
  "demo_host = \<lparr>h_fault = (\<lambda>_. False), h_keep = (\<lambda>_ _. False), h_written = (\<lambda>_. None),
     h_xray = (\<lambda>b. Ok \<lparr>po_success = (b = as_bytes ''{configuration}''), po_status = ''exit status: 0'',
                 po_stderr = ''''\<rparr>),
     h_core = (\<lambda>_ _ _. Ok \<lparr>po_success = True, po_status = ''exit status: 0'', po_stderr = ''''\<rparr>)\<rparr>"

definition apply_envelope :: "string \<Rightarrow> nat \<Rightarrow> signed_runner_command" where
  "apply_envelope i n = demo_envelope\<lparr>src_command := demo_command\<lparr>cmd_sequence := of_nat n,
     cmd_expires_at := 5000, cmd_kind := ApplyDeploymentPlan i ''sha'' JNull None\<rparr>\<rparr>"

definition demo_runner :: local_runner where
  "demo_runner = local_runner_new ''node-a'' [11] fresh_disk"

definition demo_disk :: disk where
  "demo_disk = \<lparr>d_files = [[] \<mapsto> Dir, [''active''] \<mapsto> Symlink [''releases'', ''old''],
     [''releases''] \<mapsto> Dir, [''releases'', ''old''] \<mapsto> Dir], d_calls = 0\<rparr>"

definition failing_xray :: host where
  "failing_xray = demo_host\<lparr>h_xray := \<lambda>_. Ok \<lparr>po_success = False, po_status = ''exit status: 23'',
     po_stderr = ''invalid''\<rparr>\<rparr>"

definition rendered_fails :: "libs \<Rightarrow> host \<Rightarrow> json \<Rightarrow> bool" where
  "rendered_fails L H c \<longleftrightarrow> (case to_vec_pretty L c of Ok b \<Rightarrow> \<not> passes H b | Err _ \<Rightarrow> True)"

section \<open>Accepted commands\<close>

text \<open>
  C6. Over any sequence of envelopes, at any times and with any I/O faults, the commands a runner
  executes have strictly increasing sequence numbers and pairwise distinct nonces, and each was
  addressed to this node in an envelope of the sequence whose signature the control plane's key
  verifies.
\<close>

theorem runner_executes_in_order:
  "sorted_wrt (<) (map cmd_sequence (fst (runner_run L H xs r))) \<and>
   distinct (map cmd_nonce (fst (runner_run L H xs r))) \<and>
   (\<forall>c \<in> set (fst (runner_run L H xs r)).
      lr_last_sequence r < cmd_sequence c \<and> cmd_nonce c \<notin> lr_seen_nonces r \<and>
      cmd_node_id c = lr_node_id r \<and>
      (\<exists>x \<in> snd ` set xs. src_command x = c \<and>
        (\<exists>sg m. hex_decode L (src_signature_hex x) = Some sg \<and> to_vec_command L c = Ok m \<and>
           ed_verify L (lr_control_plane_key r) m sg)))"
  by (rule runner_run_trace)

lemma apply_envelope_accepted:
  "lr_node_id r = ''node-a'' \<Longrightarrow> lr_control_plane_key r = [11] \<Longrightarrow> lr_last_sequence r < of_nat n
    \<Longrightarrow> lr_seen_nonces r = {} \<Longrightarrow>
    command_verify demo_libs (apply_envelope i n) (lr_control_plane_key r) (lr_node_id r)
      (lr_last_sequence r) (lr_seen_nonces r) (utc_now demo_env 0)
      = (Ok (src_command (apply_envelope i n)), {''n1''})"
  unfolding command_verify_Ok decode_signature_Ok apply_envelope_def
  by (simp add: demo_envelope_def demo_command_def demo_env_def) (simp add: demo_libs_def)

theorem runner_executes_in_order_witness:
  "\<exists>c. fst (runner_run demo_libs demo_host [(demo_env, apply_envelope ''dep'' 1)] demo_runner) = [c] \<and>
     cmd_sequence c = 1 \<and> cmd_node_id c = ''node-a''"
proof -
  let ?run = "fst (runner_run demo_libs demo_host [(demo_env, apply_envelope ''dep'' 1)] demo_runner)"
  have "?run = [src_command (apply_envelope ''dep'' 1)]"
    using apply_envelope_accepted [of demo_runner 1 "''dep''"]
    by (simp add: demo_runner_def local_runner_new_def)
  moreover from this runner_executes_in_order [of demo_libs demo_host
      "[(demo_env, apply_envelope ''dep'' 1)]" demo_runner]
  have "cmd_node_id (src_command (apply_envelope ''dep'' 1)) = ''node-a''"
    by (simp add: demo_runner_def local_runner_new_def)
  moreover have "cmd_sequence (src_command (apply_envelope ''dep'' 1)) = 1"
    by (simp add: apply_envelope_def)
  ultimately show ?thesis by blast
qed

section \<open>What a deployment leaves on disk\<close>

lemma fresh_runner_inv: "runner_inv H (local_runner_new n k fresh_disk)"
  by (auto simp: runner_inv_def local_runner_new_def fresh_disk_def tested_def layout_def path_defs)

lemma succeeded_active:
  assumes "apply_deployment L H e rl he i sha c d = (Ok res, d')" and "dr_status res = Succeeded"
  shows "d_files d' active = Some (Symlink (release_dir_of i)) \<and>
    (\<exists>b. to_vec_pretty L c = Ok b \<and> passes H b \<and>
       d_files d' (config_of (release_dir_of i)) = Some (File b))"
  using assms(1)
proof (cases rule: apply_deployment_cases)
  case (refused out d1)
  with assms(2) show ?thesis by simp
next
  case (activated out d1 d2)
  from on_okD [OF stage_config_ok TrueI activated(1)] obtain b where b: "to_vec_pretty L c = Ok b"
      "d_files d1 (config_of (tmp_dir_of i)) = Some (File b)" "h_xray H b = Ok out" by blast
  from on_okD [OF publish_release_ok b(2) activated(3)]
  have "d_files d2 (config_of (release_dir_of i)) = Some (File b)" .
  from tripleD [OF activate_release_frame, OF _ _ this, of H e rl he i sha] activated(4)
  have "d_files d' (config_of (release_dir_of i)) = Some (File b)" by (simp add: path_defs)
  moreover from activate_release_ok [OF activated(4)] assms(2)
  have "d_files d' active = Some (Symlink (release_dir_of i))" by simp
  ultimately show ?thesis using b activated(2) by (auto simp: passes_def)
qed

lemma demo_host_ok:
  "no_faults demo_host" "passes demo_host (as_bytes ''{configuration}'')"
  "core_succeeds demo_host cmd i" "to_vec_pretty demo_libs c = Ok (as_bytes ''{configuration}'')"
  by (simp_all add: no_faults_def passes_def core_succeeds_def demo_host_def demo_libs_def)

lemma fresh_disk_layout: "layout (d_files fresh_disk)"
  using fresh_runner_inv by (simp add: runner_inv_def local_runner_new_def)

lemma demo_deployment:
  "\<exists>res d'. apply_deployment demo_libs demo_host demo_env None None ''dep'' ''sha'' JNull fresh_disk
      = (Ok res, d') \<and> dr_status res = Succeeded"
  using runsD [OF apply_deployment_runs [OF demo_host_ok(1,4,2,3,3)], of fresh_disk] fresh_disk_layout
  by blast

lemma demo_run:
  "\<exists>b. d_files (lr_disk (snd (runner_run demo_libs demo_host [(demo_env, apply_envelope ''dep'' 1)]
        (local_runner_new ''node-a'' [11] fresh_disk)))) active = Some (Symlink (release_dir_of ''dep'')) \<and>
     d_files (lr_disk (snd (runner_run demo_libs demo_host [(demo_env, apply_envelope ''dep'' 1)]
        (local_runner_new ''node-a'' [11] fresh_disk)))) (config_of (release_dir_of ''dep'')) = Some (File b)"
proof -
  let ?r = "local_runner_new ''node-a'' [11] fresh_disk"
  obtain res d' where d': "apply_deployment demo_libs demo_host demo_env None None ''dep'' ''sha'' JNull
      fresh_disk = (Ok res, d')" "dr_status res = Succeeded" using demo_deployment by blast
  have "lr_disk (snd (runner_apply demo_libs demo_host demo_env (apply_envelope ''dep'' 1) ?r)) = d'"
    using apply_envelope_accepted [of ?r 1 "''dep''"] d'(1)
    by (simp add: runner_apply_def apply_envelope_def local_runner_new_def on_disk_eq)
  with succeeded_active [OF d'] show ?thesis by (auto simp: Let_def split: prod.splits)
qed

text \<open>
  C4. Whatever commands arrive at a runner with an empty work directory and whichever I/O calls
  fail, half-written files and half-removed trees included: when \<open>active\<close> leads to a release
  that holds a configuration, \<open>xray -test\<close> accepts that configuration.
\<close>

theorem active_configuration_tested:
  assumes "d_files (lr_disk (snd (runner_run L H xs (local_runner_new n k fresh_disk)))) active
      = Some (Symlink p)"
    and "d_files (lr_disk (snd (runner_run L H xs (local_runner_new n k fresh_disk)))) (config_of p)
      = Some (File b)"
  shows "passes H b"
  using runner_run_inv [OF fresh_runner_inv, of H L xs n k] assms
  by (auto simp: runner_inv_def tested_def)

theorem active_configuration_tested_witness:
  "\<exists>b. d_files (lr_disk (snd (runner_run demo_libs demo_host [(demo_env, apply_envelope ''dep'' 1)]
        (local_runner_new ''node-a'' [11] fresh_disk)))) (config_of (release_dir_of ''dep'')) = Some (File b) \<and>
     passes demo_host b"
  using demo_run active_configuration_tested [of demo_libs demo_host
      "[(demo_env, apply_envelope ''dep'' 1)]" "''node-a''" "[11]" "release_dir_of ''dep''"]
  by blast

text \<open>
  C21. A configuration that cannot be rendered or that the Xray test refuses changes nothing
  outside \<open>tmp\<close>: every release and the \<open>active\<close> link stay as they were, whichever calls fail.
\<close>

theorem refused_configuration_changes_nothing:
  assumes "rendered_fails L H c" and "q \<noteq> []" and "hd q \<noteq> ''tmp''"
  shows "d_files (snd (apply_deployment L H e rl he i sha c d)) q = d_files d q"
proof -
  obtain r d1 where st: "stage_config L H i c d = (r, d1)" by fastforce
  from tripleD [OF stage_config_frame [OF assms(2,3)], of d "d_files d q" L H i c] st
  have d1: "d_files d1 q = d_files d q" by simp
  have "\<not> po_success out" if "r = Ok out" for out
    using on_okD [OF stage_config_ok TrueI st [unfolded that]] assms(1)
    by (auto simp: rendered_fails_def passes_def)
  with st d1 show ?thesis
    by (cases r) (auto simp: apply_deployment_def and_then_def [of "stage_config L H i c"])
qed

theorem refused_configuration_changes_nothing_witness:
  "d_files (snd (apply_deployment demo_libs
      (demo_host\<lparr>h_xray := \<lambda>_. Err ''no such file''\<rparr>) demo_env None None ''dep'' ''sha'' JNull fresh_disk))
    [''releases''] = None"
  using refused_configuration_changes_nothing [of demo_libs
      "demo_host\<lparr>h_xray := \<lambda>_. Err ''no such file''\<rparr>" JNull "[''releases'']" demo_env None None
      "''dep''" "''sha''" fresh_disk]
  by (simp add: rendered_fails_def passes_def fresh_disk_def split: result.split)

text \<open>
  When a deployment is reported as succeeded, \<open>active\<close> is a link to its release, the release
  holds exactly the rendered configuration, and the Xray test accepted those bytes.
\<close>

theorem succeeded_deployment_is_active:
  assumes "apply_deployment L H e rl he i sha c d = (Ok res, d')" and "dr_status res = Succeeded"
  shows "d_files d' active = Some (Symlink (release_dir_of i)) \<and>
    (\<exists>b. to_vec_pretty L c = Ok b \<and> passes H b \<and>
       d_files d' (config_of (release_dir_of i)) = Some (File b))"
  by (rule succeeded_active [OF assms])

theorem succeeded_deployment_is_active_witness:
  "\<exists>res d'. apply_deployment demo_libs demo_host demo_env None None ''dep'' ''sha'' JNull fresh_disk
      = (Ok res, d') \<and> d_files d' active = Some (Symlink (release_dir_of ''dep''))"
  using demo_deployment succeeded_deployment_is_active by blast

text \<open>
  C20. When a deployment is reported as rolled back, whether its test failed or its reload or
  health command did, \<open>active\<close> is what it was before the command.
\<close>

theorem rolled_back_deployment_restores_active:
  assumes "apply_deployment L H e rl he i sha c d = (Ok res, d')" and "dr_status res = RolledBack"
  shows "d_files d' active = d_files d active"
  using assms(1)
proof (cases rule: apply_deployment_cases)
  case (refused out d1)
  then show ?thesis
    using tripleD [OF stage_config_frame, of active d "d_files d active" L H i c]
    by (simp add: active_def)
next
  case (activated out d1 d2)
  from tripleD [OF stage_config_frame, of active d "d_files d active" L H i c] activated(1)
  have "d_files d1 active = d_files d active" by (simp add: active_def)
  with tripleD [OF publish_release_frame, of active i d1 "d_files d active" H] activated(3)
  have "d_files d2 active = d_files d active" by (simp add: path_defs)
  with activate_release_ok [OF activated(4)] assms(2) show ?thesis by auto
qed

lemma demo_disk_layout: "layout (d_files demo_disk)"
  by (auto simp: layout_def demo_disk_def path_defs)

lemma path_present_eq:
  "no_faults H \<Longrightarrow> path_present H p d = (Ok (d_files d p \<noteq> None), d\<lparr>d_calls := Suc (d_calls d)\<rparr>)"
  by (cases "d_files d p")
     (simp_all add: path_present_def symlink_metadata_def io_def no_faults_def and_then_def attempt_def
       return_op_def)

lemma demo_refused:
  "\<exists>res d'. apply_deployment demo_libs failing_xray demo_env None None ''dep'' ''sha'' JNull demo_disk
      = (Ok res, d') \<and> dr_status res = RolledBack"
proof -
  have ok: "no_faults failing_xray" "h_xray failing_xray b = Ok \<lparr>po_success = False,
      po_status = ''exit status: 23'', po_stderr = ''invalid''\<rparr>" for b
    by (simp_all add: failing_xray_def demo_host_def no_faults_def)
  from runsD [OF stage_config_runs [OF ok(1) demo_host_ok(4) ok(2)], of demo_disk] demo_disk_layout
  obtain d1 where st: "stage_config demo_libs failing_xray ''dep'' JNull demo_disk = (Ok \<lparr>po_success = False,
      po_status = ''exit status: 23'', po_stderr = ''invalid''\<rparr>, d1)" by blast
  have "d_files d1 active = d_files demo_disk active"
    using tripleD [OF stage_config_frame, of active demo_disk "d_files demo_disk active" demo_libs
        failing_xray "''dep''" JNull] st
    by (simp add: active_def)
  with st show ?thesis
    by (simp add: apply_deployment_def and_then_def path_present_eq [OF ok(1)] return_op_def)
       (simp add: demo_disk_def active_def)
qed

theorem rolled_back_deployment_restores_active_witness:
  "\<exists>res d'. apply_deployment demo_libs failing_xray demo_env None None ''dep'' ''sha'' JNull demo_disk
      = (Ok res, d') \<and> d_files d' active = Some (Symlink [''releases'', ''old''])"
proof -
  obtain res d' where "apply_deployment demo_libs failing_xray demo_env None None ''dep'' ''sha'' JNull
      demo_disk = (Ok res, d')" "dr_status res = RolledBack" using demo_refused by blast
  moreover from rolled_back_deployment_restores_active [OF this]
  have "d_files d' active = Some (Symlink [''releases'', ''old''])"
    by (simp add: demo_disk_def active_def)
  ultimately show ?thesis by blast
qed

section \<open>Rolling back, recovering and switching\<close>

text \<open>
  C22. On a work directory with the layout that every command keeps, a rollback command without I/O
  faults always yields a result: when the target release is
  not on disk it is reported as failed and no file changes, otherwise \<open>active\<close> leads to the
  target and nothing else but the links changes.
\<close>

theorem rollback_deployment_outcome:
  assumes "no_faults H" and "layout (d_files d)"
  shows "\<exists>res d'. rollback_deployment H e i t sha d = (Ok res, d') \<and>
    (if d_files d (release_dir_of t) = None then dr_status res = Failed \<and> d_files d' = d_files d
     else dr_status res = RolledBack \<and> d_files d' active = Some (Symlink (release_dir_of t)) \<and>
       (\<forall>q. \<not> prefix active q \<longrightarrow> \<not> prefix active_next q \<longrightarrow> d_files d' q = d_files d q))"
proof -
  obtain d1 where d1: "path_present H (release_dir_of t) d
      = (Ok (d_files d (release_dir_of t) \<noteq> None), d1)" "d_files d1 = d_files d"
    using path_present_eq [OF assms(1)] by auto
  show ?thesis
  proof (cases "d_files d (release_dir_of t) = None")
    case True
    with d1 show ?thesis by (simp add: rollback_deployment_def Let_def and_then_def return_op_def)
  next
    case False
    from runsD [OF switch_active_runs [OF assms(1)], of d1] assms(2) d1(2)
    obtain d2 where sw: "switch_active H (release_dir_of t) d1 = (Ok (), d2)" by auto
    have "d_files d2 q = d_files d q" if "\<not> prefix active q" "\<not> prefix active_next q" for q
      using tripleD [OF switch_active_frame [OF that], of d1 "d_files d q" H "release_dir_of t"] sw d1(2)
      by simp
    moreover from on_okD [OF switch_active_ok TrueI sw]
    have "d_files d2 active = Some (Symlink (release_dir_of t))" .
    ultimately show ?thesis
      using False d1 sw by (simp add: rollback_deployment_def Let_def and_then_def return_op_def)
  qed
qed

theorem rollback_deployment_outcome_witness:
  "\<exists>res d'. rollback_deployment demo_host demo_env ''dep'' ''old'' ''sha'' demo_disk = (Ok res, d') \<and>
     dr_status res = RolledBack \<and> d_files d' active = Some (Symlink (release_dir_of ''old''))"
  using rollback_deployment_outcome [OF demo_host_ok(1) demo_disk_layout, of demo_env "''dep''" "''old''" "''sha''"]
  by (simp add: demo_disk_def release_dir_of_def) blast

text \<open>
  C15. Recovery: after any sequence of commands with any I/O faults, a deployment whose
  configuration passes the test and whose commands succeed is applied and becomes active as soon
  as the calls of that deployment go through; no leftover of an interrupted run blocks it.
\<close>

theorem runner_recovers:
  assumes "no_faults H'" and "to_vec_pretty L c = Ok b" and "passes H' b"
    and "core_succeeds H' rl i" and "core_succeeds H' he i"
  shows "\<exists>res d'. apply_deployment L H' e rl he i sha c
      (lr_disk (snd (runner_run L H xs (local_runner_new n k fresh_disk)))) = (Ok res, d') \<and>
    dr_status res = Succeeded \<and> d_files d' active = Some (Symlink (release_dir_of i))"
proof -
  have "layout (d_files (lr_disk (snd (runner_run L H xs (local_runner_new n k fresh_disk)))))"
    using runner_run_inv [OF fresh_runner_inv] by (simp add: runner_inv_def)
  from runsD [OF apply_deployment_runs [OF assms] this] succeeded_active show ?thesis by blast
qed

theorem runner_recovers_witness:
  "\<exists>res d'. apply_deployment demo_libs demo_host demo_env None None ''dep2'' ''sha'' JNull
      (lr_disk (snd (runner_run demo_libs (demo_host\<lparr>h_fault := (\<lambda>k. 3 < k)\<rparr>)
        [(demo_env, apply_envelope ''dep'' 1)] (local_runner_new ''node-a'' [11] fresh_disk)))) = (Ok res, d') \<and>
    d_files d' active = Some (Symlink (release_dir_of ''dep2''))"
  using runner_recovers [OF demo_host_ok(1,4,2,3,3)] by blast

text \<open>
  C37. The switch is not atomic: \<open>active\<close> is removed before \<open>active.next\<close> is renamed to it, so
  when the rename is the call that fails, the runner is left without any \<open>active\<close>, although it
  had one and its target is still there.
\<close>

theorem switch_active_not_atomic:
  assumes "d_files d [] = Some Dir" and "d_files d active = Some (Symlink p)"
    and "d_files d p \<noteq> None" and "p \<noteq> active_next" and "d_files d active_next = None"
    and "\<And>k. h_fault H k \<longleftrightarrow> k = d_calls d + 5"
  shows "fst (switch_active H t d) = Err ''io error'' \<and>
    d_files (snd (switch_active H t d)) active = None \<and>
    (p \<noteq> active \<longrightarrow> d_files (snd (switch_active H t d)) p = d_files d p)"
proof -
  have "active \<noteq> active_next" "butlast active_next = []" by (simp_all add: path_defs)
  with assms show ?thesis
    by (auto simp: switch_active_def path_exists_def path_present_def metadata_def
        symlink_metadata_def symlink_def remove_file_def rename_def io_def and_then_def attempt_def
        return_op_def)
qed

theorem switch_active_not_atomic_witness:
  "d_files (snd (switch_active (demo_host\<lparr>h_fault := \<lambda>k. k = 5\<rparr>) (release_dir_of ''new'') demo_disk))
     active = None"
proof -
  have "active_next \<noteq> [''releases'', ''old'']" by (simp add: path_defs)
  then show ?thesis
    using switch_active_not_atomic [of demo_disk "[''releases'', ''old'']"
        "demo_host\<lparr>h_fault := \<lambda>k. k = 5\<rparr>" "release_dir_of ''new''"]
    by (simp add: demo_disk_def active_def active_next_def)
qed

section \<open>Polling\<close>

lemma poll_recording:
  "poll_apply_once L H e recording_command_source r =
     (case drop_stale (lr_last_sequence (ob_local r)) (rs_commands (ob_source r)) of
        [] \<Rightarrow> (Ok None, r\<lparr>ob_source := (ob_source r)\<lparr>rs_commands := []\<rparr>\<rparr>)
      | c # q \<Rightarrow>
          (case runner_apply L H e c (ob_local r) of
             (Err m, l) \<Rightarrow> (Err m, r\<lparr>ob_local := l, ob_source := (ob_source r)\<lparr>rs_commands := q\<rparr>\<rparr>)
           | (Ok res, l) \<Rightarrow> (Ok (Some res), r\<lparr>ob_local := l, ob_source := (ob_source r)
               \<lparr>rs_commands := q, rs_results := rs_results (ob_source r) @ [res]\<rparr>\<rparr>)))"
  by (simp add: poll_apply_once_def recording_command_source_def recording_next_command_def
      recording_submit_result_def on_source_def on_local_def and_then_def return_op_def
      split: list.split prod.split result.split)

text \<open>
  A command whose execution raises an error (an I/O fault, an expired or replayed envelope, an
  unsupported kind) is lost: the poll fails, the command has left the queue, and no result was
  submitted for it.
\<close>

theorem failed_poll_loses_command:
  assumes "drop_stale (lr_last_sequence (ob_local r)) (rs_commands (ob_source r)) = c # q"
    and "fst (runner_apply L H e c (ob_local r)) = Err m"
  shows "fst (poll_apply_once L H e recording_command_source r) = Err m \<and>
    rs_commands (ob_source (snd (poll_apply_once L H e recording_command_source r))) = q \<and>
    rs_results (ob_source (snd (poll_apply_once L H e recording_command_source r))) = rs_results (ob_source r)"
  using assms by (cases "runner_apply L H e c (ob_local r)") (simp add: poll_recording)

theorem failed_poll_loses_command_witness:
  "rs_commands (ob_source (snd (poll_apply_once demo_libs demo_host demo_env recording_command_source
     \<lparr>ob_local = demo_runner, ob_source = \<lparr>rs_commands = [demo_envelope], rs_results = []\<rparr>\<rparr>))) = []"
  using failed_poll_loses_command [of "\<lparr>ob_local = demo_runner,
      ob_source = \<lparr>rs_commands = [demo_envelope], rs_results = []\<rparr>\<rparr>" demo_envelope "[]"
      demo_libs demo_host demo_env "domain_error_to_string CommandExpired"]
  by (simp add: demo_runner_def local_runner_new_def demo_envelope_def demo_command_def demo_env_def
      runner_apply_def command_verify_def)

end
