(* ===== verification/Network_Props.thy ===== *)
theory Network_Props
  imports Network_Demo Runner_Process Runner_Props
begin

text \<open>
  The connected system: a compiled deployment is completed by the next poll of the runner, and what
  happens when a response is lost, when the runner starts again with a used registration token,
  and when it is started without a token.
\<close>

section \<open>Definitions\<close>

text \<open>A healthy machine: no I/O faults, a tidy work directory, and reload and health commands that succeed.\<close>

definition healthy_machine :: "host \<Rightarrow> local_runner \<Rightarrow> bool" where
  "healthy_machine H r \<longleftrightarrow> no_faults H \<and> layout (d_files (lr_disk r)) \<and>
     (\<forall>i. core_succeeds H (lr_reload_command r) i \<and> core_succeeds H (lr_health_command r) i)"

text \<open>Some node has used the token.\<close>

definition token_used :: "string \<Rightarrow> memory_state \<Rightarrow> bool" where
  "token_used t s \<longleftrightarrow> (\<exists>r \<in> snd ` set (node_registration_tokens s). nt_token r = t) \<and>
     (\<forall>r \<in> snd ` set (node_registration_tokens s). nt_token r = t \<longrightarrow> nt_status r \<noteq> ''active'')"

definition demo_waiting :: "memory_state app_state" where
  "demo_waiting = with_store_and_runner_token demo_libs ''reg'' ''run'' ''t'' (memory_store demo_libs ''t'')
     (memory_state_default\<lparr>runner_commands := [(''node-a'', [demo_envelope])]\<rparr>)"

definition demo_source :: "memory_state app_state \<Rightarrow> memory_state server http_source" where
  "demo_source st = with_runner_token ''run'' (http_source_new ''http://cp/'' \<lparr>sv_app = st, sv_requests = 0\<rparr>)"

definition losing_net :: net where
  "losing_net = demo_net\<lparr>nt_link := \<lambda>_. ResponseLost\<rparr>"

definition demo_vars :: vars where
  "demo_vars = [''CONTROL_PLANE_BASE_URL'' \<mapsto> ''http://cp/'']"

definition demo_used :: "memory_state app_state" where
  "demo_used = with_store_and_runner_token demo_libs ''reg'' ''run'' ''t'' (memory_store demo_libs ''t'')
     (memory_state_default\<lparr>node_registration_tokens := [(''regtok-dev'', mark_used 1
        (node_registration_token_new demo_env ''t'' ''regtok-dev'' ''reg'') ''node-a'')]\<rparr>)"

section \<open>Results name their deployment\<close>

lemma on_ok_any: "(\<And>s a s'. m s = (Ok a, s') \<Longrightarrow> Q a) \<Longrightarrow> on_ok (\<lambda>_. True) m (\<lambda>a _. Q a)"
  by (auto simp: on_ok_def)

lemma on_ok_then_any:
  assumes "\<And>a. on_ok (\<lambda>_. True) (f a) Q"
  shows "on_ok (\<lambda>_. True) (and_then m f) Q"
  by (rule on_ok_and_then [of _ _ "\<lambda>_ _. True"]) (use assms in \<open>auto simp: on_ok_def\<close>)

lemma rollback_after_apply_failure_id:
  "on_ok (\<lambda>_. True) (rollback_after_apply_failure H e i sha prev m) (\<lambda>r _. dr_deployment_id r = i)"
  unfolding rollback_after_apply_failure_def
  by (cases prev) (auto intro!: on_ok_then_any on_ok_return simp: result_of_def)

lemma activate_release_id:
  "on_ok (\<lambda>_. True) (activate_release H e rl he i sha) (\<lambda>r _. dr_deployment_id r = i)"
  unfolding activate_release_def Let_def
  by (intro on_ok_then_any) (auto intro!: on_ok_return rollback_after_apply_failure_id
      simp: result_of_def split: option.split)

lemma apply_deployment_id:
  "on_ok (\<lambda>_. True) (apply_deployment L H e rl he i sha c) (\<lambda>r _. dr_deployment_id r = i)"
  unfolding apply_deployment_def
  by (intro on_ok_then_any on_ok_cond activate_release_id on_ok_return) (simp add: result_of_def)

section \<open>From the queue to the runner\<close>

lemma signed_command_verifies:
  assumes "hex_codec L" and "ed25519_scheme L" and "command_sign L (src_command x) key = Ok x"
    and "cmd_node_id (src_command x) = n" and "last_seq < cmd_sequence (src_command x)"
    and "cmd_nonce (src_command x) \<notin> seen" and "now < cmd_expires_at (src_command x)"
  shows "command_verify L x (ed_verifying_key L key) n last_seq seen now
    = (Ok (src_command x), insert (cmd_nonce (src_command x)) seen)"
proof -
  obtain m where "to_vec_command L (src_command x) = Ok m"
      "src_signature_hex x = hex_encode L (ed_sign L key m)"
    using assms(3) by (cases x) (auto simp: command_sign_def bind_result_eq_Ok)
  with assms show ?thesis
    unfolding command_verify_Ok by (auto simp: decode_signed ed25519_scheme_def intro!: exI)
qed

lemma runner_apply_succeeds:
  assumes "healthy_machine H r" and "to_vec_pretty L config = Ok b" and "passes H b"
    and "command_verify L x (lr_control_plane_key r) (lr_node_id r) (lr_last_sequence r)
      (lr_seen_nonces r) (utc_now e 0) = (Ok (src_command x), seen)"
    and "cmd_kind (src_command x) = ApplyDeploymentPlan i sha config v"
  obtains res r' where "runner_apply L H e x r = (Ok res, r')" "dr_status res = Succeeded"
    "dr_deployment_id res = i" "d_files (lr_disk r') active = Some (Symlink (release_dir_of i))"
    "d_files (lr_disk r') (config_of (release_dir_of i)) = Some (File b)"
proof -
  have "no_faults H" "core_succeeds H (lr_reload_command r) i" "core_succeeds H (lr_health_command r) i"
      "layout (d_files (lr_disk r))"
    using assms(1) by (simp_all add: healthy_machine_def)
  from runsD [OF apply_deployment_runs [OF this(1) assms(2,3) this(2,3)] this(4)]
  obtain res d' where ap: "apply_deployment L H e (lr_reload_command r) (lr_health_command r) i sha config
      (lr_disk r) = (Ok res, d')" "dr_status res = Succeeded" by blast
  have "dr_deployment_id res = i" using on_okD [OF apply_deployment_id TrueI ap(1)] .
  with ap succeeded_active [OF ap] assms(2) assms(4,5) that show ?thesis
    by (simp add: runner_apply_def Let_def on_disk_def)
qed

lemma compile_deployment_frame:
  assumes st: "app_store st = memory_store L T"
    and ok: "compile_deployment L J E h r st = (Ok (code, FreshBody resp), st')"
  shows "nodes (app_store_state st') = nodes (app_store_state st)"
    and "app_store st' = memory_store L T"
    and "app_runner_api_token st' = app_runner_api_token st"
    and "app_runner_result_verify_key st' = app_runner_result_verify_key st"
proof -
  obtain key where u: "compile_uncached L J E (app_tenant_id st) key r st = (Ok resp, st')"
    using compile_deployment_fresh [OF st ok] by blast
  from st u have "nodes (app_store_state st') = nodes (app_store_state st) \<and> app_store st' = memory_store L T \<and>
      app_runner_api_token st' = app_runner_api_token st \<and>
      app_runner_result_verify_key st' = app_runner_result_verify_key st"
  proof (cases rule: compile_uncached_Ok)
    case (1 node config b c)
    have "nodes (compiled_state L T E st r b c) = nodes (app_store_state st)"
      by (simp add: compiled_state_def Let_def mem_record_artifact_blob_def mem_record_deployment_plan_def
          mem_enqueue_runner_command_def)
    with 1(6) have "nodes (app_store_state st') = nodes (app_store_state st)"
      by (auto simp: mem_record_idempotency_response_def split: option.splits)
    moreover have same: "g st' = g st"
      if "\<And>a b. g (st\<lparr>app_node_sequences := a, app_store_state := b\<rparr>) = g st"
      for g :: "memory_state app_state \<Rightarrow> 'x"
      by (subst 1(7)) (rule that)
    ultimately show ?thesis
      using st same [of app_store] same [of app_runner_api_token] same [of app_runner_result_verify_key]
      by simp
  qed
  then show "nodes (app_store_state st') = nodes (app_store_state st)"
      "app_store st' = memory_store L T"
      "app_runner_api_token st' = app_runner_api_token st"
      "app_runner_result_verify_key st' = app_runner_result_verify_key st" by simp_all
qed

section \<open>What goes wrong\<close>

text \<open>
  C34. Delivery is not acknowledged: when the response to a poll is lost, the poll fails, the runner
  has executed nothing, and the command has left the queue; no later poll receives it.
\<close>

theorem lost_response_loses_command:
  assumes "connected L J W N C" and "authorised N (ob_source ob)" and "plain n"
    and "lr_node_id (ob_local ob) = n"
    and st: "app_store (sv_app (hcs_client (ob_source ob))) = memory_store L T"
    and lost: "nt_link N (sv_requests (hcs_client (ob_source ob))) = ResponseLost"
    and q: "memory_queue (app_store_state (sv_app (hcs_client (ob_source ob)))) n = x # q"
    and new: "lr_last_sequence (ob_local ob) < cmd_sequence (src_command x)"
  shows "\<exists>m ob'. poll_apply_once L H e (http_command_source L C V) ob = (Err m, ob') \<and>
    ob_local ob' = ob_local ob \<and>
    memory_queue (app_store_state (sv_app (hcs_client (ob_source ob')))) n = q"
proof -
  let ?s = "ob_source ob" and ?k = "lr_last_sequence (ob_local ob)"
  let ?sv = "hcs_client ?s"
  obtain sv' where sent: "cl_send C (add_auth (?s\<lparr>hcs_last_node_id := Some n\<rparr>)
        (http_get (next_url (?s\<lparr>hcs_last_node_id := Some n\<rparr>) n ?k))) ?sv = (Err ''error sending request'', sv')"
      "app_store_state (sv_app sv') = snd (mem_next_runner_command n ?k (app_store_state (sv_app ?sv)))"
    using deliver_next [OF assms(1-3) st, of "lr_last_sequence (ob_local ob)"] lost by auto
  have "poll_apply_once L H e (http_command_source L C V) ob = (Err ''error sending request'',
      ob\<lparr>ob_source := ?s\<lparr>hcs_last_node_id := Some n, hcs_client := sv'\<rparr>\<rparr>)"
    using sent(1) assms(4)
    by (simp add: poll_apply_once_def http_command_source_def http_next_command_def and_then_def
        on_source_def send_def Let_def)
  with sent(2) mem_next_runner_command_pops(1) [OF q new] show ?thesis by simp
qed

lemma demo_trim: "trim_end_slashes ''http://cp/'' = ''http://cp''"
  by code_simp

lemma demo_links: "nt_url demo_net = demo_url" "nt_url losing_net = demo_url"
  "nt_link demo_net k = Delivered" "nt_link losing_net k = ResponseLost"
  by (simp_all add: demo_net_def losing_net_def)

lemma demo_plain: "plain ''node-a''" "plain ''dev-node-1''" "header_text ''run''"
  by code_simp+

lemma demo_authorised:
  "nt_url N = demo_url \<Longrightarrow> app_runner_api_token st = ''run'' \<Longrightarrow> authorised N (demo_source st)"
  by (simp add: authorised_def demo_source_def with_runner_token_def http_source_new_def demo_trim
      demo_base_url demo_plain(3))

lemma demo_source_client [simp]: "hcs_client (demo_source st) = \<lparr>sv_app = st, sv_requests = 0\<rparr>"
  by (simp add: demo_source_def with_runner_token_def http_source_new_def)

theorem lost_response_loses_command_witness:
  "\<exists>m ob'. poll_apply_once demo_libs demo_host demo_env
      (http_command_source demo_libs (demo_client losing_net) demo_vars)
      (outbound_runner_new demo_runner (demo_source demo_waiting)) = (Err m, ob') \<and>
    ob_local ob' = demo_runner \<and>
    memory_queue (app_store_state (sv_app (hcs_client (ob_source ob')))) ''node-a'' = []"
proof -
  let ?ob = "outbound_runner_new demo_runner (demo_source demo_waiting)"
  have ob: "ob_source ?ob = demo_source demo_waiting" "ob_local ?ob = demo_runner"
    by (simp_all add: outbound_runner_new_def)
  have st: "app_runner_api_token demo_waiting = ''run''" "app_store demo_waiting = memory_store demo_libs ''t''"
      "memory_queue (app_store_state demo_waiting) ''node-a'' = [demo_envelope]"
    by (simp_all add: demo_waiting_def with_store_and_runner_token_def memory_queue_def unwrap_or_def)
  have r: "lr_node_id demo_runner = ''node-a''" "lr_last_sequence demo_runner < cmd_sequence (src_command demo_envelope)"
    by (simp_all add: demo_runner_def local_runner_new_def demo_envelope_def demo_command_def)
  show ?thesis
    using lost_response_loses_command [OF demo_connected _ demo_plain(1), of losing_net ?ob "''t''"
        demo_envelope "[]" demo_host demo_env demo_vars]
      demo_authorised [OF demo_links(2) st(1)] st(2,3) r demo_links(4)
    by (simp add: ob)
qed

text \<open>A runner with the token missing or different is refused when it sends its first heartbeat.\<close>

lemma heartbeat_refused:
  assumes "connected L J W N C" and "base_url N (hcs_base_url s)" and "plain n"
    and "nt_link N (sv_requests (hcs_client s)) = Delivered"
    and tok: "case hcs_runner_token s of None \<Rightarrow> True
      | Some t \<Rightarrow> header_text t \<and> t \<noteq> app_runner_api_token (sv_app (hcs_client s))"
  shows "http_send_heartbeat C n j s =
    (Err (''control-plane heartbeat failed: status='' @ cl_status_text C 401),
     s\<lparr>hcs_client := (hcs_client s)\<lparr>sv_requests := Suc (sv_requests (hcs_client s))\<rparr>\<rparr>)"
proof -
  from assms(1) have C: "cl_send C = deliver L J W N" "conforms W C" by (simp_all add: connected_def)
  have jx: "jx_heartbeat W (JsonBody (JObject [(''capability_snapshot'', j)])) = Ok j"
    using C(2) unfolding conforms_def by blast
  have refused: "\<not> runner_token_valid (sv_app (hcs_client s)) (received W (hq_headers
      (add_auth s (http_post u b))))" for u b
  proof (cases "hcs_runner_token s")
    case None
    then show ?thesis by (simp add: add_auth_def http_post_def runner_token_valid_def received_def)
  next
    case (Some t)
    with tok received_token_valid [OF C(2), of t "sv_app (hcs_client s)"] show ?thesis
      by (simp add: add_auth_def http_post_def)
  qed
  have same: "hq_url (add_auth s r) = hq_url r" "hq_method (add_auth s r) = hq_method r"
      "hq_body (add_auth s r) = hq_body r" for r
    by (simp_all add: add_auth_def split: option.split)
  have parts: "hq_url (http_post u b) = u" "hq_method (http_post u b) = POST"
      "hq_body (http_post u b) = JsonBody b" for u b
    by (simp_all add: http_post_def)
  show ?thesis
    by (simp add: http_send_heartbeat_def and_then_def send_def C(1) deliver_def same parts Let_def
        runner_urls(3) [OF assms(2,3) refl] assms(4) serve_runner_requests(3) [OF C(2) assms(3)]
        extracting_def jx param_def respond_def runner_heartbeat_def require_runner_token_def refused
        plain_response_def require_success_def fail_op_def)
qed

text \<open>
  A runner process that is started without the runner token, or with another one than the
  control plane's, ends before its first poll with the refused heartbeat as its error, and the
  state of the control plane does not change.
\<close>

theorem unauthorised_runner_never_polls:
  assumes "connected L J W N C" and "V ''CONTROL_PLANE_BASE_URL'' = Some url"
    and "base_url N (trim_end_slashes url)" and "plain (var_or V ''RUNNER_NODE_ID'' ''dev-node-1'')"
    and "V ''NODE_REGISTRATION_TOKEN'' = None" and "V ''RUNNER_RESULT_SIGNING_KEY_HEX'' = None"
    and "case V ''RUNNER_API_TOKEN'' of None \<Rightarrow> True
      | Some t \<Rightarrow> header_text t \<and> t \<noteq> app_runner_api_token (sv_app w)"
    and "nt_link N (sv_requests w) = Delivered"
  shows "runner_main L host_of C V E others disk_at w = Some
    \<lparr>oc_result = Err (''control-plane heartbeat failed: status='' @ cl_status_text C 401),
     oc_stdout = [], oc_world = w\<lparr>sv_requests := Suc (sv_requests w)\<rparr>, oc_local = None\<rparr>"
proof -
  obtain s where s: "runner_source L V url w = Ok s" "hcs_client s = w"
      "hcs_base_url s = trim_end_slashes url" "hcs_runner_token s = V ''RUNNER_API_TOKEN''"
    using assms(6) by (cases "V ''RUNNER_API_TOKEN''")
      (auto simp: runner_source_def Let_def http_source_new_def with_runner_token_def)
  have pre: "base_url N (hcs_base_url s)" "nt_link N (sv_requests (hcs_client s)) = Delivered"
      "case hcs_runner_token s of None \<Rightarrow> True
        | Some t \<Rightarrow> header_text t \<and> t \<noteq> app_runner_api_token (sv_app (hcs_client s))"
    unfolding s(2-4) by (rule assms(3) assms(8) assms(7))+
  have "http_send_heartbeat C (var_or V ''RUNNER_NODE_ID'' ''dev-node-1'') (capability_snapshot V) s =
      (Err (''control-plane heartbeat failed: status='' @ cl_status_text C 401),
       s\<lparr>hcs_client := w\<lparr>sv_requests := Suc (sv_requests w)\<rparr>\<rparr>)"
    using heartbeat_refused [OF assms(1) pre(1) assms(4) pre(2,3)] by (simp add: s(2))
  then show ?thesis
    using assms(2,5) s(1) by (simp add: runner_main_def announce_def Let_def and_then_def return_op_def)
qed

theorem unauthorised_runner_never_polls_witness:
  "\<exists>out. runner_main demo_libs (\<lambda>_. demo_host) (demo_client demo_net) demo_vars (\<lambda>_. demo_env)
      (\<lambda>_ _ w. w) (\<lambda>_. fresh_disk) \<lparr>sv_app = demo_waiting, sv_requests = 0\<rparr> = Some out \<and>
    oc_local out = None \<and> sv_app (oc_world out) = demo_waiting"
  using unauthorised_runner_never_polls [OF demo_connected, of demo_vars "''http://cp/''" demo_net
      "\<lparr>sv_app = demo_waiting, sv_requests = 0\<rparr>" "\<lambda>_. demo_host" "\<lambda>_. demo_env" "\<lambda>_ _ w. w"
      "\<lambda>_. fresh_disk"]
  by (simp add: demo_vars_def demo_trim demo_base_url demo_links var_or_def unwrap_or_def demo_plain)

section \<open>Starting again with a used token\<close>

lemma find_used_token:
  assumes "token_used t s"
  shows "\<exists>r. find_registration_token seed t s = Some r \<and> nt_status r \<noteq> ''active''"
proof -
  let ?rs = "hm_values seed (node_registration_tokens s)"
  have set: "set ?rs = snd ` set (node_registration_tokens s)" by (simp add: hm_values_def)
  with assms have "List.find (\<lambda>r. nt_token r = t) ?rs \<noteq> None"
    by (auto simp: find_None_iff token_used_def)
  then obtain r where r: "List.find (\<lambda>r. nt_token r = t) ?rs = Some r" by blast
  then obtain i where "i < length ?rs" "r = ?rs ! i" "nt_token r = t" by (auto simp: find_Some_iff)
  then have "r \<in> set ?rs" "nt_token r = t" using nth_mem [of i ?rs] by simp_all
  with r assms show ?thesis unfolding set by (auto simp: find_registration_token_def token_used_def)
qed

lemma register_used_token:
  assumes st: "app_store st = memory_store L T"
    and "rnr_registration_token req = app_default_registration_token st"
    and used: "token_used (app_default_registration_token st) (app_store_state st)"
  shows "register_node L E req st = (Err (CONFLICT, ''registration token already consumed''), st)"
proof -
  have "list_ex (\<lambda>r. nt_token r = app_default_registration_token st)
      (hm_values seed (node_registration_tokens (app_store_state st)))" for seed
    using used by (auto simp: token_used_def list_ex_iff hm_values_def)
  then have ensure: "ensure_default_registration_token (E 0) (E 1) st = (Ok (), st)"
    by (simp add: ensure_default_registration_token_def Let_def call_def map_err_op_def store_call_def
        st mem_create_node_registration_token_def node_registration_token_new_def)
  obtain r where "find_registration_token (hash_seed (E 3) 0) (app_default_registration_token st)
      (app_store_state st) = Some r" "nt_status r \<noteq> ''active''"
    using find_used_token [OF used] by blast
  then show ?thesis
    by (simp add: register_node_def and_then_def ensure [unfolded One_nat_def] get_app_def Let_def map_err_op_def store_call_def
        st assms(2) mem_register_node_with_registration_token_def)
qed

lemma register_route:
  "''/nodes/register'' \<in> set route_patterns" "static_pattern ''/nodes/register''"
  "pattern_match ''/nodes/register'' ''/nodes/register'' = Some []"
  "map_of build_router ''/nodes/register'' = Some [(POST, RegisterNodeEp)]"
  by code_simp+

lemma serve_register:
  assumes "conforms W C"
  shows "serve L J W E POST ''/nodes/register'' q hs b st
    = dispatch L J W E RegisterNodeEp [] q (received W hs) b st"
proof -
  have "wb_match W route_patterns ''/nodes/register'' = Some (''/nodes/register'', [])"
    using assms register_route(1-3) unfolding conforms_def axum_routing_def by blast
  then show ?thesis
    by (simp add: serve_def route_patterns_def [symmetric] register_route(4) extracting_def received_def)
qed

text \<open>What a registration over the link does, from what the handler does.\<close>

lemma http_register_node_eq:
  fixes L :: libs and s :: "memory_state server http_source"
  defines "req \<equiv> \<lambda>n t v. \<lparr>rnr_registration_token = t, rnr_node_id = n, rnr_xray_version = v,
      rnr_runner_result_public_key_hex = Some (hex_encode L (ed_verifying_key L (hcs_result_signing_key s)))\<rparr>"
  assumes "connected L J W N C" and "base_url N (hcs_base_url s)"
    and "nt_link N (sv_requests (hcs_client s)) = Delivered"
    and "register_node L (nt_env N (sv_requests (hcs_client s))) (req n t v) (sv_app (hcs_client s)) = (r, st')"
  shows "http_register_node L C n t v s =
    (case r of
       Ok (code, _) \<Rightarrow> if is_success (status_number code) then Ok ()
         else Err (''control-plane node registration failed: status='' @ cl_status_text C (status_number code))
     | Err (code, _) \<Rightarrow> if is_success (status_number code) then Ok ()
         else Err (''control-plane node registration failed: status='' @ cl_status_text C (status_number code)),
     s\<lparr>hcs_client := (hcs_client s)\<lparr>sv_requests := Suc (sv_requests (hcs_client s)), sv_app := st'\<rparr>\<rparr>)"
proof -
  from assms(2) have C: "cl_send C = deliver L J W N" "conforms W C" by (simp_all add: connected_def)
  define k where "k = hex_encode L (ed_verifying_key L (hcs_result_signing_key s))"
  define q where "q = \<lparr>rnr_registration_token = t, rnr_node_id = n, rnr_xray_version = v,
      rnr_runner_result_public_key_hex = None\<rparr>"
  have url: "nt_url N (register_url s) = Some (''/nodes/register'', None)"
  proof -
    have "nt_url N (hcs_base_url s @ path_text [''nodes'', ''register''])
        = Some (path_text [''nodes'', ''register''], None)"
      using assms(3) unfolding base_url_def by (simp add: plain_def plain_char_def char_in_def del: path_text.simps)
    then show ?thesis by (simp add: register_url_def)
  qed
  have jx: "jx_register_node W (JsonBody (registration_json q k)) = Ok (req n t v)"
  proof -
    have "jx_register_node W (JsonBody (registration_json q k))
        = Ok (q\<lparr>rnr_runner_result_public_key_hex := Some k\<rparr>)"
      using C(2) unfolding conforms_def by blast
    then show ?thesis by (simp add: req_def q_def k_def)
  qed
  have body: "registration_json q k = JObject [(''registration_token'', JString t),
      (''node_id'', JString n), (''xray_version'', JString v),
      (''runner_result_public_key_hex'', JString k)]"
    by (simp add: registration_json_def q_def)
  have json: "hs_status (json_response W c x) = status_number c" for c x
  proof -
    obtain j where "wb_json W x = Ok j" using C(2) unfolding conforms_def is_ok_iff by blast
    then show ?thesis by (simp add: json_response_def plain_response_def)
  qed
  show ?thesis
    unfolding http_register_node_def Let_def k_def [symmetric] body [symmetric]
    by (cases r) (auto simp: and_then_def send_def C(1) deliver_def http_post_def url assms(4,5) Let_def
        serve_register [OF C(2)] extracting_def jx respond_def plain_response_def json
        require_success_def fail_op_def return_op_def split: prod.split)
qed

text \<open>
  C35. A registration token serves once: when the control plane's registration token has been used,
  a runner process that is started with it ends with the refused registration as its error before
  its first heartbeat, also when it is the node that used the token.
\<close>

theorem used_token_stops_runner:
  assumes "connected L J W N C" and "V ''CONTROL_PLANE_BASE_URL'' = Some url"
    and "base_url N (trim_end_slashes url)" and "V ''RUNNER_RESULT_SIGNING_KEY_HEX'' = None"
    and st: "app_store (sv_app w) = memory_store L T"
    and "V ''NODE_REGISTRATION_TOKEN'' = Some (app_default_registration_token (sv_app w))"
    and "token_used (app_default_registration_token (sv_app w)) (app_store_state (sv_app w))"
    and "nt_link N (sv_requests w) = Delivered"
  shows "runner_main L host_of C V E others disk_at w = Some
    \<lparr>oc_result = Err (''control-plane node registration failed: status='' @ cl_status_text C 409),
     oc_stdout = [], oc_world = w\<lparr>sv_requests := Suc (sv_requests w)\<rparr>, oc_local = None\<rparr>"
proof -
  let ?n = "var_or V ''RUNNER_NODE_ID'' ''dev-node-1''" and ?v = "var_or V ''RUNNER_XRAY_VERSION'' ''unknown''"
  let ?t = "app_default_registration_token (sv_app w)"
  obtain s where s: "runner_source L V url w = Ok s" "hcs_client s = w"
      "hcs_base_url s = trim_end_slashes url"
    using assms(4) by (cases "V ''RUNNER_API_TOKEN''")
      (auto simp: runner_source_def Let_def http_source_new_def with_runner_token_def)
  have "http_register_node L C ?n ?t ?v s =
      (Err (''control-plane node registration failed: status='' @ cl_status_text C 409),
       s\<lparr>hcs_client := w\<lparr>sv_requests := Suc (sv_requests w)\<rparr>\<rparr>)"
    by (subst http_register_node_eq [OF assms(1), of s, unfolded s(2,3),
          OF assms(3,8) register_used_token [OF st _ assms(7)]]) simp_all
  then show ?thesis
    using assms(2,6) s(1) by (simp add: runner_main_def announce_def Let_def and_then_def)
qed

theorem used_token_stops_runner_witness:
  "\<exists>out. runner_main demo_libs (\<lambda>_. demo_host) (demo_client demo_net)
      (demo_vars(''NODE_REGISTRATION_TOKEN'' \<mapsto> ''reg'')) (\<lambda>_. demo_env) (\<lambda>_ _ w. w) (\<lambda>_. fresh_disk)
      \<lparr>sv_app = demo_used, sv_requests = 0\<rparr> = Some out \<and>
    oc_result out = Err ''control-plane node registration failed: status=409''"
proof -
  have "app_store demo_used = memory_store demo_libs ''t''" "app_default_registration_token demo_used = ''reg''"
      "token_used ''reg'' (app_store_state demo_used)"
    by (simp_all add: demo_used_def with_store_and_runner_token_def token_used_def mark_used_def
        node_registration_token_new_def)
  moreover have "show_nat 409 = ''409''" by code_simp
  ultimately show ?thesis
    using used_token_stops_runner [OF demo_connected, of "demo_vars(''NODE_REGISTRATION_TOKEN'' \<mapsto> ''reg'')"
        "''http://cp/''" demo_net "\<lparr>sv_app = demo_used, sv_requests = 0\<rparr>" "''t''" "\<lambda>_. demo_host"
        "\<lambda>_. demo_env" "\<lambda>_ _ w. w" "\<lambda>_. fresh_disk"]
    by (simp add: demo_vars_def demo_trim demo_base_url demo_links demo_client_def)
qed

end
