(* ===== verification/Postgres_Schema.thy ===== *)
theory Postgres_Schema
  imports Memory_Store
begin

text \<open>
  The database behind \<open>PostgresStore\<close> (src/migrations/0001_p0_schema.sql): the tables the store
  uses as lists of rows in the order of insertion, with the columns it writes or reads, the
  primary key, unique and foreign key constraints of the schema, and how statements and
  transactions run. A statement is atomic. The connection may fail before a statement is
  executed, or after it, when only the reply is lost: \<open>F k\<close> says which for the k-th statement.
  Rows come back in an order fixed by \<open>pg_scan\<close> from the ambient inputs, any order where
  \<open>ORDER BY\<close> leaves one open. Text is compared by bytes (collation C). Values that sqlx and
  serde_json encode to and decode from \<open>jsonb\<close> and \<open>bytea\<close> columns go through \<open>pg_serde\<close>,
  a parameter. One caller at a time: interleavings of concurrent requests are not modelled.
\<close>

section \<open>Rows\<close>

record pg_node_row =
  pn_id :: string
  pn_tenant_id :: string
  pn_status :: string
  pn_created_at :: datetime

record pg_identity_row =
  pi_node_id :: string
  pi_public_key :: string
  pi_registered_at :: "datetime option"

record pg_capability_row =
  pc_node_id :: string
  pc_xray_version :: string
  pc_capabilities_json :: json
  pc_created_at :: datetime

record pg_command_row =
  pq_tenant_id :: string
  pq_node_id :: string
  pq_sequence :: i64
  pq_envelope_json :: json
  pq_status :: string
  pq_leased_at :: "datetime option"

record pg_heartbeat_row =
  ph_node_id :: string
  ph_session_id :: string
  ph_payload_json :: json
  ph_created_at :: datetime

record pg_profile_version_row =
  pv_id :: string
  pv_tenant_id :: string
  pv_profile_id :: string
  pv_version :: nat
  pv_ir_json :: json
  pv_schema_version :: string
  pv_target_core_version :: string
  pv_input_hash :: string
  pv_created_at :: datetime

record pg_client_row =
  pl_id :: string
  pl_tenant_id :: string
  pl_display_name :: string
  pl_status :: string

record pg_secret_row =
  px_id :: string
  px_tenant_id :: string
  px_kind :: string
  px_ciphertext :: bytes

record pg_credential_row =
  pk_id :: string
  pk_tenant_id :: string
  pk_client_id :: string
  pk_client_group_id :: string
  pk_kind :: string
  pk_secret_ref :: string
  pk_status :: string
  pk_expires_at :: "datetime option"
  pk_created_at :: datetime

record pg_deployment_row =
  pd_id :: string
  pd_tenant_id :: string
  pd_node_id :: string
  pd_profile_version_id :: string
  pd_status :: string
  pd_compiled_config_artifact_id :: string
  pd_rollback_pointer_id :: "string option"
  pd_created_at :: datetime
  pd_finished_at :: "datetime option"

record pg_snapshot_row =
  pz_id :: string
  pz_deployment_id :: string
  pz_snapshot_json :: json
  pz_created_at :: datetime

record pg_health_row =
  py_deployment_id :: string
  py_status :: string
  py_payload_json :: json
  py_created_at :: datetime

record pg_db =
  t_tenants :: "string list"
  t_nodes :: "pg_node_row list"
  t_node_identities :: "pg_identity_row list"
  t_node_registration_tokens :: "node_registration_token_record list"
  t_node_capabilities :: "pg_capability_row list"
  t_runner_sessions :: "(string \<times> string) list"
  t_runner_commands :: "pg_command_row list"
  t_node_heartbeats :: "pg_heartbeat_row list"
  t_profiles :: "(string \<times> string) list"
  t_profile_versions :: "pg_profile_version_row list"
  t_clients :: "pg_client_row list"
  t_credentials :: "pg_credential_row list"
  t_credential_quotas :: "(string \<times> i64) list"
  t_profile_credentials :: "(string \<times> string) list"
  t_artifacts :: "artifact list"
  t_artifact_blobs :: "(string \<times> bytes) list"
  t_deployments :: "pg_deployment_row list"
  t_rollback_pointers :: "rollback_pointer_record list"
  t_deployment_snapshots :: "pg_snapshot_row list"
  t_deployment_health_checks :: "pg_health_row list"
  t_secrets :: "pg_secret_row list"
  t_event_outbox :: "outbox_event_record list"
  t_idempotency_keys :: "((string \<times> string) \<times> json) list"
  t_usage_records :: "usage_sample_record list"
  t_usage_rollups :: "usage_rollup_record list"
  t_subscription_tokens :: "subscription_token_record list"
  t_subscription_access_logs :: "subscription_access_log_record list"
  t_audit_events :: "audit_event_record list"

definition pg_empty :: pg_db where
  "pg_empty = \<lparr>t_tenants = [], t_nodes = [], t_node_identities = [], t_node_registration_tokens = [],
     t_node_capabilities = [], t_runner_sessions = [], t_runner_commands = [], t_node_heartbeats = [],
     t_profiles = [], t_profile_versions = [], t_clients = [], t_credentials = [],
     t_credential_quotas = [], t_profile_credentials = [], t_artifacts = [], t_artifact_blobs = [],
     t_deployments = [], t_rollback_pointers = [], t_deployment_snapshots = [],
     t_deployment_health_checks = [], t_secrets = [], t_event_outbox = [], t_idempotency_keys = [],
     t_usage_records = [], t_usage_rollups = [], t_subscription_tokens = [],
     t_subscription_access_logs = [], t_audit_events = []\<rparr>"

section \<open>Encoded values\<close>

record pg_serde =
  sv_command :: "signed_runner_command \<Rightarrow> (json, string) result"
  sv_command_from :: "json \<Rightarrow> (signed_runner_command, string) result"
  sv_ir :: "profile_ir \<Rightarrow> json"
  sv_ir_from :: "json \<Rightarrow> (profile_ir, string) result"
  sv_snapshot :: "deployment_snapshot_record \<Rightarrow> (json, string) result"
  sv_snapshot_from :: "json \<Rightarrow> (deployment_snapshot_record, string) result"
  sv_material :: "credential_material \<Rightarrow> (bytes, string) result"
  sv_material_from :: "bytes \<Rightarrow> (credential_material, string) result"
  sv_json_bytes :: "json \<Rightarrow> bytes"
  sv_time :: "datetime \<Rightarrow> datetime"

text \<open>
  What the store relies on: a value that was encoded is decoded to itself. \<open>sv_time\<close> is a time
  as a \<open>timestamptz\<close> column keeps it (to the microsecond).
\<close>

definition pg_codec :: "pg_serde \<Rightarrow> bool" where
  "pg_codec S \<longleftrightarrow>
     (\<forall>c j. sv_command S c = Ok j \<longrightarrow> sv_command_from S j = Ok c) \<and>
     (\<forall>ir. sv_ir_from S (sv_ir S ir) = Ok ir) \<and>
     (\<forall>x j. sv_snapshot S x = Ok j \<longrightarrow> sv_snapshot_from S j = Ok x) \<and>
     (\<forall>m b. sv_material S m = Ok b \<longrightarrow> sv_material_from S b = Ok m)"

section \<open>Statements and transactions\<close>

datatype pg_fault = Executed | NotExecuted | ReplyLost

record pg_state =
  pg_db :: pg_db
  pg_calls :: nat

type_synonym 'a pg_op = "(pg_state, 'a, store_error) op"

definition connection_error :: store_error where
  "connection_error = Sqlx ''connection error''"

definition fk_violation :: store_error where
  "fk_violation = Sqlx ''violates foreign key constraint''"

definition unique_violation :: store_error where
  "unique_violation = Sqlx ''duplicate key value violates unique constraint''"

definition statement ::
  "(nat \<Rightarrow> pg_fault) \<Rightarrow> (pg_db \<Rightarrow> ('a \<times> pg_db, store_error) result) \<Rightarrow> 'a pg_op" where
  "statement F f s =
     (let s1 = s\<lparr>pg_calls := Suc (pg_calls s)\<rparr> in
      case F (pg_calls s) of
        NotExecuted \<Rightarrow> (Err connection_error, s1)
      | Executed \<Rightarrow>
          (case f (pg_db s) of Ok (a, d) \<Rightarrow> (Ok a, s1\<lparr>pg_db := d\<rparr>) | Err x \<Rightarrow> (Err x, s1))
      | ReplyLost \<Rightarrow>
          (case f (pg_db s) of Ok (a, d) \<Rightarrow> (Err connection_error, s1\<lparr>pg_db := d\<rparr>)
           | Err x \<Rightarrow> (Err connection_error, s1)))"

definition query :: "(nat \<Rightarrow> pg_fault) \<Rightarrow> (pg_db \<Rightarrow> 'a) \<Rightarrow> 'a pg_op" where
  "query F g = statement F (\<lambda>d. Ok (g d, d))"

definition execute :: "(nat \<Rightarrow> pg_fault) \<Rightarrow> (pg_db \<Rightarrow> (pg_db, store_error) result) \<Rightarrow> unit pg_op" where
  "execute F g = statement F (\<lambda>d. bind_result (g d) (\<lambda>d'. Ok ((), d')))"

text \<open>
  \<open>begin\<close> and \<open>commit\<close> are statements; a transaction that is dropped before its commit leaves
  the tables as they were.
\<close>

definition transaction :: "(nat \<Rightarrow> pg_fault) \<Rightarrow> 'a pg_op \<Rightarrow> 'a pg_op" where
  "transaction F m s =
     (case query F (\<lambda>_. ()) s of
        (Err x, s1) \<Rightarrow> (Err x, s1)
      | (Ok _, s1) \<Rightarrow>
          (case m s1 of
             (Err x, s2) \<Rightarrow> (Err x, s2\<lparr>pg_db := pg_db s\<rparr>)
           | (Ok a, s2) \<Rightarrow> statement F (\<lambda>_. Ok (a, pg_db s2)) (s2\<lparr>pg_db := pg_db s\<rparr>)))"

text \<open>The ambient inputs of a call to another method of the store, from the k-th on.\<close>

definition env_from :: "env \<Rightarrow> nat \<Rightarrow> env" where
  "env_from e k = \<lparr>utc_now = (\<lambda>i. utc_now e (k + i)), new_v4 = (\<lambda>i. new_v4 e (k + i)),
     hash_seed = (\<lambda>i. hash_seed e (k + i))\<rparr>"

definition pg_scan :: "env \<Rightarrow> nat \<Rightarrow> 'r list \<Rightarrow> 'r list" where
  "pg_scan e k rows = hash_iter (hash_seed e k) rows"

text \<open>\<open>UPDATE .. SET f WHERE P\<close>.\<close>

definition update_where :: "('r \<Rightarrow> bool) \<Rightarrow> ('r \<Rightarrow> 'r) \<Rightarrow> 'r list \<Rightarrow> 'r list" where
  "update_where P f rows = map (\<lambda>r. if P r then f r else r) rows"

text \<open>
  \<open>INSERT .. ON CONFLICT (key) DO UPDATE\<close>, with the identity as \<open>f\<close> also \<open>DO NOTHING\<close>: a row
  with the key is changed by \<open>f\<close>; otherwise the row is appended where the other unique
  constraints (\<open>uniq\<close>) and the references (\<open>refs\<close>) hold.
\<close>

definition insert_row ::
  "('r \<Rightarrow> 'k) \<Rightarrow> ('r \<Rightarrow> 'r) \<Rightarrow> bool \<Rightarrow> bool \<Rightarrow> 'r \<Rightarrow> 'r list \<Rightarrow> ('r list, store_error) result" where
  "insert_row key f uniq refs row rows =
     (if key row \<in> set (map key rows)
      then Ok (update_where (\<lambda>r. key r = key row) f rows)
      else if \<not> uniq then Err unique_violation
      else if \<not> refs then Err fk_violation
      else Ok (rows @ [row]))"

text \<open>A plain \<open>INSERT\<close> into a table whose primary key is a sequence of the database.\<close>

definition append_row :: "bool \<Rightarrow> 'r \<Rightarrow> 'r list \<Rightarrow> ('r list, store_error) result" where
  "append_row refs row rows = (if refs then Ok (rows @ [row]) else Err fk_violation)"

text \<open>The first row of \<open>rows\<close> in an order by \<open>key\<close> descending.\<close>

text \<open>Rows in an order by \<open>key\<close>, ties in any order.\<close>

abbreviation order_by :: "env \<Rightarrow> nat \<Rightarrow> ('r \<Rightarrow> 'k::linorder) \<Rightarrow> 'r list \<Rightarrow> 'r list" where
  "order_by e k key rows \<equiv> sort_key key (pg_scan e k rows)"

abbreviation fetch_optional :: "env \<Rightarrow> nat \<Rightarrow> ('r \<Rightarrow> bool) \<Rightarrow> 'r list \<Rightarrow> 'r option" where
  "fetch_optional e k P rows \<equiv> List.find P (pg_scan e k rows)"

abbreviation order_desc_limit1 :: "env \<Rightarrow> nat \<Rightarrow> ('r \<Rightarrow> 'k::linorder) \<Rightarrow> 'r list \<Rightarrow> 'r option" where
  "order_desc_limit1 e k key rows \<equiv> max_by_key key (pg_scan e k rows)"

fun decode_rows :: "('r \<Rightarrow> ('a, store_error) result) \<Rightarrow> 'r list \<Rightarrow> ('a list, store_error) result" where
  "decode_rows f [] = Ok []"
| "decode_rows f (r # rs) = bind_result (f r) (\<lambda>a. bind_result (decode_rows f rs) (\<lambda>as. Ok (a # as)))"

text \<open>The sum of two \<open>bigint\<close> values is an error where it does not fit.\<close>

definition bigint_add :: "i64 \<Rightarrow> i64 \<Rightarrow> (i64, store_error) result" where
  "bigint_add a b =
     (if sint a + sint b = sint (a + b) then Ok (a + b) else Err (Sqlx ''bigint out of range''))"

definition bigint_sum :: "int \<Rightarrow> (i64, store_error) result" where
  "bigint_sum n =
     (if sint (word_of_int n :: i64) = n then Ok (word_of_int n)
      else Err (Sqlx ''bigint out of range''))"

end
