(* ===== verification/Postgres_SQL.thy ===== *)
theory Postgres_SQL
  imports Postgres_Schema Store_Interface
begin

text \<open>
  The statements of \<open>PostgresStore\<close> that write, one definition per SQL text, as functions on the
  tables: the new tables, or the error of the constraint that fails. A statement that appears in
  several methods has one definition. \<open>now\<close> is the server's \<open>now()\<close> for that statement.
\<close>

abbreviation has_tenant :: "pg_db \<Rightarrow> string \<Rightarrow> bool" where
  "has_tenant d i \<equiv> i \<in> set (t_tenants d)"

abbreviation has_node :: "pg_db \<Rightarrow> string \<Rightarrow> bool" where
  "has_node d i \<equiv> i \<in> set (map pn_id (t_nodes d))"

abbreviation has_session :: "pg_db \<Rightarrow> string \<Rightarrow> bool" where
  "has_session d i \<equiv> i \<in> set (map fst (t_runner_sessions d))"

abbreviation has_profile :: "pg_db \<Rightarrow> string \<Rightarrow> bool" where
  "has_profile d i \<equiv> i \<in> set (map fst (t_profiles d))"

abbreviation has_version :: "pg_db \<Rightarrow> string \<Rightarrow> bool" where
  "has_version d i \<equiv> i \<in> set (map pv_id (t_profile_versions d))"

abbreviation has_client :: "pg_db \<Rightarrow> string \<Rightarrow> bool" where
  "has_client d i \<equiv> i \<in> set (map pl_id (t_clients d))"

abbreviation has_credential :: "pg_db \<Rightarrow> string \<Rightarrow> bool" where
  "has_credential d i \<equiv> i \<in> set (map pk_id (t_credentials d))"

abbreviation has_artifact :: "pg_db \<Rightarrow> string \<Rightarrow> bool" where
  "has_artifact d i \<equiv> i \<in> set (map art_id (t_artifacts d))"

abbreviation has_deployment :: "pg_db \<Rightarrow> string \<Rightarrow> bool" where
  "has_deployment d i \<equiv> i \<in> set (map pd_id (t_deployments d))"

abbreviation has_subscription_token :: "pg_db \<Rightarrow> string \<Rightarrow> bool" where
  "has_subscription_token d i \<equiv> i \<in> set (map st_token_id (t_subscription_tokens d))"

text \<open>A nullable reference.\<close>

abbreviation null_or :: "(string \<Rightarrow> bool) \<Rightarrow> string option \<Rightarrow> bool" where
  "null_or P x \<equiv> (case x of None \<Rightarrow> True | Some i \<Rightarrow> P i)"

type_synonym pg_write = "pg_db \<Rightarrow> (pg_db, store_error) result"

section \<open>Events\<close>

definition sql_audit :: "datetime \<Rightarrow> string \<Rightarrow> string \<Rightarrow> string \<Rightarrow> string \<Rightarrow> string \<Rightarrow> pg_write" where
  "sql_audit now tenant actor action aggregate_type aggregate_id d =
     bind_result (append_row (has_tenant d tenant)
        \<lparr>ae_tenant_id = tenant, ae_actor = actor, ae_action = action,
         ae_subject = aggregate_type @ '':'' @ aggregate_id, ae_created_at = now\<rparr>
        (t_audit_events d))
       (\<lambda>t. Ok (d\<lparr>t_audit_events := t\<rparr>))"

definition sql_outbox :: "datetime \<Rightarrow> string \<Rightarrow> string \<Rightarrow> string \<Rightarrow> string \<Rightarrow> pg_write" where
  "sql_outbox now tenant action aggregate_type aggregate_id d =
     bind_result (append_row (has_tenant d tenant)
        \<lparr>oe_tenant_id = tenant, oe_event_type = action, oe_aggregate_type = aggregate_type,
         oe_aggregate_id = aggregate_id, oe_status = ''pending'', oe_created_at = now\<rparr>
        (t_event_outbox d))
       (\<lambda>t. Ok (d\<lparr>t_event_outbox := t\<rparr>))"

section \<open>Nodes\<close>

definition sql_insert_tenant :: "string \<Rightarrow> pg_write" where
  "sql_insert_tenant tenant d =
     bind_result (insert_row id id True True tenant (t_tenants d)) (\<lambda>t. Ok (d\<lparr>t_tenants := t\<rparr>))"

definition sql_upsert_node :: "datetime \<Rightarrow> string \<Rightarrow> string \<Rightarrow> pg_write" where
  "sql_upsert_node now node_id tenant d =
     bind_result (insert_row pn_id (\<lambda>r. r\<lparr>pn_status := ''registered''\<rparr>) True (has_tenant d tenant)
        \<lparr>pn_id = node_id, pn_tenant_id = tenant, pn_status = ''registered'', pn_created_at = now\<rparr>
        (t_nodes d))
       (\<lambda>t. Ok (d\<lparr>t_nodes := t\<rparr>))"

definition sql_insert_capability :: "datetime \<Rightarrow> node_record \<Rightarrow> pg_write" where
  "sql_insert_capability now node d =
     bind_result (append_row (has_node d (nd_node_id node))
        \<lparr>pc_node_id = nd_node_id node, pc_xray_version = nd_xray_version node,
         pc_capabilities_json = JObject
           [(''host'', JString (nd_host node)),
            (''xray_version'', JString (nd_xray_version node))],
         pc_created_at = now\<rparr> (t_node_capabilities d))
       (\<lambda>t. Ok (d\<lparr>t_node_capabilities := t\<rparr>))"

definition coalesce :: "'a option \<Rightarrow> 'a option \<Rightarrow> 'a option" where
  "coalesce x y = (case x of None \<Rightarrow> y | Some _ \<Rightarrow> x)"

definition sql_upsert_identity :: "datetime \<Rightarrow> string \<Rightarrow> string \<Rightarrow> pg_write" where
  "sql_upsert_identity now node_id public_key d =
     bind_result (insert_row pi_node_id
        (\<lambda>r. r\<lparr>pi_public_key := public_key,
               pi_registered_at := coalesce (pi_registered_at r) (Some now)\<rparr>)
        True (has_node d node_id)
        \<lparr>pi_node_id = node_id, pi_public_key = public_key, pi_registered_at = Some now\<rparr>
        (t_node_identities d))
       (\<lambda>t. Ok (d\<lparr>t_node_identities := t\<rparr>))"

definition sql_rotate_identity :: "datetime \<Rightarrow> string \<Rightarrow> string \<Rightarrow> pg_write" where
  "sql_rotate_identity now node_id public_key d =
     bind_result (insert_row pi_node_id (\<lambda>r. r\<lparr>pi_public_key := public_key\<rparr>)
        True (has_node d node_id)
        \<lparr>pi_node_id = node_id, pi_public_key = public_key, pi_registered_at = Some now\<rparr>
        (t_node_identities d))
       (\<lambda>t. Ok (d\<lparr>t_node_identities := t\<rparr>))"

text \<open>The rows affected tell the caller whether the token was new.\<close>

definition sql_insert_registration_token ::
  "pg_serde \<Rightarrow> node_registration_token_record \<Rightarrow> pg_db \<Rightarrow> (bool \<times> pg_db, store_error) result" where
  "sql_insert_registration_token S token d =
     bind_result (insert_row nt_token id
        (nt_token_id token \<notin> set (map nt_token_id (t_node_registration_tokens d)))
        (has_tenant d (nt_tenant_id token) \<and> null_or (has_node d) (nt_used_by_node_id token))
        (token\<lparr>nt_created_at := sv_time S (nt_created_at token),
               nt_consumed_at := map_option (sv_time S) (nt_consumed_at token)\<rparr>)
        (t_node_registration_tokens d))
       (\<lambda>t. Ok (length t \<noteq> length (t_node_registration_tokens d),
                d\<lparr>t_node_registration_tokens := t\<rparr>))"

definition active_token :: "string \<Rightarrow> node_registration_token_record \<Rightarrow> bool" where
  "active_token token r \<longleftrightarrow> nt_token r = token \<and> nt_status r = ''active''"

definition sql_use_token ::
  "datetime \<Rightarrow> string \<Rightarrow> string \<Rightarrow> pg_db
    \<Rightarrow> (node_registration_token_record option \<times> pg_db, store_error) result" where
  "sql_use_token now token node_id d =
     (case List.find (active_token token) (t_node_registration_tokens d) of
        None \<Rightarrow> Ok (None, d)
      | Some r \<Rightarrow>
          if \<not> has_node d node_id then Err fk_violation
          else Ok (Some (mark_used now r node_id),
                   d\<lparr>t_node_registration_tokens :=
                       update_where (active_token token) (\<lambda>x. mark_used now x node_id)
                         (t_node_registration_tokens d)\<rparr>))"

definition sql_insert_session :: "string \<Rightarrow> string \<Rightarrow> pg_write" where
  "sql_insert_session session_id node_id d =
     bind_result (insert_row fst id True (has_node d node_id) (session_id, node_id)
        (t_runner_sessions d))
       (\<lambda>t. Ok (d\<lparr>t_runner_sessions := t\<rparr>))"

definition sql_insert_heartbeat :: "datetime \<Rightarrow> string \<Rightarrow> string \<Rightarrow> json \<Rightarrow> pg_write" where
  "sql_insert_heartbeat now node_id session_id payload d =
     bind_result (append_row (has_node d node_id \<and> has_session d session_id)
        \<lparr>ph_node_id = node_id, ph_session_id = session_id, ph_payload_json = payload,
         ph_created_at = now\<rparr> (t_node_heartbeats d))
       (\<lambda>t. Ok (d\<lparr>t_node_heartbeats := t\<rparr>))"

section \<open>Profiles and credentials\<close>

definition sql_insert_profile :: "string \<Rightarrow> string \<Rightarrow> pg_write" where
  "sql_insert_profile profile_id tenant d =
     bind_result (insert_row fst id True (has_tenant d tenant) (profile_id, tenant) (t_profiles d))
       (\<lambda>t. Ok (d\<lparr>t_profiles := t\<rparr>))"

definition sql_insert_profile_version :: "pg_profile_version_row \<Rightarrow> pg_write" where
  "sql_insert_profile_version row d =
     bind_result (insert_row (\<lambda>r. (pv_profile_id r, pv_version r)) id
        (\<not> has_version d (pv_id row))
        (has_tenant d (pv_tenant_id row) \<and> has_profile d (pv_profile_id row))
        row (t_profile_versions d))
       (\<lambda>t. Ok (d\<lparr>t_profile_versions := t\<rparr>))"

definition sql_upsert_client :: "pg_client_row \<Rightarrow> pg_write" where
  "sql_upsert_client row d =
     bind_result (insert_row pl_id
        (\<lambda>r. r\<lparr>pl_display_name := pl_display_name row, pl_status := pl_status row\<rparr>)
        True (has_tenant d (pl_tenant_id row)) row (t_clients d))
       (\<lambda>t. Ok (d\<lparr>t_clients := t\<rparr>))"

definition sql_upsert_secret :: "pg_secret_row \<Rightarrow> pg_write" where
  "sql_upsert_secret row d =
     bind_result (insert_row px_id (\<lambda>r. r\<lparr>px_ciphertext := px_ciphertext row\<rparr>)
        True (has_tenant d (px_tenant_id row)) row (t_secrets d))
       (\<lambda>t. Ok (d\<lparr>t_secrets := t\<rparr>))"

definition sql_upsert_credential :: "pg_credential_row \<Rightarrow> pg_write" where
  "sql_upsert_credential row d =
     bind_result (insert_row pk_id (\<lambda>r. r\<lparr>pk_status := pk_status row\<rparr>)
        True (has_tenant d (pk_tenant_id row) \<and> has_client d (pk_client_id row))
        row (t_credentials d))
       (\<lambda>t. Ok (d\<lparr>t_credentials := t\<rparr>))"

definition sql_link_credential :: "string \<Rightarrow> string \<Rightarrow> pg_write" where
  "sql_link_credential profile_id credential_id d =
     bind_result (insert_row id id True (has_profile d profile_id \<and> has_credential d credential_id)
        (profile_id, credential_id) (t_profile_credentials d))
       (\<lambda>t. Ok (d\<lparr>t_profile_credentials := t\<rparr>))"

definition sql_set_quota :: "string \<Rightarrow> i64 \<Rightarrow> pg_write" where
  "sql_set_quota credential_id quota_bytes d =
     bind_result (insert_row fst (\<lambda>r. (fst r, quota_bytes)) True (has_credential d credential_id)
        (credential_id, quota_bytes) (t_credential_quotas d))
       (\<lambda>t. Ok (d\<lparr>t_credential_quotas := t\<rparr>))"

definition sql_set_expiry ::
  "string \<Rightarrow> datetime \<Rightarrow> pg_db \<Rightarrow> (bool \<times> pg_db, store_error) result" where
  "sql_set_expiry credential_id expires_at d =
     Ok (has_credential d credential_id,
         d\<lparr>t_credentials := update_where (\<lambda>r. pk_id r = credential_id)
             (\<lambda>r. r\<lparr>pk_expires_at := Some expires_at\<rparr>) (t_credentials d)\<rparr>)"

section \<open>Artifacts and responses\<close>

definition sql_insert_artifact :: "datetime \<Rightarrow> artifact \<Rightarrow> pg_write" where
  "sql_insert_artifact now a d =
     bind_result (insert_row (\<lambda>r. (art_tenant_id r, art_sha256 r)) id
        (\<not> has_artifact d (art_id a)) (has_tenant d (art_tenant_id a))
        (a\<lparr>art_created_at := now\<rparr>) (t_artifacts d))
       (\<lambda>t. Ok (d\<lparr>t_artifacts := t\<rparr>))"

definition sql_insert_blob :: "string \<Rightarrow> bytes \<Rightarrow> pg_write" where
  "sql_insert_blob sha b d =
     bind_result (insert_row fst id True True (sha, b) (t_artifact_blobs d))
       (\<lambda>t. Ok (d\<lparr>t_artifact_blobs := t\<rparr>))"

definition sql_insert_response :: "string \<Rightarrow> string \<Rightarrow> json \<Rightarrow> pg_write" where
  "sql_insert_response tenant key response d =
     bind_result (insert_row fst id True (has_tenant d tenant) ((tenant, key), response)
        (t_idempotency_keys d))
       (\<lambda>t. Ok (d\<lparr>t_idempotency_keys := t\<rparr>))"

section \<open>Deployments\<close>

definition sql_insert_deployment :: "pg_deployment_row \<Rightarrow> pg_write" where
  "sql_insert_deployment row d =
     bind_result (insert_row pd_id id True
        (has_tenant d (pd_tenant_id row) \<and> has_node d (pd_node_id row)
         \<and> has_version d (pd_profile_version_id row)
         \<and> has_artifact d (pd_compiled_config_artifact_id row))
        row (t_deployments d))
       (\<lambda>t. Ok (d\<lparr>t_deployments := t\<rparr>))"

definition sql_insert_rollback_pointer :: "rollback_pointer_record \<Rightarrow> pg_write" where
  "sql_insert_rollback_pointer row d =
     bind_result (insert_row rbp_rollback_pointer_id id True
        (has_tenant d (rbp_tenant_id row) \<and> has_deployment d (rbp_deployment_id row)
         \<and> null_or (has_deployment d) (rbp_previous_deployment_id row)
         \<and> null_or (has_artifact d) (rbp_previous_compiled_config_artifact_id row)
         \<and> has_artifact d (rbp_target_compiled_config_artifact_id row))
        row (t_rollback_pointers d))
       (\<lambda>t. Ok (d\<lparr>t_rollback_pointers := t\<rparr>))"

definition sql_set_rollback_pointer :: "string \<Rightarrow> string \<Rightarrow> pg_write" where
  "sql_set_rollback_pointer deployment_id pointer_id d =
     Ok (d\<lparr>t_deployments := update_where (\<lambda>r. pd_id r = deployment_id)
        (\<lambda>r. r\<lparr>pd_rollback_pointer_id := Some pointer_id\<rparr>) (t_deployments d)\<rparr>)"

definition sql_set_deployment_status ::
  "datetime \<Rightarrow> string \<Rightarrow> string \<Rightarrow> pg_db \<Rightarrow> (bool \<times> pg_db, store_error) result" where
  "sql_set_deployment_status now deployment_id status d =
     Ok (has_deployment d deployment_id,
         d\<lparr>t_deployments := update_where (\<lambda>r. pd_id r = deployment_id)
            (\<lambda>r. r\<lparr>pd_status := status, pd_finished_at := coalesce (pd_finished_at r) (Some now)\<rparr>)
            (t_deployments d)\<rparr>)"

definition sql_upsert_snapshot :: "pg_snapshot_row \<Rightarrow> pg_write" where
  "sql_upsert_snapshot row d =
     bind_result (insert_row pz_id
        (\<lambda>r. r\<lparr>pz_snapshot_json := pz_snapshot_json row, pz_created_at := pz_created_at row\<rparr>)
        True (has_deployment d (pz_deployment_id row)) row (t_deployment_snapshots d))
       (\<lambda>t. Ok (d\<lparr>t_deployment_snapshots := t\<rparr>))"

definition sql_insert_health :: "pg_health_row \<Rightarrow> pg_write" where
  "sql_insert_health row d =
     bind_result (append_row (has_deployment d (py_deployment_id row)) row
        (t_deployment_health_checks d))
       (\<lambda>t. Ok (d\<lparr>t_deployment_health_checks := t\<rparr>))"

section \<open>Usage\<close>

definition sql_insert_usage :: "usage_sample_record \<Rightarrow> pg_write" where
  "sql_insert_usage u d =
     bind_result (append_row (has_tenant d (us_tenant_id u) \<and> has_node d (us_node_id u)
         \<and> null_or (has_credential d) (us_credential_id u)) u (t_usage_records d))
       (\<lambda>t. Ok (d\<lparr>t_usage_records := t\<rparr>))"

definition rollup_row_key :: "usage_rollup_record \<Rightarrow> string \<times> string option \<times> string \<times> datetime" where
  "rollup_row_key r = (ur_tenant_id r, ur_credential_id r, ur_bucket r, ur_bucket_start r)"

text \<open>
  The unique constraint of \<open>usage_rollups\<close> never matches a row whose credential is NULL, so a
  sample without a credential is inserted as a row of its own.
\<close>

definition sql_add_rollup :: "usage_rollup_record \<Rightarrow> pg_write" where
  "sql_add_rollup row d =
     (case (if ur_credential_id row = None then None
            else List.find (\<lambda>r. rollup_row_key r = rollup_row_key row) (t_usage_rollups d)) of
        None \<Rightarrow>
          bind_result (append_row (has_tenant d (ur_tenant_id row)
              \<and> null_or (has_credential d) (ur_credential_id row)) row (t_usage_rollups d))
            (\<lambda>t. Ok (d\<lparr>t_usage_rollups := t\<rparr>))
      | Some old \<Rightarrow>
          bind_result (bigint_add (ur_uplink_bytes old) (ur_uplink_bytes row)) (\<lambda>up.
          bind_result (bigint_add (ur_downlink_bytes old) (ur_downlink_bytes row)) (\<lambda>down.
            Ok (d\<lparr>t_usage_rollups := update_where (\<lambda>r. rollup_row_key r = rollup_row_key row)
                   (\<lambda>r. r\<lparr>ur_uplink_bytes := up, ur_downlink_bytes := down\<rparr>)
                   (t_usage_rollups d)\<rparr>))))"

section \<open>Runner commands\<close>

definition command_row_key :: "pg_command_row \<Rightarrow> string \<times> i64" where
  "command_row_key r = (pq_node_id r, pq_sequence r)"

definition sql_insert_command :: "pg_command_row \<Rightarrow> pg_write" where
  "sql_insert_command row d =
     bind_result (insert_row command_row_key id True
        (has_tenant d (pq_tenant_id row) \<and> has_node d (pq_node_id row)) row (t_runner_commands d))
       (\<lambda>t. Ok (d\<lparr>t_runner_commands := t\<rparr>))"

definition pending_row :: "string \<Rightarrow> pg_command_row \<Rightarrow> bool" where
  "pending_row node_id r \<longleftrightarrow> pq_node_id r = node_id \<and> pq_status r = ''pending''"

definition sql_skip_commands :: "string \<Rightarrow> i64 \<Rightarrow> pg_write" where
  "sql_skip_commands node_id last_seq d =
     Ok (d\<lparr>t_runner_commands :=
           update_where (\<lambda>r. pending_row node_id r \<and> pq_sequence r \<le>s last_seq)
             (\<lambda>r. r\<lparr>pq_status := ''skipped''\<rparr>) (t_runner_commands d)\<rparr>)"

text \<open>The row is identified by the unique key, which stands for its serial \<open>id\<close>.\<close>

definition sql_lease_command ::
  "datetime \<Rightarrow> string \<Rightarrow> i64 \<Rightarrow> pg_db \<Rightarrow> (json option \<times> pg_db, store_error) result" where
  "sql_lease_command now node_id last_seq d =
     (case max_by_key (\<lambda>r. - sint (pq_sequence r))
             (filter (\<lambda>r. pending_row node_id r \<and> last_seq <s pq_sequence r) (t_runner_commands d)) of
        None \<Rightarrow> Ok (None, d)
      | Some c \<Rightarrow>
          Ok (Some (pq_envelope_json c),
              d\<lparr>t_runner_commands := update_where (\<lambda>r. command_row_key r = command_row_key c)
                   (\<lambda>r. r\<lparr>pq_status := ''leased'', pq_leased_at := Some now\<rparr>)
                   (t_runner_commands d)\<rparr>))"

section \<open>Subscription tokens\<close>

definition sql_insert_subscription_token :: "subscription_token_record \<Rightarrow> pg_write" where
  "sql_insert_subscription_token row d =
     (if has_subscription_token d (st_token_id row) then Err unique_violation
      else bind_result (append_row (has_tenant d (st_tenant_id row)
              \<and> has_profile d (st_profile_id row)) row (t_subscription_tokens d))
            (\<lambda>t. Ok (d\<lparr>t_subscription_tokens := t\<rparr>)))"

definition sql_rotate_tokens :: "datetime \<Rightarrow> string \<Rightarrow> pg_write" where
  "sql_rotate_tokens now profile_id d =
     Ok (d\<lparr>t_subscription_tokens :=
           update_where (\<lambda>t. st_profile_id t = profile_id \<and> st_status t = ''active'')
             (\<lambda>t. t\<lparr>st_status := ''rotated'', st_rotated_at := Some now\<rparr>)
             (t_subscription_tokens d)\<rparr>)"

definition sql_insert_access_log :: "subscription_access_log_record \<Rightarrow> pg_write" where
  "sql_insert_access_log row d =
     bind_result (append_row (has_subscription_token d (al_token_id row)) row
        (t_subscription_access_logs d))
       (\<lambda>t. Ok (d\<lparr>t_subscription_access_logs := t\<rparr>))"

end
