(* ===== verification/Postgres_Store.thy ===== *)
theory Postgres_Store
  imports Postgres_SQL
begin

text \<open>
  \<open>PostgresStore\<close> (src/crates/storage/src/lib.rs, lines 1720-3483): one definition per method, the
  statements in the order the method awaits them, each stopping the method at its first error. Only
  \<open>register_node_with_registration_token\<close> opens a transaction; in every other method the
  statements before an error stay. \<open>F\<close> are the connection faults, \<open>S\<close> the codecs of
  \<open>jsonb\<close> and \<open>bytea\<close> values, \<open>e\<close> the ambient inputs: \<open>utc_now e k\<close> for the clock (of the
  server or of the caller) and \<open>hash_seed e k\<close> for the row order of the method's k-th statement.
\<close>

type_synonym faults = "nat \<Rightarrow> pg_fault"

definition serde_result :: "('a, string) result \<Rightarrow> ('a, store_error) result" where
  "serde_result r = map_err Serde r"

definition pg_record_event ::
  "faults \<Rightarrow> datetime \<Rightarrow> datetime \<Rightarrow> string \<Rightarrow> string \<Rightarrow> string \<Rightarrow> string \<Rightarrow> string \<Rightarrow> unit pg_op" where
  "pg_record_event F now now' tenant actor action aggregate_type aggregate_id =
     and_then (execute F (sql_audit now tenant actor action aggregate_type aggregate_id)) (\<lambda>_.
     execute F (sql_outbox now' tenant action aggregate_type aggregate_id))"

text \<open>Inside a transaction \<open>now()\<close> is the start of the transaction.\<close>

definition pg_record_event_in_tx ::
  "faults \<Rightarrow> datetime \<Rightarrow> string \<Rightarrow> string \<Rightarrow> string \<Rightarrow> string \<Rightarrow> string \<Rightarrow> unit pg_op" where
  "pg_record_event_in_tx F now tenant actor action aggregate_type aggregate_id =
     and_then (execute F (sql_audit now tenant actor action aggregate_type aggregate_id)) (\<lambda>_.
     execute F (sql_outbox now tenant action aggregate_type aggregate_id))"

section \<open>Nodes and registration tokens\<close>

definition pg_register_node :: "faults \<Rightarrow> env \<Rightarrow> node_record \<Rightarrow> unit pg_op" where
  "pg_register_node F e node =
     and_then (execute F (sql_insert_tenant (nd_tenant_id node))) (\<lambda>_.
     and_then (execute F (sql_upsert_node (utc_now e 0) (nd_node_id node) (nd_tenant_id node))) (\<lambda>_.
     and_then (execute F (sql_insert_capability (utc_now e 1) node)) (\<lambda>_.
     and_then
       (if nd_runner_result_public_key_hex node \<noteq> []
        then execute F (sql_upsert_identity (utc_now e 2) (nd_node_id node)
               (nd_runner_result_public_key_hex node))
        else return_op ()) (\<lambda>_.
     pg_record_event F (utc_now e 3) (utc_now e 4) (nd_tenant_id node) ''runner''
       ''node.registered'' ''node'' (nd_node_id node)))))"

definition token_not_usable :: "faults \<Rightarrow> string \<Rightarrow> 'a pg_op" where
  "token_not_usable F registration_token =
     and_then (query F (\<lambda>d. List.find (\<lambda>r. nt_token r = registration_token)
                              (t_node_registration_tokens d))) (\<lambda>exists.
     case exists of
       Some _ \<Rightarrow> fail_op (Conflict ''registration token already consumed'')
     | None \<Rightarrow> fail_op (NotFound ''node_registration_token''))"

definition pg_registration_tx ::
  "faults \<Rightarrow> datetime \<Rightarrow> node_record \<Rightarrow> string \<Rightarrow> node_registration_token_record pg_op" where
  "pg_registration_tx F now node registration_token =
     and_then (execute F (sql_insert_tenant (nd_tenant_id node))) (\<lambda>_.
     and_then (execute F (sql_upsert_node now (nd_node_id node) (nd_tenant_id node))) (\<lambda>_.
     and_then (execute F (sql_insert_capability now node)) (\<lambda>_.
     and_then
       (if nd_runner_result_public_key_hex node \<noteq> []
        then execute F (sql_upsert_identity now (nd_node_id node)
               (nd_runner_result_public_key_hex node))
        else return_op ()) (\<lambda>_.
     and_then (statement F (sql_use_token now registration_token (nd_node_id node))) (\<lambda>token_row.
     case token_row of
       None \<Rightarrow> token_not_usable F registration_token
     | Some token \<Rightarrow>
         and_then (pg_record_event_in_tx F now (nd_tenant_id node) ''runner'' ''node.registered''
                     ''node'' (nd_node_id node)) (\<lambda>_.
         and_then (pg_record_event_in_tx F now (nt_tenant_id token) ''runner''
                     ''node_registration_token.used'' ''node_registration_token''
                     (nt_token_id token)) (\<lambda>_.
         return_op token)))))))"

definition pg_register_node_with_registration_token ::
  "faults \<Rightarrow> env \<Rightarrow> node_record \<Rightarrow> string \<Rightarrow> node_registration_token_record pg_op" where
  "pg_register_node_with_registration_token F e node registration_token =
     transaction F (pg_registration_tx F (utc_now e 0) node registration_token)"

text \<open>The row of \<open>node\<close> and \<open>list_nodes\<close>: a node with its key and its newest capabilities.\<close>

definition json_as_str :: "json \<Rightarrow> string option" where
  "json_as_str j = (case j of JString s \<Rightarrow> Some s | _ \<Rightarrow> None)"

definition node_row_record :: "env \<Rightarrow> nat \<Rightarrow> pg_db \<Rightarrow> pg_node_row \<Rightarrow> node_record" where
  "node_row_record e k d n =
     (let nc = order_desc_limit1 e k pc_created_at
                 (filter (\<lambda>c. pc_node_id c = pn_id n) (t_node_capabilities d));
          ni = List.find (\<lambda>i. pi_node_id i = pn_id n) (t_node_identities d)
      in \<lparr>nd_tenant_id = pn_tenant_id n, nd_node_id = pn_id n,
          nd_host = unwrap_or (pn_id n @ ''.example'')
            (Option.bind (map_option pc_capabilities_json nc)
              (\<lambda>v. Option.bind (json_get ''host'' v) json_as_str)),
          nd_xray_version = unwrap_or ''unknown'' (map_option pc_xray_version nc),
          nd_runner_result_public_key_hex = unwrap_or [] (map_option pi_public_key ni),
          nd_last_heartbeat_at = pn_created_at n\<rparr>)"

definition pg_node :: "faults \<Rightarrow> env \<Rightarrow> string \<Rightarrow> node_record pg_op" where
  "pg_node F e node_id =
     and_then (query F (\<lambda>d. map_option (node_row_record e 0 d)
                              (List.find (\<lambda>n. pn_id n = node_id) (t_nodes d)))) (\<lambda>row.
     lift_result (ok_or (NotFound (''node:'' @ node_id)) row))"

definition pg_list_nodes :: "faults \<Rightarrow> env \<Rightarrow> node_record list pg_op" where
  "pg_list_nodes F e =
     query F (\<lambda>d. let rows = order_by e 0 pn_id (t_nodes d)
                  in map2 (\<lambda>k n. node_row_record e k d n) [1..<Suc (length rows)] rows)"

definition pg_create_node_registration_token ::
  "faults \<Rightarrow> pg_serde \<Rightarrow> env \<Rightarrow> node_registration_token_record \<Rightarrow> unit pg_op" where
  "pg_create_node_registration_token F S e token =
     and_then (execute F (sql_insert_tenant (nt_tenant_id token))) (\<lambda>_.
     and_then (statement F (sql_insert_registration_token S token)) (\<lambda>inserted.
     if \<not> inserted then return_op ()
     else pg_record_event F (utc_now e 0) (utc_now e 1) (nt_tenant_id token) ''admin''
            ''node_registration_token.issued'' ''node_registration_token'' (nt_token_id token)))"

definition pg_list_node_registration_tokens ::
  "faults \<Rightarrow> env \<Rightarrow> node_registration_token_record list pg_op" where
  "pg_list_node_registration_tokens F e =
     query F (\<lambda>d. order_by e 0 nt_created_at (t_node_registration_tokens d))"

definition pg_node_registration_token ::
  "faults \<Rightarrow> string \<Rightarrow> node_registration_token_record pg_op" where
  "pg_node_registration_token F token =
     and_then (query F (\<lambda>d. List.find (\<lambda>r. nt_token r = token) (t_node_registration_tokens d))) (\<lambda>row.
     lift_result (ok_or (NotFound ''node_registration_token'') row))"

definition pg_consume_node_registration_token ::
  "faults \<Rightarrow> env \<Rightarrow> string \<Rightarrow> string \<Rightarrow> node_registration_token_record pg_op" where
  "pg_consume_node_registration_token F e token node_id =
     and_then (statement F (sql_use_token (utc_now e 0) token node_id)) (\<lambda>row.
     and_then (lift_result (ok_or (NotFound ''node_registration_token'') row)) (\<lambda>rec.
     and_then (pg_record_event F (utc_now e 1) (utc_now e 2) (nt_tenant_id rec) ''runner''
                 ''node_registration_token.used'' ''node_registration_token'' (nt_token_id rec)) (\<lambda>_.
     return_op rec)))"

definition pg_update_node_runner_result_public_key ::
  "faults \<Rightarrow> env \<Rightarrow> string \<Rightarrow> string \<Rightarrow> node_record pg_op" where
  "pg_update_node_runner_result_public_key F e node_id public_key_hex =
     and_then (pg_node F e node_id) (\<lambda>node.
     and_then (execute F (sql_rotate_identity (utc_now e 0) node_id public_key_hex)) (\<lambda>_.
     and_then (pg_record_event F (utc_now e 1) (utc_now e 2) (nd_tenant_id node) ''admin''
                 ''node.runner_result_key_rotated'' ''node'' node_id) (\<lambda>_.
     pg_node F (env_from e 3) node_id)))"

definition pg_record_heartbeat :: "faults \<Rightarrow> env \<Rightarrow> heartbeat_record \<Rightarrow> unit pg_op" where
  "pg_record_heartbeat F e hb =
     (let session_id = hb_node_id hb @ ''-dev-session'' in
      and_then (execute F (sql_insert_session session_id (hb_node_id hb))) (\<lambda>_.
      and_then (execute F (sql_insert_heartbeat (utc_now e 0) (hb_node_id hb) session_id
                  (hb_capability_snapshot hb))) (\<lambda>_.
      pg_record_event F (utc_now e 1) (utc_now e 2) (hb_tenant_id hb) ''runner'' ''node.heartbeat''
        ''node'' (hb_node_id hb))))"

definition pg_latest_heartbeat :: "faults \<Rightarrow> env \<Rightarrow> string \<Rightarrow> heartbeat_record pg_op" where
  "pg_latest_heartbeat F e node_id =
     and_then (query F (\<lambda>d. order_desc_limit1 e 0 (\<lambda>(n, h). ph_created_at h)
        [(n, h). h \<leftarrow> t_node_heartbeats d, ph_node_id h = node_id,
                 n \<leftarrow> t_nodes d, pn_id n = ph_node_id h])) (\<lambda>row.
     lift_result (ok_or (NotFound (''heartbeat:'' @ node_id))
       (map_option (\<lambda>(n, h). \<lparr>hb_tenant_id = pn_tenant_id n, hb_node_id = ph_node_id h,
          hb_capability_snapshot = ph_payload_json h, hb_created_at = ph_created_at h\<rparr>) row)))"

section \<open>Profiles and credentials\<close>

definition profile_row_record ::
  "pg_serde \<Rightarrow> pg_profile_version_row \<Rightarrow> (profile_record, store_error) result" where
  "profile_row_record S r =
     bind_result (serde_result (sv_ir_from S (pv_ir_json r))) (\<lambda>ir.
     Ok \<lparr>pr_tenant_id = pv_tenant_id r, pr_profile_id = pv_profile_id r, pr_ir = ir,
         pr_created_at = pv_created_at r\<rparr>)"

definition pg_create_profile ::
  "faults \<Rightarrow> pg_serde \<Rightarrow> libs \<Rightarrow> env \<Rightarrow> profile_record \<Rightarrow> unit pg_op" where
  "pg_create_profile F S L e p =
     and_then (execute F (sql_insert_tenant (pr_tenant_id p))) (\<lambda>_.
     and_then (execute F (sql_insert_profile (pr_profile_id p) (pr_tenant_id p))) (\<lambda>_.
     let ir_json = sv_ir S (pr_ir p);
         input_hash = sha256_hex L (sv_json_bytes S ir_json) in
     and_then (execute F (sql_insert_profile_version
        \<lparr>pv_id = pr_profile_id p @ ''-v1'', pv_tenant_id = pr_tenant_id p,
         pv_profile_id = pr_profile_id p, pv_version = 1, pv_ir_json = ir_json,
         pv_schema_version = ir_schema_version (pr_ir p),
         pv_target_core_version = rt_core_version (ir_runtime (pr_ir p)),
         pv_input_hash = input_hash, pv_created_at = utc_now e 0\<rparr>)) (\<lambda>_.
     pg_record_event F (utc_now e 1) (utc_now e 2) (pr_tenant_id p) ''admin'' ''profile.created''
       ''profile'' (pr_profile_id p))))"

fun distinct_on :: "('r \<Rightarrow> 'k) \<Rightarrow> 'r list \<Rightarrow> 'r list" where
  "distinct_on key [] = []"
| "distinct_on key (r # rs) = r # filter (\<lambda>x. key x \<noteq> key r) (distinct_on key rs)"

definition pg_list_profiles :: "faults \<Rightarrow> pg_serde \<Rightarrow> env \<Rightarrow> profile_record list pg_op" where
  "pg_list_profiles F S e =
     and_then (query F (\<lambda>d. distinct_on pv_profile_id
        (order_by e 0 (\<lambda>r. (pv_profile_id r, - int (pv_version r))) (t_profile_versions d)))) (\<lambda>rows.
     lift_result (decode_rows (profile_row_record S) rows))"

definition pg_profile :: "faults \<Rightarrow> pg_serde \<Rightarrow> env \<Rightarrow> string \<Rightarrow> profile_record pg_op" where
  "pg_profile F S e profile_id =
     and_then (query F (\<lambda>d. order_desc_limit1 e 0 pv_version
        (filter (\<lambda>r. pv_profile_id r = profile_id) (t_profile_versions d)))) (\<lambda>row.
     lift_result (bind_result (ok_or (NotFound (''profile:'' @ profile_id)) row)
       (profile_row_record S)))"

fun credential_status_debug :: "credential_status \<Rightarrow> string" where
  "credential_status_debug Active = ''Active''"
| "credential_status_debug Revoked = ''Revoked''"
| "credential_status_debug Expired = ''Expired''"

fun material_kind :: "credential_material \<Rightarrow> string" where
  "material_kind (VlessUuid _) = ''vless_uuid''"
| "material_kind (ShadowsocksPassword _ _) = ''shadowsocks_password''"
| "material_kind (TrojanPassword _) = ''trojan_password''"

definition pg_add_credential ::
  "faults \<Rightarrow> pg_serde \<Rightarrow> env \<Rightarrow> string \<Rightarrow> credential \<Rightarrow> unit pg_op" where
  "pg_add_credential F S e profile_id c =
     and_then (query F (\<lambda>d. List.find (\<lambda>r. fst r = profile_id) (t_profiles d))) (\<lambda>row.
     and_then (lift_result (ok_or (NotFound (''profile:'' @ profile_id)) row)) (\<lambda>profile.
     let tenant = snd profile;
         status = to_ascii_lowercase (credential_status_debug (cr_status c));
         kind = material_kind (cr_material c);
         secret_ref = ''secret:'' @ cr_id c in
     and_then (execute F (sql_upsert_client
        \<lparr>pl_id = cr_id c, pl_tenant_id = tenant, pl_display_name = cr_display_name c,
         pl_status = status\<rparr>)) (\<lambda>_.
     and_then (lift_result (serde_result (sv_material S (cr_material c)))) (\<lambda>material_bytes.
     and_then (execute F (sql_upsert_secret
        \<lparr>px_id = secret_ref, px_tenant_id = tenant, px_kind = kind,
         px_ciphertext = material_bytes\<rparr>)) (\<lambda>_.
     and_then (execute F (sql_upsert_credential
        \<lparr>pk_id = cr_id c, pk_tenant_id = tenant, pk_client_id = cr_id c,
         pk_client_group_id = cr_client_group_id c, pk_kind = kind, pk_secret_ref = secret_ref,
         pk_status = status, pk_expires_at = None, pk_created_at = utc_now e 0\<rparr>)) (\<lambda>_.
     and_then (execute F (sql_link_credential profile_id (cr_id c))) (\<lambda>_.
     pg_record_event F (utc_now e 1) (utc_now e 2) tenant ''admin'' ''client.created'' ''client''
       (cr_id c))))))))"

text \<open>The joins of \<open>list_credentials\<close> and \<open>credentials_for_profile\<close>.\<close>

type_synonym credential_join = "(string \<times> string) \<times> pg_credential_row \<times> pg_client_row \<times> pg_secret_row"

definition credential_rows :: "pg_db \<Rightarrow> credential_join list" where
  "credential_rows d =
     [(pc, c, cl, s). pc \<leftarrow> t_profile_credentials d, c \<leftarrow> t_credentials d, pk_id c = snd pc,
        cl \<leftarrow> t_clients d, pl_id cl = pk_client_id c, s \<leftarrow> t_secrets d, px_id s = pk_secret_ref c]"

fun credential_row_record ::
  "pg_serde \<Rightarrow> credential_join \<Rightarrow> (credential_record, store_error) result" where
  "credential_row_record S (pc, c, cl, s) =
     bind_result (serde_result (sv_material_from S (px_ciphertext s))) (\<lambda>material.
     Ok \<lparr>crr_profile_id = fst pc,
         crr_credential = \<lparr>cr_id = pk_id c, cr_client_group_id = pk_client_group_id c,
           cr_display_name = pl_display_name cl, cr_status = parse_credential_status (pk_status c),
           cr_material = material\<rparr>\<rparr>)"

definition pg_list_credentials :: "faults \<Rightarrow> pg_serde \<Rightarrow> env \<Rightarrow> credential_record list pg_op" where
  "pg_list_credentials F S e =
     and_then (query F (\<lambda>d. order_by e 0 (\<lambda>(pc, c, cl, s). (fst pc, pk_created_at c))
        (credential_rows d))) (\<lambda>rows.
     lift_result (decode_rows (credential_row_record S) rows))"

definition pg_credentials_for_profile ::
  "faults \<Rightarrow> pg_serde \<Rightarrow> env \<Rightarrow> string \<Rightarrow> credential list pg_op" where
  "pg_credentials_for_profile F S e profile_id =
     and_then (query F (\<lambda>d. order_by e 0 (\<lambda>(pc, c, cl, s). pk_created_at c)
        (filter (\<lambda>(pc, c, cl, s). fst pc = profile_id) (credential_rows d)))) (\<lambda>rows.
     lift_result (bind_result (decode_rows (credential_row_record S) rows)
       (\<lambda>rs. Ok (map crr_credential rs))))"

section \<open>Artifacts and idempotent responses\<close>

definition pg_record_artifact :: "faults \<Rightarrow> env \<Rightarrow> artifact \<Rightarrow> unit pg_op" where
  "pg_record_artifact F e a =
     and_then (execute F (sql_insert_artifact (utc_now e 0) a)) (\<lambda>_.
     pg_record_event F (utc_now e 1) (utc_now e 2) (art_tenant_id a) ''control-plane''
       ''artifact.created'' ''artifact'' (art_id a))"

definition pg_record_artifact_blob ::
  "faults \<Rightarrow> libs \<Rightarrow> env \<Rightarrow> artifact \<Rightarrow> bytes \<Rightarrow> unit pg_op" where
  "pg_record_artifact_blob F L e a b =
     (let actual = sha256_hex L b in
      if actual \<noteq> art_sha256 a then fail_op (ArtifactShaMismatch (art_sha256 a) actual)
      else and_then (execute F (sql_insert_blob (art_sha256 a) b)) (\<lambda>_. pg_record_artifact F e a))"

definition pg_artifact_bytes :: "faults \<Rightarrow> env \<Rightarrow> string \<Rightarrow> bytes pg_op" where
  "pg_artifact_bytes F e artifact_id =
     and_then (query F (\<lambda>d. fetch_optional e 0 (\<lambda>_. True)
        [snd b. a \<leftarrow> t_artifacts d, art_id a = artifact_id,
                b \<leftarrow> t_artifact_blobs d, fst b = art_sha256 a])) (\<lambda>row.
     lift_result (ok_or (NotFound (''artifact:'' @ artifact_id)) row))"

definition pg_artifact_bytes_by_sha256 :: "faults \<Rightarrow> string \<Rightarrow> bytes pg_op" where
  "pg_artifact_bytes_by_sha256 F sha =
     and_then (query F (\<lambda>d. map_option snd (List.find (\<lambda>b. fst b = sha) (t_artifact_blobs d)))) (\<lambda>row.
     lift_result (ok_or (NotFound (''artifact_blob:'' @ sha)) row))"

definition pg_idempotency_response :: "faults \<Rightarrow> string \<Rightarrow> string \<Rightarrow> json option pg_op" where
  "pg_idempotency_response F tenant key =
     query F (\<lambda>d. map_option snd (List.find (\<lambda>r. fst r = (tenant, key)) (t_idempotency_keys d)))"

definition pg_record_idempotency_response ::
  "faults \<Rightarrow> string \<Rightarrow> string \<Rightarrow> json \<Rightarrow> unit pg_op" where
  "pg_record_idempotency_response F tenant key response_json =
     execute F (sql_insert_response tenant key response_json)"

section \<open>Deployments\<close>

text \<open>\<open>ORDER BY finished_at DESC NULLS LAST, created_at DESC\<close>.\<close>

definition finished_key :: "pg_deployment_row \<Rightarrow> bool \<times> datetime \<times> datetime" where
  "finished_key r = (pd_finished_at r \<noteq> None, unwrap_or 0 (pd_finished_at r), pd_created_at r)"

definition pg_record_deployment_plan ::
  "faults \<Rightarrow> pg_serde \<Rightarrow> env \<Rightarrow> deployment_plan_record \<Rightarrow> unit pg_op" where
  "pg_record_deployment_plan F S e dep =
     and_then (query F (\<lambda>d. order_desc_limit1 e 0 finished_key
        (filter (\<lambda>r. pd_tenant_id r = dpr_tenant_id dep \<and> pd_node_id r = dpr_node_id dep
                     \<and> pd_status r = ''Succeeded'') (t_deployments d)))) (\<lambda>previous.
     and_then (query F (\<lambda>d. order_desc_limit1 e 1 pv_version
        (filter (\<lambda>r. pv_profile_id r = dpr_profile_id dep) (t_profile_versions d)))) (\<lambda>row.
     and_then (lift_result (ok_or (NotFound (''profile_version:'' @ dpr_profile_id dep)) row)) (\<lambda>version.
     and_then (execute F (sql_insert_deployment
        \<lparr>pd_id = dpr_deployment_id dep, pd_tenant_id = dpr_tenant_id dep,
         pd_node_id = dpr_node_id dep, pd_profile_version_id = pv_id version,
         pd_status = ''Pending'',
         pd_compiled_config_artifact_id = dpr_compiled_config_artifact_id dep,
         pd_rollback_pointer_id = None, pd_created_at = utc_now e 0, pd_finished_at = None\<rparr>)) (\<lambda>_.
     let pointer = rollback_pointer_new (utc_now e 1) dep (map_option pd_id previous)
           (map_option pd_compiled_config_artifact_id previous) in
     and_then (execute F (sql_insert_rollback_pointer
        (pointer\<lparr>rbp_created_at := sv_time S (rbp_created_at pointer)\<rparr>))) (\<lambda>_.
     and_then (execute F (sql_set_rollback_pointer (dpr_deployment_id dep)
        (rbp_rollback_pointer_id pointer))) (\<lambda>_.
     pg_record_event F (utc_now e 2) (utc_now e 3) (dpr_tenant_id dep) ''admin''
       ''deployment.planned'' ''deployment'' (dpr_deployment_id dep)))))))"

text \<open>A deployment joined with its profile version.\<close>

definition plan_rows :: "pg_db \<Rightarrow> deployment_plan_record list" where
  "plan_rows d =
     [\<lparr>dpr_tenant_id = pd_tenant_id r, dpr_deployment_id = pd_id r, dpr_node_id = pd_node_id r,
       dpr_profile_id = pv_profile_id v,
       dpr_compiled_config_artifact_id = pd_compiled_config_artifact_id r,
       dpr_created_at = pd_created_at r\<rparr>.
      r \<leftarrow> t_deployments d, v \<leftarrow> t_profile_versions d, pv_id v = pd_profile_version_id r]"

definition pg_list_deployment_plans :: "faults \<Rightarrow> env \<Rightarrow> deployment_plan_record list pg_op" where
  "pg_list_deployment_plans F e =
     query F (\<lambda>d. order_by e 0 (\<lambda>r. (- dpr_created_at r, dpr_deployment_id r)) (plan_rows d))"

definition pg_record_deployment_result ::
  "faults \<Rightarrow> pg_serde \<Rightarrow> libs \<Rightarrow> env \<Rightarrow> deployment_result \<Rightarrow> unit pg_op" where
  "pg_record_deployment_result F S L e r =
     (let i = dr_deployment_id r; status = deployment_status_debug (dr_status r) in
      and_then (query F (\<lambda>d. List.find (\<lambda>p. dpr_deployment_id p = i) (plan_rows d))) (\<lambda>row.
      and_then (lift_result (ok_or (NotFound (''deployment:'' @ i)) row)) (\<lambda>deployment.
      and_then (statement F (sql_set_deployment_status (utc_now e 0) i status)) (\<lambda>updated.
      if \<not> updated then fail_op (NotFound (''deployment:'' @ i))
      else
        (let snapshot = snapshot_from_result (utc_now e 1) deployment r in
         and_then (lift_result (serde_result (sv_snapshot S snapshot))) (\<lambda>snapshot_json.
         and_then (execute F (sql_upsert_snapshot
            \<lparr>pz_id = snp_snapshot_id snapshot, pz_deployment_id = snp_deployment_id snapshot,
             pz_snapshot_json = snapshot_json,
             pz_created_at = sv_time S (snp_created_at snapshot)\<rparr>)) (\<lambda>_.
         let health = health_from_result L (utc_now e 2) deployment r in
         and_then (execute F (sql_insert_health
            \<lparr>py_deployment_id = hc_deployment_id health, py_status = hc_status health,
             py_payload_json = hc_payload_json health,
             py_created_at = sv_time S (hc_created_at health)\<rparr>)) (\<lambda>_.
         pg_record_event F (utc_now e 3) (utc_now e 4) (dpr_tenant_id deployment) ''runner''
           ''deployment.result'' ''deployment'' i))))))))"

definition pg_deployment_status :: "faults \<Rightarrow> string \<Rightarrow> deployment_status pg_op" where
  "pg_deployment_status F i =
     and_then (query F (\<lambda>d. List.find (\<lambda>r. pd_id r = i) (t_deployments d))) (\<lambda>row.
     lift_result (ok_or (NotFound (''deployment:'' @ i))
       (map_option (\<lambda>r. parse_deployment_status (pd_status r)) row)))"

definition pg_rollback_pointer :: "faults \<Rightarrow> env \<Rightarrow> string \<Rightarrow> rollback_pointer_record pg_op" where
  "pg_rollback_pointer F e i =
     and_then (query F (\<lambda>d. fetch_optional e 0 (\<lambda>r. rbp_deployment_id r = i)
        (t_rollback_pointers d))) (\<lambda>row.
     lift_result (ok_or (NotFound (''rollback_pointer:'' @ i)) row))"

definition pg_deployment_snapshot ::
  "faults \<Rightarrow> pg_serde \<Rightarrow> env \<Rightarrow> string \<Rightarrow> deployment_snapshot_record pg_op" where
  "pg_deployment_snapshot F S e i =
     and_then (query F (\<lambda>d. order_desc_limit1 e 0 pz_created_at
        (filter (\<lambda>r. pz_deployment_id r = i) (t_deployment_snapshots d)))) (\<lambda>row.
     lift_result (bind_result (ok_or (NotFound (''deployment_snapshot:'' @ i)) row)
       (\<lambda>r. serde_result (sv_snapshot_from S (pz_snapshot_json r)))))"

text \<open>A health check joined with its deployment.\<close>

definition health_rows :: "string \<Rightarrow> pg_db \<Rightarrow> deployment_health_check_record list" where
  "health_rows i d =
     [\<lparr>hc_tenant_id = pd_tenant_id r, hc_deployment_id = py_deployment_id h,
       hc_node_id = pd_node_id r, hc_status = py_status h, hc_payload_json = py_payload_json h,
       hc_created_at = py_created_at h\<rparr>.
      h \<leftarrow> t_deployment_health_checks d, py_deployment_id h = i,
      r \<leftarrow> t_deployments d, pd_id r = py_deployment_id h]"

definition pg_latest_deployment_health ::
  "faults \<Rightarrow> env \<Rightarrow> string \<Rightarrow> deployment_health_check_record pg_op" where
  "pg_latest_deployment_health F e i =
     and_then (query F (\<lambda>d. order_desc_limit1 e 0 hc_created_at (health_rows i d))) (\<lambda>row.
     lift_result (ok_or (NotFound (''deployment_health:'' @ i)) row))"

definition pg_record_deployment_health_check ::
  "faults \<Rightarrow> pg_serde \<Rightarrow> env \<Rightarrow> deployment_health_check_record \<Rightarrow> unit pg_op" where
  "pg_record_deployment_health_check F S e h =
     and_then (query F (\<lambda>d. List.find (\<lambda>r. pd_id r = hc_deployment_id h) (t_deployments d))) (\<lambda>row.
     and_then (lift_result (ok_or (NotFound (''deployment:'' @ hc_deployment_id h)) row)) (\<lambda>dep.
     if pd_node_id dep \<noteq> hc_node_id h
     then fail_op (NotFound (''deployment:'' @ hc_deployment_id h @ '':node:'' @ hc_node_id h))
     else
       and_then (execute F (sql_insert_health
          \<lparr>py_deployment_id = hc_deployment_id h, py_status = hc_status h,
           py_payload_json = hc_payload_json h,
           py_created_at = sv_time S (hc_created_at h)\<rparr>)) (\<lambda>_.
       pg_record_event F (utc_now e 0) (utc_now e 1) (pd_tenant_id dep) ''runner''
         ''deployment.health'' ''deployment'' (hc_deployment_id h))))"

text \<open>
  \<open>ORDER BY h.created_at ASC, h.id ASC\<close>: the serial id follows the order of insertion, so the
  rows of \<open>health_rows\<close> are sorted stably.
\<close>

definition pg_deployment_health_checks ::
  "faults \<Rightarrow> string \<Rightarrow> deployment_health_check_record list pg_op" where
  "pg_deployment_health_checks F i =
     and_then (query F (\<lambda>d. List.find (\<lambda>r. pd_id r = i) (t_deployments d))) (\<lambda>exists.
     if exists = None then fail_op (NotFound (''deployment:'' @ i))
     else query F (\<lambda>d. sort_key hc_created_at (health_rows i d)))"

end
