(* ===== verification/Postgres_Access.thy ===== *)
theory Postgres_Access
  imports Postgres_Store
begin

text \<open>
  The methods of \<open>PostgresStore\<close> on usage, quotas, expiry, the runner command queue and
  subscriptions (src/crates/storage/src/lib.rs, lines 2510-2785 and 3035-3250), and
  \<open>postgres_store\<close>, its implementation of the trait \<open>ProxyStore\<close> (lines 3285-3483).
\<close>

section \<open>Usage, quota and expiry\<close>

fun pg_add_rollups ::
  "faults \<Rightarrow> pg_serde \<Rightarrow> usage_sample_record \<Rightarrow> (string \<times> datetime) list \<Rightarrow> unit pg_op" where
  "pg_add_rollups F S u [] = return_op ()"
| "pg_add_rollups F S u (b # bs) =
     and_then (execute F (sql_add_rollup
        \<lparr>ur_tenant_id = us_tenant_id u, ur_credential_id = us_credential_id u, ur_bucket = fst b,
         ur_bucket_start = sv_time S (snd b), ur_uplink_bytes = us_uplink_bytes u,
         ur_downlink_bytes = us_downlink_bytes u\<rparr>)) (\<lambda>_.
     pg_add_rollups F S u bs)"

definition pg_record_usage_sample ::
  "faults \<Rightarrow> pg_serde \<Rightarrow> libs \<Rightarrow> usage_sample_record \<Rightarrow> unit pg_op" where
  "pg_record_usage_sample F S L u =
     and_then (execute F (sql_insert_usage (u\<lparr>us_sampled_at := sv_time S (us_sampled_at u)\<rparr>))) (\<lambda>_.
     pg_add_rollups F S u (usage_bucket_starts L (us_sampled_at u)))"

definition pg_latest_usage_sample :: "faults \<Rightarrow> env \<Rightarrow> string \<Rightarrow> usage_sample_record pg_op" where
  "pg_latest_usage_sample F e node_id =
     and_then (query F (\<lambda>d. order_desc_limit1 e 0 us_sampled_at
        (filter (\<lambda>u. us_node_id u = node_id) (t_usage_records d)))) (\<lambda>row.
     lift_result (ok_or (NotFound (''usage:'' @ node_id)) row))"

definition pg_latest_usage_rollup_for_credential ::
  "faults \<Rightarrow> env \<Rightarrow> string \<Rightarrow> string \<Rightarrow> usage_rollup_record pg_op" where
  "pg_latest_usage_rollup_for_credential F e credential_id bucket =
     and_then (query F (\<lambda>d. order_desc_limit1 e 0 ur_bucket_start
        (filter (\<lambda>r. ur_credential_id r = Some credential_id \<and> ur_bucket r = bucket)
          (t_usage_rollups d)))) (\<lambda>row.
     lift_result (ok_or (NotFound (''usage_rollup:'' @ credential_id @ '':'' @ bucket)) row))"

definition pg_set_credential_quota :: "faults \<Rightarrow> string \<Rightarrow> i64 \<Rightarrow> unit pg_op" where
  "pg_set_credential_quota F credential_id quota_bytes =
     execute F (sql_set_quota credential_id quota_bytes)"

text \<open>
  \<open>COALESCE(SUM(uplink_bytes + downlink_bytes), 0)::bigint\<close>: each addition is a \<open>bigint\<close>, the
  sum is a \<open>numeric\<close>, and the cast fails where the sum does not fit.
\<close>

definition sql_used_bytes :: "string \<Rightarrow> pg_db \<Rightarrow> (i64, store_error) result" where
  "sql_used_bytes credential_id d =
     bind_result (decode_rows (\<lambda>r. bigint_add (ur_uplink_bytes r) (ur_downlink_bytes r))
        (filter (\<lambda>r. ur_credential_id r = Some credential_id \<and> ur_bucket r = ''hour'')
          (t_usage_rollups d)))
       (\<lambda>xs. bigint_sum (sum_list (map sint xs)))"

definition pg_credential_quota_decision ::
  "faults \<Rightarrow> string \<Rightarrow> credential_quota_decision pg_op" where
  "pg_credential_quota_decision F credential_id =
     and_then (query F (\<lambda>d. List.find (\<lambda>r. fst r = credential_id) (t_credential_quotas d))) (\<lambda>row.
     and_then (lift_result (ok_or (NotFound (''credential_quota:'' @ credential_id)) row)) (\<lambda>quota.
     and_then (statement F (\<lambda>d. bind_result (sql_used_bytes credential_id d) (\<lambda>n. Ok (n, d)))) (\<lambda>used.
     return_op (quota_decision credential_id (snd quota) used))))"

definition pg_set_credential_expiry ::
  "faults \<Rightarrow> pg_serde \<Rightarrow> string \<Rightarrow> datetime \<Rightarrow> unit pg_op" where
  "pg_set_credential_expiry F S credential_id expires_at =
     and_then (statement F (sql_set_expiry credential_id (sv_time S expires_at))) (\<lambda>updated.
     if \<not> updated then fail_op (NotFound (''credential:'' @ credential_id)) else return_op ())"

definition pg_credential_expiry_decision ::
  "faults \<Rightarrow> env \<Rightarrow> string \<Rightarrow> credential_expiry_decision pg_op" where
  "pg_credential_expiry_decision F e credential_id =
     and_then (query F (\<lambda>d. List.find (\<lambda>r. pk_id r = credential_id) (t_credentials d))) (\<lambda>row.
     and_then (lift_result (ok_or (NotFound (''credential:'' @ credential_id)) row)) (\<lambda>r.
     return_op (expiry_decision credential_id (pk_expires_at r) (utc_now e 0))))"

section \<open>Runner command queue\<close>

text \<open>\<open>as i64\<close> keeps the bits of the sequence number; the database compares it signed.\<close>

definition pg_enqueue_runner_command ::
  "faults \<Rightarrow> pg_serde \<Rightarrow> string \<Rightarrow> signed_runner_command \<Rightarrow> unit pg_op" where
  "pg_enqueue_runner_command F S node_id command =
     and_then (lift_result (serde_result (sv_command S command))) (\<lambda>envelope_json.
     execute F (sql_insert_command
       \<lparr>pq_tenant_id = cmd_tenant_id (src_command command), pq_node_id = node_id,
        pq_sequence = cmd_sequence (src_command command), pq_envelope_json = envelope_json,
        pq_status = ''pending'', pq_leased_at = None\<rparr>))"

definition pg_next_runner_command ::
  "faults \<Rightarrow> pg_serde \<Rightarrow> env \<Rightarrow> string \<Rightarrow> u64 \<Rightarrow> signed_runner_command option pg_op" where
  "pg_next_runner_command F S e node_id last_seq =
     and_then (execute F (sql_skip_commands node_id last_seq)) (\<lambda>_.
     and_then (statement F (sql_lease_command (utc_now e 0) node_id last_seq)) (\<lambda>row.
     case row of
       None \<Rightarrow> return_op None
     | Some envelope_json \<Rightarrow>
         lift_result (bind_result (serde_result (sv_command_from S envelope_json))
           (\<lambda>c. Ok (Some c)))))"

section \<open>Subscriptions\<close>

text \<open>A credential without a quota is not limited; any other error of the decision is returned.\<close>

definition pg_quota_allows :: "faults \<Rightarrow> string \<Rightarrow> bool pg_op" where
  "pg_quota_allows F credential_id s =
     (case pg_credential_quota_decision F credential_id s of
        (Ok decision, s1) \<Rightarrow> (Ok (cq_allowed decision), s1)
      | (Err x, s1) \<Rightarrow> (case x of NotFound _ \<Rightarrow> (Ok True, s1) | _ \<Rightarrow> (Err x, s1)))"

fun pg_push_allowed ::
  "faults \<Rightarrow> env \<Rightarrow> deployed_profile \<Rightarrow> credential list \<Rightarrow> deployed_profile pg_op" where
  "pg_push_allowed F e d [] = return_op d"
| "pg_push_allowed F e d (c # cs) =
     and_then (pg_quota_allows F (cr_id c)) (\<lambda>quota_allows.
     if \<not> quota_allows then pg_push_allowed F (env_from e 1) d cs
     else
       and_then (pg_credential_expiry_decision F e (cr_id c)) (\<lambda>decision.
       if \<not> ce_allowed decision then pg_push_allowed F (env_from e 1) d cs
       else pg_push_allowed F (env_from e 1) (dpf_with_credential d c) cs))"

definition pg_deployed_profile_for_subscription ::
  "faults \<Rightarrow> pg_serde \<Rightarrow> env \<Rightarrow> string \<Rightarrow> deployed_profile pg_op" where
  "pg_deployed_profile_for_subscription F S e profile_id =
     and_then (pg_profile F S e profile_id) (\<lambda>profile.
     and_then (query F (\<lambda>d. order_desc_limit1 e 1 (\<lambda>n. - pn_created_at n) (t_nodes d))) (\<lambda>row.
     and_then (lift_result (ok_or (NotFound ''node:any'') row)) (\<lambda>node_row.
     and_then (pg_node F (env_from e 2) (pn_id node_row)) (\<lambda>node.
     case ir_inbounds (pr_ir profile) of
       [] \<Rightarrow> fail_op (NotFound ''profile inbound'')
     | first_inbound # _ \<Rightarrow>
         and_then (pg_credentials_for_profile F S (env_from e 3) profile_id) (\<lambda>cs.
         pg_push_allowed F (env_from e 4)
           (deployed_profile_new profile_id (nd_host node) (in_port first_inbound)
              (subscription_server_name node first_inbound)) cs)))))"

definition issued_row ::
  "libs \<Rightarrow> datetime \<Rightarrow> string \<Rightarrow> string \<Rightarrow> issued_subscription_token \<Rightarrow> subscription_token_record" where
  "issued_row L now tenant profile_id issued =
     \<lparr>st_tenant_id = tenant, st_token_id = it_token_id issued, st_profile_id = profile_id,
      st_token_hash = subscription_token_hash L (it_token issued), st_status = ''active'',
      st_created_at = now, st_rotated_at = None\<rparr>"

definition pg_issue_subscription_token ::
  "faults \<Rightarrow> pg_serde \<Rightarrow> libs \<Rightarrow> env \<Rightarrow> string \<Rightarrow> issued_subscription_token pg_op" where
  "pg_issue_subscription_token F S L e profile_id =
     and_then (pg_profile F S e profile_id) (\<lambda>profile.
     let issued = new_subscription_token e profile_id in
     and_then (execute F (sql_insert_subscription_token
        (issued_row L (utc_now e 0) (pr_tenant_id profile) profile_id issued))) (\<lambda>_.
     and_then (pg_record_event F (utc_now e 1) (utc_now e 2) (pr_tenant_id profile) ''admin''
                 ''subscription_token.issued'' ''profile'' profile_id) (\<lambda>_.
     return_op issued)))"

definition pg_rotate_subscription_token ::
  "faults \<Rightarrow> pg_serde \<Rightarrow> libs \<Rightarrow> env \<Rightarrow> string \<Rightarrow> issued_subscription_token pg_op" where
  "pg_rotate_subscription_token F S L e profile_id =
     and_then (pg_profile F S e profile_id) (\<lambda>profile.
     and_then (execute F (sql_rotate_tokens (utc_now e 0) profile_id)) (\<lambda>_.
     let issued = new_subscription_token e profile_id in
     and_then (execute F (sql_insert_subscription_token
        (issued_row L (utc_now e 1) (pr_tenant_id profile) profile_id issued))) (\<lambda>_.
     and_then (pg_record_event F (utc_now e 2) (utc_now e 3) (pr_tenant_id profile) ''admin''
                 ''subscription_token.rotated'' ''profile'' profile_id) (\<lambda>_.
     return_op issued))))"

definition pg_verify_subscription_token ::
  "faults \<Rightarrow> libs \<Rightarrow> env \<Rightarrow> string \<Rightarrow> string \<Rightarrow> subscription_token_record pg_op" where
  "pg_verify_subscription_token F L e profile_id token =
     and_then (query F (\<lambda>d. fetch_optional e 0
        (\<lambda>r. st_profile_id r = profile_id \<and> st_token_hash r = subscription_token_hash L token
             \<and> st_status r = ''active'') (t_subscription_tokens d))) (\<lambda>row.
     lift_result (ok_or (NotFound (''subscription_token:'' @ profile_id)) row))"

definition pg_subscription_token_required ::
  "faults \<Rightarrow> pg_serde \<Rightarrow> env \<Rightarrow> string \<Rightarrow> bool pg_op" where
  "pg_subscription_token_required F S e profile_id =
     and_then (pg_profile F S e profile_id) (\<lambda>_.
     and_then (query F (\<lambda>d. length (filter (\<lambda>r. st_profile_id r = profile_id
        \<and> st_status r = ''active'') (t_subscription_tokens d)))) (\<lambda>count.
     return_op (0 < count)))"

definition pg_record_subscription_access ::
  "faults \<Rightarrow> env \<Rightarrow> string \<Rightarrow> string option \<Rightarrow> string option \<Rightarrow> string \<Rightarrow> unit pg_op" where
  "pg_record_subscription_access F e token_id remote_addr user_agent status =
     execute F (sql_insert_access_log
       \<lparr>al_token_id = token_id, al_remote_addr = remote_addr, al_user_agent = user_agent,
        al_status = status, al_created_at = utc_now e 0\<rparr>)"

definition pg_subscription_access_log_count :: "faults \<Rightarrow> string \<Rightarrow> nat pg_op" where
  "pg_subscription_access_log_count F token_id =
     query F (\<lambda>d. length (filter (\<lambda>l. al_token_id l = token_id) (t_subscription_access_logs d)))"

definition pg_audit_count :: "faults \<Rightarrow> nat pg_op" where
  "pg_audit_count F = query F (\<lambda>d. length (t_audit_events d))"

definition pg_outbox_count :: "faults \<Rightarrow> nat pg_op" where
  "pg_outbox_count F = query F (\<lambda>d. length (t_event_outbox d))"

section \<open>The trait\<close>

definition postgres_store :: "libs \<Rightarrow> pg_serde \<Rightarrow> faults \<Rightarrow> pg_state proxy_store" where
  "postgres_store L S F =
     \<lparr>ps_register_node = (\<lambda>e a. pg_register_node F e a),
      ps_register_node_with_registration_token =
        (\<lambda>e a b. pg_register_node_with_registration_token F e a b),
      ps_list_nodes = (\<lambda>e. pg_list_nodes F e),
      ps_create_node_registration_token =
        (\<lambda>e a. pg_create_node_registration_token F S e a),
      ps_list_node_registration_tokens = (\<lambda>e. pg_list_node_registration_tokens F e),
      ps_node_registration_token = (\<lambda>e a. pg_node_registration_token F a),
      ps_consume_node_registration_token =
        (\<lambda>e a b. pg_consume_node_registration_token F e a b),
      ps_record_heartbeat = (\<lambda>e a. pg_record_heartbeat F e a),
      ps_latest_heartbeat = (\<lambda>e a. pg_latest_heartbeat F e a),
      ps_create_profile = (\<lambda>e a. pg_create_profile F S L e a),
      ps_list_profiles = (\<lambda>e. pg_list_profiles F S e),
      ps_add_credential = (\<lambda>e a b. pg_add_credential F S e a b),
      ps_list_credentials = (\<lambda>e. pg_list_credentials F S e),
      ps_record_artifact = (\<lambda>e a. pg_record_artifact F e a),
      ps_record_artifact_blob = (\<lambda>e a b. pg_record_artifact_blob F L e a b),
      ps_artifact_bytes = (\<lambda>e a. pg_artifact_bytes F e a),
      ps_artifact_bytes_by_sha256 = (\<lambda>e a. pg_artifact_bytes_by_sha256 F a),
      ps_record_deployment_plan = (\<lambda>e a. pg_record_deployment_plan F S e a),
      ps_list_deployment_plans = (\<lambda>e. pg_list_deployment_plans F e),
      ps_idempotency_response = (\<lambda>e a b. pg_idempotency_response F a b),
      ps_record_idempotency_response = (\<lambda>e a b c. pg_record_idempotency_response F a b c),
      ps_record_deployment_result = (\<lambda>e a. pg_record_deployment_result F S L e a),
      ps_deployment_status = (\<lambda>e a. pg_deployment_status F a),
      ps_rollback_pointer = (\<lambda>e a. pg_rollback_pointer F e a),
      ps_deployment_snapshot = (\<lambda>e a. pg_deployment_snapshot F S e a),
      ps_latest_deployment_health = (\<lambda>e a. pg_latest_deployment_health F e a),
      ps_record_deployment_health_check =
        (\<lambda>e a. pg_record_deployment_health_check F S e a),
      ps_deployment_health_checks = (\<lambda>e a. pg_deployment_health_checks F a),
      ps_record_usage_sample = (\<lambda>e a. pg_record_usage_sample F S L a),
      ps_latest_usage_sample = (\<lambda>e a. pg_latest_usage_sample F e a),
      ps_latest_usage_rollup_for_credential =
        (\<lambda>e a b. pg_latest_usage_rollup_for_credential F e a b),
      ps_set_credential_quota = (\<lambda>e a b. pg_set_credential_quota F a b),
      ps_credential_quota_decision = (\<lambda>e a. pg_credential_quota_decision F a),
      ps_set_credential_expiry = (\<lambda>e a b. pg_set_credential_expiry F S a b),
      ps_credential_expiry_decision = (\<lambda>e a. pg_credential_expiry_decision F e a),
      ps_enqueue_runner_command = (\<lambda>e a b. pg_enqueue_runner_command F S a b),
      ps_next_runner_command = (\<lambda>e a b. pg_next_runner_command F S e a b),
      ps_node = (\<lambda>e a. pg_node F e a),
      ps_update_node_runner_result_public_key =
        (\<lambda>e a b. pg_update_node_runner_result_public_key F e a b),
      ps_profile = (\<lambda>e a. pg_profile F S e a),
      ps_credentials_for_profile = (\<lambda>e a. pg_credentials_for_profile F S e a),
      ps_audit_count = (\<lambda>e. pg_audit_count F),
      ps_outbox_count = (\<lambda>e. pg_outbox_count F),
      ps_deployed_profile_for_subscription =
        (\<lambda>e a. pg_deployed_profile_for_subscription F S e a),
      ps_issue_subscription_token = (\<lambda>e a. pg_issue_subscription_token F S L e a),
      ps_rotate_subscription_token = (\<lambda>e a. pg_rotate_subscription_token F S L e a),
      ps_verify_subscription_token = (\<lambda>e a b. pg_verify_subscription_token F L e a b),
      ps_subscription_token_required = (\<lambda>e a. pg_subscription_token_required F S e a),
      ps_record_subscription_access =
        (\<lambda>e a b c d. pg_record_subscription_access F e a b c d),
      ps_subscription_access_log_count = (\<lambda>e a. pg_subscription_access_log_count F a),
      ps_kind = ''postgres''\<rparr>"

lemma postgres_store_simps [simp]:
  "ps_register_node (postgres_store L S F) = (\<lambda>e a. pg_register_node F e a)"
  "ps_register_node_with_registration_token (postgres_store L S F)
     = (\<lambda>e a b. pg_register_node_with_registration_token F e a b)"
  "ps_list_nodes (postgres_store L S F) = (\<lambda>e. pg_list_nodes F e)"
  "ps_create_node_registration_token (postgres_store L S F)
     = (\<lambda>e a. pg_create_node_registration_token F S e a)"
  "ps_list_node_registration_tokens (postgres_store L S F)
     = (\<lambda>e. pg_list_node_registration_tokens F e)"
  "ps_node_registration_token (postgres_store L S F)
     = (\<lambda>e a. pg_node_registration_token F a)"
  "ps_consume_node_registration_token (postgres_store L S F)
     = (\<lambda>e a b. pg_consume_node_registration_token F e a b)"
  "ps_record_heartbeat (postgres_store L S F) = (\<lambda>e a. pg_record_heartbeat F e a)"
  "ps_latest_heartbeat (postgres_store L S F) = (\<lambda>e a. pg_latest_heartbeat F e a)"
  "ps_create_profile (postgres_store L S F) = (\<lambda>e a. pg_create_profile F S L e a)"
  "ps_list_profiles (postgres_store L S F) = (\<lambda>e. pg_list_profiles F S e)"
  "ps_add_credential (postgres_store L S F) = (\<lambda>e a b. pg_add_credential F S e a b)"
  "ps_list_credentials (postgres_store L S F) = (\<lambda>e. pg_list_credentials F S e)"
  "ps_record_artifact (postgres_store L S F) = (\<lambda>e a. pg_record_artifact F e a)"
  "ps_record_artifact_blob (postgres_store L S F)
     = (\<lambda>e a b. pg_record_artifact_blob F L e a b)"
  "ps_artifact_bytes (postgres_store L S F) = (\<lambda>e a. pg_artifact_bytes F e a)"
  "ps_artifact_bytes_by_sha256 (postgres_store L S F)
     = (\<lambda>e a. pg_artifact_bytes_by_sha256 F a)"
  "ps_record_deployment_plan (postgres_store L S F)
     = (\<lambda>e a. pg_record_deployment_plan F S e a)"
  "ps_list_deployment_plans (postgres_store L S F) = (\<lambda>e. pg_list_deployment_plans F e)"
  "ps_idempotency_response (postgres_store L S F)
     = (\<lambda>e a b. pg_idempotency_response F a b)"
  "ps_record_idempotency_response (postgres_store L S F)
     = (\<lambda>e a b c. pg_record_idempotency_response F a b c)"
  "ps_record_deployment_result (postgres_store L S F)
     = (\<lambda>e a. pg_record_deployment_result F S L e a)"
  "ps_deployment_status (postgres_store L S F) = (\<lambda>e a. pg_deployment_status F a)"
  "ps_rollback_pointer (postgres_store L S F) = (\<lambda>e a. pg_rollback_pointer F e a)"
  "ps_deployment_snapshot (postgres_store L S F) = (\<lambda>e a. pg_deployment_snapshot F S e a)"
  "ps_latest_deployment_health (postgres_store L S F)
     = (\<lambda>e a. pg_latest_deployment_health F e a)"
  "ps_record_deployment_health_check (postgres_store L S F)
     = (\<lambda>e a. pg_record_deployment_health_check F S e a)"
  "ps_deployment_health_checks (postgres_store L S F)
     = (\<lambda>e a. pg_deployment_health_checks F a)"
  "ps_record_usage_sample (postgres_store L S F) = (\<lambda>e a. pg_record_usage_sample F S L a)"
  "ps_latest_usage_sample (postgres_store L S F) = (\<lambda>e a. pg_latest_usage_sample F e a)"
  "ps_latest_usage_rollup_for_credential (postgres_store L S F)
     = (\<lambda>e a b. pg_latest_usage_rollup_for_credential F e a b)"
  "ps_set_credential_quota (postgres_store L S F)
     = (\<lambda>e a b. pg_set_credential_quota F a b)"
  "ps_credential_quota_decision (postgres_store L S F)
     = (\<lambda>e a. pg_credential_quota_decision F a)"
  "ps_set_credential_expiry (postgres_store L S F)
     = (\<lambda>e a b. pg_set_credential_expiry F S a b)"
  "ps_credential_expiry_decision (postgres_store L S F)
     = (\<lambda>e a. pg_credential_expiry_decision F e a)"
  "ps_enqueue_runner_command (postgres_store L S F)
     = (\<lambda>e a b. pg_enqueue_runner_command F S a b)"
  "ps_next_runner_command (postgres_store L S F)
     = (\<lambda>e a b. pg_next_runner_command F S e a b)"
  "ps_node (postgres_store L S F) = (\<lambda>e a. pg_node F e a)"
  "ps_update_node_runner_result_public_key (postgres_store L S F)
     = (\<lambda>e a b. pg_update_node_runner_result_public_key F e a b)"
  "ps_profile (postgres_store L S F) = (\<lambda>e a. pg_profile F S e a)"
  "ps_credentials_for_profile (postgres_store L S F)
     = (\<lambda>e a. pg_credentials_for_profile F S e a)"
  "ps_audit_count (postgres_store L S F) = (\<lambda>e. pg_audit_count F)"
  "ps_outbox_count (postgres_store L S F) = (\<lambda>e. pg_outbox_count F)"
  "ps_deployed_profile_for_subscription (postgres_store L S F)
     = (\<lambda>e a. pg_deployed_profile_for_subscription F S e a)"
  "ps_issue_subscription_token (postgres_store L S F)
     = (\<lambda>e a. pg_issue_subscription_token F S L e a)"
  "ps_rotate_subscription_token (postgres_store L S F)
     = (\<lambda>e a. pg_rotate_subscription_token F S L e a)"
  "ps_verify_subscription_token (postgres_store L S F)
     = (\<lambda>e a b. pg_verify_subscription_token F L e a b)"
  "ps_subscription_token_required (postgres_store L S F)
     = (\<lambda>e a. pg_subscription_token_required F S e a)"
  "ps_record_subscription_access (postgres_store L S F)
     = (\<lambda>e a b c d. pg_record_subscription_access F e a b c d)"
  "ps_subscription_access_log_count (postgres_store L S F)
     = (\<lambda>e a. pg_subscription_access_log_count F a)"
  "ps_kind (postgres_store L S F) = ''postgres''"
  by (simp_all add: postgres_store_def)

end
