(* ===== verification/Control_Plane_Boot.thy ===== *)
theory Control_Plane_Boot
  imports Control_Plane_Inv Http_Wire Postgres_Access
begin

text \<open>
  How the control plane starts: \<open>AppState::from_env\<close> (src/crates/control-plane/src/lib.rs) chooses the
  store and the secrets from the environment, and \<open>main\<close> (src/crates/control-plane/src/main.rs) binds
  the address before it reads them. The sockets and the connection pool of sqlx are parameters;
  \<open>open_pool\<close> gives the database behind a URL.
\<close>

section \<open>Starting a store\<close>

record pg_handle =
  pgh_pool :: pg_state
  pgh_lazy :: bool

definition connect_lazy ::
  "(string \<Rightarrow> (pg_state, store_error) result) \<Rightarrow> string \<Rightarrow> (pg_handle, store_error) result" where
  "connect_lazy open_pool database_url =
     bind_result (open_pool database_url) (\<lambda>pool. Ok \<lparr>pgh_pool = pool, pgh_lazy = True\<rparr>)"

definition from_pool :: "pg_state \<Rightarrow> pg_handle" where
  "from_pool pool = \<lparr>pgh_pool = pool, pgh_lazy = False\<rparr>"

section \<open>The application state\<close>

datatype running = OnMemory "memory_state app_state" | OnPostgres "pg_state app_state"

definition store_kind :: "'s app_state \<Rightarrow> string" where
  "store_kind st = ps_kind (app_store st)"

definition app_control_plane_verify_key :: "libs \<Rightarrow> verifying_key" where
  "app_control_plane_verify_key L = ed_verifying_key L dev_control_plane_signing_key"

definition from_env ::
  "libs \<Rightarrow> pg_serde \<Rightarrow> faults \<Rightarrow> (string \<Rightarrow> (pg_state, store_error) result) \<Rightarrow> vars
    \<Rightarrow> (running, string) result" where
  "from_env L S F open_pool V =
     (let registration_token = var_or V ''NODE_REGISTRATION_TOKEN'' ''dev-registration-token'';
          tenant_id = var_or V ''TENANT_ID'' ''tenant-dev'';
          runner_api_token = var_or V ''RUNNER_API_TOKEN'' ''dev-runner-token'' in
      case V ''DATABASE_URL'' of
        Some database_url \<Rightarrow>
          bind_result (map_err store_error_to_string (connect_lazy open_pool database_url)) (\<lambda>store.
          Ok (OnPostgres (with_store_and_runner_token L registration_token runner_api_token tenant_id
            (postgres_store L S F) (pgh_pool store))))
      | None \<Rightarrow>
          Ok (OnMemory (with_store_and_runner_token L registration_token runner_api_token tenant_id
            (memory_store L tenant_id) memory_state_default)))"

text \<open>
  \<open>main\<close> up to the point where it serves: the address is parsed and bound first. \<open>axum::serve\<close> does
  not return.
\<close>

definition control_plane_main ::
  "libs \<Rightarrow> pg_serde \<Rightarrow> faults \<Rightarrow> (string \<Rightarrow> (pg_state, store_error) result)
    \<Rightarrow> (string \<Rightarrow> ('addr, string) result) \<Rightarrow> ('addr \<Rightarrow> (unit, string) result) \<Rightarrow> vars
    \<Rightarrow> ('addr \<times> running, string) result" where
  "control_plane_main L S F open_pool parse_addr bind_addr V =
     bind_result (parse_addr (var_or V ''CONTROL_PLANE_BIND'' ''127.0.0.1:8080'')) (\<lambda>addr.
     bind_result (bind_addr addr) (\<lambda>_.
     bind_result (from_env L S F open_pool V) (\<lambda>app. Ok (addr, app))))"

section \<open>What a started control plane is\<close>

lemma from_env_without_variables:
  "from_env L S F open_pool (\<lambda>_. None) = Ok (OnMemory (app_dev L))"
  by (simp add: from_env_def var_or_def unwrap_or_def app_dev_def with_store_def Let_def)

lemma from_env_memory:
  assumes "from_env L S F open_pool V = Ok (OnMemory st)"
  shows "V ''DATABASE_URL'' = None" and "store_kind st = ''memory''"
    and "app_reachable L J (app_tenant_id st) st" and "counters_ok st"
    and "app_runner_api_token st = var_or V ''RUNNER_API_TOKEN'' ''dev-runner-token''"
    and "ed_verifying_key L (app_signing_key st) = app_control_plane_verify_key L"
proof -
  obtain reg tok T where st: "st = with_store_and_runner_token L reg tok T (memory_store L T)
      memory_state_default" "tok = var_or V ''RUNNER_API_TOKEN'' ''dev-runner-token''"
      "V ''DATABASE_URL'' = None"
    using assms by (auto simp: from_env_def Let_def bind_result_eq_Ok split: option.splits)
  show "V ''DATABASE_URL'' = None" by (rule st(3))
  show "store_kind st = ''memory''"
    by (simp add: store_kind_def st(1) with_store_and_runner_token_def)
  have "app_tenant_id st = T" by (simp add: st(1) with_store_and_runner_token_def)
  then show "app_reachable L J (app_tenant_id st) st"
    unfolding st(1) using app_reachable.boot [of L J T reg tok] by simp
  show "counters_ok st"
    by (simp add: st(1) counters_ok_def counter_def with_store_and_runner_token_def)
  show "app_runner_api_token st = var_or V ''RUNNER_API_TOKEN'' ''dev-runner-token''"
    by (simp add: st with_store_and_runner_token_def)
  show "ed_verifying_key L (app_signing_key st) = app_control_plane_verify_key L"
    by (simp add: st(1) with_store_and_runner_token_def app_control_plane_verify_key_def)
qed

end
