(* ===== verification/Network_Start.thy ===== *)
theory Network_Start
  imports Network_Props Control_Plane_Boot
begin

text \<open>
  First contact: a control plane on an empty memory store and a runner that are started from the
  same environment. The runner registers itself with the registration token, sends its heartbeat,
  and is from then on enrolled and authorised, the state in which \<open>deployment_completes\<close> applies.
\<close>

section \<open>Definitions\<close>

text \<open>The public keys of ed25519: 32 bytes that decode.\<close>

definition key_codec :: "libs \<Rightarrow> bool" where
  "key_codec L \<longleftrightarrow> (\<forall>k. length (ed_verifying_key L k) = 32 \<and>
     vk_from_bytes L (ed_verifying_key L k) = Some (ed_verifying_key L k) \<and>
     hex_encode L (ed_verifying_key L k) \<noteq> [])"

definition demo_key_libs :: libs where
  "demo_key_libs = demo_libs\<lparr>ed_verifying_key := (\<lambda>sk. take 32 (sk @ replicate 32 0)),
     ed_sign := (\<lambda>sk m. take 64 (take 32 (sk @ replicate 32 0) @ m @ replicate 64 0))\<rparr>"

definition shared_vars :: vars where
  "shared_vars = [''CONTROL_PLANE_BASE_URL'' \<mapsto> ''http://cp/'', ''NODE_REGISTRATION_TOKEN'' \<mapsto> ''reg'',
     ''RUNNER_API_TOKEN'' \<mapsto> ''run'', ''RUNNER_NODE_ID'' \<mapsto> ''node-a'', ''RUNNER_ONCE'' \<mapsto> ''1'']"

definition demo_key_client :: "memory_state server http_client" where
  "demo_key_client = (demo_client demo_net)\<lparr>cl_send := deliver demo_key_libs (\<lambda>_. Ok JNull) demo_web demo_net\<rparr>"

section \<open>Registration and heartbeat on the memory store\<close>

lemma hm_values_single [simp]: "hm_values seed [(k, v)] = [v]"
  by (cases seed) (simp_all add: hm_values_def)

lemma register_fresh:
  assumes "app_store st = memory_store L T" and "app_store_state st = memory_state_default"
    and "rnr_registration_token req = app_default_registration_token st"
  shows "\<exists>s' node. register_node L E req st
      = (Ok (CREATED, rnr_node_id req, ''registered''), st\<lparr>app_store_state := s'\<rparr>) \<and>
    nodes s' = [(rnr_node_id req, node)] \<and> runner_commands s' = [] \<and>
    nd_runner_result_public_key_hex node = unwrap_or (hex_encode L (app_runner_result_verify_key st))
      (rnr_runner_result_public_key_hex req)"
proof -
  let ?rec = "node_registration_token_new (E 0) (app_tenant_id st) ''regtok-dev''
      (app_default_registration_token st)"
  define node where "node = with_runner_result_public_key_hex
      (node_record_new (E 2) (app_tenant_id st) (rnr_node_id req) (rnr_node_id req @ ''.example'')
        (rnr_xray_version req))
      (unwrap_or (hex_encode L (app_runner_result_verify_key st)) (rnr_runner_result_public_key_hex req))"
  obtain s1 where s1: "mem_create_node_registration_token (E 1) ?rec memory_state_default = (Ok (), s1)"
      "node_registration_tokens s1 = [(''regtok-dev'', ?rec)]" "nodes s1 = []" "runner_commands s1 = []"
    by (simp add: mem_create_node_registration_token_def memory_state_default_def mem_record_def
        node_registration_token_new_def hm_values_def)
  have rec: "nt_token ?rec = app_default_registration_token st" "nt_status ?rec = ''active''"
    by (simp_all add: node_registration_token_new_def)
  obtain u s2 where s2: "mem_register_node_with_registration_token T (E 3) node
        (app_default_registration_token st) s1 = (Ok u, s2)"
      "nodes s2 = [(rnr_node_id req, node)]" "runner_commands s2 = []"
    using s1(3,4) rec by (simp add: mem_register_node_with_registration_token_def find_registration_token_def
        s1(2) Let_def mem_record_def) (simp add: node_def with_runner_result_public_key_hex_def node_record_new_def)
  have "ensure_default_registration_token (E 0) (E 1) st = (Ok (), st\<lparr>app_store_state := s1\<rparr>)"
    using s1(1) by (simp add: ensure_default_registration_token_def Let_def call_def map_err_op_def
        store_call_def assms(1,2))
  then have "register_node L E req st = (Ok (CREATED, rnr_node_id req, ''registered''), st\<lparr>app_store_state := s2\<rparr>)"
    using s2(1) by (simp add: register_node_def and_then_def get_app_def Let_def map_err_op_def store_call_def
        assms(1,3) node_def return_op_def)
  moreover have "nd_runner_result_public_key_hex node = unwrap_or (hex_encode L (app_runner_result_verify_key st))
      (rnr_runner_result_public_key_hex req)"
    by (simp add: node_def with_runner_result_public_key_hex_def)
  ultimately show ?thesis using s2(2,3) by blast
qed

lemma heartbeat_accepted:
  assumes "connected L J W N C" and "authorised N s" and "plain n"
    and st: "app_store (sv_app (hcs_client s)) = memory_store L T"
    and node: "map_of (nodes (app_store_state (sv_app (hcs_client s)))) n = Some node"
    and "nt_link N (sv_requests (hcs_client s)) = Delivered"
  shows "\<exists>s' hb. http_send_heartbeat C n j s = (Ok (), s\<lparr>hcs_client :=
      (hcs_client s)\<lparr>sv_requests := Suc (sv_requests (hcs_client s)),
        sv_app := (sv_app (hcs_client s))\<lparr>app_store_state := s'\<rparr>\<rparr>\<rparr>) \<and>
    nodes s' = nodes (app_store_state (sv_app (hcs_client s))) \<and>
    runner_commands s' = runner_commands (app_store_state (sv_app (hcs_client s))) \<and>
    map_of (heartbeats s') n = Some hb \<and> hb_capability_snapshot hb = j"
proof -
  from assms(1) have C: "cl_send C = deliver L J W N" "conforms W C" by (simp_all add: connected_def)
  from assms(2) obtain tok where tok: "hcs_runner_token s = Some tok" "header_text tok"
      "tok = app_runner_api_token (sv_app (hcs_client s))" and b: "base_url N (hcs_base_url s)"
    by (auto simp: authorised_def)
  have valid: "runner_token_valid (sv_app (hcs_client s)) (received W [(''x-runner-token'', tok)])"
    unfolding received_token_valid [OF C(2) tok(2)] by (rule tok(3))
  have jx: "jx_heartbeat W (JsonBody (JObject [(''capability_snapshot'', j)])) = Ok j"
    using C(2) unfolding conforms_def by blast
  have json: "hs_status (json_response W c x) = status_number c" for c x
  proof -
    obtain y where "wb_json W x = Ok y" using C(2) unfolding conforms_def is_ok_iff by blast
    then show ?thesis by (simp add: json_response_def plain_response_def)
  qed
  let ?k = "sv_requests (hcs_client s)" and ?st = "sv_app (hcs_client s)"
  define hb where "hb = heartbeat_record_new (nt_env N ?k 0) (app_tenant_id ?st) n j"
  obtain s' where s': "mem_record_heartbeat T (nt_env N ?k 1) hb (app_store_state ?st) = (Ok (), s')"
      "nodes s' = nodes (app_store_state ?st)" "runner_commands s' = runner_commands (app_store_state ?st)"
      "map_of (heartbeats s') n = Some hb"
    using node by (simp add: mem_record_heartbeat_def hb_def heartbeat_record_new_def mem_record_def)
  have "runner_heartbeat (nt_env N ?k) n (received W [(''x-runner-token'', tok)]) j ?st
      = (Ok (ACCEPTED, n, True), ?st\<lparr>app_store_state := s'\<rparr>)"
    using s'(1) by (simp add: runner_heartbeat_def and_then_def require_runner_token_def valid get_app_def
        call_def map_err_op_def store_call_def st hb_def return_op_def)
  then have "http_send_heartbeat C n j s = (Ok (), s\<lparr>hcs_client :=
      (hcs_client s)\<lparr>sv_requests := Suc ?k, sv_app := ?st\<lparr>app_store_state := s'\<rparr>\<rparr>\<rparr>)"
    by (simp add: http_send_heartbeat_def and_then_def send_def C(1) deliver_def add_auth_def http_post_def
        tok(1) runner_urls(3) [OF b assms(3) refl] assms(6) Let_def serve_runner_requests(3) [OF C(2) assms(3)]
        extracting_def jx param_def respond_def json require_success_def return_op_def)
  moreover have "hb_capability_snapshot hb = j" by (simp add: hb_def heartbeat_record_new_def)
  ultimately show ?thesis using s'(2-4) by blast
qed

lemma registered_key:
  assumes "key_codec L" and "hex_codec L"
    and "nd_runner_result_public_key_hex node = hex_encode L (ed_verifying_key L k)"
  shows "runner_result_verify_key_for_node L st node = Ok (ed_verifying_key L k)"
  using assms
  by (simp add: runner_result_verify_key_for_node_def parse_runner_result_public_key_hex_def key_codec_def
      hex_codec_def)

text \<open>Registration and heartbeat together: what a new runner announces reaches the empty store.\<close>

lemma first_announcement:
  assumes conn: "connected L J W N C" and base: "base_url N (hcs_base_url s0)"
    and links: "\<forall>k. nt_link N k = Delivered" and "plain n" and "header_text tok"
    and vars: "V ''NODE_REGISTRATION_TOKEN'' = Some t" "V ''RUNNER_NODE_ID'' = Some n"
    and s0: "hcs_client s0 = \<lparr>sv_app = st, sv_requests = 0\<rparr>" "hcs_runner_token s0 = Some tok"
    and st: "app_store st = memory_store L T" "app_store_state st = memory_state_default"
      "app_default_registration_token st = t" "app_runner_api_token st = tok"
    and libs: "hex_codec L" "key_codec L"
  shows "\<exists>s2 m2 node hb. announce L C V s0 = (Ok (), s2) \<and>
    sv_app (hcs_client s2) = st\<lparr>app_store_state := m2\<rparr> \<and> map_of (nodes m2) n = Some node \<and>
    nd_runner_result_public_key_hex node = hex_encode L (ed_verifying_key L (hcs_result_signing_key s0)) \<and>
    map_of (heartbeats m2) n = Some hb \<and> hb_capability_snapshot hb = capability_snapshot V \<and>
    runner_commands m2 = [] \<and> authorised N s2 \<and> enrolled L n s2"
proof -
  have node_id: "var_or V ''RUNNER_NODE_ID'' ''dev-node-1'' = n" by (simp add: var_or_def unwrap_or_def vars(2))
  let ?w = "\<lparr>sv_app = st, sv_requests = 0\<rparr>" and ?k = "hcs_result_signing_key s0"
    and ?v = "var_or V ''RUNNER_XRAY_VERSION'' ''unknown''"
  define req where "req = \<lparr>rnr_registration_token = t, rnr_node_id = n, rnr_xray_version = ?v,
      rnr_runner_result_public_key_hex = Some (hex_encode L (ed_verifying_key L ?k))\<rparr>"
  obtain m1 node where reg: "register_node L (nt_env N 0) req st
      = (Ok (CREATED, n, ''registered''), st\<lparr>app_store_state := m1\<rparr>)" "nodes m1 = [(n, node)]"
      "runner_commands m1 = []" "nd_runner_result_public_key_hex node = hex_encode L (ed_verifying_key L ?k)"
    using register_fresh [OF st(1,2), of req "nt_env N 0"] by (auto simp: req_def st(3) unwrap_or_def)
  define s1 where "s1 = s0\<lparr>hcs_client := ?w\<lparr>sv_requests := 1, sv_app := st\<lparr>app_store_state := m1\<rparr>\<rparr>\<rparr>"
  have pre: "nt_link N (sv_requests (hcs_client s0)) = Delivered"
      "register_node L (nt_env N (sv_requests (hcs_client s0))) \<lparr>rnr_registration_token = t, rnr_node_id = n,
         rnr_xray_version = ?v, rnr_runner_result_public_key_hex = Some (hex_encode L (ed_verifying_key L ?k))\<rparr>
         (sv_app (hcs_client s0))
       = (Ok (CREATED, n, ''registered''), st\<lparr>app_store_state := m1\<rparr>)"
    using links reg(1) by (simp_all add: s0(1) req_def)
  have registered: "http_register_node L C n t ?v s0 = (Ok (), s1)"
    using http_register_node_eq [OF conn base pre] by (simp add: s1_def s0(1))
  have auth1: "authorised N s1"
    using base assms(5) by (simp add: authorised_def s1_def s0(2) st(4))
  have "app_store (sv_app (hcs_client s1)) = memory_store L T" "map_of (nodes (app_store_state
      (sv_app (hcs_client s1)))) n = Some node" "nt_link N (sv_requests (hcs_client s1)) = Delivered"
    using st(1) reg(2) links by (simp_all add: s1_def)
  from heartbeat_accepted [OF conn auth1 assms(4) this, of "capability_snapshot V"]
  obtain m2 hb where hb: "http_send_heartbeat C n (capability_snapshot V) s1 = (Ok (), s1\<lparr>hcs_client :=
      (hcs_client s1)\<lparr>sv_requests := Suc (sv_requests (hcs_client s1)),
        sv_app := (sv_app (hcs_client s1))\<lparr>app_store_state := m2\<rparr>\<rparr>\<rparr>)"
      "nodes m2 = nodes m1" "runner_commands m2 = []" "map_of (heartbeats m2) n = Some hb"
      "hb_capability_snapshot hb = capability_snapshot V"
    by (auto simp: s1_def reg(3))
  define s2 where "s2 = s1\<lparr>hcs_client := (hcs_client s1)\<lparr>sv_requests := Suc (sv_requests (hcs_client s1)),
        sv_app := (sv_app (hcs_client s1))\<lparr>app_store_state := m2\<rparr>\<rparr>\<rparr>"
  have "announce L C V s0 = (Ok (), s2)"
    using hb(1) registered vars(1) by (simp add: announce_def node_id Let_def and_then_def s2_def)
  moreover have state2: "sv_app (hcs_client s2) = st\<lparr>app_store_state := m2\<rparr>" by (simp add: s2_def s1_def)
  moreover have "authorised N s2" using auth1 by (simp add: authorised_def s2_def s1_def)
  moreover have "enrolled L n s2"
    using reg(2) hb(2) registered_key [OF libs(2,1) reg(4)]
    by (simp add: enrolled_def Let_def state2) (simp add: s2_def s1_def)
  ultimately show ?thesis using reg(2,4) hb(2-5) by auto
qed

text \<open>A runner that is asked to poll once and finds no command ends successfully.\<close>

lemma single_empty_poll:
  assumes "V ''CONTROL_PLANE_BASE_URL'' = Some url" and "V ''RUNNER_NODE_ID'' = Some n" and "runner_once V"
    and "runner_source L V url w = Ok s0" and "announce L C V s0 = (Ok (), s2)"
    and poll: "http_next_command C n (lr_last_sequence (runner_local L V disk_at)) s2 = (Ok None, s3)"
  shows "\<exists>out. runner_main L host_of C V E others disk_at w = Some out \<and>
    oc_result out = Ok () \<and> oc_world out = hcs_client s3"
proof -
  let ?p = "polling_process L V disk_at url s2"
  have nid: "lr_node_id (runner_local L V disk_at) = n"
    using assms(2) by (simp add: runner_local_def Let_def local_runner_new_def var_or_def unwrap_or_def
        with_reload_command_def with_health_command_def split: option.split)
  have step: "poll_step L (xray_host host_of V) C V e ?p = (Ok (), ?p\<lparr>pc_outbound :=
      outbound_runner_new (runner_local L V disk_at) s2\<lparr>ob_source := s3\<rparr>,
      pc_stdout := pc_stdout ?p @ [poll_line V None]\<rparr>)" for e
    using poll nid
    by (simp add: poll_step_def polling_process_def poll_apply_once_def http_command_source_def
        and_then_def on_source_def Let_def return_op_def outbound_runner_new_def)
  show ?thesis
    using assms(1,4,5)
    by (simp add: runner_main_def polling_process_def [symmetric] xray_host_def [symmetric]
        poll_loop_once [OF assms(3)] step)
qed

section \<open>First contact\<close>

text \<open>
  C16. A runner process and a control plane that start from the same environment, with a
  registration token, a runner token and a node id, on an empty memory store, find each other:
  the runner registers its result key, its heartbeat is stored, its poll finds no command and the
  process ends successfully; afterwards the node is enrolled.
\<close>

theorem first_start_enrolls:
  assumes boot: "from_env L S F open_pool V = Ok (OnMemory st)"
    and vars: "V ''NODE_REGISTRATION_TOKEN'' = Some t" "V ''RUNNER_API_TOKEN'' = Some tok" "header_text tok"
      "V ''CONTROL_PLANE_BASE_URL'' = Some url" "V ''RUNNER_NODE_ID'' = Some n" "plain n"
      "V ''RUNNER_RESULT_SIGNING_KEY_HEX'' = None" "runner_once V"
    and conn: "connected L J W N C" and base: "base_url N (trim_end_slashes url)"
    and links: "\<forall>k. nt_link N k = Delivered"
    and libs: "hex_codec L" "key_codec L"
  shows "\<exists>out node hb. runner_main L host_of C V E others disk_at \<lparr>sv_app = st, sv_requests = 0\<rparr> = Some out \<and>
    oc_result out = Ok () \<and>
    map_of (nodes (app_store_state (sv_app (oc_world out)))) n = Some node \<and>
    nd_runner_result_public_key_hex node
      = hex_encode L (ed_verifying_key L dev_runner_result_signing_key) \<and>
    map_of (heartbeats (app_store_state (sv_app (oc_world out)))) n = Some hb \<and>
    hb_capability_snapshot hb = capability_snapshot V"
proof -
  let ?w = "\<lparr>sv_app = st, sv_requests = 0\<rparr>" and ?l = "runner_local L V disk_at"
  obtain T where T: "st = with_store_and_runner_token L t tok T (memory_store L T) memory_state_default"
    using boot vars(1,2) by (auto simp: from_env_def Let_def bind_result_eq_Ok var_or_def unwrap_or_def
        split: option.splits)
  have st: "app_store st = memory_store L T" "app_store_state st = memory_state_default"
      "app_default_registration_token st = t" "app_runner_api_token st = tok"
    by (simp_all add: T with_store_and_runner_token_def)
  define s0 where "s0 = with_runner_token tok (http_source_new url ?w)"
  have s0: "runner_source L V url ?w = Ok s0" "hcs_client s0 = ?w" "hcs_base_url s0 = trim_end_slashes url"
      "hcs_runner_token s0 = Some tok" "hcs_result_signing_key s0 = dev_runner_result_signing_key"
    using vars(2,7) by (simp_all add: runner_source_def Let_def s0_def http_source_new_def with_runner_token_def)
  have "base_url N (hcs_base_url s0)" using base s0(3) by simp
  from first_announcement [where V = V, OF conn this links vars(6,3,1,5) s0(2,4) st libs]
  obtain s2 m2 node hb where ann: "announce L C V s0 = (Ok (), s2)" "authorised N s2"
      and state2: "sv_app (hcs_client s2) = st\<lparr>app_store_state := m2\<rparr>"
      and facts: "map_of (nodes m2) n = Some node" "map_of (heartbeats m2) n = Some hb"
      "nd_runner_result_public_key_hex node = hex_encode L (ed_verifying_key L dev_runner_result_signing_key)"
      "hb_capability_snapshot hb = capability_snapshot V"
      and none: "runner_commands m2 = []"
    unfolding s0(5) by blast
  have "memory_queue m2 n = []" by (simp add: memory_queue_def none unwrap_or_def)
  then obtain s3 where poll: "http_next_command C n (lr_last_sequence ?l) s2 = (Ok None, s3)"
      "sv_app (hcs_client s3) = st\<lparr>app_store_state := m2\<rparr>"
    using http_next_command_eq [OF conn ann(2) vars(6), of T "lr_last_sequence ?l"] st(1) links
    by (simp add: state2 mem_next_runner_command_def none)
  from single_empty_poll [OF vars(4,5,8) s0(1) ann(1) poll(1)] poll(2) facts show ?thesis
    by fastforce
qed

lemma demo_key_libs_ok:
  "hex_codec demo_key_libs" "ed25519_scheme demo_key_libs" "serde_total demo_key_libs" "key_codec demo_key_libs"
proof -
  show "hex_codec demo_key_libs" "serde_total demo_key_libs"
    using demo_libs_ok by (simp_all add: hex_codec_def serde_total_def demo_key_libs_def demo_libs_def)
  show "ed25519_scheme demo_key_libs"
    by (auto simp: ed25519_scheme_def demo_key_libs_def demo_libs_def min_def)
  show "key_codec demo_key_libs"
    by (auto simp: key_codec_def demo_key_libs_def demo_libs_def chars_of_bytes_def min_def)
qed

lemma demo_key_connected: "connected demo_key_libs (\<lambda>_. Ok JNull) demo_web demo_net demo_key_client"
  using demo_web_conforms [of demo_net] by (simp add: connected_def conforms_def demo_key_client_def)

theorem first_start_enrolls_witness:
  "\<forall>S F open_pool. \<exists>st out node. from_env demo_key_libs S F open_pool shared_vars = Ok (OnMemory st) \<and>
    runner_main demo_key_libs (\<lambda>_. demo_host) demo_key_client shared_vars (\<lambda>_. demo_env) (\<lambda>_ _ w. w)
      (\<lambda>_. fresh_disk) \<lparr>sv_app = st, sv_requests = 0\<rparr> = Some out \<and>
    map_of (nodes (app_store_state (sv_app (oc_world out)))) ''node-a'' = Some node"
proof (intro allI)
  fix S :: pg_serde and F :: faults and open_pool :: "string \<Rightarrow> (pg_state, store_error) result"
  obtain st where st: "from_env demo_key_libs S F open_pool shared_vars = Ok (OnMemory st)"
    by (simp add: from_env_def shared_vars_def Let_def)
  have v: "shared_vars ''NODE_REGISTRATION_TOKEN'' = Some ''reg''" "shared_vars ''RUNNER_API_TOKEN'' = Some ''run''"
      "shared_vars ''CONTROL_PLANE_BASE_URL'' = Some ''http://cp/''" "shared_vars ''RUNNER_NODE_ID'' = Some ''node-a''"
      "shared_vars ''RUNNER_RESULT_SIGNING_KEY_HEX'' = None" "runner_once shared_vars"
    by (simp_all add: shared_vars_def runner_once_def is_some_and_def)
  have base: "base_url demo_net (trim_end_slashes ''http://cp/'')"
    by (simp add: demo_trim demo_base_url demo_links(1))
  show "\<exists>st out node. from_env demo_key_libs S F open_pool shared_vars = Ok (OnMemory st) \<and>
    runner_main demo_key_libs (\<lambda>_. demo_host) demo_key_client shared_vars (\<lambda>_. demo_env) (\<lambda>_ _ w. w)
      (\<lambda>_. fresh_disk) \<lparr>sv_app = st, sv_requests = 0\<rparr> = Some out \<and>
    map_of (nodes (app_store_state (sv_app (oc_world out)))) ''node-a'' = Some node"
    using first_start_enrolls [OF st v(1,2) demo_plain(3) v(3,4) demo_plain(1) v(5,6) demo_key_connected base _
        demo_key_libs_ok(1,4), of "\<lambda>_. demo_host" "\<lambda>_. demo_env" "\<lambda>_ _ w. w" "\<lambda>_. fresh_disk"]
      demo_links(3) st by blast
qed

end
