(* ===== verification/Postgres_Invariant.thy ===== *)
theory Postgres_Invariant
  imports Postgres_Access Memory_Invariant
begin

text \<open>
  What every state of the database satisfies that calls of the store produce, with any connection
  fault at any statement: the keys are unique and the references exist (\<open>pg_keys\<close>, \<open>pg_refs\<close>, also
  the two the schema does not enforce, from a credential to its secret and from an artifact to its
  bytes), every encoded value decodes and every status is one the code knows (\<open>pg_rows\<close>). Each SQL statement
  keeps the invariant; \<open>keeps\<close> lifts that to the methods.
\<close>

named_theorems sql_inv \<open>statements that keep the invariant of the tables\<close>

section \<open>The invariant\<close>

definition refs :: "'k set \<Rightarrow> ('r \<Rightarrow> 'k) \<Rightarrow> 'r list \<Rightarrow> bool" where
  "refs K f rows \<longleftrightarrow> (\<forall>r \<in> set rows. f r \<in> K)"

definition opt_refs :: "'k set \<Rightarrow> ('r \<Rightarrow> 'k option) \<Rightarrow> 'r list \<Rightarrow> bool" where
  "opt_refs K f rows \<longleftrightarrow> (\<forall>r \<in> set rows. \<forall>k. f r = Some k \<longrightarrow> k \<in> K)"

definition all_rows :: "('r \<Rightarrow> bool) \<Rightarrow> 'r list \<Rightarrow> bool" where
  "all_rows P rows \<longleftrightarrow> (\<forall>r \<in> set rows. P r)"

definition pg_keys :: "pg_db \<Rightarrow> bool" where
  "pg_keys d \<longleftrightarrow>
     distinct (t_tenants d) \<and> distinct (map pn_id (t_nodes d)) \<and>
     distinct (map pi_node_id (t_node_identities d)) \<and>
     distinct (map nt_token_id (t_node_registration_tokens d)) \<and>
     distinct (map nt_token (t_node_registration_tokens d)) \<and>
     distinct (map fst (t_runner_sessions d)) \<and>
     distinct (map command_row_key (t_runner_commands d)) \<and>
     distinct (map fst (t_profiles d)) \<and> distinct (map pv_id (t_profile_versions d)) \<and>
     distinct (map pv_profile_id (t_profile_versions d)) \<and>
     distinct (map pl_id (t_clients d)) \<and> distinct (map pk_id (t_credentials d)) \<and>
     distinct (map fst (t_credential_quotas d)) \<and> distinct (t_profile_credentials d) \<and>
     distinct (map art_id (t_artifacts d)) \<and>
     distinct (map (\<lambda>a. (art_tenant_id a, art_sha256 a)) (t_artifacts d)) \<and>
     distinct (map fst (t_artifact_blobs d)) \<and> distinct (map pd_id (t_deployments d)) \<and>
     distinct (map rbp_rollback_pointer_id (t_rollback_pointers d)) \<and>
     distinct (map pz_id (t_deployment_snapshots d)) \<and> distinct (map px_id (t_secrets d)) \<and>
     distinct (map fst (t_idempotency_keys d)) \<and>
     distinct (map rollup_row_key (filter (\<lambda>r. ur_credential_id r \<noteq> None) (t_usage_rollups d))) \<and>
     distinct (map st_token_id (t_subscription_tokens d))"

definition pg_refs :: "pg_db \<Rightarrow> bool" where
  "pg_refs d \<longleftrightarrow>
     (let tenants = set (t_tenants d); nodes = pn_id ` set (t_nodes d);
          sessions = fst ` set (t_runner_sessions d); profiles = fst ` set (t_profiles d);
          versions = pv_id ` set (t_profile_versions d); clients = pl_id ` set (t_clients d);
          secrets = px_id ` set (t_secrets d); credentials = pk_id ` set (t_credentials d);
          artifacts = art_id ` set (t_artifacts d); deployments = pd_id ` set (t_deployments d);
          tokens = st_token_id ` set (t_subscription_tokens d);
          blobs = fst ` set (t_artifact_blobs d) in
      refs tenants pn_tenant_id (t_nodes d) \<and> refs nodes pi_node_id (t_node_identities d) \<and>
      refs tenants nt_tenant_id (t_node_registration_tokens d) \<and>
      opt_refs nodes nt_used_by_node_id (t_node_registration_tokens d) \<and>
      refs nodes pc_node_id (t_node_capabilities d) \<and> refs nodes snd (t_runner_sessions d) \<and>
      refs tenants pq_tenant_id (t_runner_commands d) \<and>
      refs nodes pq_node_id (t_runner_commands d) \<and>
      refs nodes ph_node_id (t_node_heartbeats d) \<and>
      refs sessions ph_session_id (t_node_heartbeats d) \<and>
      refs tenants snd (t_profiles d) \<and> refs tenants pv_tenant_id (t_profile_versions d) \<and>
      refs profiles pv_profile_id (t_profile_versions d) \<and>
      refs tenants pl_tenant_id (t_clients d) \<and> refs tenants px_tenant_id (t_secrets d) \<and>
      refs tenants pk_tenant_id (t_credentials d) \<and> refs clients pk_client_id (t_credentials d) \<and>
      refs secrets pk_secret_ref (t_credentials d) \<and>
      refs credentials fst (t_credential_quotas d) \<and>
      refs profiles fst (t_profile_credentials d) \<and>
      refs credentials snd (t_profile_credentials d) \<and>
      refs tenants art_tenant_id (t_artifacts d) \<and> refs blobs art_sha256 (t_artifacts d) \<and>
      refs tenants pd_tenant_id (t_deployments d) \<and>
      refs nodes pd_node_id (t_deployments d) \<and>
      refs versions pd_profile_version_id (t_deployments d) \<and>
      refs artifacts pd_compiled_config_artifact_id (t_deployments d) \<and>
      refs tenants rbp_tenant_id (t_rollback_pointers d) \<and>
      refs deployments rbp_deployment_id (t_rollback_pointers d) \<and>
      opt_refs deployments rbp_previous_deployment_id (t_rollback_pointers d) \<and>
      opt_refs artifacts rbp_previous_compiled_config_artifact_id (t_rollback_pointers d) \<and>
      refs artifacts rbp_target_compiled_config_artifact_id (t_rollback_pointers d) \<and>
      refs deployments pz_deployment_id (t_deployment_snapshots d) \<and>
      refs deployments py_deployment_id (t_deployment_health_checks d) \<and>
      refs tenants (\<lambda>r. fst (fst r)) (t_idempotency_keys d) \<and>
      refs tenants us_tenant_id (t_usage_records d) \<and> refs nodes us_node_id (t_usage_records d) \<and>
      opt_refs credentials us_credential_id (t_usage_records d) \<and>
      refs tenants ur_tenant_id (t_usage_rollups d) \<and>
      opt_refs credentials ur_credential_id (t_usage_rollups d) \<and>
      refs tenants st_tenant_id (t_subscription_tokens d) \<and>
      refs profiles st_profile_id (t_subscription_tokens d) \<and>
      refs tokens al_token_id (t_subscription_access_logs d) \<and>
      refs tenants ae_tenant_id (t_audit_events d) \<and> refs tenants oe_tenant_id (t_event_outbox d))"

definition command_row_ok :: "pg_serde \<Rightarrow> pg_command_row \<Rightarrow> bool" where
  "command_row_ok S r \<longleftrightarrow>
     (\<exists>c. sv_command S c = Ok (pq_envelope_json r) \<and> pq_sequence r = cmd_sequence (src_command c)
          \<and> pq_tenant_id r = cmd_tenant_id (src_command c)) \<and>
     pq_status r \<in> {''pending'', ''skipped'', ''leased''} \<and>
     (pq_status r = ''leased'' \<longleftrightarrow> pq_leased_at r \<noteq> None)"

definition version_row_ok :: "pg_serde \<Rightarrow> pg_profile_version_row \<Rightarrow> bool" where
  "version_row_ok S r \<longleftrightarrow> pv_version r = 1 \<and> (\<exists>ir. pv_ir_json r = sv_ir S ir)"

definition token_row_ok :: "subscription_token_record \<Rightarrow> bool" where
  "token_row_ok r \<longleftrightarrow> st_status r \<in> {''active'', ''rotated''}
     \<and> (st_rotated_at r = None \<longleftrightarrow> st_status r = ''active'')"

definition pg_rows :: "libs \<Rightarrow> pg_serde \<Rightarrow> pg_db \<Rightarrow> bool" where
  "pg_rows L S d \<longleftrightarrow>
     all_rows (command_row_ok S) (t_runner_commands d) \<and>
     all_rows (version_row_ok S) (t_profile_versions d) \<and>
     all_rows (\<lambda>r. \<exists>m. sv_material S m = Ok (px_ciphertext r)) (t_secrets d) \<and>
     all_rows (\<lambda>r. pk_client_id r = pk_id r) (t_credentials d) \<and>
     all_rows (\<lambda>r. \<exists>x. sv_snapshot S x = Ok (pz_snapshot_json r)) (t_deployment_snapshots d) \<and>
     all_rows (\<lambda>r. sha256_hex L (snd r) = fst r) (t_artifact_blobs d) \<and>
     all_rows (\<lambda>r. \<exists>s. pd_status r = deployment_status_debug s) (t_deployments d) \<and>
     all_rows token_row_ok (t_subscription_tokens d)"

definition pg_inv :: "libs \<Rightarrow> pg_serde \<Rightarrow> pg_db \<Rightarrow> bool" where
  "pg_inv L S d \<longleftrightarrow> pg_keys d \<and> pg_refs d \<and> pg_rows L S d"

text \<open>A statement, and an operation, that keeps a predicate on the tables.\<close>

definition sql_keeps :: "(pg_db \<Rightarrow> bool) \<Rightarrow> pg_write \<Rightarrow> bool" where
  "sql_keeps P f \<longleftrightarrow> (\<forall>d d'. P d \<longrightarrow> f d = Ok d' \<longrightarrow> P d')"

definition sql_keeps_ret :: "(pg_db \<Rightarrow> bool) \<Rightarrow> (pg_db \<Rightarrow> ('a \<times> pg_db, store_error) result) \<Rightarrow> bool" where
  "sql_keeps_ret P f \<longleftrightarrow> (\<forall>d a d'. P d \<longrightarrow> f d = Ok (a, d') \<longrightarrow> P d')"

definition keeps :: "(pg_db \<Rightarrow> bool) \<Rightarrow> 'a pg_op \<Rightarrow> bool" where
  "keeps P m \<longleftrightarrow> (\<forall>s. P (pg_db s) \<longrightarrow> P (pg_db (snd (m s))))"

section \<open>Rows\<close>

lemma map_update_where [simp]:
  "(\<And>r. key (f r) = key r) \<Longrightarrow> map key (update_where P f rows) = map key rows"
  by (simp add: update_where_def)

lemma image_update_where [simp]:
  "(\<And>r. key (f r) = key r) \<Longrightarrow> key ` set (update_where P f rows) = key ` set rows"
  by (metis list.set_map map_update_where)

lemma set_update_where:
  "set (update_where P f rows) = (\<lambda>r. if P r then f r else r) ` set rows"
  by (simp add: update_where_def)

lemma update_where_id [simp]: "update_where P (\<lambda>r. r) rows = rows" "update_where P id rows = rows"
  by (auto simp: update_where_def intro!: map_idI)

lemma filter_update_where:
  "(\<And>r. Q (f r) = Q r) \<Longrightarrow> filter Q (update_where P f rows) = update_where P f (filter Q rows)"
  by (induction rows) (auto simp: update_where_def)

lemma insert_row_Ok:
  "insert_row key f u ok row rows = Ok rows' \<longleftrightarrow>
     key row \<in> key ` set rows \<and> rows' = update_where (\<lambda>r. key r = key row) f rows
     \<or> key row \<notin> key ` set rows \<and> u \<and> ok \<and> rows' = rows @ [row]"
  by (auto simp: insert_row_def)

lemma append_row_Ok: "append_row ok row rows = Ok rows' \<longleftrightarrow> ok \<and> rows' = rows @ [row]"
  by (auto simp: append_row_def)

lemma length_update_where [simp]: "length (update_where P f rows) = length rows"
  by (simp add: update_where_def)

lemma refs_simps [simp]:
  "refs K f (rows @ [r]) \<longleftrightarrow> refs K f rows \<and> f r \<in> K"
  "opt_refs K g (rows @ [r]) \<longleftrightarrow> opt_refs K g rows \<and> (\<forall>k. g r = Some k \<longrightarrow> k \<in> K)"
  "all_rows P (rows @ [r]) \<longleftrightarrow> all_rows P rows \<and> P r"
  by (auto simp: refs_def opt_refs_def all_rows_def)

lemma null_or_iff: "null_or P x \<longleftrightarrow> (\<forall>k. x = Some k \<longrightarrow> P k)"
  by (simp split: option.split)

lemma refs_map:
  "refs K f rows \<longleftrightarrow> (\<forall>k \<in> set (map f rows). k \<in> K)"
  "opt_refs K g rows \<longleftrightarrow> (\<forall>x \<in> set (map g rows). \<forall>k. x = Some k \<longrightarrow> k \<in> K)"
  by (auto simp: refs_def opt_refs_def)

lemma refs_update [simp]:
  "(\<And>r. f (h r) = f r) \<Longrightarrow> refs K f (update_where P h rows) = refs K f rows"
  by (simp only: refs_map map_update_where)

lemma opt_refs_update [simp]:
  "(\<And>r. g (h r) = g r) \<Longrightarrow> opt_refs K g (update_where P h rows) = opt_refs K g rows"
  by (simp only: refs_map map_update_where)

lemma opt_refs_set:
  "opt_refs K g rows \<Longrightarrow> k \<in> K \<Longrightarrow> (\<And>r. g (h r) = Some k) \<Longrightarrow> opt_refs K g (update_where P h rows)"
  by (auto simp: opt_refs_def set_update_where)

lemma all_rows_update:
  "all_rows Q rows \<Longrightarrow> (\<And>r. P r \<Longrightarrow> Q r \<Longrightarrow> Q (h r)) \<Longrightarrow> all_rows Q (update_where P h rows)"
  by (auto simp: all_rows_def set_update_where)

lemma refs_grow [simp]:
  "refs K f rows \<Longrightarrow> refs (insert k K) f rows"
  "opt_refs K g rows \<Longrightarrow> opt_refs (insert k K) g rows"
  by (auto simp: refs_def opt_refs_def)

lemmas sql_outcome = insert_row_Ok append_row_Ok bind_result_eq_Ok

section \<open>Keeping a predicate\<close>

lemma sql_keepsI: "(\<And>d d'. P d \<Longrightarrow> f d = Ok d' \<Longrightarrow> P d') \<Longrightarrow> sql_keeps P f"
  by (auto simp: sql_keeps_def)

lemma statement_db:
  "pg_db (snd (statement F f s)) = pg_db s
   \<or> (\<exists>a. f (pg_db s) = Ok (a, pg_db (snd (statement F f s))))"
  by (auto simp: statement_def Let_def split: pg_fault.splits result.splits)

lemma statement_Ok:
  "statement F f s = (Ok a, s') \<longleftrightarrow>
     F (pg_calls s) = Executed \<and> pg_calls s' = Suc (pg_calls s) \<and> f (pg_db s) = Ok (a, pg_db s')"
  by (cases s; cases s') (auto simp: statement_def Let_def split: pg_fault.splits result.splits)

lemma execute_Ok:
  "execute F g s = (Ok u, s') \<longleftrightarrow>
     F (pg_calls s) = Executed \<and> pg_calls s' = Suc (pg_calls s) \<and> g (pg_db s) = Ok (pg_db s')"
  by (auto simp: execute_def statement_Ok bind_result_eq_Ok)

lemma query_Ok:
  "query F g s = (Ok a, s') \<longleftrightarrow>
     F (pg_calls s) = Executed \<and> pg_calls s' = Suc (pg_calls s) \<and> a = g (pg_db s) \<and> pg_db s' = pg_db s"
  by (auto simp: query_def statement_Ok)

lemma query_db: "pg_db (snd (query F g s)) = pg_db s"
  using statement_db [of F "\<lambda>d. Ok (g d, d)" s] by (auto simp: query_def)

lemma transaction_db:
  "pg_db (snd (transaction F m s)) = pg_db s
   \<or> (\<exists>s1. pg_db s1 = pg_db s \<and> pg_db (snd (transaction F m s)) = pg_db (snd (m s1)))"
proof -
  obtain r s1 where q: "query F (\<lambda>_. ()) s = (r, s1)" by fastforce
  then have s1: "pg_db s1 = pg_db s" using query_db [of F "\<lambda>_. ()" s] by simp
  obtain r' s2 where m: "m s1 = (r', s2)" by fastforce
  show ?thesis
    using q m s1 statement_db [of F "\<lambda>_. Ok (ok_of r', pg_db s2)" "s2\<lparr>pg_db := pg_db s\<rparr>"]
    by (cases r; cases r') (auto simp: transaction_def intro: exI [of _ s1])
qed

lemma sql_keeps_retI: "(\<And>d a d'. P d \<Longrightarrow> f d = Ok (a, d') \<Longrightarrow> P d') \<Longrightarrow> sql_keeps_ret P f"
  by (auto simp: sql_keeps_ret_def)

lemma keeps_statement: "sql_keeps_ret P f \<Longrightarrow> keeps P (statement F f)"
  unfolding keeps_def sql_keeps_ret_def by (metis statement_db)

lemma keeps_execute: "sql_keeps P f \<Longrightarrow> keeps P (execute F f)"
  unfolding execute_def
  by (rule keeps_statement) (auto simp: sql_keeps_def sql_keeps_ret_def bind_result_eq_Ok)

lemma keeps_query: "keeps P (query F g)"
  unfolding query_def by (rule keeps_statement) (simp add: sql_keeps_ret_def)

lemma keeps_and_then: "keeps P m \<Longrightarrow> (\<And>a. keeps P (f a)) \<Longrightarrow> keeps P (and_then m f)"
  unfolding keeps_def and_then_def by (auto split: prod.splits result.splits)

lemma keeps_units: "keeps P (return_op a)" "keeps P (fail_op x)" "keeps P (lift_result r)"
  by (simp_all add: keeps_def op_units)

lemma keeps_transaction: "keeps P m \<Longrightarrow> keeps P (transaction F m)"
  unfolding keeps_def by (metis transaction_db)

lemma sql_keeps_insert:
  assumes "\<And>d. P d \<Longrightarrow> key row \<in> key ` set (tab d) \<Longrightarrow>
      P (put d (update_where (\<lambda>r. key r = key row) f (tab d)))"
    and "\<And>d. P d \<Longrightarrow> key row \<notin> key ` set (tab d) \<Longrightarrow> u d \<Longrightarrow> ok d \<Longrightarrow> P (put d (tab d @ [row]))"
  shows "sql_keeps P (\<lambda>d. bind_result (insert_row key f (u d) (ok d) row (tab d))
           (\<lambda>t. Ok (put d t)))"
  using assms by (auto simp: sql_keeps_def sql_outcome)

lemma sql_keeps_append:
  assumes "\<And>d. P d \<Longrightarrow> ok d \<Longrightarrow> P (put d (tab d @ [row]))"
  shows "sql_keeps P (\<lambda>d. bind_result (append_row (ok d) row (tab d)) (\<lambda>t. Ok (put d t)))"
  using assms by (auto simp: sql_keeps_def sql_outcome)

lemma sql_keeps_insert_ret:
  assumes "\<And>d. P d \<Longrightarrow> key row \<in> key ` set (tab d) \<Longrightarrow>
      P (put d (update_where (\<lambda>r. key r = key row) f (tab d)))"
    and "\<And>d. P d \<Longrightarrow> key row \<notin> key ` set (tab d) \<Longrightarrow> u d \<Longrightarrow> ok d \<Longrightarrow> P (put d (tab d @ [row]))"
  shows "sql_keeps_ret P (\<lambda>d. bind_result (insert_row key f (u d) (ok d) row (tab d))
           (\<lambda>t. Ok (ret d t, put d t)))"
  using assms by (auto simp: sql_keeps_ret_def sql_outcome)

lemma sql_keeps_update_ret:
  "(\<And>d. P d \<Longrightarrow> P (put d)) \<Longrightarrow> sql_keeps_ret P (\<lambda>d. Ok (ret d, put d))"
  by (auto simp: sql_keeps_ret_def)

lemma sql_keeps_update: "(\<And>d. P d \<Longrightarrow> P (put d)) \<Longrightarrow> sql_keeps P (\<lambda>d. Ok (put d))"
  by (auto simp: sql_keeps_def)

lemmas keeps_rules = keeps_execute keeps_query keeps_statement keeps_and_then keeps_units

section \<open>Statements keep the invariant\<close>

lemmas pg_inv_defs = pg_inv_def pg_keys_def pg_refs_def pg_rows_def Let_def

lemma events_inv [sql_inv]:
  "sql_keeps (pg_inv L S) (sql_audit now tenant actor action ty i)"
  "sql_keeps (pg_inv L S) (sql_outbox now tenant action ty i)"
  unfolding sql_audit_def [abs_def] sql_outbox_def [abs_def]
  by (rule sql_keeps_append; simp add: pg_inv_defs)+

lemma tenant_inv [sql_inv]: "sql_keeps (pg_inv L S) (sql_insert_tenant t)"
  unfolding sql_insert_tenant_def [abs_def] by (rule sql_keeps_insert; simp add: pg_inv_defs)

lemma node_inv [sql_inv]: "sql_keeps (pg_inv L S) (sql_upsert_node now i t)"
  unfolding sql_upsert_node_def [abs_def] by (rule sql_keeps_insert; simp add: pg_inv_defs)

lemma capability_inv [sql_inv]: "sql_keeps (pg_inv L S) (sql_insert_capability now n)"
  unfolding sql_insert_capability_def [abs_def] by (rule sql_keeps_append; simp add: pg_inv_defs)

lemma identity_inv [sql_inv]:
  "sql_keeps (pg_inv L S) (sql_upsert_identity now i k)"
  "sql_keeps (pg_inv L S) (sql_rotate_identity now i k)"
  unfolding sql_upsert_identity_def [abs_def] sql_rotate_identity_def [abs_def]
  by (rule sql_keeps_insert; simp add: pg_inv_defs)+

lemma registration_token_inv [sql_inv]:
  "sql_keeps_ret (pg_inv L S) (sql_insert_registration_token S' token)"
  unfolding sql_insert_registration_token_def [abs_def]
  by (rule sql_keeps_insert_ret; simp add: pg_inv_defs null_or_iff)

lemma use_token_outcome:
  assumes "sql_use_token now token i d = Ok (r, d')"
  shows "r = None \<and> d' = d \<and> List.find (active_token token) (t_node_registration_tokens d) = None
    \<or> (\<exists>x. List.find (active_token token) (t_node_registration_tokens d) = Some x \<and> has_node d i
        \<and> r = Some (mark_used now x i)
        \<and> d' = d\<lparr>t_node_registration_tokens := update_where (active_token token)
                   (\<lambda>x. mark_used now x i) (t_node_registration_tokens d)\<rparr>)"
  using assms by (auto simp: sql_use_token_def split: option.splits if_splits)

lemma use_token_inv [sql_inv]: "sql_keeps_ret (pg_inv L S) (sql_use_token now token i)"
proof (rule sql_keeps_retI)
  fix d r d'
  assume d: "pg_inv L S d" and r: "sql_use_token now token i d = Ok (r, d')"
  from use_token_outcome [OF r] consider "d' = d"
    | "has_node d i" "d' = d\<lparr>t_node_registration_tokens := update_where (active_token token)
        (\<lambda>x. mark_used now x i) (t_node_registration_tokens d)\<rparr>"
    by blast
  then show "pg_inv L S d'"
    using d by cases (simp_all add: pg_inv_defs mark_used_def opt_refs_set [where k = i])
qed

lemma session_inv [sql_inv]: "sql_keeps (pg_inv L S) (sql_insert_session i n)"
  unfolding sql_insert_session_def [abs_def] by (rule sql_keeps_insert; simp add: pg_inv_defs)

lemma heartbeat_inv [sql_inv]: "sql_keeps (pg_inv L S) (sql_insert_heartbeat now n i j)"
  unfolding sql_insert_heartbeat_def [abs_def] by (rule sql_keeps_append; simp add: pg_inv_defs)

lemma profile_inv [sql_inv]: "sql_keeps (pg_inv L S) (sql_insert_profile i t)"
  unfolding sql_insert_profile_def [abs_def] by (rule sql_keeps_insert; simp add: pg_inv_defs)

lemma profile_version_inv [sql_inv]:
  "version_row_ok S row \<Longrightarrow> sql_keeps (pg_inv L S) (sql_insert_profile_version row)"
  unfolding sql_insert_profile_version_def [abs_def]
proof (rule sql_keeps_insert)
  fix d
  assume d: "pg_inv L S d" and row: "version_row_ok S row" "\<not> has_version d (pv_id row)"
    "(pv_profile_id row, pv_version row)
       \<notin> (\<lambda>r. (pv_profile_id r, pv_version r)) ` set (t_profile_versions d)"
    "has_tenant d (pv_tenant_id row) \<and> has_profile d (pv_profile_id row)"
  then have "pv_profile_id row \<notin> pv_profile_id ` set (t_profile_versions d)"
    by (auto simp: pg_inv_def pg_rows_def all_rows_def version_row_ok_def image_iff)
  with d row show "pg_inv L S (d\<lparr>t_profile_versions := t_profile_versions d @ [row]\<rparr>)"
    by (simp add: pg_inv_defs)
qed simp

lemma client_inv [sql_inv]: "sql_keeps (pg_inv L S) (sql_upsert_client row)"
  unfolding sql_upsert_client_def [abs_def] by (rule sql_keeps_insert; simp add: pg_inv_defs)

lemma secret_inv [sql_inv]:
  "sv_material S m = Ok (px_ciphertext row) \<Longrightarrow> sql_keeps (pg_inv L S) (sql_upsert_secret row)"
  unfolding sql_upsert_secret_def [abs_def]
  by (rule sql_keeps_insert; simp add: pg_inv_defs all_rows_update exI [of _ m])

text \<open>A credential is written after its client and its secret.\<close>

lemma credential_inv:
  assumes "pk_client_id row = pk_id row"
  shows "sql_keeps (\<lambda>d. pg_inv L S d \<and> pk_secret_ref row \<in> px_id ` set (t_secrets d))
    (sql_upsert_credential row)"
  unfolding sql_upsert_credential_def [abs_def]
  by (rule sql_keeps_insert; simp add: pg_inv_defs all_rows_update assms)

lemma link_inv [sql_inv]: "sql_keeps (pg_inv L S) (sql_link_credential p c)"
  unfolding sql_link_credential_def [abs_def] by (rule sql_keeps_insert; simp add: pg_inv_defs)

lemma quota_inv [sql_inv]: "sql_keeps (pg_inv L S) (sql_set_quota c n)"
  unfolding sql_set_quota_def [abs_def] by (rule sql_keeps_insert; simp add: pg_inv_defs)

lemma expiry_inv [sql_inv]: "sql_keeps_ret (pg_inv L S) (sql_set_expiry c t)"
  unfolding sql_set_expiry_def [abs_def]
  by (rule sql_keeps_update_ret) (simp add: pg_inv_defs all_rows_update)

text \<open>An artifact is written after its bytes.\<close>

lemma artifact_row_inv:
  "sql_keeps (\<lambda>d. pg_inv L S d \<and> art_sha256 a \<in> fst ` set (t_artifact_blobs d))
     (sql_insert_artifact now a)"
  unfolding sql_insert_artifact_def [abs_def] by (rule sql_keeps_insert; simp add: pg_inv_defs)

lemma blob_inv [sql_inv]:
  "sha256_hex L b = h \<Longrightarrow> sql_keeps (pg_inv L S) (sql_insert_blob h b)"
  unfolding sql_insert_blob_def [abs_def] by (rule sql_keeps_insert; simp add: pg_inv_defs)

lemma response_inv [sql_inv]: "sql_keeps (pg_inv L S) (sql_insert_response t k j)"
  unfolding sql_insert_response_def [abs_def] by (rule sql_keeps_insert; simp add: pg_inv_defs)

lemma deployment_row_inv [sql_inv]:
  "pd_status row = deployment_status_debug st \<Longrightarrow>
     sql_keeps (pg_inv L S) (sql_insert_deployment row)"
  unfolding sql_insert_deployment_def [abs_def]
  by (rule sql_keeps_insert; simp add: pg_inv_defs exI [of _ st])

lemma rollback_pointer_inv [sql_inv]: "sql_keeps (pg_inv L S) (sql_insert_rollback_pointer row)"
  unfolding sql_insert_rollback_pointer_def [abs_def]
  by (rule sql_keeps_insert; simp add: pg_inv_defs null_or_iff)

lemma set_pointer_inv [sql_inv]: "sql_keeps (pg_inv L S) (sql_set_rollback_pointer i p)"
  unfolding sql_set_rollback_pointer_def [abs_def]
  by (rule sql_keeps_update) (simp add: pg_inv_defs all_rows_update)

lemma set_status_inv [sql_inv]:
  "sql_keeps_ret (pg_inv L S) (sql_set_deployment_status now i (deployment_status_debug st))"
  unfolding sql_set_deployment_status_def [abs_def]
  by (rule sql_keeps_update_ret) (simp add: pg_inv_defs all_rows_update exI [of _ st])

lemma snapshot_inv [sql_inv]:
  "sv_snapshot S x = Ok (pz_snapshot_json row) \<Longrightarrow> sql_keeps (pg_inv L S) (sql_upsert_snapshot row)"
  unfolding sql_upsert_snapshot_def [abs_def]
  by (rule sql_keeps_insert; simp add: pg_inv_defs all_rows_update exI [of _ x])

lemma health_inv [sql_inv]: "sql_keeps (pg_inv L S) (sql_insert_health row)"
  unfolding sql_insert_health_def [abs_def] by (rule sql_keeps_append; simp add: pg_inv_defs)

lemma usage_row_inv [sql_inv]: "sql_keeps (pg_inv L S) (sql_insert_usage u)"
  unfolding sql_insert_usage_def [abs_def]
  by (rule sql_keeps_append; simp add: pg_inv_defs null_or_iff)

lemma command_inv [sql_inv]:
  "command_row_ok S row \<Longrightarrow> sql_keeps (pg_inv L S) (sql_insert_command row)"
  unfolding sql_insert_command_def [abs_def] by (rule sql_keeps_insert; simp add: pg_inv_defs)

lemma subscription_token_inv [sql_inv]:
  assumes "token_row_ok row"
  shows "sql_keeps (pg_inv L S) (sql_insert_subscription_token row)"
proof (rule sql_keepsI)
  fix d d'
  assume "pg_inv L S d" and "sql_insert_subscription_token row d = Ok d'"
  moreover from this have "d' = d\<lparr>t_subscription_tokens := t_subscription_tokens d @ [row]\<rparr>"
    "has_tenant d (st_tenant_id row)" "has_profile d (st_profile_id row)"
    "\<not> has_subscription_token d (st_token_id row)"
    by (auto simp: sql_insert_subscription_token_def sql_outcome split: if_splits)
  ultimately show "pg_inv L S d'" using assms by (simp add: pg_inv_defs)
qed

lemma rotate_inv [sql_inv]: "sql_keeps (pg_inv L S) (sql_rotate_tokens now p)"
  unfolding sql_rotate_tokens_def [abs_def]
  by (rule sql_keeps_update) (simp add: pg_inv_defs all_rows_update token_row_ok_def)

lemma access_log_inv [sql_inv]: "sql_keeps (pg_inv L S) (sql_insert_access_log row)"
  unfolding sql_insert_access_log_def [abs_def] by (rule sql_keeps_append; simp add: pg_inv_defs)

lemma command_row_key_update [simp]:
  "command_row_key (r\<lparr>pq_status := st\<rparr>) = command_row_key r"
  "command_row_key (r\<lparr>pq_status := st, pq_leased_at := t\<rparr>) = command_row_key r"
  by (simp_all add: command_row_key_def)

lemma command_rows_update [simp]:
  "all_rows (command_row_ok S) rows \<Longrightarrow> all_rows (command_row_ok S)
     (update_where (\<lambda>r. pending_row n r \<and> Q r) (\<lambda>r. r\<lparr>pq_status := ''skipped''\<rparr>) rows)"
  "all_rows (command_row_ok S) rows \<Longrightarrow> all_rows (command_row_ok S)
     (update_where Q (\<lambda>r. r\<lparr>pq_status := ''leased'', pq_leased_at := Some t\<rparr>) rows)"
  by (erule all_rows_update; simp add: command_row_ok_def pending_row_def)+

lemma skip_inv [sql_inv]: "sql_keeps (pg_inv L S) (sql_skip_commands n q)"
  unfolding sql_skip_commands_def [abs_def]
  by (rule sql_keeps_update)
    (simp add: pg_inv_defs)

lemma lease_outcome:
  assumes "sql_lease_command now n q d = Ok (j, d')"
  obtains "j = None" "d' = d"
      "filter (\<lambda>r. pending_row n r \<and> q <s pq_sequence r) (t_runner_commands d) = []"
  | c where "c \<in> set (t_runner_commands d)" "pending_row n c" "q <s pq_sequence c"
      "\<And>r. r \<in> set (t_runner_commands d) \<Longrightarrow> pending_row n r \<Longrightarrow> q <s pq_sequence r \<Longrightarrow>
         sint (pq_sequence c) \<le> sint (pq_sequence r)"
      "j = Some (pq_envelope_json c)"
      "d' = d\<lparr>t_runner_commands := update_where (\<lambda>r. command_row_key r = command_row_key c)
          (\<lambda>r. r\<lparr>pq_status := ''leased'', pq_leased_at := Some now\<rparr>) (t_runner_commands d)\<rparr>"
proof (cases "max_by_key (\<lambda>r. - sint (pq_sequence r))
    (filter (\<lambda>r. pending_row n r \<and> q <s pq_sequence r) (t_runner_commands d))")
  case None
  with assms that(1) show thesis by (auto simp: sql_lease_command_def)
next
  case (Some c)
  with assms that(2) [of c] max_by_key_Some [OF Some] show thesis
    by (auto simp: sql_lease_command_def)
qed

lemma lease_inv [sql_inv]: "sql_keeps_ret (pg_inv L S) (sql_lease_command now n q)"
proof (rule sql_keeps_retI)
  fix d j d'
  assume "pg_inv L S d" and "sql_lease_command now n q d = Ok (j, d')"
  from this(2,1) show "pg_inv L S d'"
    by (cases rule: lease_outcome)
      (simp_all add: pg_inv_defs)
qed

lemma rollup_outcome:
  assumes "sql_add_rollup row d = Ok d'"
  obtains (new) "d' = d\<lparr>t_usage_rollups := t_usage_rollups d @ [row]\<rparr>"
      "has_tenant d (ur_tenant_id row)" "\<And>c. ur_credential_id row = Some c \<Longrightarrow> has_credential d c"
      "\<And>r. ur_credential_id row \<noteq> None \<Longrightarrow> r \<in> set (t_usage_rollups d) \<Longrightarrow>
         rollup_row_key r \<noteq> rollup_row_key row"
  | (old) r up down where "r \<in> set (t_usage_rollups d)" "rollup_row_key r = rollup_row_key row"
      "ur_credential_id row \<noteq> None"
      "bigint_add (ur_uplink_bytes r) (ur_uplink_bytes row) = Ok up"
      "bigint_add (ur_downlink_bytes r) (ur_downlink_bytes row) = Ok down"
      "d' = d\<lparr>t_usage_rollups := update_where (\<lambda>r. rollup_row_key r = rollup_row_key row)
          (\<lambda>r. r\<lparr>ur_uplink_bytes := up, ur_downlink_bytes := down\<rparr>) (t_usage_rollups d)\<rparr>"
proof (cases "if ur_credential_id row = None then None
    else List.find (\<lambda>r. rollup_row_key r = rollup_row_key row) (t_usage_rollups d)")
  case None
  with assms new show thesis
    by (auto simp: sql_add_rollup_def sql_outcome find_None_iff split: if_splits option.splits)
next
  case (Some r)
  with assms old [of r] show thesis
    by (auto simp: sql_add_rollup_def sql_outcome dest: find_Some_set split: if_splits)
qed

lemma rollup_inv [sql_inv]: "sql_keeps (pg_inv L S) (sql_add_rollup row)"
proof (rule sql_keepsI)
  fix d d'
  assume "pg_inv L S d" and "sql_add_rollup row d = Ok d'"
  from this(2,1) show "pg_inv L S d'"
  proof (cases rule: rollup_outcome)
    case new
    then have "ur_credential_id row \<noteq> None \<Longrightarrow> rollup_row_key row
        \<notin> rollup_row_key ` set (filter (\<lambda>r. ur_credential_id r \<noteq> None) (t_usage_rollups d))"
      by fastforce
    with new \<open>pg_inv L S d\<close> show ?thesis
      by (cases "ur_credential_id row") (simp_all add: pg_inv_defs)
  qed (simp add: pg_inv_defs filter_update_where rollup_row_key_def)
qed

end
