(* ===== verification/Postgres_Reach.thy ===== *)
theory Postgres_Reach
  imports Postgres_Invariant
begin

text \<open>
  Sequences of calls of \<open>PostgresStore\<close>: \<open>pg_reachable\<close> are the states that any sequence of
  writing methods produces from the empty tables, with any faults of the connection in every call
  (\<open>record_artifact\<close>, which nothing in the repository calls, writes an artifact without its bytes and
  is left out; \<open>record_artifact_blob\<close> is in).
  Every method keeps the invariant, so every reachable state satisfies it.
\<close>

section \<open>Sequences of calls\<close>

fun run_op :: "'s proxy_store \<Rightarrow> env \<Rightarrow> store_op \<Rightarrow> 's \<Rightarrow> 's" where
  "run_op p e (RegisterNode n) s = snd (ps_register_node p e n s)"
| "run_op p e (RegisterNodeWithToken n t) s = snd (ps_register_node_with_registration_token p e n t s)"
| "run_op p e (CreateToken t) s = snd (ps_create_node_registration_token p e t s)"
| "run_op p e (ConsumeToken t i) s = snd (ps_consume_node_registration_token p e t i s)"
| "run_op p e (RecordHeartbeat h) s = snd (ps_record_heartbeat p e h s)"
| "run_op p e (UpdateResultKey i k) s = snd (ps_update_node_runner_result_public_key p e i k s)"
| "run_op p e (CreateProfile x) s = snd (ps_create_profile p e x s)"
| "run_op p e (AddCredential i c) s = snd (ps_add_credential p e i c s)"
| "run_op p e (RecordArtifact a) s = snd (ps_record_artifact p e a s)"
| "run_op p e (RecordArtifactBlob a b) s = snd (ps_record_artifact_blob p e a b s)"
| "run_op p e (RecordIdempotency t k v) s = snd (ps_record_idempotency_response p e t k v s)"
| "run_op p e (RecordPlan d) s = snd (ps_record_deployment_plan p e d s)"
| "run_op p e (RecordResult r) s = snd (ps_record_deployment_result p e r s)"
| "run_op p e (RecordHealth h) s = snd (ps_record_deployment_health_check p e h s)"
| "run_op p e (RecordUsage u) s = snd (ps_record_usage_sample p e u s)"
| "run_op p e (SetQuota c q) s = snd (ps_set_credential_quota p e c q s)"
| "run_op p e (SetExpiry c t) s = snd (ps_set_credential_expiry p e c t s)"
| "run_op p e (EnqueueCommand i c) s = snd (ps_enqueue_runner_command p e i c s)"
| "run_op p e (NextCommand i q) s = snd (ps_next_runner_command p e i q s)"
| "run_op p e (IssueToken x) s = snd (ps_issue_subscription_token p e x s)"
| "run_op p e (RotateToken x) s = snd (ps_rotate_subscription_token p e x s)"
| "run_op p e (RecordAccess t a u st) s = snd (ps_record_subscription_access p e t a u st s)"

inductive pg_reachable :: "libs \<Rightarrow> pg_serde \<Rightarrow> pg_state \<Rightarrow> bool" for L :: libs and S :: pg_serde where
  start: "pg_reachable L S \<lparr>pg_db = pg_empty, pg_calls = n\<rparr>"
| step: "pg_reachable L S s \<Longrightarrow> \<forall>a. x \<noteq> RecordArtifact a \<Longrightarrow>
    pg_reachable L S (run_op (postgres_store L S F) e x s)"

section \<open>Methods keep the invariant\<close>

lemma keepsD: "keeps P m \<Longrightarrow> P (pg_db s) \<Longrightarrow> P (pg_db (snd (m s)))"
  by (simp add: keeps_def)

lemma keeps_lift_bind:
  "(\<And>a. r = Ok a \<Longrightarrow> keeps P (f a)) \<Longrightarrow> keeps P (and_then (lift_result r) f)"
  by (cases r) (auto simp: keeps_def op_simps)

lemma serde_result_Ok [simp]: "serde_result r = Ok a \<longleftrightarrow> r = Ok a"
  by (simp add: serde_result_def)

lemma keeps_event [intro]: "keeps (pg_inv L S) (pg_record_event F now now' t a b c i)"
  unfolding pg_record_event_def by (intro keeps_rules sql_inv)

lemma keeps_event_in_tx [intro]: "keeps (pg_inv L S) (pg_record_event_in_tx F now t a b c i)"
  unfolding pg_record_event_in_tx_def by (intro keeps_rules sql_inv)

lemma keeps_node [intro]: "keeps P (pg_node F e i)"
  unfolding pg_node_def by (intro keeps_rules)

lemma keeps_profile [intro]: "keeps P (pg_profile F S e i)"
  unfolding pg_profile_def by (intro keeps_rules)

lemma keeps_if: "(b \<Longrightarrow> keeps P m) \<Longrightarrow> (\<not> b \<Longrightarrow> keeps P m') \<Longrightarrow> keeps P (if b then m else m')"
  by simp

lemmas method_rules = keeps_lift_bind keeps_rules sql_inv keeps_event keeps_event_in_tx keeps_node
  keeps_profile keeps_if

lemma register_node_inv: "keeps (pg_inv L S) (pg_register_node F e n)"
  unfolding pg_register_node_def by (intro method_rules)

lemma registration_tx_inv: "keeps (pg_inv L S) (pg_registration_tx F now n t)"
  unfolding pg_registration_tx_def token_not_usable_def
  by (intro method_rules, split option.split) (auto split: option.split intro!: method_rules)

lemma register_with_token_inv:
  "keeps (pg_inv L S) (pg_register_node_with_registration_token F e n t)"
  unfolding pg_register_node_with_registration_token_def
  by (intro keeps_transaction registration_tx_inv)

lemma token_methods_inv:
  "keeps (pg_inv L S) (pg_create_node_registration_token F S' e t)"
  "keeps (pg_inv L S) (pg_consume_node_registration_token F e x i)"
  unfolding pg_create_node_registration_token_def pg_consume_node_registration_token_def
  by (intro method_rules)+

lemma node_methods_inv:
  "keeps (pg_inv L S) (pg_update_node_runner_result_public_key F e i k)"
  "keeps (pg_inv L S) (pg_record_heartbeat F e h)"
  unfolding pg_update_node_runner_result_public_key_def pg_record_heartbeat_def Let_def
  by (intro method_rules)+

lemma create_profile_inv: "keeps (pg_inv L S) (pg_create_profile F S L' e p)"
  unfolding pg_create_profile_def Let_def
  by (intro method_rules) (auto simp: version_row_ok_def)

text \<open>The secret of a credential is written before the credential that refers to it.\<close>

lemma upsert_secret_has:
  "sql_upsert_secret row d = Ok d' \<Longrightarrow> px_id row \<in> px_id ` set (t_secrets d')"
  by (auto simp: sql_upsert_secret_def sql_outcome)

lemma keeps_execute_then:
  assumes "sql_keeps P g"
    and "\<And>d d'. P d \<Longrightarrow> g d = Ok d' \<Longrightarrow> Q d'"
    and "\<And>s. P (pg_db s) \<Longrightarrow> Q (pg_db s) \<Longrightarrow> P (pg_db (snd (m s)))"
  shows "keeps P (and_then (execute F g) (\<lambda>_. m))"
  unfolding keeps_def
proof (intro allI impI)
  fix s :: pg_state
  assume s: "P (pg_db s)"
  obtain r s' where r: "execute F g s = (r, s')" by fastforce
  have "P (pg_db s')" using keepsD [OF keeps_execute [OF assms(1)], of s F] s r by simp
  moreover have "r = Ok u \<Longrightarrow> Q (pg_db s')" for u
    using assms(2) [OF s] r by (simp add: execute_Ok)
  ultimately show "P (pg_db (snd (and_then (execute F g) (\<lambda>_. m) s)))"
    using r assms(3) by (cases r) (simp_all add: and_then_def)
qed

lemma keeps_guarded:
  assumes "keeps (\<lambda>d. P d \<and> Q d) m" and "\<And>a. keeps P (f a)" and "P (pg_db s)" "Q (pg_db s)"
  shows "P (pg_db (snd (and_then m f s)))"
proof -
  have "P (pg_db (snd (m s)))" using assms(1,3,4) unfolding keeps_def by blast
  with assms(2) show ?thesis by (auto simp: and_then_def keeps_def split: prod.splits result.splits)
qed

lemma add_credential_inv: "keeps (pg_inv L S) (pg_add_credential F S e p c)"
  unfolding pg_add_credential_def Let_def
proof (rule keeps_and_then [OF keeps_query], rule keeps_lift_bind,
    rule keeps_and_then [OF keeps_execute [OF client_inv]], rule keeps_lift_bind)
  fix profile b
  assume "serde_result (sv_material S (cr_material c)) = Ok b"
  then have m: "sv_material S (cr_material c) = Ok b" by simp
  let ?st = "to_ascii_lowercase (credential_status_debug (cr_status c))"
  let ?secret = "\<lparr>px_id = ''secret:'' @ cr_id c, px_tenant_id = snd profile,
    px_kind = material_kind (cr_material c), px_ciphertext = b\<rparr>"
  let ?row = "\<lparr>pk_id = cr_id c, pk_tenant_id = snd profile, pk_client_id = cr_id c,
    pk_client_group_id = cr_client_group_id c, pk_kind = material_kind (cr_material c),
    pk_secret_ref = ''secret:'' @ cr_id c, pk_status = ?st, pk_expires_at = None,
    pk_created_at = utc_now e 0\<rparr>"
  let ?rest = "and_then (execute F (sql_link_credential p (cr_id c)))
    (\<lambda>_. pg_record_event F (utc_now e 1) (utc_now e 2) (snd profile) ''admin'' ''client.created''
      ''client'' (cr_id c))"
  have rest: "keeps (pg_inv L S) ?rest" by (intro method_rules)
  show "keeps (pg_inv L S) (and_then (execute F (sql_upsert_secret ?secret))
      (\<lambda>_. and_then (execute F (sql_upsert_credential ?row)) (\<lambda>_. ?rest)))"
  proof (rule keeps_execute_then [where Q = "\<lambda>d. pk_secret_ref ?row \<in> px_id ` set (t_secrets d)"])
    show "sql_keeps (pg_inv L S) (sql_upsert_secret ?secret)" using m by (intro sql_inv) simp
    show "pk_secret_ref ?row \<in> px_id ` set (t_secrets d')"
      if "sql_upsert_secret ?secret d = Ok d'" for d d'
      using upsert_secret_has [OF that] by simp
  qed (rule keeps_guarded [OF keeps_execute [OF credential_inv] rest]; simp)
qed

lemma insert_blob_has:
  "sql_insert_blob h b d = Ok d' \<Longrightarrow> h \<in> fst ` set (t_artifact_blobs d')"
  by (auto simp: sql_insert_blob_def sql_outcome)

lemma artifact_blob_inv: "keeps (pg_inv L S) (pg_record_artifact_blob F L e a b)"
  unfolding pg_record_artifact_blob_def pg_record_artifact_def Let_def
proof (intro keeps_if keeps_units)
  assume sha: "\<not> sha256_hex L b \<noteq> art_sha256 a"
  let ?Q = "\<lambda>d. art_sha256 a \<in> fst ` set (t_artifact_blobs d)"
  show "keeps (pg_inv L S) (and_then (execute F (sql_insert_blob (art_sha256 a) b))
      (\<lambda>_. and_then (execute F (sql_insert_artifact (utc_now e 0) a))
        (\<lambda>_. pg_record_event F (utc_now e 1) (utc_now e 2) (art_tenant_id a) ''control-plane''
          ''artifact.created'' ''artifact'' (art_id a))))"
  proof (rule keeps_execute_then [where Q = ?Q])
    show "sql_keeps (pg_inv L S) (sql_insert_blob (art_sha256 a) b)"
      using sha by (intro blob_inv) simp
    show "?Q d'" if "sql_insert_blob (art_sha256 a) b d = Ok d'" for d d'
      using that by (rule insert_blob_has)
  qed (rule keeps_guarded [OF keeps_execute [OF artifact_row_inv] keeps_event])
qed

lemma response_method_inv: "keeps (pg_inv L S) (pg_record_idempotency_response F t k j)"
  unfolding pg_record_idempotency_response_def by (intro method_rules)

lemma plan_inv: "keeps (pg_inv L S) (pg_record_deployment_plan F S e d)"
  unfolding pg_record_deployment_plan_def Let_def
  by (intro method_rules) (simp add: deployment_status_debug.simps(1) [symmetric]
      del: deployment_status_debug.simps)

lemma result_inv: "keeps (pg_inv L S) (pg_record_deployment_result F S L' e r)"
  unfolding pg_record_deployment_result_def Let_def by (intro method_rules) auto

lemma health_method_inv: "keeps (pg_inv L S) (pg_record_deployment_health_check F S e h)"
  unfolding pg_record_deployment_health_check_def by (intro method_rules)

lemma add_rollups_inv: "keeps (pg_inv L S) (pg_add_rollups F S u bs)"
  by (induction bs) (auto intro!: method_rules)

lemma usage_methods_inv:
  "keeps (pg_inv L S) (pg_record_usage_sample F S L' u)"
  "keeps (pg_inv L S) (pg_set_credential_quota F c n)"
  "keeps (pg_inv L S) (pg_set_credential_expiry F S c t)"
  unfolding pg_record_usage_sample_def pg_set_credential_quota_def pg_set_credential_expiry_def
  by (intro method_rules add_rollups_inv)+

lemma queue_methods_inv:
  "keeps (pg_inv L S) (pg_enqueue_runner_command F S n c)"
  "keeps (pg_inv L S) (pg_next_runner_command F S e n q)"
  unfolding pg_enqueue_runner_command_def pg_next_runner_command_def
   apply (intro method_rules)
   apply (auto simp: command_row_ok_def) []
  apply (intro method_rules)
  apply (auto split: option.split intro: keeps_units)
  done

lemma subscription_methods_inv:
  "keeps (pg_inv L S) (pg_issue_subscription_token F S L' e p)"
  "keeps (pg_inv L S) (pg_rotate_subscription_token F S L' e p)"
  "keeps (pg_inv L S) (pg_record_subscription_access F e t a u st)"
  unfolding pg_issue_subscription_token_def pg_rotate_subscription_token_def
    pg_record_subscription_access_def Let_def
  by (intro method_rules; simp add: token_row_ok_def issued_row_def)+

lemmas method_inv = register_node_inv register_with_token_inv token_methods_inv node_methods_inv
  create_profile_inv add_credential_inv artifact_blob_inv response_method_inv plan_inv result_inv
  health_method_inv usage_methods_inv queue_methods_inv subscription_methods_inv

lemma run_op_inv:
  "pg_inv L S (pg_db s) \<Longrightarrow> \<forall>a. x \<noteq> RecordArtifact a \<Longrightarrow>
     pg_inv L S (pg_db (run_op (postgres_store L S F) e x s))"
  by (cases x) (simp_all add: method_inv [THEN keepsD])

lemma pg_empty_inv: "pg_inv L S pg_empty"
  by (simp add: pg_inv_defs pg_empty_def refs_def opt_refs_def all_rows_def)

lemma pg_reachable_inv: "pg_reachable L S s \<Longrightarrow> pg_inv L S (pg_db s)"
  by (induction rule: pg_reachable.induct) (simp_all add: pg_empty_inv run_op_inv)

end
