(* ===== verification/Postgres_Props.thy ===== *)
theory Postgres_Props
  imports Postgres_Reach
begin

text \<open>
  Properties of \<open>PostgresStore\<close>: the type invariant of the tables in every reachable state, what
  it gives for the reading methods, the atomicity of the node registration, and the behaviour where
  the tables keep an earlier row (\<open>ON CONFLICT .. DO NOTHING\<close>).
\<close>

section \<open>A codec for examples\<close>

text \<open>A concrete \<open>pg_serde\<close> that satisfies \<open>pg_codec\<close>; it plays the part of serde_json in witnesses.\<close>

fun sk_to_json :: "secret_kind \<Rightarrow> json" where
  "sk_to_json ClientUuid = JNumber 0"
| "sk_to_json SK_ShadowsocksPassword = JNumber 1"
| "sk_to_json SK_TrojanPassword = JNumber 2"
| "sk_to_json RealityPrivateKey = JNumber 3"
| "sk_to_json SubscriptionTokenSecret = JNumber 4"
| "sk_to_json RunnerNodeKey = JNumber 5"
| "sk_to_json ModelProviderApiKey = JNumber 6"

definition sk_of_json :: "json \<Rightarrow> secret_kind" where
  "sk_of_json j = (if j = JNumber 0 then ClientUuid else if j = JNumber 1 then SK_ShadowsocksPassword
     else if j = JNumber 2 then SK_TrojanPassword else if j = JNumber 3 then RealityPrivateKey
     else if j = JNumber 4 then SubscriptionTokenSecret else if j = JNumber 5 then RunnerNodeKey
     else ModelProviderApiKey)"

fun protocol_to_json :: "inbound_protocol \<Rightarrow> json" where
  "protocol_to_json Vless = JNumber 0"
| "protocol_to_json Shadowsocks = JNumber 1"
| "protocol_to_json Trojan = JNumber 2"

definition protocol_of_json :: "json \<Rightarrow> inbound_protocol" where
  "protocol_of_json j =
     (if j = JNumber 0 then Vless else if j = JNumber 1 then Shadowsocks else Trojan)"

definition str_of_json :: "json \<Rightarrow> string" where
  "str_of_json j = unwrap_or [] (json_as_str j)"

fun security_to_json :: "security \<Rightarrow> json" where
  "security_to_json (Reality n r is) =
     JArray [JString n, JString (sr_id r), sk_to_json (sr_kind r), JArray (map JString is)]"
| "security_to_json (Tls n) = JString n"
| "security_to_json NoSecurity = JNull"

fun security_of_json :: "json \<Rightarrow> security" where
  "security_of_json (JArray [n, i, k, is]) = Reality (str_of_json n)
     \<lparr>sr_id = str_of_json i, sr_kind = sk_of_json k\<rparr> (map str_of_json (json_elems is))"
| "security_of_json (JString n) = Tls n"
| "security_of_json _ = NoSecurity"

fun u16_of_json :: "json \<Rightarrow> u16" where
  "u16_of_json (JNumber n) = word_of_int n"
| "u16_of_json _ = 0"

definition inbound_to_json :: "inbound \<Rightarrow> json" where
  "inbound_to_json i = JArray [JString (in_id i), protocol_to_json (in_protocol i),
     JString (in_listen i), JNumber (uint (in_port i)), security_to_json (in_security i),
     JArray (map JString (in_client_group_refs i))]"

fun inbound_of_json :: "json \<Rightarrow> inbound" where
  "inbound_of_json (JArray [i, p, l, q, s, g]) =
     \<lparr>in_id = str_of_json i, in_protocol = protocol_of_json p, in_listen = str_of_json l,
      in_port = u16_of_json q, in_security = security_of_json s,
      in_client_group_refs = map str_of_json (json_elems g)\<rparr>"

definition group_to_json :: "client_group \<Rightarrow> json" where
  "group_to_json g = JArray [JString (cg_id g), JString (cg_credential_policy g),
     (case cg_quota_policy_ref g of None \<Rightarrow> JNull | Some r \<Rightarrow> JString r)]"

fun group_of_json :: "json \<Rightarrow> client_group" where
  "group_of_json (JArray [i, p, q]) = \<lparr>cg_id = str_of_json i, cg_credential_policy = str_of_json p,
     cg_quota_policy_ref = json_as_str q\<rparr>"

definition ir_to_json :: "profile_ir \<Rightarrow> json" where
  "ir_to_json ir = JArray [JString (ir_schema_version ir), JString (rt_core (ir_runtime ir)),
     JString (rt_core_version (ir_runtime ir)), JArray (map inbound_to_json (ir_inbounds ir)),
     JArray (map group_to_json (ir_client_groups ir)), JArray (ir_routes ir),
     JString (dns_mode (ir_dns ir))]"

fun ir_of_json :: "json \<Rightarrow> profile_ir" where
  "ir_of_json (JArray [v, c, r, i, g, rs, m]) =
     \<lparr>ir_schema_version = str_of_json v,
      ir_runtime = \<lparr>rt_core = str_of_json c, rt_core_version = str_of_json r\<rparr>,
      ir_inbounds = map inbound_of_json (json_elems i),
      ir_client_groups = map group_of_json (json_elems g), ir_routes = json_elems rs,
      ir_dns = \<lparr>dns_mode = str_of_json m\<rparr>\<rparr>"

definition demo_serde :: pg_serde where
  "demo_serde =
     \<lparr>sv_command = (\<lambda>c. if c = demo_envelope then Ok (JString ''command'') else Err ''unknown''),
      sv_command_from = (\<lambda>_. Ok demo_envelope),
      sv_ir = ir_to_json, sv_ir_from = (\<lambda>j. Ok (ir_of_json j)),
      sv_snapshot = (\<lambda>_. Err ''unknown''), sv_snapshot_from = (\<lambda>_. Err ''unknown''),
      sv_material = (\<lambda>m. case m of VlessUuid u \<Rightarrow> Ok (as_bytes u) | _ \<Rightarrow> Err ''unknown''),
      sv_material_from = (\<lambda>b. Ok (VlessUuid (chars_of_bytes b))),
      sv_json_bytes = (\<lambda>_. []), sv_time = (\<lambda>t. t)\<rparr>"

abbreviation healthy :: faults where
  "healthy \<equiv> \<lambda>_. Executed"

definition demo_artifact_row :: "string \<Rightarrow> artifact" where
  "demo_artifact_row i = \<lparr>art_id = i, art_tenant_id = ''t'', art_kind = CompiledXrayConfig,
     art_schema_version = ''0.1'', art_media_type = ''application/json'', art_sha256 = ''{}'',
     art_storage_uri = ''artifact://sha256/{}'', art_redaction_status = ContainsNoSecrets,
     art_created_by = ''admin'', art_created_at = 0\<rparr>"

definition demo_dep :: "string \<Rightarrow> string \<Rightarrow> deployment_plan_record" where
  "demo_dep i a = deployment_plan_record_new demo_env ''t'' i ''node-a'' ''p'' a"

definition pg_demo_ops :: "store_op list" where
  "pg_demo_ops =
     [Memory_Invariant.RegisterNode demo_node,
      CreateToken (node_registration_token_new demo_env ''t'' ''regtok-dev'' ''tok''),
      CreateProfile (profile_record_new demo_env ''t'' ''p'' (vless_reality_example ''g'' ''k'')),
      AddCredential ''p'' (active_vless ''c1'' ''g'' ''u1'' ''Alice''),
      RecordArtifactBlob (demo_artifact_row ''a1'') (as_bytes ''{}'')]"

definition run_ops :: "'s proxy_store \<Rightarrow> env \<Rightarrow> store_op list \<Rightarrow> 's \<Rightarrow> 's" where
  "run_ops p e ops s = fold (run_op p e) ops s"

definition pg_demo :: "store_op list \<Rightarrow> pg_state" where
  "pg_demo ops = run_ops (postgres_store demo_libs demo_serde healthy) demo_env (pg_demo_ops @ ops)
     \<lparr>pg_db = pg_empty, pg_calls = 0\<rparr>"

text \<open>
  A body that succeeds has met no fault: the same body on a connection without faults does the same.
\<close>

definition no_fault_met :: "'a pg_op \<Rightarrow> 'a pg_op \<Rightarrow> bool" where
  "no_fault_met m m' \<longleftrightarrow> (\<forall>s a s'. m s = (Ok a, s') \<longrightarrow> m' s = (Ok a, s'))"

lemma str_of_json [simp]: "str_of_json (JString s) = s"
  by (simp add: str_of_json_def json_as_str_def)

lemma map_str_of_json [simp]: "map (str_of_json \<circ> JString) xs = xs"
  by (induction xs) simp_all

lemma sk_json [simp]: "sk_of_json (sk_to_json k) = k"
  by (cases k) (simp_all add: sk_of_json_def)

lemma protocol_json [simp]: "protocol_of_json (protocol_to_json p) = p"
  by (cases p) (simp_all add: protocol_of_json_def)

lemma security_json [simp]: "security_of_json (security_to_json s) = s"
  by (cases s) simp_all

lemma inbound_json [simp]: "inbound_of_json (inbound_to_json i) = i"
  by (simp add: inbound_to_json_def)

lemma group_json [simp]: "group_of_json (group_to_json g) = g"
  by (cases "cg_quota_policy_ref g") (simp_all add: group_to_json_def json_as_str_def)

lemma ir_json [simp]: "ir_of_json (ir_to_json ir) = ir"
proof -
  have "map (inbound_of_json \<circ> inbound_to_json) is = is" for "is" by (induction "is") simp_all
  moreover have "map (group_of_json \<circ> group_to_json) gs = gs" for gs by (induction gs) simp_all
  ultimately show ?thesis by (simp add: ir_to_json_def)
qed

lemma chars_of_as_bytes [simp]: "chars_of_bytes (as_bytes s) = s"
proof -
  have "char_of (unat (of_char c :: 8 word)) = c" for c
  proof -
    have "(of_char c :: 8 word) = of_nat (of_char c)" by (simp only: of_nat_of_char)
    then have "unat (of_char c :: 8 word) = of_char c mod 256" by (simp only: unat_of_nat) simp
    then show ?thesis by simp
  qed
  then show ?thesis by (simp add: chars_of_bytes_def as_bytes_def map_idI)
qed

lemma demo_codec: "pg_codec demo_serde"
  by (auto simp: pg_codec_def demo_serde_def split: if_splits credential_material.splits)

lemma run_ops_reachable:
  "pg_reachable L S s \<Longrightarrow> \<forall>x \<in> set ops. \<forall>a. x \<noteq> RecordArtifact a \<Longrightarrow>
     pg_reachable L S (run_ops (postgres_store L S F) e ops s)"
  by (induction ops arbitrary: s) (simp_all add: run_ops_def pg_reachable.step)

lemma pg_demo_reachable:
  "\<forall>x \<in> set ops. \<forall>a. x \<noteq> RecordArtifact a \<Longrightarrow> pg_reachable demo_libs demo_serde (pg_demo ops)"
  unfolding pg_demo_def
  by (rule run_ops_reachable) (auto intro: pg_reachable.start simp: pg_demo_ops_def)

section \<open>Type invariant\<close>

text \<open>
  Whatever methods are called, with whatever faults of the connection, every key of the schema
  stays unique, every reference points to a row (also the ones from a credential to its secret and
  from an artifact to its bytes, which the schema does not declare), and every row is well-formed:
  commands, profiles, secrets and snapshots decode, statuses are ones the code knows.
\<close>

theorem pg_reachable_typed:
  assumes "pg_reachable L S s"
  shows "pg_keys (pg_db s) \<and> pg_refs (pg_db s) \<and> pg_rows L S (pg_db s)"
  using pg_reachable_inv [OF assms] by (simp add: pg_inv_def)

theorem pg_reachable_typed_witness:
  "pg_keys (pg_db (pg_demo [])) \<and> pg_refs (pg_db (pg_demo []))
   \<and> pg_rows demo_libs demo_serde (pg_db (pg_demo []))
   \<and> t_profile_credentials (pg_db (pg_demo [])) = [(''p'', ''c1'')]"
proof -
  have "t_profile_credentials (pg_db (pg_demo [])) = [(''p'', ''c1'')]" by code_simp
  with pg_reachable_typed [OF pg_demo_reachable [of "[]"]] show ?thesis by simp
qed

section \<open>Node registration\<close>

lemma tokens_before:
  "sql_insert_tenant t d = Ok d' \<Longrightarrow> t_node_registration_tokens d' = t_node_registration_tokens d"
  "sql_upsert_node now i t d = Ok d' \<Longrightarrow> t_node_registration_tokens d' = t_node_registration_tokens d"
  "sql_insert_capability now n d = Ok d' \<Longrightarrow> t_node_registration_tokens d' = t_node_registration_tokens d"
  "sql_upsert_identity now i k d = Ok d' \<Longrightarrow> t_node_registration_tokens d' = t_node_registration_tokens d"
  "sql_audit now t a b c i d = Ok d' \<Longrightarrow> t_node_registration_tokens d' = t_node_registration_tokens d"
  "sql_outbox now t b c i d = Ok d' \<Longrightarrow> t_node_registration_tokens d' = t_node_registration_tokens d"
  by (auto simp: sql_insert_tenant_def sql_upsert_node_def sql_insert_capability_def
      sql_upsert_identity_def sql_audit_def sql_outbox_def sql_outcome)

lemma nodes_after:
  "sql_audit now t a b c i d = Ok d' \<Longrightarrow> t_nodes d' = t_nodes d"
  "sql_outbox now t b c i d = Ok d' \<Longrightarrow> t_nodes d' = t_nodes d"
  by (auto simp: sql_audit_def sql_outbox_def sql_outcome)

lemma then_OkE:
  "and_then m f s = (Ok b, s'') \<Longrightarrow>
     (\<And>a s'. m s = (Ok a, s') \<Longrightarrow> f a s' = (Ok b, s'') \<Longrightarrow> P) \<Longrightarrow> P"
  by (auto simp: and_then_eq_Ok)

lemma event_in_tx_Ok:
  assumes "pg_record_event_in_tx F now t a b c i s = (Ok u, s')"
  shows "t_node_registration_tokens (pg_db s') = t_node_registration_tokens (pg_db s)
    \<and> t_nodes (pg_db s') = t_nodes (pg_db s)"
proof -
  from assms obtain u1 s1 where
      "execute F (sql_audit now t a b c i) s = (Ok u1, s1)"
      "execute F (sql_outbox now t b c i) s1 = (Ok u, s')"
    unfolding pg_record_event_in_tx_def by - (elim then_OkE, rule that)
  then have audit: "sql_audit now t a b c i (pg_db s) = Ok (pg_db s1)"
    and outbox: "sql_outbox now t b c i (pg_db s1) = Ok (pg_db s')"
    by (simp_all add: execute_Ok)
  show ?thesis
    using tokens_before(5) [OF audit] tokens_before(6) [OF outbox]
      nodes_after(1) [OF audit] nodes_after(2) [OF outbox] by simp
qed

lemma token_not_usable_fails: "token_not_usable F t s \<noteq> (Ok a, s')"
  by (auto simp: token_not_usable_def and_then_eq_Ok fail_op_def split: option.splits)

lemma registration_tx_Ok:
  assumes "pg_registration_tx F now node tok s = (Ok t, s')"
  obtains row where "row \<in> set (t_node_registration_tokens (pg_db s))" "active_token tok row"
    "t = mark_used now row (nd_node_id node)" "has_node (pg_db s') (nd_node_id node)"
    "t_node_registration_tokens (pg_db s') = update_where (active_token tok)
       (\<lambda>x. mark_used now x (nd_node_id node)) (t_node_registration_tokens (pg_db s))"
proof -
  let ?rest = "\<lambda>r. case r of None \<Rightarrow> token_not_usable F tok
       | Some token \<Rightarrow> and_then (pg_record_event_in_tx F now (nd_tenant_id node) ''runner''
           ''node.registered'' ''node'' (nd_node_id node)) (\<lambda>_.
         and_then (pg_record_event_in_tx F now (nt_tenant_id token) ''runner''
           ''node_registration_token.used'' ''node_registration_token'' (nt_token_id token)) (\<lambda>_.
         return_op token))"
  from assms obtain ua sa ub sb uc sc u s1 r s2 where
      "execute F (sql_insert_tenant (nd_tenant_id node)) s = (Ok ua, sa)"
      "execute F (sql_upsert_node now (nd_node_id node) (nd_tenant_id node)) sa = (Ok ub, sb)"
      "execute F (sql_insert_capability now node) sb = (Ok uc, sc)"
      "(if nd_runner_result_public_key_hex node \<noteq> []
        then execute F (sql_upsert_identity now (nd_node_id node)
               (nd_runner_result_public_key_hex node))
        else return_op ()) sc = (Ok u, s1)"
      and "statement F (sql_use_token now tok (nd_node_id node)) s1 = (Ok r, s2)"
      and rest: "?rest r s2 = (Ok t, s')"
    unfolding pg_registration_tx_def by - (elim then_OkE, rule that)
  then have use: "sql_use_token now tok (nd_node_id node) (pg_db s1) = Ok (r, pg_db s2)"
    and s1: "t_node_registration_tokens (pg_db s1) = t_node_registration_tokens (pg_db s)"
    by (auto simp: op_units execute_Ok statement_Ok dest!: tokens_before(1-4) split: if_splits)
  obtain token where r: "r = Some token" using rest by (cases r) (auto simp: token_not_usable_fails)
  with rest have t: "t = token" "t_node_registration_tokens (pg_db s') = t_node_registration_tokens (pg_db s2)"
    "t_nodes (pg_db s') = t_nodes (pg_db s2)"
    by (auto simp: and_then_eq_Ok op_units dest!: event_in_tx_Ok)
  from use_token_outcome [OF use] r t s1 that show thesis
    by (auto dest: find_Some_set)
qed

lemma no_fault_metD: "no_fault_met m m' \<Longrightarrow> m s = (Ok a, s') \<Longrightarrow> m' s = (Ok a, s')"
  by (simp add: no_fault_met_def)

lemma no_fault_statement [intro]: "no_fault_met (statement F f) (statement healthy f)"
  by (auto simp: no_fault_met_def statement_def Let_def split: pg_fault.splits result.splits)

lemma no_fault_execute [intro]: "no_fault_met (execute F f) (execute healthy f)"
  unfolding execute_def by (rule no_fault_statement)

lemma no_fault_query [intro]: "no_fault_met (query F f) (query healthy f)"
  unfolding query_def by (rule no_fault_statement)

lemma no_fault_refl [intro]: "no_fault_met m m"
  by (simp add: no_fault_met_def)

lemma no_fault_then [intro]:
  "no_fault_met m m' \<Longrightarrow> (\<And>a. no_fault_met (f a) (f' a)) \<Longrightarrow> no_fault_met (and_then m f) (and_then m' f')"
  by (auto simp: no_fault_met_def and_then_eq_Ok)

lemma no_fault_registration:
  "no_fault_met (pg_registration_tx F now node tok) (pg_registration_tx healthy now node tok)"
  unfolding pg_registration_tx_def pg_record_event_in_tx_def token_not_usable_def
  by (intro no_fault_then no_fault_execute no_fault_statement)
     (auto split: option.split intro!: no_fault_then no_fault_execute no_fault_query)

text \<open>
  C12. Registration with a token is all or nothing, whatever the connection does. Against the same
  call on a connection without faults: a call that fails leaves every table as it was, unless the
  faultless call succeeds and it is the reply to its last statement, the commit, that was lost; then
  the tables are those of the faultless call. A call that succeeds does what the faultless call does:
  it found the token active, has stored the node, and leaves no active row of that token, so the
  token registers one node at most.
\<close>

theorem pg_registration_atomic:
  "case pg_register_node_with_registration_token F e node tok s of
     (Err x, s') \<Rightarrow> pg_db s' = pg_db s \<or>
       (\<exists>t. pg_register_node_with_registration_token healthy e node tok s = (Ok t, s')) \<and>
       F (pg_calls s' - 1) = ReplyLost
   | (Ok t, s') \<Rightarrow>
       pg_register_node_with_registration_token healthy e node tok s = (Ok t, s')
       \<and> (\<exists>row \<in> set (t_node_registration_tokens (pg_db s)). active_token tok row
          \<and> t = mark_used (utc_now e 0) row (nd_node_id node))
       \<and> t \<in> set (t_node_registration_tokens (pg_db s'))
       \<and> has_node (pg_db s') (nd_node_id node)
       \<and> (\<forall>row \<in> set (t_node_registration_tokens (pg_db s')). \<not> active_token tok row)"
proof -
  let ?m = "\<lambda>F. pg_registration_tx F (utc_now e 0) node tok"
  obtain q s1 where q: "query F (\<lambda>_. ()) s = (q, s1)" by fastforce
  then have s1: "pg_db s1 = pg_db s" using query_db [of F "\<lambda>_. ()" s] by simp
  obtain r s2 where m: "?m F s1 = (r, s2)" by fastforce
  let ?commit = "\<lambda>F t. statement F (\<lambda>_. Ok (t, pg_db s2)) (s2\<lparr>pg_db := pg_db s\<rparr>)"
  show ?thesis
  proof (cases "is_ok q \<and> is_ok r")
    case False
    then show ?thesis
      using q m s1
      by (cases q; cases r)
        (simp_all add: pg_register_node_with_registration_token_def transaction_def)
  next
    case True
    then obtain t where ok: "q = Ok ()" "r = Ok t" by (cases q; cases r) auto
    have "query healthy (\<lambda>_. ()) s = (Ok (), s1)" "?m healthy s1 = (Ok t, s2)"
      using no_fault_metD [OF no_fault_query] no_fault_metD [OF no_fault_registration] q m ok by auto
    with q m ok have eq: "pg_register_node_with_registration_token F e node tok s = ?commit F t"
        "pg_register_node_with_registration_token healthy e node tok s = ?commit healthy t"
      by (simp_all add: pg_register_node_with_registration_token_def transaction_def)
    obtain row where row: "row \<in> set (t_node_registration_tokens (pg_db s))" "active_token tok row"
      "t = mark_used (utc_now e 0) row (nd_node_id node)" "has_node (pg_db s2) (nd_node_id node)"
      "t_node_registration_tokens (pg_db s2) = update_where (active_token tok)
         (\<lambda>x. mark_used (utc_now e 0) x (nd_node_id node)) (t_node_registration_tokens (pg_db s))"
      using registration_tx_Ok [of F "utc_now e 0" node tok s1 t s2] m ok s1 by auto
    then have "t \<in> set (t_node_registration_tokens (pg_db s2))"
      "\<forall>r \<in> set (t_node_registration_tokens (pg_db s2)). \<not> active_token tok r"
      by (auto simp: set_update_where active_token_def mark_used_def)
    with row show ?thesis
      unfolding eq by (cases "F (pg_calls s2)") (auto simp: statement_def)
  qed
qed

theorem pg_registration_atomic_witness:
  "\<exists>t s'. pg_register_node_with_registration_token healthy demo_env demo_node ''tok'' (pg_demo [])
       = (Ok t, s')
     \<and> nt_used_by_node_id t = Some ''node-a''
     \<and> list_all (\<lambda>row. \<not> active_token ''tok'' row) (t_node_registration_tokens (pg_db s'))"
proof -
  let ?r = "pg_register_node_with_registration_token healthy demo_env demo_node ''tok'' (pg_demo [])"
  have "is_ok (fst ?r)" by code_simp
  then obtain t s' where r: "?r = (Ok t, s')" by (cases ?r; cases "fst ?r") auto
  then show ?thesis
    using pg_registration_atomic [where F = healthy and e = demo_env and node = demo_node
        and tok = "''tok''" and s = "pg_demo []"]
    by (auto simp: list_all_iff mark_used_def demo_node_def)
qed

section \<open>Reading\<close>

lemma healthy_simps [simp]:
  "query healthy g s = (Ok (g (pg_db s)), s\<lparr>pg_calls := Suc (pg_calls s)\<rparr>)"
  "statement healthy f s = (case f (pg_db s) of
     Ok (a, d) \<Rightarrow> (Ok a, \<lparr>pg_db = d, pg_calls = Suc (pg_calls s)\<rparr>)
   | Err x \<Rightarrow> (Err x, s\<lparr>pg_calls := Suc (pg_calls s)\<rparr>))"
  "execute healthy h s = (case h (pg_db s) of
     Ok d \<Rightarrow> (Ok (), \<lparr>pg_db = d, pg_calls = Suc (pg_calls s)\<rparr>)
   | Err x \<Rightarrow> (Err x, s\<lparr>pg_calls := Suc (pg_calls s)\<rparr>))"
  by (auto simp: query_def execute_def statement_def Let_def bind_result_def
      split: result.splits prod.splits)

lemma decode_rows_Ok:
  "(\<And>r. r \<in> set rows \<Longrightarrow> \<exists>a. f r = Ok a) \<Longrightarrow>
     \<exists>xs. decode_rows f rows = Ok xs \<and> list_all2 (\<lambda>r x. f r = Ok x) rows xs"
proof (induction rows)
  case (Cons r rows)
  then obtain a xs where "f r = Ok a" "decode_rows f rows = Ok xs"
    "list_all2 (\<lambda>r x. f r = Ok x) rows xs"
    by (metis list.set_intros)
  then show ?case by simp
qed simp

lemma key_filter:
  "distinct (map key rows) \<Longrightarrow> r \<in> set rows \<Longrightarrow> filter (\<lambda>x. key x = key r) rows = [r]"
proof (induction rows)
  case (Cons x rows)
  show ?case
  proof (cases "x = r")
    case True
    with Cons.prems have "filter (\<lambda>x. key x = key r) rows = []"
      by (auto simp: filter_empty_conv) (metis image_eqI)
    with True show ?thesis by simp
  next
    case False
    with Cons show ?thesis by auto
  qed
qed simp

lemma concat_filter: "concat (map (\<lambda>x. if P x then g x else []) xs) = concat (map g (filter P xs))"
  by (induction xs) simp_all

lemma keyed_join:
  assumes "distinct (map key rows)" and "k \<in> key ` set rows"
  obtains r where "r \<in> set rows" "key r = k"
    "concat (map (\<lambda>x. if key x = k then g x else []) rows) = g r"
  using assms key_filter [OF assms(1)] by (auto simp: concat_filter)

lemma credential_join:
  assumes "pg_inv L S d" and "pc \<in> set (t_profile_credentials d)"
  shows "\<exists>c cl s. pk_id c = snd pc \<and> s \<in> set (t_secrets d) \<and>
    concat (map (\<lambda>c. if pk_id c = snd pc then
      concat (map (\<lambda>cl. if pl_id cl = pk_client_id c then
        concat (map (\<lambda>s. if px_id s = pk_secret_ref c then [(pc, c, cl, s)] else []) (t_secrets d))
        else []) (t_clients d)) else []) (t_credentials d)) = [(pc, c, cl, s)]"
proof -
  have keys: "distinct (map pk_id (t_credentials d))" "distinct (map pl_id (t_clients d))"
      "distinct (map px_id (t_secrets d))"
    and "refs (pk_id ` set (t_credentials d)) snd (t_profile_credentials d)"
      "refs (pl_id ` set (t_clients d)) pk_client_id (t_credentials d)"
      "refs (px_id ` set (t_secrets d)) pk_secret_ref (t_credentials d)"
    using assms(1) by (simp_all add: pg_inv_defs)
  then have refs: "snd pc \<in> pk_id ` set (t_credentials d)"
      "\<And>c. c \<in> set (t_credentials d) \<Longrightarrow> pk_client_id c \<in> pl_id ` set (t_clients d)"
      "\<And>c. c \<in> set (t_credentials d) \<Longrightarrow> pk_secret_ref c \<in> px_id ` set (t_secrets d)"
    using assms(2) by (simp_all add: refs_def)
  obtain c where c: "c \<in> set (t_credentials d)" "pk_id c = snd pc"
    and c': "concat (map (\<lambda>c. if pk_id c = snd pc then
      concat (map (\<lambda>cl. if pl_id cl = pk_client_id c then
        concat (map (\<lambda>s. if px_id s = pk_secret_ref c then [(pc, c, cl, s)] else []) (t_secrets d))
        else []) (t_clients d)) else []) (t_credentials d))
      = concat (map (\<lambda>cl. if pl_id cl = pk_client_id c then
        concat (map (\<lambda>s. if px_id s = pk_secret_ref c then [(pc, c, cl, s)] else []) (t_secrets d))
        else []) (t_clients d))"
    by (rule keyed_join [OF keys(1) refs(1)])
  obtain cl where cl: "concat (map (\<lambda>cl. if pl_id cl = pk_client_id c then
        concat (map (\<lambda>s. if px_id s = pk_secret_ref c then [(pc, c, cl, s)] else []) (t_secrets d))
        else []) (t_clients d))
      = concat (map (\<lambda>s. if px_id s = pk_secret_ref c then [(pc, c, cl, s)] else []) (t_secrets d))"
    by (rule keyed_join [OF keys(2) refs(2) [OF c(1)]])
  obtain s where s: "s \<in> set (t_secrets d)"
    and "concat (map (\<lambda>s. if px_id s = pk_secret_ref c then [(pc, c, cl, s)] else []) (t_secrets d))
      = [(pc, c, cl, s)]"
    by (rule keyed_join [OF keys(3) refs(3) [OF c(1)]])
  with c c' cl show ?thesis by metis
qed

lemma credential_rows_links:
  assumes "pg_inv L S d"
  shows "map fst (credential_rows d) = t_profile_credentials d
    \<and> (\<forall>(pc, c, cl, s) \<in> set (credential_rows d). pk_id c = snd pc \<and> s \<in> set (t_secrets d))"
proof -
  have "map fst (concat (map g links)) = links
      \<and> (\<forall>(pc, c, cl, s) \<in> set (concat (map g links)). pk_id c = snd pc \<and> s \<in> set (t_secrets d))"
    if "\<And>pc. pc \<in> set links \<Longrightarrow>
      \<exists>c cl s. pk_id c = snd pc \<and> s \<in> set (t_secrets d) \<and> g pc = [(pc, c, cl, s)]"
    for g :: "string \<times> string \<Rightarrow> credential_join list" and links
    using that by (induction links) fastforce+
  from this [OF credential_join [OF assms]] show ?thesis
    unfolding credential_rows_def by blast
qed

lemma set_pg_scan [simp]: "set (pg_scan e k rows) = set rows"
  by (simp add: pg_scan_def)

lemma mset_pg_scan [simp]: "mset (pg_scan e k rows) = mset rows"
  by (simp add: pg_scan_def)

lemma scan_nonempty: "y \<in> set rows \<Longrightarrow> \<exists>x xs. pg_scan e k rows = x # xs \<and> x \<in> set rows"
  using set_pg_scan [of e k rows] by (cases "pg_scan e k rows") auto

lemma profile_row_decodes:
  "pg_inv L S d \<Longrightarrow> pg_codec S \<Longrightarrow> r \<in> set (t_profile_versions d) \<Longrightarrow> \<exists>p. profile_row_record S r = Ok p"
  by (auto simp: pg_inv_def pg_rows_def all_rows_def version_row_ok_def profile_row_record_def
      pg_codec_def serde_result_def)

lemma distinct_on_subset: "set (distinct_on key rows) \<subseteq> set rows"
  by (induction rows) auto

lemma credential_row_decodes:
  assumes "pg_inv L S d" "pg_codec S" "r \<in> set (credential_rows d)"
  shows "\<exists>x. credential_row_record S r = Ok x"
  using assms credential_rows_links [OF assms(1)]
  by (cases r) (fastforce simp: pg_inv_def pg_rows_def all_rows_def pg_codec_def serde_result_def)

lemma credential_row_id:
  "credential_row_record S (pc, c, cl, s) = Ok x \<Longrightarrow> cr_id (crr_credential x) = pk_id c"
  by (auto simp: bind_result_eq_Ok)

lemma credentials_for_profile_ids:
  assumes d: "pg_inv L S (pg_db s)" and S: "pg_codec S"
  shows "\<exists>cs. fst (pg_credentials_for_profile healthy S e p s) = Ok cs
    \<and> mset (map cr_id cs) = mset (map snd (filter (\<lambda>l. fst l = p) (t_profile_credentials (pg_db s))))"
proof -
  let ?rows = "filter (\<lambda>(pc, c, cl, x). fst pc = p) (credential_rows (pg_db s))"
  let ?sorted = "order_by e 0 (\<lambda>(pc, c, cl, x). pk_created_at c) ?rows"
  have "\<exists>x. credential_row_record S r = Ok x" if "r \<in> set ?sorted" for r
    using credential_row_decodes [OF d S, of r] that by auto
  then obtain xs where xs: "decode_rows (credential_row_record S) ?sorted = Ok xs"
      "list_all2 (\<lambda>r x. credential_row_record S r = Ok x) ?sorted xs"
    using decode_rows_Ok [of ?sorted "credential_row_record S"] by auto
  have "list_all2 (\<lambda>r x. cr_id (crr_credential x) = snd (fst r)) ?sorted xs"
    using xs(2)
  proof (rule list.rel_mono_strong)
    fix r x
    assume "r \<in> set ?sorted" and x: "credential_row_record S r = Ok x"
    then have r: "r \<in> set (credential_rows (pg_db s))" by auto
    obtain pc c cl y where "r = (pc, c, cl, y)" by (cases r)
    with r x credential_rows_links [OF d] show "cr_id (crr_credential x) = snd (fst r)"
      using credential_row_id [of S pc c cl y x] by auto
  qed
  then have "map (\<lambda>x. cr_id (crr_credential x)) xs = map (\<lambda>r. snd (fst r)) ?sorted"
    by (auto simp: list_all2_conv_all_nth intro: nth_equalityI)
  then have "mset (map cr_id (map crr_credential xs)) = mset (map (\<lambda>r. snd (fst r)) ?rows)"
    by (simp add: comp_def)
  also have "map (\<lambda>r. snd (fst r)) ?rows
      = map snd (filter (\<lambda>l. fst l = p) (map fst (credential_rows (pg_db s))))"
    by (simp add: filter_map comp_def) (rule arg_cong [where f = "map _"], rule filter_cong, auto)
  also have "map fst (credential_rows (pg_db s)) = t_profile_credentials (pg_db s)"
    using credential_rows_links [OF d] by simp
  finally have "mset (map cr_id (map crr_credential xs))
      = mset (map snd (filter (\<lambda>l. fst l = p) (t_profile_credentials (pg_db s))))" .
  moreover have "fst (pg_credentials_for_profile healthy S e p s) = Ok (map crr_credential xs)"
    using xs(1) by (simp add: pg_credentials_for_profile_def and_then_def op_units)
  ultimately show ?thesis by blast
qed

lemma next_command_decodes:
  assumes d: "pg_inv L S (pg_db s)" and S: "pg_codec S"
  shows "is_ok (fst (pg_next_runner_command healthy S e n q s))"
proof -
  obtain d1 where d1: "sql_skip_commands n q (pg_db s) = Ok d1" by (simp add: sql_skip_commands_def)
  then have inv: "pg_inv L S d1" using skip_inv [of L S n q] d by (auto simp: sql_keeps_def)
  obtain j d2 where l: "sql_lease_command (utc_now e 0) n q d1 = Ok (j, d2)"
    by (fastforce simp: sql_lease_command_def split: option.splits)
  from l have "j = None \<or> (\<exists>c \<in> set (t_runner_commands d1). j = Some (pq_envelope_json c))"
    by (cases rule: lease_outcome) auto
  then have "j = None \<or> (\<exists>c x. j = Some x \<and> sv_command_from S x = Ok c)"
    using inv S by (fastforce simp: pg_inv_def pg_rows_def all_rows_def command_row_ok_def pg_codec_def)
  with d1 l show ?thesis
    by (auto simp: pg_next_runner_command_def and_then_def op_units serde_result_def)
qed

text \<open>
  What is stored can be read back: in a reachable state, whatever faults led to it, a read over a
  working connection never fails to decode. Listing the profiles and polling for a command succeed;
  a profile is returned or reported missing; the credentials of a profile are exactly the ones that
  were linked to it, each once.
\<close>

theorem pg_reads_decode:
  assumes "pg_reachable L S s" and "pg_codec S"
  shows "is_ok (fst (pg_list_profiles healthy S e s))
    \<and> (is_ok (fst (pg_profile healthy S e p s))
       \<or> fst (pg_profile healthy S e p s) = Err (NotFound (''profile:'' @ p)))
    \<and> is_ok (fst (pg_next_runner_command healthy S e n q s))
    \<and> (\<exists>cs. fst (pg_credentials_for_profile healthy S e p s) = Ok cs
        \<and> mset (map cr_id cs)
          = mset (map snd (filter (\<lambda>l. fst l = p) (t_profile_credentials (pg_db s)))))"
proof -
  have d: "pg_inv L S (pg_db s)" by (rule pg_reachable_inv [OF assms(1)])
  let ?rows = "distinct_on pv_profile_id
    (order_by e 0 (\<lambda>r. (pv_profile_id r, - int (pv_version r))) (t_profile_versions (pg_db s)))"
  have "\<exists>x. profile_row_record S r = Ok x" if "r \<in> set ?rows" for r
    using distinct_on_subset that profile_row_decodes [OF d assms(2), of r] by fastforce
  then obtain xs where "decode_rows (profile_row_record S) ?rows = Ok xs"
    using decode_rows_Ok [of ?rows "profile_row_record S"] by auto
  then have "is_ok (fst (pg_list_profiles healthy S e s))"
    by (simp add: pg_list_profiles_def and_then_def op_units)
  moreover have "is_ok (fst (pg_profile healthy S e p s))
       \<or> fst (pg_profile healthy S e p s) = Err (NotFound (''profile:'' @ p))"
  proof (cases "order_desc_limit1 e 0 pv_version
      (filter (\<lambda>r. pv_profile_id r = p) (t_profile_versions (pg_db s)))")
    case None
    then show ?thesis by (simp add: pg_profile_def and_then_def op_units)
  next
    case (Some r)
    then have "r \<in> set (t_profile_versions (pg_db s))" using max_by_key_Some(1) [OF Some] by auto
    then obtain x where "profile_row_record S r = Ok x"
      using profile_row_decodes [OF d assms(2)] by blast
    with Some show ?thesis by (simp add: pg_profile_def and_then_def op_units)
  qed
  ultimately show ?thesis
    using next_command_decodes [OF d assms(2)] credentials_for_profile_ids [OF d assms(2)] by blast
qed

text \<open>
  C28. The configuration of a recorded deployment can be fetched, and it is the one its artifact
  identifies: in a reachable state the bytes of the artifact of every deployment are stored and have
  the artifact's digest.
\<close>

theorem pg_deployed_artifact_bytes:
  assumes "pg_reachable L S s" and "dep \<in> set (t_deployments (pg_db s))"
  shows "\<exists>b a. fst (pg_artifact_bytes healthy e (pd_compiled_config_artifact_id dep) s) = Ok b
    \<and> a \<in> set (t_artifacts (pg_db s)) \<and> art_id a = pd_compiled_config_artifact_id dep
    \<and> sha256_hex L b = art_sha256 a"
proof -
  let ?i = "pd_compiled_config_artifact_id dep"
  have d: "pg_inv L S (pg_db s)" by (rule pg_reachable_inv [OF assms(1)])
  then have "refs (art_id ` set (t_artifacts (pg_db s))) pd_compiled_config_artifact_id
      (t_deployments (pg_db s))"
    and blobs: "refs (fst ` set (t_artifact_blobs (pg_db s))) art_sha256 (t_artifacts (pg_db s))"
    by (simp_all add: pg_inv_defs)
  then obtain a where a: "a \<in> set (t_artifacts (pg_db s))" "art_id a = ?i"
    using assms(2) by (force simp: refs_def)
  with blobs obtain b where b: "b \<in> set (t_artifact_blobs (pg_db s))" "fst b = art_sha256 a"
    by (force simp: refs_def)
  let ?rows = "[snd b. a \<leftarrow> t_artifacts (pg_db s), art_id a = ?i,
                b \<leftarrow> t_artifact_blobs (pg_db s), fst b = art_sha256 a]"
  have "snd b \<in> set ?rows" using a b by force
  from scan_nonempty [OF this] obtain x xs where
    scan: "pg_scan e 0 ?rows = x # xs" and "x \<in> set ?rows" by blast
  from this(2) obtain a' b' where x: "a' \<in> set (t_artifacts (pg_db s))" "art_id a' = ?i"
      "b' \<in> set (t_artifact_blobs (pg_db s))" "fst b' = art_sha256 a'" "x = snd b'"
    by (auto split: if_splits)
  moreover have "sha256_hex L (snd b') = fst b'"
    using d x(3) by (auto simp: pg_inv_def pg_rows_def all_rows_def)
  ultimately show ?thesis
    using scan by (auto simp: pg_artifact_bytes_def and_then_def op_units)
qed

theorem pg_reads_decode_witness:
  "is_ok (fst (pg_list_profiles healthy demo_serde demo_env (pg_demo [])))
   \<and> (\<exists>cs. fst (pg_credentials_for_profile healthy demo_serde demo_env ''p'' (pg_demo [])) = Ok cs
        \<and> mset (map cr_id cs) = {#''c1''#})"
proof -
  have links: "t_profile_credentials (pg_db (pg_demo [])) = [(''p'', ''c1'')]" by code_simp
  from pg_reads_decode [OF pg_demo_reachable [of "[]"] demo_codec, of demo_env "''p''" "''node-a''" 0]
  show ?thesis by (auto simp: links)
qed

theorem pg_deployed_artifact_bytes_witness:
  "\<exists>b. fst (pg_artifact_bytes healthy demo_env ''a1'' (pg_demo [RecordPlan (demo_dep ''dep-1'' ''a1'')]))
      = Ok b \<and> sha256_hex demo_libs b = ''{}''"
proof -
  let ?s = "pg_demo [RecordPlan (demo_dep ''dep-1'' ''a1'')]"
  have dep: "map pd_compiled_config_artifact_id (t_deployments (pg_db ?s)) = [''a1'']" by code_simp
  have art: "map art_sha256 (t_artifacts (pg_db ?s)) = [''{}'']" by code_simp
  obtain d where "d \<in> set (t_deployments (pg_db ?s))" "pd_compiled_config_artifact_id d = ''a1''"
    using dep by (cases "t_deployments (pg_db ?s)") auto
  with pg_deployed_artifact_bytes [OF pg_demo_reachable, of "[RecordPlan (demo_dep ''dep-1'' ''a1'')]" d demo_env]
  obtain b a where "fst (pg_artifact_bytes healthy demo_env ''a1'' ?s) = Ok b"
    "a \<in> set (t_artifacts (pg_db ?s))" "sha256_hex demo_libs b = art_sha256 a"
    by auto
  moreover have "art_sha256 ` set (t_artifacts (pg_db ?s)) = {''{}''}"
    using art by (metis list.set_map list.simps(15) empty_set)
  ultimately show ?thesis by auto
qed

section \<open>Rows that stay\<close>

lemma unknown_artifact:
  assumes "\<not> has_artifact (pg_db s) i"
  shows "fst (pg_artifact_bytes healthy e i s) = Err (NotFound (''artifact:'' @ i))"
proof -
  have rows: "[snd b. a \<leftarrow> t_artifacts (pg_db s), art_id a = i,
                b \<leftarrow> t_artifact_blobs (pg_db s), fst b = art_sha256 a] = []"
    using assms by (auto simp: image_iff)
  show ?thesis
    unfolding pg_artifact_bytes_def and_then_def healthy_simps(1) rows
    by (simp add: pg_scan_def op_units)
qed

text \<open>
  C39. A compile that was interrupted after its artifact was stored cannot be completed: the artifact
  keeps the identifier of the first attempt, the retry uses a fresh one under the same digest, its
  bytes cannot be fetched by the new identifier, and the deployment is refused by the reference to
  the artifact, every time.
\<close>

theorem pg_interrupted_compile_stuck:
  assumes "old \<in> set (t_artifacts (pg_db s))"
    and "art_tenant_id old = art_tenant_id a" and "art_sha256 old = art_sha256 a"
    and "\<not> has_artifact (pg_db s) (art_id a)" and "has_tenant (pg_db s) (art_tenant_id a)"
    and "sha256_hex L b = art_sha256 a"
    and "\<not> has_deployment (pg_db s) (dpr_deployment_id dep)"
    and "dpr_compiled_config_artifact_id dep = art_id a"
    and "dpr_profile_id dep \<in> set (map pv_profile_id (t_profile_versions (pg_db s)))"
  shows "\<exists>s1 s2. pg_record_artifact_blob healthy L e a b s = (Ok (), s1)
    \<and> fst (pg_artifact_bytes healthy e1 (art_id a) s1) = Err (NotFound (''artifact:'' @ art_id a))
    \<and> pg_record_deployment_plan healthy S e2 dep s1 = (Err fk_violation, s2)
    \<and> t_deployments (pg_db s2) = t_deployments (pg_db s)"
proof -
  obtain db where blob: "sql_insert_blob (art_sha256 a) b (pg_db s) = Ok db"
    and db: "t_artifacts db = t_artifacts (pg_db s)" "t_tenants db = t_tenants (pg_db s)"
      "t_deployments db = t_deployments (pg_db s)" "t_profile_versions db = t_profile_versions (pg_db s)"
    by (cases "art_sha256 a \<in> fst ` set (t_artifact_blobs (pg_db s))")
      (auto simp: sql_insert_blob_def insert_row_def)
  have "(art_tenant_id a, art_sha256 a) \<in> (\<lambda>r. (art_tenant_id r, art_sha256 r)) ` set (t_artifacts db)"
    by (rule image_eqI [of _ _ old]) (simp_all add: assms(1-3) db)
  then have art: "sql_insert_artifact (utc_now e 0) a db = Ok db"
    by (simp add: sql_insert_artifact_def insert_row_def)
  obtain dc where dc: "sql_audit (utc_now e 1) (art_tenant_id a) ''control-plane'' ''artifact.created''
      ''artifact'' (art_id a) db = Ok dc"
    and dc': "t_artifacts dc = t_artifacts db" "t_tenants dc = t_tenants db"
      "t_deployments dc = t_deployments db" "t_profile_versions dc = t_profile_versions db"
    using assms(5) by (auto simp: sql_audit_def append_row_def db)
  obtain dd where dd: "sql_outbox (utc_now e 2) (art_tenant_id a) ''artifact.created'' ''artifact''
      (art_id a) dc = Ok dd"
    and dd': "t_artifacts dd = t_artifacts db" "t_deployments dd = t_deployments db"
      "t_profile_versions dd = t_profile_versions db"
    using assms(5) by (auto simp: sql_outbox_def append_row_def db dc')
  let ?s1 = "\<lparr>pg_db = dd, pg_calls = pg_calls s + 4\<rparr>"
  have 1: "pg_record_artifact_blob healthy L e a b s = (Ok (), ?s1)"
    using assms(6) blob art dc dd
    by (simp add: pg_record_artifact_blob_def pg_record_artifact_def pg_record_event_def and_then_def)
  have 2: "fst (pg_artifact_bytes healthy e1 (art_id a) ?s1)
      = Err (NotFound (''artifact:'' @ art_id a))"
    using assms(4) by (intro unknown_artifact) (simp add: dd' db)
  have "filter (\<lambda>r. pv_profile_id r = dpr_profile_id dep) (t_profile_versions dd) \<noteq> []"
    using assms(9) by (auto simp: filter_empty_conv dd' db)
  then obtain v where "order_desc_limit1 e2 1 pv_version
      (filter (\<lambda>r. pv_profile_id r = dpr_profile_id dep) (t_profile_versions dd)) = Some v"
    by (metis max_by_key_None mset_pg_scan mset_zero_iff_right not_Some_eq)
  then have 3: "fst (pg_record_deployment_plan healthy S e2 dep ?s1) = Err fk_violation"
      "pg_db (snd (pg_record_deployment_plan healthy S e2 dep ?s1)) = dd"
    using assms(4,7,8)
    by (auto simp: pg_record_deployment_plan_def and_then_def op_units sql_insert_deployment_def
        insert_row_def dd' db)
  from 1 2 3 show ?thesis
    by (intro exI [of _ ?s1] exI [of _ "snd (pg_record_deployment_plan healthy S e2 dep ?s1)"])
      (simp add: prod_eq_iff dd' db)
qed

theorem pg_interrupted_compile_stuck_witness:
  "\<exists>s1 s2. pg_record_artifact_blob healthy demo_libs demo_env (demo_artifact_row ''a2'') (as_bytes ''{}'')
       (pg_demo []) = (Ok (), s1)
     \<and> fst (pg_artifact_bytes healthy demo_env ''a2'' s1) = Err (NotFound ''artifact:a2'')
     \<and> pg_record_deployment_plan healthy demo_serde demo_env (demo_dep ''dep-2'' ''a2'') s1
       = (Err fk_violation, s2)
     \<and> t_deployments (pg_db s2) = []"
proof -
  let ?d = "pg_db (pg_demo [])"
  have facts: "map (\<lambda>a. (art_id a, art_tenant_id a, art_sha256 a)) (t_artifacts ?d) = [(''a1'', ''t'', ''{}'')]"
    "t_tenants ?d = [''t'']" "t_deployments ?d = []" "map pv_profile_id (t_profile_versions ?d) = [''p'']"
    by code_simp+
  then obtain old where old: "t_artifacts ?d = [old]" "art_id old = ''a1''" "art_tenant_id old = ''t''"
    "art_sha256 old = ''{}''"
    by auto
  show ?thesis
    using pg_interrupted_compile_stuck [of old "pg_demo []" "demo_artifact_row ''a2''" demo_libs
        "as_bytes ''{}''" "demo_dep ''dep-2'' ''a2''" demo_env demo_env demo_serde demo_env] facts old
    by (simp add: demo_artifact_row_def demo_dep_def deployment_plan_record_new_def demo_libs_def)
qed

text \<open>
  A command whose sequence number was already used for the node is lost silently: enqueueing it
  reports success and the table is as before, so no poll will ever deliver it.
\<close>

theorem pg_duplicate_sequence_dropped:
  assumes "(i, cmd_sequence (src_command c)) \<in> set (map command_row_key (t_runner_commands (pg_db s)))"
    and "is_ok (sv_command S c)"
  shows "\<exists>s'. pg_enqueue_runner_command healthy S i c s = (Ok (), s') \<and> pg_db s' = pg_db s"
proof -
  obtain j where "sv_command S c = Ok j" using assms(2) by (cases "sv_command S c") auto
  moreover have "(i, cmd_sequence (src_command c)) \<in> command_row_key ` set (t_runner_commands (pg_db s))"
    using assms(1) by simp
  ultimately show ?thesis
    by (simp add: pg_enqueue_runner_command_def serde_result_def and_then_def op_units
        sql_insert_command_def insert_row_def command_row_key_def)
qed

theorem pg_duplicate_sequence_dropped_witness:
  "\<exists>s'. pg_enqueue_runner_command healthy demo_serde ''node-a'' demo_envelope
      (pg_demo [EnqueueCommand ''node-a'' demo_envelope]) = (Ok (), s')
    \<and> length (t_runner_commands (pg_db s')) = 1"
proof -
  let ?s = "pg_demo [EnqueueCommand ''node-a'' demo_envelope]"
  have "map command_row_key (t_runner_commands (pg_db ?s)) = [(''node-a'', 1)]" by code_simp
  moreover from this have "length (t_runner_commands (pg_db ?s)) = 1"
    by (metis length_map One_nat_def length_Cons list.size(3))
  moreover have "is_ok (sv_command demo_serde demo_envelope)" by (simp add: demo_serde_def)
  ultimately show ?thesis
    using pg_duplicate_sequence_dropped [of "''node-a''" demo_envelope ?s demo_serde]
    by (auto simp: demo_envelope_def demo_command_def)
qed

end
