(* ===== verification/Postgres_Usage.thy ===== *)
theory Postgres_Usage
  imports Postgres_Props
begin

text \<open>
  Usage accounting of \<open>PostgresStore\<close>: the totals that the rollups of a credential hold are exact
  integers, never wrapped around, because the database refuses a \<open>bigint\<close> sum that does not fit.
\<close>

definition rollup_sum :: "string \<Rightarrow> string \<Rightarrow> pg_db \<Rightarrow> int" where
  "rollup_sum c b d =
     (\<Sum>r \<leftarrow> filter (\<lambda>r. ur_credential_id r = Some c \<and> ur_bucket r = b) (t_usage_rollups d).
        sint (ur_uplink_bytes r) + sint (ur_downlink_bytes r))"

definition rollup_part :: "string \<Rightarrow> string \<Rightarrow> usage_rollup_record \<Rightarrow> int" where
  "rollup_part c b r = (if ur_credential_id r = Some c \<and> ur_bucket r = b
     then sint (ur_uplink_bytes r) + sint (ur_downlink_bytes r) else 0)"

definition demo_sample :: usage_sample_record where
  "demo_sample = \<lparr>us_tenant_id = ''t'', us_node_id = ''node-a'', us_credential_id = Some ''c1'',
     us_uplink_bytes = 100, us_downlink_bytes = 20, us_sampled_at = 7200000000000\<rparr>"

section \<open>Rollups\<close>

lemma rollup_sum_parts:
  "rollup_sum c b d
   = sum_list (map (rollup_part c b) (filter (\<lambda>r. ur_credential_id r \<noteq> None) (t_usage_rollups d)))"
proof -
  have "(\<Sum>r \<leftarrow> filter (\<lambda>r. ur_credential_id r = Some c \<and> ur_bucket r = b) rows.
        sint (ur_uplink_bytes r) + sint (ur_downlink_bytes r))
      = sum_list (map (rollup_part c b) (filter (\<lambda>r. ur_credential_id r \<noteq> None) rows))" for rows
    by (induction rows) (auto simp: rollup_part_def)
  then show ?thesis by (simp add: rollup_sum_def)
qed

lemma bigint_add_exact: "bigint_add a b = Ok c \<Longrightarrow> sint c = sint a + sint b"
  by (auto simp: bigint_add_def split: if_splits)

lemma bigint_sum_exact: "bigint_sum n = Ok c \<Longrightarrow> sint c = n"
  by (auto simp: bigint_sum_def split: if_splits)

lemma insert_usage_rollups: "sql_insert_usage u d = Ok d' \<Longrightarrow> t_usage_rollups d' = t_usage_rollups d"
  by (auto simp: sql_insert_usage_def sql_outcome)

lemma sum_update_key:
  fixes f :: "'r \<Rightarrow> int"
  assumes "distinct (map key rows)" and "r \<in> set rows"
  shows "sum_list (map f (update_where (\<lambda>x. key x = key r) h rows)) = sum_list (map f rows) - f r + f (h r)"
  using assms
proof (induction rows)
  case (Cons x rows)
  show ?case
  proof (cases "x = r")
    case True
    with Cons.prems have "update_where (\<lambda>x. key x = key r) h rows = rows"
      by (auto simp: update_where_def intro!: map_idI) (metis image_eqI)
    with True show ?thesis by (simp add: update_where_def)
  next
    case False
    with Cons.prems have "key x \<noteq> key r" by auto
    with False Cons show ?thesis by (simp add: update_where_def)
  qed
qed simp

lemma add_rollup_sum:
  assumes inv: "pg_inv L S d" and row: "ur_credential_id row = Some c"
    and add: "sql_add_rollup row d = Ok d'"
  shows "rollup_sum c' b d' = rollup_sum c' b d + rollup_part c' b row"
  using add
proof (cases rule: rollup_outcome)
  case new
  then show ?thesis using row by (simp add: rollup_sum_parts)
next
  case (old r up down)
  let ?named = "filter (\<lambda>r. ur_credential_id r \<noteq> None) (t_usage_rollups d)"
  let ?h = "\<lambda>r. r\<lparr>ur_uplink_bytes := up, ur_downlink_bytes := down\<rparr>"
  have r: "ur_credential_id r = Some c" "ur_bucket r = ur_bucket row"
    using old(2) row by (simp_all add: rollup_row_key_def)
  have "distinct (map rollup_row_key ?named)" using inv by (simp add: pg_inv_defs)
  then have "sum_list (map (rollup_part c' b) (update_where (\<lambda>x. rollup_row_key x = rollup_row_key r) ?h ?named))
      = sum_list (map (rollup_part c' b) ?named) - rollup_part c' b r + rollup_part c' b (?h r)"
    using old(1) r by (intro sum_update_key) simp_all
  moreover have "rollup_part c' b (?h r) = rollup_part c' b r + rollup_part c' b row"
    using r row bigint_add_exact [OF old(4)] bigint_add_exact [OF old(5)] by (simp add: rollup_part_def)
  ultimately show ?thesis
    using old(2,6) by (simp add: rollup_sum_parts filter_update_where)
qed

lemma add_rollups_sum:
  assumes "pg_add_rollups F S u bs s = (Ok v, s')" and "pg_inv L S (pg_db s)"
    and "us_credential_id u = Some c"
  shows "rollup_sum c b (pg_db s') = rollup_sum c b (pg_db s)
    + int (count_list (map fst bs) b) * (sint (us_uplink_bytes u) + sint (us_downlink_bytes u))"
  using assms(1,2)
proof (induction bs arbitrary: s)
  case Nil
  then show ?case by (simp add: op_units)
next
  case (Cons x bs)
  let ?row = "\<lparr>ur_tenant_id = us_tenant_id u, ur_credential_id = us_credential_id u,
    ur_bucket = fst x, ur_bucket_start = sv_time S (snd x), ur_uplink_bytes = us_uplink_bytes u,
    ur_downlink_bytes = us_downlink_bytes u\<rparr>"
  from Cons.prems(1) obtain w s1 where s1: "execute F (sql_add_rollup ?row) s = (Ok w, s1)"
      and rest: "pg_add_rollups F S u bs s1 = (Ok v, s')"
    unfolding pg_add_rollups.simps by - (elim then_OkE, rule that)
  then have add: "sql_add_rollup ?row (pg_db s) = Ok (pg_db s1)" by (simp add: execute_Ok)
  then have inv: "pg_inv L S (pg_db s1)"
    using rollup_inv [of L S ?row] Cons.prems(2) by (auto simp: sql_keeps_def)
  have "rollup_sum c b (pg_db s1) = rollup_sum c b (pg_db s) + rollup_part c b ?row"
    by (rule add_rollup_sum [OF Cons.prems(2) _ add]) (simp add: assms(3))
  with Cons.IH [OF rest inv] show ?case
    by (simp add: rollup_part_def assms(3) algebra_simps)
qed

text \<open>
  C29. Recording a usage sample adds exactly its traffic to the hourly, daily and monthly totals of its
  credential, as integers: a sum that does not fit is an error, never a wrapped value; and the quota
  decision compares the exact hourly total with the quota.
\<close>

theorem pg_usage_exact:
  assumes "pg_reachable L S s" and "us_credential_id u = Some c"
    and "pg_record_usage_sample F S L u s = (Ok v, s')" and "b \<in> {''hour'', ''day'', ''month''}"
    and "pg_credential_quota_decision healthy c s' = (Ok decision, s'')"
  shows "rollup_sum c b (pg_db s')
      = rollup_sum c b (pg_db s) + sint (us_uplink_bytes u) + sint (us_downlink_bytes u)
    \<and> sint (cq_used_bytes decision) = rollup_sum c ''hour'' (pg_db s')
    \<and> (cq_allowed decision \<longleftrightarrow> rollup_sum c ''hour'' (pg_db s') \<le> sint (cq_quota_bytes decision))"
proof -
  let ?u = "u\<lparr>us_sampled_at := sv_time S (us_sampled_at u)\<rparr>"
  from assms(3) obtain w s1 where "execute F (sql_insert_usage ?u) s = (Ok w, s1)"
      and rest: "pg_add_rollups F S u (usage_bucket_starts L (us_sampled_at u)) s1 = (Ok v, s')"
    unfolding pg_record_usage_sample_def by - (elim then_OkE, rule that)
  then have ins: "sql_insert_usage ?u (pg_db s) = Ok (pg_db s1)" by (simp add: execute_Ok)
  then have "t_usage_rollups (pg_db s1) = t_usage_rollups (pg_db s)"
    by (rule insert_usage_rollups)
  moreover have "pg_inv L S (pg_db s1)"
    using ins usage_row_inv [of L S ?u] pg_reachable_inv [OF assms(1)] by (auto simp: sql_keeps_def)
  ultimately have "rollup_sum c b (pg_db s')
      = rollup_sum c b (pg_db s) + sint (us_uplink_bytes u) + sint (us_downlink_bytes u)"
    using add_rollups_sum [OF rest _ assms(2), of L b] assms(4)
    by (auto simp: usage_bucket_starts_def rollup_sum_def)
  moreover have "sint (cq_used_bytes decision) = rollup_sum c ''hour'' (pg_db s')
      \<and> (cq_allowed decision \<longleftrightarrow> sint (cq_used_bytes decision) \<le> sint (cq_quota_bytes decision))"
  proof -
    obtain quota used where "sql_used_bytes c (pg_db s') = Ok used"
      and dec: "decision = quota_decision c quota used"
      using assms(5)
      by (auto simp: pg_credential_quota_decision_def and_then_eq_Ok op_units bind_result_eq_Ok
          split: result.splits)
    then obtain xs where xs: "decode_rows (\<lambda>r. bigint_add (ur_uplink_bytes r) (ur_downlink_bytes r))
          (filter (\<lambda>r. ur_credential_id r = Some c \<and> ur_bucket r = ''hour'')
            (t_usage_rollups (pg_db s'))) = Ok xs"
        and used: "bigint_sum (sum_list (map sint xs)) = Ok used"
      by (auto simp: sql_used_bytes_def bind_result_eq_Ok)
    have "decode_rows (\<lambda>r. bigint_add (ur_uplink_bytes r) (ur_downlink_bytes r)) rows = Ok ys \<Longrightarrow>
        sum_list (map sint ys) = (\<Sum>r \<leftarrow> rows. sint (ur_uplink_bytes r) + sint (ur_downlink_bytes r))"
      for rows ys
      by (induction rows arbitrary: ys) (auto simp: bind_result_eq_Ok dest: bigint_add_exact)
    from this [OF xs] have "sint used = rollup_sum c ''hour'' (pg_db s')"
      using bigint_sum_exact [OF used] by (simp add: rollup_sum_def)
    with dec show ?thesis by (simp add: quota_decision_def word_sle_eq Let_def)
  qed
  ultimately show ?thesis by simp
qed

theorem pg_usage_exact_witness:
  "\<exists>s' decision. pg_record_usage_sample healthy demo_serde demo_libs demo_sample
        (pg_demo [SetQuota ''c1'' 100]) = (Ok (), s')
     \<and> rollup_sum ''c1'' ''month'' (pg_db s') = 120
     \<and> fst (pg_credential_quota_decision healthy ''c1'' s') = Ok decision
     \<and> sint (cq_used_bytes decision) = 120 \<and> \<not> cq_allowed decision"
proof -
  let ?s = "pg_demo [SetQuota ''c1'' 100]"
  let ?r = "pg_record_usage_sample healthy demo_serde demo_libs demo_sample ?s"
  have "is_ok (fst ?r)" by code_simp
  then obtain s' where r: "?r = (Ok (), s')" by (cases ?r; cases "fst ?r") auto
  have "fst (pg_credential_quota_decision healthy ''c1'' (snd ?r)) = Ok
      \<lparr>cq_credential_id = ''c1'', cq_quota_bytes = 100, cq_used_bytes = 120, cq_allowed = False,
       cq_reason = ''quota_exceeded''\<rparr>"
    by code_simp
  then obtain s'' where q: "pg_credential_quota_decision healthy ''c1'' s' = (Ok
      \<lparr>cq_credential_id = ''c1'', cq_quota_bytes = 100, cq_used_bytes = 120, cq_allowed = False,
       cq_reason = ''quota_exceeded''\<rparr>, s'')"
    unfolding r snd_conv by (metis prod.collapse)
  have "t_usage_rollups (pg_db ?s) = []" by code_simp
  then have "rollup_sum ''c1'' ''month'' (pg_db ?s) = 0" by (simp add: rollup_sum_def)
  moreover have "us_credential_id demo_sample = Some ''c1''" "us_uplink_bytes demo_sample = 100"
    "us_downlink_bytes demo_sample = 20"
    by (simp_all add: demo_sample_def)
  ultimately show ?thesis
    using pg_usage_exact [OF pg_demo_reachable, of "[SetQuota ''c1'' 100]" demo_sample "''c1''" healthy
        "()" s' "''month''", OF _ _ r _ q] r q
    by auto
qed

end
