(* ===== verification/Postgres_Commands.thy ===== *)
theory Postgres_Commands
  imports Postgres_Reach
begin

text \<open>
  The command rows of \<open>PostgresStore\<close>: only \<open>enqueue_runner_command\<close> writes an envelope, and
  polling changes nothing but the status and the lease time of a row. A predicate on the rest of a
  command row that holds of what is enqueued therefore holds of every row, whatever methods run and
  wherever the connection fails. Methods that only read keep every predicate on the tables.
\<close>

section \<open>Definitions\<close>

definition commands_hold :: "(pg_command_row \<Rightarrow> bool) \<Rightarrow> pg_db \<Rightarrow> bool" where
  "commands_hold Q d \<longleftrightarrow> (\<forall>r \<in> set (t_runner_commands d). Q r)"

text \<open>A predicate that does not look at the status and the lease of a row.\<close>

definition lease_blind :: "(pg_command_row \<Rightarrow> bool) \<Rightarrow> bool" where
  "lease_blind Q \<longleftrightarrow> (\<forall>r s t. Q (r\<lparr>pq_status := s, pq_leased_at := t\<rparr>) = Q r)"

section \<open>Statements\<close>

lemma lease_blindD:
  assumes "lease_blind Q"
  shows "Q (r\<lparr>pq_status := s, pq_leased_at := t\<rparr>) = Q r" and "Q (r\<lparr>pq_status := s\<rparr>) = Q r"
proof -
  show "Q (r\<lparr>pq_status := s, pq_leased_at := t\<rparr>) = Q r" using assms by (simp add: lease_blind_def)
  have "r\<lparr>pq_status := s, pq_leased_at := pq_leased_at r\<rparr> = r\<lparr>pq_status := s\<rparr>" by simp
  then show "Q (r\<lparr>pq_status := s\<rparr>) = Q r" using assms by (metis lease_blind_def)
qed

lemma frame_keeps:
  "(\<And>d d'. g d = Ok d' \<Longrightarrow> t_runner_commands d' = t_runner_commands d) \<Longrightarrow> sql_keeps (commands_hold Q) g"
  by (auto simp: sql_keeps_def commands_hold_def)

lemma frame_keeps_ret:
  "(\<And>d a d'. g d = Ok (a, d') \<Longrightarrow> t_runner_commands d' = t_runner_commands d)
    \<Longrightarrow> sql_keeps_ret (commands_hold Q) g"
  by (fastforce simp: sql_keeps_ret_def commands_hold_def)

lemma statement_frames:
  "sql_keeps (commands_hold Q) (sql_audit now tenant actor action ty i)"
  "sql_keeps (commands_hold Q) (sql_outbox now tenant action ty i)"
  "sql_keeps (commands_hold Q) (sql_insert_tenant tenant)"
  "sql_keeps (commands_hold Q) (sql_upsert_node now i tenant)"
  "sql_keeps (commands_hold Q) (sql_insert_capability now n)"
  "sql_keeps (commands_hold Q) (sql_upsert_identity now i k)"
  "sql_keeps (commands_hold Q) (sql_rotate_identity now i k)"
  "sql_keeps (commands_hold Q) (sql_insert_session i k)"
  "sql_keeps (commands_hold Q) (sql_insert_heartbeat now i k j)"
  "sql_keeps (commands_hold Q) (sql_insert_profile i tenant)"
  "sql_keeps (commands_hold Q) (sql_insert_profile_version row1)"
  "sql_keeps (commands_hold Q) (sql_upsert_client row2)"
  "sql_keeps (commands_hold Q) (sql_upsert_secret row3)"
  "sql_keeps (commands_hold Q) (sql_upsert_credential row4)"
  "sql_keeps (commands_hold Q) (sql_link_credential i k)"
  "sql_keeps (commands_hold Q) (sql_set_quota i q)"
  "sql_keeps (commands_hold Q) (sql_insert_artifact now a)"
  "sql_keeps (commands_hold Q) (sql_insert_blob i b)"
  "sql_keeps (commands_hold Q) (sql_insert_response tenant k j)"
  "sql_keeps (commands_hold Q) (sql_insert_deployment row5)"
  "sql_keeps (commands_hold Q) (sql_insert_rollback_pointer row6)"
  "sql_keeps (commands_hold Q) (sql_set_rollback_pointer i k)"
  "sql_keeps (commands_hold Q) (sql_upsert_snapshot row7)"
  "sql_keeps (commands_hold Q) (sql_insert_health row8)"
  "sql_keeps (commands_hold Q) (sql_insert_usage u)"
  "sql_keeps (commands_hold Q) (sql_add_rollup r)"
  "sql_keeps (commands_hold Q) (sql_insert_subscription_token row9)"
  "sql_keeps (commands_hold Q) (sql_rotate_tokens now i)"
  "sql_keeps (commands_hold Q) (sql_insert_access_log row10)"
  by (rule frame_keeps, auto simp: sql_audit_def sql_outbox_def sql_insert_tenant_def sql_upsert_node_def
      sql_insert_capability_def sql_upsert_identity_def sql_rotate_identity_def sql_insert_session_def
      sql_insert_heartbeat_def sql_insert_profile_def sql_insert_profile_version_def sql_upsert_client_def
      sql_upsert_secret_def sql_upsert_credential_def sql_link_credential_def sql_set_quota_def
      sql_insert_artifact_def sql_insert_blob_def sql_insert_response_def sql_insert_deployment_def
      sql_insert_rollback_pointer_def sql_set_rollback_pointer_def sql_upsert_snapshot_def
      sql_insert_health_def sql_insert_usage_def sql_add_rollup_def sql_insert_subscription_token_def
      sql_rotate_tokens_def sql_insert_access_log_def bind_result_eq_Ok Let_def split: if_splits option.splits)+

lemma returning_frames:
  "sql_keeps_ret (commands_hold Q) (sql_insert_registration_token S t)"
  "sql_keeps_ret (commands_hold Q) (sql_use_token now k i)"
  "sql_keeps_ret (commands_hold Q) (sql_set_expiry i x)"
  "sql_keeps_ret (commands_hold Q) (sql_set_deployment_status now i s)"
  by (rule frame_keeps_ret, auto simp: sql_insert_registration_token_def sql_use_token_def sql_set_expiry_def
      sql_set_deployment_status_def bind_result_eq_Ok Let_def split: if_splits option.splits)+

lemma insert_command_holds:
  assumes "Q row" and "lease_blind Q"
  shows "sql_keeps (commands_hold Q) (sql_insert_command row)"
  unfolding sql_insert_command_def
  using assms by (auto intro!: sql_keepsI simp: commands_hold_def bind_result_eq_Ok insert_row_Ok)

lemma skip_holds:
  assumes "lease_blind Q"
  shows "sql_keeps (commands_hold Q) (sql_skip_commands n q)"
  unfolding sql_skip_commands_def
  by (rule sql_keepsI) (auto simp: commands_hold_def set_update_where lease_blindD [OF assms])

lemma lease_holds:
  assumes "lease_blind Q"
  shows "sql_keeps_ret (commands_hold Q) (sql_lease_command now n q)"
proof (rule sql_keeps_retI)
  fix d j d'
  assume "commands_hold Q d" and "sql_lease_command now n q d = Ok (j, d')"
  then show "commands_hold Q d'"
    by (elim lease_outcome) (auto simp: commands_hold_def set_update_where lease_blindD [OF assms])
qed

section \<open>Methods\<close>

lemma event_holds:
  "keeps (commands_hold Q) (pg_record_event F now now' t a b c i)"
  "keeps (commands_hold Q) (pg_record_event_in_tx F now t a b c i)"
  unfolding pg_record_event_def pg_record_event_in_tx_def by (intro keeps_rules statement_frames)+

lemmas frame_rules = keeps_lift_bind keeps_rules statement_frames returning_frames event_holds
  keeps_node keeps_profile keeps_if

lemma registration_holds: "keeps (commands_hold Q) (pg_registration_tx F now n t)"
  unfolding pg_registration_tx_def token_not_usable_def
  by (intro frame_rules, split option.split) (auto split: option.split intro!: frame_rules)

lemma node_methods_hold:
  "keeps (commands_hold Q) (pg_register_node F e n)"
  "keeps (commands_hold Q) (pg_register_node_with_registration_token F e n t)"
  "keeps (commands_hold Q) (pg_create_node_registration_token F S' e t')"
  "keeps (commands_hold Q) (pg_consume_node_registration_token F e x i)"
  "keeps (commands_hold Q) (pg_update_node_runner_result_public_key F e i k)"
  "keeps (commands_hold Q) (pg_record_heartbeat F e h)"
  unfolding pg_register_node_def pg_register_node_with_registration_token_def
    pg_create_node_registration_token_def pg_consume_node_registration_token_def
    pg_update_node_runner_result_public_key_def pg_record_heartbeat_def Let_def
  by (intro keeps_transaction registration_holds frame_rules)+

lemma profile_methods_hold:
  "keeps (commands_hold Q) (pg_create_profile F S L e p)"
  "keeps (commands_hold Q) (pg_add_credential F S e x c)"
  "keeps (commands_hold Q) (pg_record_artifact_blob F L e a b)"
  "keeps (commands_hold Q) (pg_record_idempotency_response F t k j)"
  unfolding pg_create_profile_def pg_add_credential_def pg_record_artifact_blob_def pg_record_artifact_def
    pg_record_idempotency_response_def Let_def
  by (intro frame_rules)+

lemma deployment_methods_hold:
  "keeps (commands_hold Q) (pg_record_deployment_plan F S e d)"
  "keeps (commands_hold Q) (pg_record_deployment_result F S L e r)"
  "keeps (commands_hold Q) (pg_record_deployment_health_check F S e h)"
  unfolding pg_record_deployment_plan_def pg_record_deployment_result_def
    pg_record_deployment_health_check_def Let_def
  by (intro frame_rules)+

lemma add_rollups_hold: "keeps (commands_hold Q) (pg_add_rollups F S u bs)"
  by (induction bs) (auto intro!: frame_rules)

lemma usage_methods_hold:
  "keeps (commands_hold Q) (pg_record_usage_sample F S L u)"
  "keeps (commands_hold Q) (pg_set_credential_quota F c n)"
  "keeps (commands_hold Q) (pg_set_credential_expiry F S c t)"
  unfolding pg_record_usage_sample_def pg_set_credential_quota_def pg_set_credential_expiry_def
  by (intro add_rollups_hold frame_rules)+

lemma subscription_methods_hold:
  "keeps (commands_hold Q) (pg_issue_subscription_token F S L e p)"
  "keeps (commands_hold Q) (pg_rotate_subscription_token F S L e p)"
  "keeps (commands_hold Q) (pg_record_subscription_access F e t a u st)"
  unfolding pg_issue_subscription_token_def pg_rotate_subscription_token_def
    pg_record_subscription_access_def Let_def
  by (intro frame_rules)+

lemma poll_holds:
  assumes "lease_blind Q"
  shows "keeps (commands_hold Q) (pg_next_runner_command F S e n q)"
  unfolding pg_next_runner_command_def
  using assms by (intro keeps_rules skip_holds lease_holds) (auto split: option.split intro: keeps_units)

lemma enqueue_holds:
  assumes "lease_blind Q"
    and "\<And>j. sv_command S c = Ok j \<Longrightarrow> Q \<lparr>pq_tenant_id = cmd_tenant_id (src_command c), pq_node_id = n,
      pq_sequence = cmd_sequence (src_command c), pq_envelope_json = j, pq_status = ''pending'',
      pq_leased_at = None\<rparr>"
  shows "keeps (commands_hold Q) (pg_enqueue_runner_command F S n c)"
  unfolding pg_enqueue_runner_command_def
  by (intro keeps_lift_bind keeps_execute insert_command_holds assms) simp

lemmas methods_hold = node_methods_hold profile_methods_hold deployment_methods_hold usage_methods_hold
  subscription_methods_hold poll_holds enqueue_holds

section \<open>Reads\<close>

lemma keeps_option: "keeps P m \<Longrightarrow> (\<And>a. keeps P (f a)) \<Longrightarrow> keeps P (case x of None \<Rightarrow> m | Some a \<Rightarrow> f a)"
  by (cases x) simp_all

lemma node_reads_keep:
  "keeps P (pg_list_nodes F e)" "keeps P (pg_list_node_registration_tokens F e)"
  "keeps P (pg_node_registration_token F t)" "keeps P (pg_latest_heartbeat F e i)"
  "keeps P (pg_latest_usage_sample F e i)" "keeps P (pg_latest_usage_rollup_for_credential F e c b)"
  "keeps P (pg_credential_expiry_decision F e c)"
  unfolding pg_list_nodes_def pg_list_node_registration_tokens_def pg_node_registration_token_def
    pg_latest_heartbeat_def pg_latest_usage_sample_def pg_latest_usage_rollup_for_credential_def
    pg_credential_expiry_decision_def
  by (intro keeps_rules)+

lemma quota_decision_keeps: "keeps P (pg_credential_quota_decision F c)"
  unfolding pg_credential_quota_decision_def
  by (intro keeps_rules) (auto simp: sql_keeps_ret_def bind_result_eq_Ok)

lemma profile_reads_keep:
  "keeps P (pg_list_profiles F S e)" "keeps P (pg_list_credentials F S e)"
  "keeps P (pg_credentials_for_profile F S e i)" "keeps P (pg_artifact_bytes F e a)"
  "keeps P (pg_artifact_bytes_by_sha256 F h)" "keeps P (pg_idempotency_response F t k)"
  unfolding pg_list_profiles_def pg_list_credentials_def pg_credentials_for_profile_def
    pg_artifact_bytes_def pg_artifact_bytes_by_sha256_def pg_idempotency_response_def
  by (intro keeps_rules)+

lemma deployment_reads_keep:
  "keeps P (pg_list_deployment_plans F e)" "keeps P (pg_deployment_status F i)"
  "keeps P (pg_rollback_pointer F e i)" "keeps P (pg_deployment_snapshot F S e i)"
  "keeps P (pg_latest_deployment_health F e i)" "keeps P (pg_deployment_health_checks F i)"
  "keeps P (pg_audit_count F)" "keeps P (pg_outbox_count F)"
  unfolding pg_list_deployment_plans_def pg_deployment_status_def pg_rollback_pointer_def
    pg_deployment_snapshot_def pg_latest_deployment_health_def pg_deployment_health_checks_def
    pg_audit_count_def pg_outbox_count_def
  by (intro keeps_rules keeps_if)+

lemma quota_allows_keeps: "keeps P (pg_quota_allows F c)"
  using quota_decision_keeps [of P F c]
  by (fastforce simp: keeps_def pg_quota_allows_def split: prod.splits result.splits store_error.splits)

lemma push_allowed_keeps: "keeps P (pg_push_allowed F e d cs)"
  by (induction F e d cs rule: pg_push_allowed.induct)
     (auto intro!: keeps_rules keeps_if quota_allows_keeps node_reads_keep(7))

lemma subscription_reads_keep:
  "keeps P (pg_deployed_profile_for_subscription F S e i)"
  "keeps P (pg_verify_subscription_token F L e i t)"
  "keeps P (pg_subscription_token_required F S e i)"
  "keeps P (pg_subscription_access_log_count F i)"
  unfolding pg_deployed_profile_for_subscription_def pg_verify_subscription_token_def
    pg_subscription_token_required_def pg_subscription_access_log_count_def
  by (intro keeps_rules keeps_profile keeps_node profile_reads_keep;
      auto split: list.split intro!: keeps_rules push_allowed_keeps profile_reads_keep)+

lemmas reads_keep = keeps_node keeps_profile node_reads_keep quota_decision_keeps profile_reads_keep
  deployment_reads_keep subscription_reads_keep

end
