(* ===== verification/Served_Store.thy ===== *)
theory Served_Store
  imports Control_Plane_Routes Postgres_Commands
begin

text \<open>
  The HTTP surface over any store: what the operations of a store keep, under the one condition that
  an enqueued command is addressed to its node and signed by the control plane, every request keeps,
  whatever axum makes of it. The locale \<open>kept_store\<close> states that contract; it is interpreted for the
  invariant of \<open>MemoryStore\<close> and for the tables of \<open>PostgresStore\<close>.
\<close>

section \<open>Definitions\<close>

definition signed_for :: "libs \<Rightarrow> signing_key \<Rightarrow> string \<Rightarrow> signed_runner_command \<Rightarrow> bool" where
  "signed_for L key n c \<longleftrightarrow>
     cmd_node_id (src_command c) = n \<and> command_sign L (src_command c) key = Ok c"

text \<open>The calls the handlers make.\<close>

fun admissible_op :: "libs \<Rightarrow> signing_key \<Rightarrow> store_op \<Rightarrow> bool" where
  "admissible_op L key (RecordArtifact a) = False"
| "admissible_op L key (EnqueueCommand n c) = signed_for L key n c"
| "admissible_op L key _ = True"

definition process_keeps :: "'s proxy_store \<Rightarrow> signing_key \<Rightarrow> ('s \<Rightarrow> bool) \<Rightarrow> 's app_state \<Rightarrow> bool" where
  "process_keeps p key P st \<longleftrightarrow> app_store st = p \<and> app_signing_key st = key \<and> P (app_store_state st)"

text \<open>The invariant of \<open>MemoryStore\<close> with the signatures of the waiting commands.\<close>

definition memory_kept :: "libs \<Rightarrow> signing_key \<Rightarrow> memory_state \<Rightarrow> bool" where
  "memory_kept L key s \<longleftrightarrow>
     store_inv L s \<and> (\<forall>n. \<forall>c \<in> set (memory_queue s n). signed_for L key n c)"

section \<open>The contract\<close>

locale kept_store =
  fixes p :: "'s proxy_store" and L :: libs and key :: signing_key and P :: "'s \<Rightarrow> bool"
  assumes writes: "P s \<Longrightarrow> admissible_op L key x \<Longrightarrow> P (run_op p e x s)"
    and node_reads: "P s \<Longrightarrow> P (snd (ps_node p e i s))" "P s \<Longrightarrow> P (snd (ps_list_nodes p e s))"
      "P s \<Longrightarrow> P (snd (ps_list_node_registration_tokens p e s))"
      "P s \<Longrightarrow> P (snd (ps_node_registration_token p e i s))"
      "P s \<Longrightarrow> P (snd (ps_latest_heartbeat p e i s))"
      "P s \<Longrightarrow> P (snd (ps_latest_usage_sample p e i s))"
      "P s \<Longrightarrow> P (snd (ps_latest_usage_rollup_for_credential p e i b s))"
      "P s \<Longrightarrow> P (snd (ps_credential_quota_decision p e i s))"
      "P s \<Longrightarrow> P (snd (ps_credential_expiry_decision p e i s))"
    and profile_reads: "P s \<Longrightarrow> P (snd (ps_profile p e i s))" "P s \<Longrightarrow> P (snd (ps_list_profiles p e s))"
      "P s \<Longrightarrow> P (snd (ps_list_credentials p e s))" "P s \<Longrightarrow> P (snd (ps_credentials_for_profile p e i s))"
      "P s \<Longrightarrow> P (snd (ps_artifact_bytes p e i s))" "P s \<Longrightarrow> P (snd (ps_idempotency_response p e t i s))"
    and deployment_reads: "P s \<Longrightarrow> P (snd (ps_list_deployment_plans p e s))"
      "P s \<Longrightarrow> P (snd (ps_deployment_status p e i s))" "P s \<Longrightarrow> P (snd (ps_rollback_pointer p e i s))"
      "P s \<Longrightarrow> P (snd (ps_deployment_snapshot p e i s))"
      "P s \<Longrightarrow> P (snd (ps_latest_deployment_health p e i s))"
      "P s \<Longrightarrow> P (snd (ps_deployment_health_checks p e i s))"
      "P s \<Longrightarrow> P (snd (ps_audit_count p e s))" "P s \<Longrightarrow> P (snd (ps_outbox_count p e s))"
    and subscription_reads: "P s \<Longrightarrow> P (snd (ps_deployed_profile_for_subscription p e i s))"
      "P s \<Longrightarrow> P (snd (ps_verify_subscription_token p e i t s))"
      "P s \<Longrightarrow> P (snd (ps_subscription_token_required p e i s))"
begin

lemmas reads = node_reads profile_reads deployment_reads subscription_reads

lemmas writing =
  writes [where x = "RegisterNodeWithToken n t" for n t, simplified]
  writes [where x = "CreateToken t" for t, simplified]
  writes [where x = "RecordHeartbeat h" for h, simplified]
  writes [where x = "UpdateResultKey i k" for i k, simplified]
  writes [where x = "CreateProfile r" for r, simplified]
  writes [where x = "AddCredential i c" for i c, simplified]
  writes [where x = "RecordArtifactBlob a b" for a b, simplified]
  writes [where x = "RecordIdempotency t k v" for t k v, simplified]
  writes [where x = "RecordPlan d" for d, simplified]
  writes [where x = "RecordResult r" for r, simplified]
  writes [where x = "RecordHealth h" for h, simplified]
  writes [where x = "RecordUsage u" for u, simplified]
  writes [where x = "SetQuota i q" for i q, simplified]
  writes [where x = "SetExpiry i q" for i q, simplified]
  writes [where x = "NextCommand n q" for n q, simplified]
  writes [where x = "IssueToken i" for i, simplified]
  writes [where x = "RotateToken i" for i, simplified]
  writes [where x = "RecordAccess t a u k" for t a u k, simplified]

abbreviation ok :: "'s app_state \<Rightarrow> bool" where
  "ok \<equiv> process_keeps p key P"

lemma store_call_ok:
  assumes "\<And>s. P s \<Longrightarrow> P (snd (f p s))"
  shows "triple ok (store_call f) ok" and "triple ok (call f) ok"
proof -
  show "triple ok (store_call f) ok"
    using assms by (auto intro!: tripleI simp: process_keeps_def store_call_snd)
  then show "triple ok (call f) ok" unfolding call_def by (rule triple_map_err_op)
qed

lemmas steps = triple_struct triple_map_err_op store_call_ok

lemma sign_and_enqueue_ok: "triple ok (sign_and_enqueue L e0 e1 n kind) ok"
proof (rule tripleI)
  fix st assume st: "ok st"
  let ?st = "st\<lparr>app_node_sequences := hm_insert n (counter st n + 1) (app_node_sequences st)\<rparr>"
  let ?cmd = "runner_command_new e0 (app_tenant_id st) n (counter st n + 1) (utc_now e0 0 + seconds 60) kind"
  have st': "ok ?st" using st by (simp add: process_keeps_def)
  have key: "app_signing_key st = key" using st by (simp add: process_keeps_def)
  show "ok (snd (sign_and_enqueue L e0 e1 n kind st))"
  proof (cases "command_sign L ?cmd key")
    case (Ok c)
    have "signed_for L key n c"
      using command_sign_Ok [OF Ok] Ok by (auto simp: signed_for_def runner_command_new_def)
    then have "P (snd (ps_enqueue_runner_command p e1 n c s))" if "P s" for s
      using writes [OF that, of "EnqueueCommand n c" e1] by simp
    then have "triple ok (and_then (call (\<lambda>v. ps_enqueue_runner_command v e1 n c))
        (\<lambda>_. return_op (counter st n + 1))) ok"
      by (intro steps)
    from tripleD [OF this st'] show ?thesis
      using Ok key by (simp add: sign_and_enqueue_def and_then_def next_sequence_eq get_app_def op_units)
  qed (use st' key in \<open>simp add: sign_and_enqueue_def and_then_def next_sequence_eq get_app_def op_units\<close>)
qed

section \<open>Handlers\<close>

lemma ensure_default_registration_token_ok: "triple ok (ensure_default_registration_token e0 e1) ok"
proof (rule tripleI)
  fix st assume "ok st"
  then show "ok (snd (ensure_default_registration_token e0 e1 st))"
    unfolding ensure_default_registration_token_def Let_def
    by (intro tripleD [OF store_call_ok(2)]) (simp_all add: writing)
qed

lemma store_profile_ok: "triple ok (store_profile e0 e1 i ir) ok"
  unfolding store_profile_def by (intro steps) (simp_all add: writing)

lemma issue_registration_token_ok: "triple ok (issue_registration_token E t) ok"
  unfolding issue_registration_token_def
proof (intro triple_keeps_and_then ensure_default_registration_token_ok tripleI)
  fix st0
  assume inv: "ok st0"
  let ?token = "unwrap_or (''node-reg-'' @ new_v4 (E 2) 0) t"
  let ?look = "store_call (\<lambda>v. ps_node_registration_token v (E 3) ?token)"
  have st: "ok (snd (?look st0))"
    by (rule tripleD [OF store_call_ok(1) inv]) (rule reads)
  have "triple ok (and_then (call (\<lambda>v. ps_create_node_registration_token v e r)) (\<lambda>_. return_op x)) ok"
    for e r and x :: "status_code \<times> node_registration_token_record"
    by (intro steps) (simp_all add: writing)
  note create = tripleD [OF this, OF st]
  show "ok (snd (let token = ?token in
      case store_call (\<lambda>v. ps_node_registration_token v (E 3) token) st0 of
        (Ok _, st) \<Rightarrow> (Err (CONFLICT, ''registration token already exists''), st)
      | (Err (NotFound _), st) \<Rightarrow>
          (let record = node_registration_token_new (E 4) (app_tenant_id st)
                 (''regtok-'' @ new_v4 (E 4) 0) token in
           and_then (call (\<lambda>v. ps_create_node_registration_token v (E 5) record)) (\<lambda>_.
           return_op (CREATED, record)) st)
      | (Err error, st) \<Rightarrow> (Err (to_http_error error), st)))"
    using st create by (cases "?look st0") (auto simp: Let_def split: result.split store_error.split)
qed

lemma compute_deployment_readiness_ok: "triple ok (compute_deployment_readiness E d) ok"
  unfolding compute_deployment_readiness_def by (intro steps) (simp_all add: reads)

lemma enqueue_rollback_command_ok: "triple ok (enqueue_rollback_command L E d) ok"
  unfolding enqueue_rollback_command_def by (intro sign_and_enqueue_ok steps) (simp_all add: reads)

lemma compile_deployment_ok: "triple ok (compile_deployment L J E h r) ok"
  unfolding compile_deployment_def compile_uncached_def compile_for_node_def Let_def
  by (rule sign_and_enqueue_ok steps | simp add: reads writing)+

lemma items_ok: "triple ok (profile_items E k ps) ok" "triple ok (deployment_items E k ds) ok"
proof -
  show "triple ok (profile_items E k ps) ok"
    by (induction ps arbitrary: k) (auto intro!: steps simp: reads)
  show "triple ok (deployment_items E k ds) ok"
    by (induction ds arbitrary: k) (auto intro!: steps simp: reads)
qed

lemma reading_handlers_ok:
  "triple ok (list_nodes E) ok" "triple ok (get_node_heartbeat E n) ok"
  "triple ok (get_latest_usage E n) ok" "triple ok (get_latest_usage_rollup E c b) ok"
  "triple ok (get_artifact_bytes E a) ok" "triple ok (list_profiles E) ok"
  "triple ok (list_clients E) ok" "triple ok (get_client_quota E c) ok"
  "triple ok (get_client_expiry E c) ok" "triple ok (list_deployments E) ok"
  "triple ok (get_deployment E d) ok" "triple ok (get_rollback_pointer E d) ok"
  "triple ok (get_deployment_snapshot E d) ok" "triple ok (get_deployment_health E d) ok"
  "triple ok (get_deployment_readiness E d) ok" "triple ok runner_result_count ok"
  unfolding list_nodes_def get_node_heartbeat_def get_latest_usage_def get_latest_usage_rollup_def
    get_artifact_bytes_def list_profiles_def list_clients_def get_client_quota_def get_client_expiry_def
    list_deployments_def get_deployment_def get_rollback_pointer_def get_deployment_snapshot_def
    get_deployment_health_def get_deployment_readiness_def runner_result_count_def
  by (rule compute_deployment_readiness_ok items_ok steps | simp add: reads)+

lemma node_handlers_ok:
  "triple ok (register_node L E r) ok" "triple ok (list_registration_tokens E) ok"
  "triple ok (rotate_runner_result_key L E n k) ok" "triple ok (runner_heartbeat E n h j) ok"
  "triple ok (runner_usage E n h u) ok" "triple ok (next_runner_command E n q h) ok"
  unfolding register_node_def list_registration_tokens_def rotate_runner_result_key_def
    runner_heartbeat_def runner_usage_def next_runner_command_def
  by (rule ensure_default_registration_token_ok steps | simp add: reads writing)+

lemma profile_handlers_ok:
  "triple ok (create_vless_reality_profile E i sn) ok" "triple ok (create_shadowsocks_profile E i port) ok"
  "triple ok (create_trojan_profile E i sn port) ok" "triple ok (create_client E c) ok"
  unfolding create_vless_reality_profile_def create_shadowsocks_profile_def create_trojan_profile_def
    create_client_def
  by (rule store_profile_ok steps | simp add: reads writing)+

lemma push_runner_result_ok: "triple ok (push_runner_result r) ok"
  by (simp add: triple_def push_runner_result_def process_keeps_def)

lemma deployment_handlers_ok:
  "triple ok (submit_runner_result L E n h x) ok" "triple ok (queue_rollback L E d) ok"
  "triple ok (record_runner_deployment_health E n d h s pl) ok"
  "triple ok (advance_deployment_rollout L E d) ok"
  unfolding submit_runner_result_def queue_rollback_def record_runner_deployment_health_def
    advance_deployment_rollout_def
  by (rule push_runner_result_ok enqueue_rollback_command_ok compute_deployment_readiness_ok steps
      | simp add: reads writing)+

lemma subscription_handlers_ok:
  "triple ok (get_subscription L E i t h) ok" "triple ok (issue_subscription_token E i) ok"
  "triple ok (rotate_subscription_token E i) ok"
  unfolding get_subscription_def issue_subscription_token_def rotate_subscription_token_def
  by (rule steps | simp add: reads writing)+

lemmas handlers_ok = reading_handlers_ok node_handlers_ok profile_handlers_ok deployment_handlers_ok
  subscription_handlers_ok issue_registration_token_ok compile_deployment_ok

section \<open>Every request\<close>

lemma extracting_ok: "ok st \<Longrightarrow> (\<And>a. ok (snd (f a st))) \<Longrightarrow> ok (snd (extracting x f st))"
  by (simp add: extracting_def split: result.split)

lemma dispatch_ok: "ok st \<Longrightarrow> ok (snd (dispatch L J W E ep ps q h b st))"
  by (cases ep) (auto simp: handlers_ok [THEN tripleD] intro!: extracting_ok)

lemma serve_ok: "ok st \<Longrightarrow> ok (snd (serve L J W E m path q hs b st))"
  unfolding serve_def by (auto intro!: extracting_ok dispatch_ok split: option.split)

end

section \<open>The contract of \<open>MemoryStore\<close>\<close>

lemma exec_op_run_op: "run_op (memory_store L T) e x s = exec_op L T e x s"
  by (cases x) simp_all

lemma memory_queue_frame:
  "\<forall>n c. x \<noteq> EnqueueCommand n c \<Longrightarrow> \<forall>n q. x \<noteq> NextCommand n q \<Longrightarrow>
    memory_queue (exec_op L T e x s) = memory_queue s"
  by (cases x) (auto simp: memory_queue_def fun_eq_iff mem_register_node_def mem_record_artifact_def
      mem_consume_node_registration_token_def Let_def split: option.split)

lemma memory_queue_poll:
  "set (memory_queue (snd (mem_next_runner_command n q s)) i) \<subseteq> set (memory_queue s i)"
proof -
  obtain s' where s': "mem_next_runner_command n q s
        = (Ok (fst (pop_front (drop_stale q (memory_queue s n)))), s')"
      "memory_queue s' = (memory_queue s)(n := snd (pop_front (drop_stale q (memory_queue s n))))"
    using mq.nxt_pops [of undefined undefined e n q s for e] by auto
  obtain u where "memory_queue s n = u @ drop_stale q (memory_queue s n)" using drop_stale_suffix by blast
  then have "set (drop_stale q (memory_queue s n)) \<subseteq> set (memory_queue s n)" by (metis Un_upper2 set_append)
  then show ?thesis using s' by (cases "drop_stale q (memory_queue s n)") auto
qed

lemma memory_kept_writes:
  assumes "memory_kept L key s" and "admissible_op L key x"
  shows "memory_kept L key (run_op (memory_store L T) e x s)"
proof -
  have inv: "store_inv L (exec_op L T e x s)"
    using assms(1) by (intro exec_op_inv) (simp add: memory_kept_def)
  have "signed_for L key n c" if "c \<in> set (memory_queue (exec_op L T e x s) n)" for n c
  proof (cases "(\<forall>n c. x \<noteq> EnqueueCommand n c) \<and> (\<forall>n q. x \<noteq> NextCommand n q)")
    case True
    then show ?thesis using that assms(1) by (simp add: memory_queue_frame memory_kept_def)
  next
    case False
    then consider i d where "x = EnqueueCommand i d" | i q where "x = NextCommand i q" by blast
    then show ?thesis
    proof cases
      case 1
      then show ?thesis using that assms mq.enq_state [of L T e i d s]
        by (auto simp: memory_kept_def split: if_splits)
    next
      case 2
      then show ?thesis using that assms(1) memory_queue_poll [of i q s n] by (auto simp: memory_kept_def)
    qed
  qed
  with inv show ?thesis by (simp add: memory_kept_def exec_op_run_op)
qed

interpretation memory_web: kept_store "memory_store L T" L key "memory_kept L key"
  by unfold_locales (simp_all add: memory_kept_writes)

text \<open>Over \<open>MemoryStore\<close> the waiting commands stay signed even when a sequence counter wraps around.\<close>

lemma memory_requests_keep_signatures:
  assumes "process_keeps (memory_store L T) key (memory_kept L key) st"
    and "c \<in> set (memory_queue (app_store_state (snd (serve L J W E m path q hs b st))) n)"
  shows "signed_for L key n c"
  using memory_web.serve_ok [OF assms(1), of J W E m path q hs b] assms(2)
  by (simp add: process_keeps_def memory_kept_def)

end
