(* ===== verification/Postgres_Queue.thy ===== *)
theory Postgres_Queue
  imports Postgres_Props
begin

text \<open>
  The command queue of \<open>PostgresStore\<close> against the one of \<open>MemoryStore\<close>: the pending rows of a node
  are the queue in memory (\<open>queue_sim\<close>), and over a working connection every history of calls
  delivers the same commands from both, as long as the sequence numbers of a node increase and stay
  below \<open>2^63\<close>, where the cast to \<open>bigint\<close> keeps their order.
\<close>

definition seq_ok :: "u64 \<Rightarrow> bool" where
  "seq_ok q \<longleftrightarrow> unat q < 2 ^ 63"

text \<open>Histories the control plane produces: each node's sequence numbers go up.\<close>

fun admissible :: "pg_serde \<Rightarrow> pg_db \<Rightarrow> (string \<Rightarrow> u64) \<Rightarrow> queue_call list \<Rightarrow> bool" where
  "admissible S d mx [] \<longleftrightarrow> True"
| "admissible S d mx (Enqueue e i c # calls) \<longleftrightarrow>
     is_ok (sv_command S c) \<and> has_tenant d (cmd_tenant_id (src_command c)) \<and> has_node d i
     \<and> seq_ok (cmd_sequence (src_command c)) \<and> mx i < cmd_sequence (src_command c)
     \<and> admissible S d (mx(i := cmd_sequence (src_command c))) calls"
| "admissible S d mx (Poll e i q # calls) \<longleftrightarrow> seq_ok q \<and> admissible S d mx calls"

definition row_of :: "pg_serde \<Rightarrow> pg_command_row \<Rightarrow> signed_runner_command \<Rightarrow> bool" where
  "row_of S r c \<longleftrightarrow>
     sv_command S c = Ok (pq_envelope_json r) \<and> pq_sequence r = cmd_sequence (src_command c)"

text \<open>
  The rows of a node are in the order of their sequence numbers, none above \<open>mx\<close>, and the
  pending ones are the queue.
\<close>

definition queue_sim ::
  "pg_serde \<Rightarrow> (string \<Rightarrow> u64) \<Rightarrow> pg_command_row list \<Rightarrow> (string \<Rightarrow> signed_runner_command list) \<Rightarrow> bool" where
  "queue_sim S mx rows queue \<longleftrightarrow>
     (\<forall>r \<in> set rows. seq_ok (pq_sequence r) \<and> pq_sequence r \<le> mx (pq_node_id r)) \<and>
     (\<forall>n. sorted_wrt (<) (map pq_sequence (filter (\<lambda>r. pq_node_id r = n) rows))) \<and>
     (\<forall>n. list_all2 (row_of S) (filter (pending_row n) rows) (queue n))"

section \<open>Signed comparison\<close>

lemma sint_seq:
  assumes "seq_ok q"
  shows "sint q = uint q"
proof -
  have "int (unat q) < int (2 ^ 63)" using assms unfolding seq_ok_def by (simp only: of_nat_less_iff)
  then have "uint q < 2 ^ 63" by simp
  moreover have "- (2 ^ 63) \<le> uint q" by (rule order_trans [of _ 0]) simp_all
  ultimately have "signed_take_bit 63 (uint q) = uint q"
    by (intro signed_take_bit_int_eq_self) simp_all
  then show ?thesis by (simp add: sint_uint)
qed

lemma seq_compare:
  "seq_ok a \<Longrightarrow> seq_ok b \<Longrightarrow> a <s b \<longleftrightarrow> a < b"
  "seq_ok a \<Longrightarrow> seq_ok b \<Longrightarrow> a \<le>s b \<longleftrightarrow> a \<le> b"
  by (simp_all add: word_sless_alt word_sle_eq word_less_def word_le_def sint_seq)

section \<open>Rows and queue\<close>

lemma filter_update_drop:
  "(\<And>r. A r \<Longrightarrow> \<not> Q (f r)) \<Longrightarrow> filter Q (update_where A f rows) = filter (\<lambda>r. Q r \<and> \<not> A r) rows"
  by (induction rows) (auto simp: update_where_def)

lemma filter_update_other:
  assumes "\<And>r. A r \<Longrightarrow> \<not> Q r" and "\<And>r. A r \<Longrightarrow> \<not> Q (f r)"
  shows "filter Q (update_where A f rows) = filter Q rows"
  using filter_update_drop [of A Q f rows, OF assms(2)] assms(1) by (metis (mono_tags, lifting) filter_cong)

lemma sim_rows:
  assumes "queue_sim S mx rows queue" and "\<And>r. pq_sequence (f r) = pq_sequence r"
    and "\<And>r. pq_node_id (f r) = pq_node_id r"
  shows "(\<forall>r \<in> set (update_where A f rows). seq_ok (pq_sequence r) \<and> pq_sequence r \<le> mx (pq_node_id r))
    \<and> (\<forall>n. sorted_wrt (<) (map pq_sequence (filter (\<lambda>r. pq_node_id r = n) (update_where A f rows))))"
  using assms by (auto simp: queue_sim_def set_update_where filter_update_where)

lemma sim_pending_sorted:
  assumes "queue_sim S mx rows queue"
  shows "sorted_wrt (\<lambda>x y. pq_sequence x < pq_sequence y) (filter (pending_row n) rows)"
proof -
  have "sorted_wrt (\<lambda>x y. pq_sequence x < pq_sequence y) (filter (\<lambda>r. pq_node_id r = n) rows)"
    using assms by (simp add: queue_sim_def sorted_wrt_map)
  then have "sorted_wrt (\<lambda>x y. pq_sequence x < pq_sequence y)
      (filter (\<lambda>r. pq_status r = ''pending'') (filter (\<lambda>r. pq_node_id r = n) rows))"
    by (rule sorted_wrt_filter)
  then show ?thesis by (simp add: pending_row_def [abs_def] conj_commute)
qed

lemma stale_rows:
  "list_all2 (row_of S) ps queue \<Longrightarrow> sorted_wrt (\<lambda>x y. pq_sequence x < pq_sequence y) ps \<Longrightarrow>
     list_all2 (row_of S) (filter (\<lambda>r. q < pq_sequence r) ps) (drop_stale q queue)"
proof (induction ps queue rule: list_all2_induct)
  case (Cons r ps c queue)
  then show ?case
  proof (cases "q < pq_sequence r")
    case True
    with Cons.prems have "filter (\<lambda>r. q < pq_sequence r) ps = ps" by (auto simp: filter_id_conv)
    with True Cons show ?thesis by (auto simp: row_of_def)
  qed (auto simp: row_of_def)
qed simp

lemma first_is_min:
  assumes "sorted_wrt (\<lambda>x y. pq_sequence x < pq_sequence y) (r # rs)"
    and "\<And>x. x \<in> set (r # rs) \<Longrightarrow> seq_ok (pq_sequence x)"
  shows "max_by_key (\<lambda>r. - sint (pq_sequence r)) (r # rs) = Some r"
proof -
  obtain m where m: "max_by_key (\<lambda>r. - sint (pq_sequence r)) (r # rs) = Some m"
    by (metis list.distinct(1) max_by_key_None not_Some_eq)
  have "m \<in> set (r # rs)" "uint (pq_sequence m) \<le> uint (pq_sequence r)"
    using max_by_key_Some [OF m] assms(2) sint_seq by auto
  with assms(1) have "m = r" by (auto simp: word_less_def)
  with m show ?thesis by simp
qed

section \<open>One call\<close>

lemma enqueue_sim:
  assumes sim: "queue_sim S mx (t_runner_commands (pg_db s)) queue"
    and adm: "admissible S (pg_db s) mx (Enqueue e i c # calls)"
  shows "\<exists>s'. pg_enqueue_runner_command healthy S i c s = (Ok (), s')
    \<and> t_tenants (pg_db s') = t_tenants (pg_db s) \<and> t_nodes (pg_db s') = t_nodes (pg_db s)
    \<and> queue_sim S (mx(i := cmd_sequence (src_command c))) (t_runner_commands (pg_db s'))
        (queue(i := queue i @ [c]))"
proof -
  let ?rows = "t_runner_commands (pg_db s)"
  obtain j where j: "sv_command S c = Ok j" using adm by (auto simp: is_ok_iff)
  let ?row = "\<lparr>pq_tenant_id = cmd_tenant_id (src_command c), pq_node_id = i,
    pq_sequence = cmd_sequence (src_command c), pq_envelope_json = j, pq_status = ''pending'',
    pq_leased_at = None\<rparr>"
  have below: "pq_sequence r < cmd_sequence (src_command c)" if "r \<in> set ?rows" "pq_node_id r = i" for r
    using sim adm that by (auto simp: queue_sim_def intro: le_less_trans)
  then have "command_row_key ?row \<notin> command_row_key ` set ?rows"
    by (auto simp: command_row_key_def) (metis less_irrefl)
  then have ins: "insert_row command_row_key id True True ?row ?rows = Ok (?rows @ [?row])"
    by (simp add: insert_row_def)
  have "queue_sim S (mx(i := cmd_sequence (src_command c))) (?rows @ [?row]) (queue(i := queue i @ [c]))"
    unfolding queue_sim_def
  proof (intro conjI allI)
    show "\<forall>r \<in> set (?rows @ [?row]). seq_ok (pq_sequence r)
        \<and> pq_sequence r \<le> (mx(i := cmd_sequence (src_command c))) (pq_node_id r)"
      using sim adm below by (auto simp: queue_sim_def less_imp_le)
    fix n
    show "sorted_wrt (<) (map pq_sequence (filter (\<lambda>r. pq_node_id r = n) (?rows @ [?row])))"
      using sim below by (auto simp: queue_sim_def sorted_wrt_append)
    show "list_all2 (row_of S) (filter (pending_row n) (?rows @ [?row])) ((queue(i := queue i @ [c])) n)"
      using sim j by (auto simp: queue_sim_def pending_row_def row_of_def intro!: list_all2_appendI)
  qed
  with ins adm j show ?thesis
    by (simp add: pg_enqueue_runner_command_def serde_result_def and_then_def op_units
        sql_insert_command_def)
qed

lemma poll_sim:
  assumes sim: "queue_sim S mx (t_runner_commands (pg_db s)) queue" and q: "seq_ok q"
    and S: "pg_codec S"
  shows "\<exists>s'. pg_next_runner_command healthy S e i q s
      = (Ok (fst (pop_front (drop_stale q (queue i)))), s')
    \<and> t_tenants (pg_db s') = t_tenants (pg_db s) \<and> t_nodes (pg_db s') = t_nodes (pg_db s)
    \<and> queue_sim S mx (t_runner_commands (pg_db s'))
        (queue(i := snd (pop_front (drop_stale q (queue i)))))"
proof -
  let ?rows = "t_runner_commands (pg_db s)"
  let ?skip = "\<lambda>r. pending_row i r \<and> pq_sequence r \<le>s q"
  let ?rows1 = "update_where ?skip (\<lambda>r. r\<lparr>pq_status := ''skipped''\<rparr>) ?rows"
  let ?d1 = "(pg_db s)\<lparr>t_runner_commands := ?rows1\<rparr>"
  let ?live = "filter (\<lambda>r. q < pq_sequence r) (filter (pending_row i) ?rows)"
  have ok: "seq_ok (pq_sequence r)" if "r \<in> set ?rows" for r using sim that by (simp add: queue_sim_def)
  have pend1: "filter (pending_row i) ?rows1 = ?live"
    by (subst filter_update_drop)
      (auto simp: pending_row_def seq_compare ok q intro!: filter_cong)
  have other1: "filter (pending_row n) ?rows1 = filter (pending_row n) ?rows" if "n \<noteq> i" for n
    using that by (intro filter_update_other) (auto simp: pending_row_def)
  have rows1: "(\<forall>r \<in> set ?rows1. seq_ok (pq_sequence r) \<and> pq_sequence r \<le> mx (pq_node_id r))
      \<and> (\<forall>n. sorted_wrt (<) (map pq_sequence (filter (\<lambda>r. pq_node_id r = n) ?rows1)))"
    by (rule sim_rows [OF sim]) simp_all
  have live: "list_all2 (row_of S) ?live (drop_stale q (queue i))"
    by (rule stale_rows [OF _ sim_pending_sorted [OF sim]]) (use sim in \<open>simp add: queue_sim_def\<close>)
  have sim1: "queue_sim S mx ?rows1 (queue(i := drop_stale q (queue i)))"
    using rows1 pend1 other1 live sim by (auto simp: queue_sim_def)
  have cand: "filter (\<lambda>r. pending_row i r \<and> q <s pq_sequence r) ?rows1 = ?live"
  proof -
    have "filter (\<lambda>r. pending_row i r \<and> q <s pq_sequence r) ?rows1
        = filter (\<lambda>r. q <s pq_sequence r) (filter (pending_row i) ?rows1)"
      by (simp add: conj_commute)
    also have "\<dots> = ?live"
      unfolding pend1 by (auto simp: seq_compare ok q intro!: filter_cong)
    finally show ?thesis .
  qed
  have next1: "pg_next_runner_command healthy S e i q s
      = (case max_by_key (\<lambda>r. - sint (pq_sequence r)) ?live of
          None \<Rightarrow> (Ok None, \<lparr>pg_db = ?d1, pg_calls = pg_calls s + 2\<rparr>)
        | Some c \<Rightarrow> (bind_result (serde_result (sv_command_from S (pq_envelope_json c))) (\<lambda>c. Ok (Some c)),
            \<lparr>pg_db = ?d1\<lparr>t_runner_commands := update_where (\<lambda>r. command_row_key r = command_row_key c)
                (\<lambda>r. r\<lparr>pq_status := ''leased'', pq_leased_at := Some (utc_now e 0)\<rparr>) ?rows1\<rparr>,
             pg_calls = pg_calls s + 2\<rparr>))"
    by (simp add: pg_next_runner_command_def and_then_def sql_skip_commands_def sql_lease_command_def
        cand op_units split: option.split)
  show ?thesis
  proof (cases ?live)
    case Nil
    with live have "drop_stale q (queue i) = []" by simp
    with sim1 show ?thesis unfolding next1 Nil by simp
  next
    case (Cons r rs)
    with live obtain c cs where c: "drop_stale q (queue i) = c # cs" "row_of S r c"
      "list_all2 (row_of S) rs cs"
      by (auto simp: list_all2_Cons1)
    have sorted: "sorted_wrt (\<lambda>x y. pq_sequence x < pq_sequence y) (r # rs)"
      using sorted_wrt_filter [OF sim_pending_sorted [OF sim, of i], of "\<lambda>r. q < pq_sequence r"]
      unfolding Cons .
    have mem: "x \<in> set (r # rs) \<Longrightarrow> x \<in> set ?rows \<and> pending_row i x" for x
      unfolding Cons [symmetric] by auto
    have min: "max_by_key (\<lambda>r. - sint (pq_sequence r)) (r # rs) = Some r"
      by (rule first_is_min [OF sorted]) (use mem ok in blast)
    let ?lease = "\<lambda>x. command_row_key x = command_row_key r"
    let ?rows2 = "update_where ?lease
      (\<lambda>r. r\<lparr>pq_status := ''leased'', pq_leased_at := Some (utc_now e 0)\<rparr>) ?rows1"
    have "filter (pending_row i) ?rows2 = filter (\<lambda>x. \<not> ?lease x) (filter (pending_row i) ?rows1)"
      by (subst filter_update_drop) (auto simp: pending_row_def conj_commute)
    also have "\<dots> = rs"
      unfolding pend1 Cons using sorted by (auto simp: command_row_key_def filter_id_conv)
    finally have pend2: "filter (pending_row i) ?rows2 = rs" .
    have other2: "filter (pending_row n) ?rows2 = filter (pending_row n) ?rows1" if "n \<noteq> i" for n
      using that mem [of r] by (intro filter_update_other) (auto simp: pending_row_def command_row_key_def)
    have "list_all2 (row_of S) (filter (pending_row n) ?rows2) ((queue(i := cs)) n)" for n
    proof (cases "n = i")
      case False
      then have "list_all2 (row_of S) (filter (pending_row n) ?rows1) (queue n)"
        using other1 sim by (simp add: queue_sim_def)
      with False other2 show ?thesis by simp
    qed (use pend2 c(3) in simp)
    then have "queue_sim S mx ?rows2 (queue(i := cs))"
      using sim_rows [OF sim1, of "\<lambda>r. r\<lparr>pq_status := ''leased'', pq_leased_at := Some (utc_now e 0)\<rparr>" ?lease]
      unfolding queue_sim_def by simp
    moreover have "sv_command_from S (pq_envelope_json r) = Ok c"
      using c(2) S by (auto simp: row_of_def pg_codec_def)
    ultimately show ?thesis
      unfolding next1 Cons min c(1) by (simp add: serde_result_def)
  qed
qed

section \<open>Histories\<close>

lemma admissible_tables:
  "t_tenants d' = t_tenants d \<Longrightarrow> t_nodes d' = t_nodes d \<Longrightarrow>
     admissible S d' mx calls = admissible S d mx calls"
  by (induction S d mx calls rule: admissible.induct) simp_all

lemma queue_refines:
  assumes "queue_sim S mx (t_runner_commands (pg_db s)) (memory_queue m)"
    and "admissible S (pg_db s) mx calls" and "pg_codec S"
  shows "fst (deliveries (ps_enqueue_runner_command (postgres_store L S healthy))
      (ps_next_runner_command (postgres_store L S healthy)) n calls s)
    = fst (deliveries (ps_enqueue_runner_command (memory_store L' T))
      (ps_next_runner_command (memory_store L' T)) n calls m)"
  using assms(1,2)
proof (induction calls arbitrary: s m mx)
  case (Cons call calls)
  show ?case
  proof (cases call)
    case (Enqueue e i c)
    obtain s' where s': "pg_enqueue_runner_command healthy S i c s = (Ok (), s')"
      "t_tenants (pg_db s') = t_tenants (pg_db s)" "t_nodes (pg_db s') = t_nodes (pg_db s)"
      "queue_sim S (mx(i := cmd_sequence (src_command c))) (t_runner_commands (pg_db s'))
        ((memory_queue m)(i := memory_queue m i @ [c]))"
      using enqueue_sim Cons.prems unfolding Enqueue by blast
    obtain m' where m': "ps_enqueue_runner_command (memory_store L' T) e i c m = (Ok (), m')"
      "memory_queue m' = (memory_queue m)(i := memory_queue m i @ [c])"
      using mq.enq_appends [of L' T e i c m] by blast
    have adm: "admissible S (pg_db s') (mx(i := cmd_sequence (src_command c))) calls"
      using Cons.prems(2) admissible_tables [OF s'(2,3)] unfolding Enqueue by simp
    note Cons.IH [of "mx(i := cmd_sequence (src_command c))" s' m', unfolded m'(2), OF s'(4) adm]
    with s'(1) m'(1) show ?thesis unfolding Enqueue by simp
  next
    case (Poll e i q)
    have q: "seq_ok q" using Cons.prems(2) unfolding Poll by simp
    obtain s' where s': "pg_next_runner_command healthy S e i q s
        = (Ok (fst (pop_front (drop_stale q (memory_queue m i)))), s')"
      "t_tenants (pg_db s') = t_tenants (pg_db s)" "t_nodes (pg_db s') = t_nodes (pg_db s)"
      "queue_sim S mx (t_runner_commands (pg_db s'))
        ((memory_queue m)(i := snd (pop_front (drop_stale q (memory_queue m i)))))"
      using poll_sim [OF Cons.prems(1) q assms(3), of e i] by blast
    obtain m' where m': "ps_next_runner_command (memory_store L' T) e i q m
        = (Ok (fst (pop_front (drop_stale q (memory_queue m i)))), m')"
      "memory_queue m' = (memory_queue m)(i := snd (pop_front (drop_stale q (memory_queue m i))))"
      using mq.nxt_pops [of L' T e i q m] by blast
    have adm: "admissible S (pg_db s') mx calls"
      using Cons.prems(2) admissible_tables [OF s'(2,3)] unfolding Poll by simp
    note Cons.IH [of mx s' m', unfolded m'(2), OF s'(4) adm]
    with s'(1) m'(1) show ?thesis
      unfolding Poll by (auto split: prod.splits option.splits)
  qed
qed simp

text \<open>
  C10. \<open>PostgresStore\<close> refines \<open>MemoryStore\<close> as a command queue: from the empty queue, every history
  of enqueue and poll calls of all nodes in which each node's sequence numbers increase hands out
  the same commands in the same order from both.
\<close>

theorem pg_queue_refines_memory:
  assumes "t_runner_commands (pg_db s) = []" and "admissible S (pg_db s) (\<lambda>_. 0) calls"
    and "pg_codec S"
  shows "fst (deliveries (ps_enqueue_runner_command (postgres_store L S healthy))
      (ps_next_runner_command (postgres_store L S healthy)) n calls s)
    = fst (deliveries (ps_enqueue_runner_command (memory_store L T))
      (ps_next_runner_command (memory_store L T)) n calls memory_state_default)"
proof (rule queue_refines [OF _ assms(2,3)])
  show "queue_sim S (\<lambda>_. 0) (t_runner_commands (pg_db s)) (memory_queue memory_state_default)"
    by (simp add: assms(1) queue_sim_def memory_queue_def memory_state_default_def)
qed

theorem pg_queue_refines_memory_witness:
  "fst (deliveries (ps_enqueue_runner_command (postgres_store demo_libs demo_serde healthy))
     (ps_next_runner_command (postgres_store demo_libs demo_serde healthy)) ''node-a''
     [Enqueue demo_env ''node-a'' demo_envelope, Poll demo_env ''node-a'' 0, Poll demo_env ''node-a'' 1]
     (pg_demo []))
   = [demo_envelope]"
proof -
  have facts: "t_runner_commands (pg_db (pg_demo [])) = []" "t_tenants (pg_db (pg_demo [])) = [''t'']"
    "map pn_id (t_nodes (pg_db (pg_demo []))) = [''node-a'']"
    by code_simp+
  then have "admissible demo_serde (pg_db (pg_demo [])) (\<lambda>_. 0)
      [Enqueue demo_env ''node-a'' demo_envelope, Poll demo_env ''node-a'' 0, Poll demo_env ''node-a'' 1]"
    by (simp add: demo_serde_def seq_ok_def demo_envelope_def demo_command_def)
  from pg_queue_refines_memory [OF facts(1) this demo_codec, of demo_libs "''node-a''" "''t''"]
  show ?thesis
    by (simp add: mem_enqueue_runner_command_def mem_next_runner_command_def
        memory_state_default_def demo_envelope_def demo_command_def)
qed

end
