(* ===== verification/Postgres_Served.thy ===== *)
theory Postgres_Served
  imports Served_Store Network_Props Postgres_Props Postgres_Queue
begin

text \<open>
  \<open>PostgresStore\<close> behind the HTTP surface: any number of control-plane processes serve requests on one
  database, are restarted, and lose their connection at any statement. The tables keep their
  invariant, every command row is signed by the control plane for its node, and what a poll
  returns is what the polling runner verifies.
\<close>

section \<open>Definitions\<close>

text \<open>A row that holds a command, signed for its node.\<close>

definition row_signed :: "libs \<Rightarrow> pg_serde \<Rightarrow> signing_key \<Rightarrow> pg_command_row \<Rightarrow> bool" where
  "row_signed L S key r \<longleftrightarrow> (\<exists>c. sv_command S c = Ok (pq_envelope_json r) \<and>
     pq_sequence r = cmd_sequence (src_command c) \<and> signed_for L key (pq_node_id r) c)"

definition tables_kept :: "libs \<Rightarrow> pg_serde \<Rightarrow> signing_key \<Rightarrow> pg_state \<Rightarrow> bool" where
  "tables_kept L S key s \<longleftrightarrow> pg_inv L S (pg_db s) \<and> commands_hold (row_signed L S key) (pg_db s)"

text \<open>
  The database after any sequence of requests. Each is served by a process \<open>st\<close> of which only the
  store and the key are fixed: its counters, tokens and tenant are whatever its own past made of
  them, so that restarted and concurrent processes are covered.
\<close>

inductive pg_served ::
  "libs \<Rightarrow> (compile_deployment_response \<Rightarrow> (json, string) result) \<Rightarrow> pg_serde \<Rightarrow> pg_state \<Rightarrow> bool"
  for L :: libs and J :: "compile_deployment_response \<Rightarrow> (json, string) result" and S :: pg_serde
where
  start: "pg_served L J S \<lparr>pg_db = pg_empty, pg_calls = k\<rparr>"
| request: "pg_served L J S s \<Longrightarrow> app_store st = postgres_store L S F \<Longrightarrow> app_store_state st = s \<Longrightarrow>
    app_signing_key st = dev_control_plane_signing_key \<Longrightarrow>
    pg_served L J S (app_store_state (snd (serve L J W E m path q hs b st)))"

text \<open>
  A process on an empty database that is sent a registration, a Trojan profile, a client and a
  compile request, none of which has a capture in its path.
\<close>

definition relay_serde :: pg_serde where
  "relay_serde = demo_serde\<lparr>sv_command := (\<lambda>c. Ok (json_of_command c)),
     sv_command_from := (\<lambda>j. ok_or ''decode error'' (command_of_json j)),
     sv_material := (\<lambda>m. case m of TrojanPassword w \<Rightarrow> Ok (as_bytes w) | _ \<Rightarrow> Err ''unknown''),
     sv_material_from := (\<lambda>b. Ok (TrojanPassword (chars_of_bytes b)))\<rparr>"

definition relay_web :: web where
  "relay_web = demo_web\<lparr>wb_match := (\<lambda>_ path. Some (path, [])),
     jx_trojan := (\<lambda>_. Ok (''p'', ''example.com'', None)),
     jx_client := (\<lambda>_. Ok \<lparr>ccr_client_id = ''c'', ccr_profile_id = ''p'', ccr_display_name = ''Alice'',
       ccr_uuid = None, ccr_kind = Some ''trojan'', ccr_method = None, ccr_password = Some ''secret'',
       ccr_quota_bytes = None, ccr_expires_at = None\<rparr>),
     jx_compile := (\<lambda>_. Ok \<lparr>cdr_profile_id = ''p'', cdr_node_id = ''node-a''\<rparr>)\<rparr>"

definition relay_boot :: "pg_state app_state" where
  "relay_boot = with_store_and_runner_token demo_libs ''reg'' ''run'' ''t''
     (postgres_store demo_libs relay_serde healthy) \<lparr>pg_db = pg_empty, pg_calls = 0\<rparr>"

definition relay_post :: "string \<Rightarrow> http_body \<Rightarrow> pg_state app_state \<Rightarrow> pg_state app_state" where
  "relay_post path b st = snd (serve demo_libs (\<lambda>_. Ok JNull) relay_web (\<lambda>_. demo_env) POST path None [] b st)"

definition relay_headers :: headers where
  "relay_headers name = (if name = ''x-runner-token'' then Some (Some ''run'') else None)"

definition relay_compiled :: "pg_state app_state" where
  "relay_compiled = relay_post ''/deployments/compile'' NoBody (relay_post ''/clients'' NoBody
     (relay_post ''/profiles/trojan'' NoBody (relay_post ''/nodes/register'' (JsonBody (JObject
        [(''registration_token'', JString ''reg''), (''node_id'', JString ''node-a''),
         (''xray_version'', JString ''1.8.4'')])) relay_boot)))"

section \<open>The contract of \<open>PostgresStore\<close>\<close>

lemma row_signed_blind: "lease_blind (row_signed L S key)"
  by (simp add: lease_blind_def row_signed_def)

lemma kept_op:
  "keeps (pg_inv L S) m \<Longrightarrow> keeps (commands_hold (row_signed L S key)) m \<Longrightarrow> tables_kept L S key s \<Longrightarrow>
    tables_kept L S key (snd (m s))"
  by (simp add: tables_kept_def keeps_def)

lemma enqueue_signed:
  assumes "signed_for L key n c"
  shows "keeps (commands_hold (row_signed L S key)) (pg_enqueue_runner_command F S n c)"
  using assms by (intro enqueue_holds row_signed_blind) (auto simp: row_signed_def)

lemma tables_kept_writes:
  assumes "tables_kept L S key s" and "admissible_op L key x"
  shows "tables_kept L S key (run_op (postgres_store L S F) e x s)"
  using assms(2)
  by (cases x) (simp_all add: kept_op [OF _ _ assms(1)] method_inv methods_hold enqueue_signed row_signed_blind)

interpretation pg_web: kept_store "postgres_store L S F" L key "tables_kept L S key"
  by unfold_locales (simp_all add: tables_kept_writes kept_op reads_keep)

lemma pg_served_kept: "pg_served L J S s \<Longrightarrow> tables_kept L S dev_control_plane_signing_key s"
proof (induction rule: pg_served.induct)
  case (start k)
  then show ?case by (simp add: tables_kept_def pg_empty_inv) (simp add: commands_hold_def pg_empty_def)
next
  case (request s st F W E m path q hs b)
  then have "process_keeps (postgres_store L S F) dev_control_plane_signing_key
      (tables_kept L S dev_control_plane_signing_key) st"
    by (simp add: process_keeps_def)
  from pg_web.serve_ok [OF this] show ?case by (simp add: process_keeps_def)
qed

text \<open>For a number below \<open>2 ^ 63\<close>, what is greater as a \<open>bigint\<close> is greater.\<close>

lemma signed_less:
  assumes "seq_ok q" and "q <s k"
  shows "q < k"
proof -
  have "sint k = take_bit 64 (uint k) - 2 ^ 64 * of_bool (bit (uint k) 63)"
    using signed_take_bit_eq_take_bit_minus [of 63 "uint k"] by (simp add: sint_uint)
  moreover have "take_bit 64 (uint k) = uint k"
    using uint_bounded [of k] by (intro take_bit_int_eq_self) simp_all
  ultimately have "sint k \<le> uint k" by simp
  then show ?thesis using assms(2) sint_seq [OF assms(1)] by (simp add: word_sless_alt word_less_def)
qed

lemma stale_command_refused:
  assumes "cmd_node_id (src_command x) = n"
    and "\<not> (q < cmd_sequence (src_command x) \<and> now < cmd_expires_at (src_command x) \<and> cmd_nonce (src_command x) \<notin> seen)"
  shows "fst (command_verify L x vk n q seen now) \<in> Err ` {CommandExpired, Sequence, NonceReplay} \<and>
    snd (command_verify L x vk n q seen now) = seen"
  using assms by (auto simp: command_verify_def Let_def)

section \<open>Properties\<close>

text \<open>
  C13. Whatever HTTP requests any number of control-plane processes serve on one database, with any
  restarts and any connection faults, the keys of the schema stay unique, every reference points to
  a row, every row is well-formed, and every command row holds a command that carries the row's sequence number, is addressed
  to the row's node and is signed with the control plane's key.
\<close>

theorem pg_served_tables:
  assumes "pg_served L J S s"
  shows "pg_keys (pg_db s) \<and> pg_refs (pg_db s) \<and> pg_rows L S (pg_db s) \<and> (\<forall>r \<in> set (t_runner_commands (pg_db s)).
    \<exists>c. sv_command S c = Ok (pq_envelope_json r) \<and> pq_sequence r = cmd_sequence (src_command c) \<and>
      cmd_node_id (src_command c) = pq_node_id r \<and>
      command_sign L (src_command c) dev_control_plane_signing_key = Ok c)"
  using pg_served_kept [OF assms]
  by (auto simp: tables_kept_def pg_inv_def commands_hold_def row_signed_def signed_for_def)

lemma leased_row:
  assumes "next_runner_command E n (Some q) h st = (Ok (code, Some x), st')"
    and "app_store st = postgres_store L S F"
  obtains r where "r \<in> set (t_runner_commands (pg_db (app_store_state st)))" "pq_node_id r = n"
    "q <s pq_sequence r" "sv_command_from S (pq_envelope_json r) = Ok x"
proof -
  let ?s = "app_store_state st"
  obtain res s' where p: "pg_next_runner_command F S (E 0) n q ?s = (res, s')" by fastforce
  then have "res = Ok (Some x)"
    using assms by (auto simp: next_runner_command_def and_then_eq_Ok call_def map_err_op_eq_Ok store_call_def
        require_runner_token_def op_units split: option.splits if_splits)
  with p have "pg_next_runner_command F S (E 0) n q ?s = (Ok (Some x), s')" by simp
  then obtain s1 j s2 where "execute F (sql_skip_commands n q) ?s = (Ok (), s1)"
      "sql_lease_command (utc_now (E 0) 0) n q (pg_db s1) = Ok (Some j, s2)"
      "sv_command_from S j = Ok x"
    by (auto simp: pg_next_runner_command_def and_then_eq_Ok statement_Ok bind_result_eq_Ok op_units
        split: option.splits)
  then obtain r where r: "r \<in> set (t_runner_commands (pg_db s1))" "pending_row n r" "q <s pq_sequence r"
      "j = pq_envelope_json r" and skipped: "sql_skip_commands n q (pg_db ?s) = Ok (pg_db s1)"
    by (auto simp: execute_Ok elim!: lease_outcome)
  have "t_runner_commands (pg_db s1) = update_where (\<lambda>r. pending_row n r \<and> pq_sequence r \<le>s q)
      (\<lambda>r. r\<lparr>pq_status := ''skipped''\<rparr>) (t_runner_commands (pg_db ?s))"
    using arg_cong [OF skipped, of "\<lambda>r. case r of Ok d \<Rightarrow> t_runner_commands d | Err _ \<Rightarrow> []"]
    by (simp add: sql_skip_commands_def)
  then obtain r0 where "r0 \<in> set (t_runner_commands (pg_db ?s))" "pq_node_id r0 = pq_node_id r"
      "pq_sequence r0 = pq_sequence r" "pq_envelope_json r0 = pq_envelope_json r"
    using r(1) by (auto simp: set_update_where split: if_splits)
  with r \<open>sv_command_from S j = Ok x\<close> show thesis by (intro that [of r0]) (auto simp: pending_row_def)
qed

text \<open>
  C5. What a process hands to a polling runner is addressed to the node that polled, signed with the
  key of the control plane, and above the \<open>last_sequence\<close> of the poll as a \<open>bigint\<close>. The store does not
  look at expiry or nonces; the runner does. So the runner executes the command exactly when it is
  above \<open>last_sequence\<close>, unexpired and its nonce new, and then with the nonce remembered; for a
  \<open>last_sequence\<close> below \<open>2 ^ 63\<close> the first of the three is given, and only an expired or a replayed
  command is refused, never one for its node or its signature. This holds of a database that other
  processes wrote, before or after a restart, under any faults of the connection.
\<close>

theorem pg_polled_command_verifies:
  assumes "pg_served L J S (app_store_state st)" and "app_store st = postgres_store L S F"
    and "pg_codec S" and "hex_codec L" and "ed25519_scheme L"
    and "next_runner_command E n (Some q) h st = (Ok (code, Some x), st')"
  shows "cmd_node_id (src_command x) = n \<and>
    command_sign L (src_command x) dev_control_plane_signing_key = Ok x \<and>
    q <s cmd_sequence (src_command x) \<and> (seq_ok q \<longrightarrow> q < cmd_sequence (src_command x)) \<and>
    (let v = command_verify L x (ed_verifying_key L dev_control_plane_signing_key) n q seen now;
         new = q < cmd_sequence (src_command x) \<and> now < cmd_expires_at (src_command x)
           \<and> cmd_nonce (src_command x) \<notin> seen
     in (new \<longrightarrow> v = (Ok (src_command x), insert (cmd_nonce (src_command x)) seen)) \<and>
        (\<not> new \<longrightarrow> fst v \<in> Err ` {CommandExpired, Sequence, NonceReplay} \<and> snd v = seen))"
proof -
  obtain r where r: "r \<in> set (t_runner_commands (pg_db (app_store_state st)))" "pq_node_id r = n"
      "q <s pq_sequence r" "sv_command_from S (pq_envelope_json r) = Ok x"
    using leased_row [OF assms(6,2)] by blast
  have "row_signed L S dev_control_plane_signing_key r"
    using pg_served_kept [OF assms(1)] r(1) by (simp add: tables_kept_def commands_hold_def)
  then obtain c where c: "sv_command S c = Ok (pq_envelope_json r)" "pq_sequence r = cmd_sequence (src_command c)"
      "signed_for L dev_control_plane_signing_key n c"
    using r(2) by (auto simp: row_signed_def)
  then have "c = x" using assms(3) r(4) by (auto simp: pg_codec_def)
  with c r(3) have x: "cmd_node_id (src_command x) = n" "q <s cmd_sequence (src_command x)"
      "command_sign L (src_command x) dev_control_plane_signing_key = Ok x"
    by (auto simp: signed_for_def)
  from signed_command_verifies [OF assms(4,5) x(3,1)] stale_command_refused [OF x(1)] x signed_less [OF _ x(2)]
  show ?thesis unfolding Let_def by blast
qed

section \<open>The properties at a concrete run\<close>

lemma relay_codec: "pg_codec relay_serde"
  using demo_codec
  by (auto simp: pg_codec_def relay_serde_def command_round_trip ok_or_def chars_of_as_bytes
      split: credential_material.splits)

lemma relay_post_served:
  assumes "pg_served demo_libs (\<lambda>_. Ok JNull) relay_serde (app_store_state st)"
    and "app_store st = postgres_store demo_libs relay_serde healthy"
    and "app_signing_key st = dev_control_plane_signing_key"
  shows "pg_served demo_libs (\<lambda>_. Ok JNull) relay_serde (app_store_state (relay_post path b st))"
    and "app_store (relay_post path b st) = postgres_store demo_libs relay_serde healthy"
    and "app_signing_key (relay_post path b st) = dev_control_plane_signing_key"
proof -
  let ?K = "tables_kept demo_libs relay_serde dev_control_plane_signing_key"
  have "process_keeps (postgres_store demo_libs relay_serde healthy) dev_control_plane_signing_key ?K st"
    using assms pg_served_kept by (simp add: process_keeps_def)
  from pg_web.serve_ok [OF this] show
    "app_store (relay_post path b st) = postgres_store demo_libs relay_serde healthy"
    "app_signing_key (relay_post path b st) = dev_control_plane_signing_key"
    by (simp_all add: process_keeps_def relay_post_def)
  show "pg_served demo_libs (\<lambda>_. Ok JNull) relay_serde (app_store_state (relay_post path b st))"
    unfolding relay_post_def by (rule pg_served.request [OF assms(1,2) refl assms(3)])
qed

lemma relay_boot_served:
  "pg_served demo_libs (\<lambda>_. Ok JNull) relay_serde (app_store_state relay_boot)"
  "app_store relay_boot = postgres_store demo_libs relay_serde healthy"
  "app_signing_key relay_boot = dev_control_plane_signing_key"
  using pg_served.start [of demo_libs "\<lambda>_. Ok JNull" relay_serde 0]
  by (simp_all add: relay_boot_def with_store_and_runner_token_def)

lemma relay_served:
  "pg_served demo_libs (\<lambda>_. Ok JNull) relay_serde (app_store_state relay_compiled)"
  "app_store relay_compiled = postgres_store demo_libs relay_serde healthy"
  unfolding relay_compiled_def by (intro relay_post_served relay_boot_served)+

lemma relay_polled:
  "case fst (next_runner_command (\<lambda>_. demo_env) ''node-a'' (Some 0) relay_headers relay_compiled) of
     Ok (c, Some x) \<Rightarrow> 2000 < cmd_expires_at (src_command x) | _ \<Rightarrow> False"
  by code_simp

lemma relay_command:
  obtains c x st' where "next_runner_command (\<lambda>_. demo_env) ''node-a'' (Some 0) relay_headers relay_compiled
      = (Ok (c, Some x), st')" and "2000 < cmd_expires_at (src_command x)"
  using relay_polled
  by (cases "next_runner_command (\<lambda>_. demo_env) ''node-a'' (Some 0) relay_headers relay_compiled")
     (auto split: result.splits option.splits)

theorem pg_served_tables_witness:
  "\<exists>r \<in> set (t_runner_commands (pg_db (app_store_state relay_compiled))). pq_node_id r = ''node-a'' \<and>
    (\<exists>c. sv_command relay_serde c = Ok (pq_envelope_json r) \<and> cmd_node_id (src_command c) = ''node-a'' \<and>
      command_sign demo_libs (src_command c) dev_control_plane_signing_key = Ok c)"
proof -
  obtain c x st' where "next_runner_command (\<lambda>_. demo_env) ''node-a'' (Some 0) relay_headers relay_compiled
      = (Ok (c, Some x), st')" by (rule relay_command)
  then obtain r where r: "r \<in> set (t_runner_commands (pg_db (app_store_state relay_compiled)))"
      "pq_node_id r = ''node-a''" by (rule leased_row [OF _ relay_served(2)])
  then obtain d where "sv_command relay_serde d = Ok (pq_envelope_json r)"
      "cmd_node_id (src_command d) = pq_node_id r"
      "command_sign demo_libs (src_command d) dev_control_plane_signing_key = Ok d"
    using pg_served_tables [OF relay_served(1)] by blast
  with r show ?thesis by (intro bexI [of _ r] conjI exI [of _ d]) simp_all
qed

theorem pg_polled_command_verifies_witness:
  "\<exists>c x st'. next_runner_command (\<lambda>_. demo_env) ''node-a'' (Some 0) relay_headers relay_compiled
      = (Ok (c, Some x), st') \<and>
    command_verify demo_libs x (ed_verifying_key demo_libs dev_control_plane_signing_key) ''node-a'' 0 {} 2000
      = (Ok (src_command x), {cmd_nonce (src_command x)})"
proof -
  obtain c x st' where polled: "next_runner_command (\<lambda>_. demo_env) ''node-a'' (Some 0) relay_headers relay_compiled
      = (Ok (c, Some x), st')" "2000 < cmd_expires_at (src_command x)" by (rule relay_command)
  from pg_polled_command_verifies [OF relay_served relay_codec demo_libs_ok(1,2) polled(1), of "{}" 2000]
    polled show ?thesis by (auto simp: Let_def seq_ok_def)
qed

end
