(* ===== verification/Postgres_Restart.thy ===== *)
theory Postgres_Restart
  imports Postgres_Served
begin

text \<open>
  A restart of the control plane on a database it has used: the sequence counters start again, and the
  commands that get a number the table already has are dropped by \<open>ON CONFLICT .. DO NOTHING\<close>.
\<close>

section \<open>Definitions\<close>

text \<open>A process signs and enqueues commands of the kinds \<open>ks\<close> for the node \<open>n\<close>, one after another.\<close>

fun enqueue_all ::
  "libs \<Rightarrow> (nat \<Rightarrow> env) \<Rightarrow> string \<Rightarrow> nat \<Rightarrow> runner_command_kind list \<Rightarrow> ('s, u64 list) handler" where
  "enqueue_all L E n k [] = return_op []"
| "enqueue_all L E n k (kind # ks) =
     and_then (sign_and_enqueue L (E k) (E (Suc k)) n kind) (\<lambda>q.
     and_then (enqueue_all L E n (k + 2) ks) (\<lambda>qs. return_op (q # qs)))"

text \<open>A process on a healthy PostgreSQL whose values all serialise, \<open>q\<close> commands into its life for \<open>n\<close>.\<close>

definition sending :: "libs \<Rightarrow> pg_serde \<Rightarrow> string \<Rightarrow> u64 \<Rightarrow> pg_state app_state \<Rightarrow> bool" where
  "sending L S n q st \<longleftrightarrow> app_store st = postgres_store L S healthy \<and> counter st n = q \<and>
     serde_total L \<and> (\<forall>c. is_ok (sv_command S c))"

definition command_keys :: "pg_db \<Rightarrow> string \<Rightarrow> u64 set" where
  "command_keys d n = {q. (n, q) \<in> command_row_key ` set (t_runner_commands d)}"

section \<open>One command\<close>

lemma sends_next:
  assumes "sending L S n q st"
  obtains x j where "sv_command S x = Ok j" "cmd_sequence (src_command x) = q + 1"
    "cmd_tenant_id (src_command x) = app_tenant_id st"
    "\<And>s. pg_enqueue_runner_command healthy S n x (app_store_state st) = (Ok (), s) \<Longrightarrow>
      sign_and_enqueue L e e' n kind st = (Ok (q + 1),
        st\<lparr>app_node_sequences := hm_insert n (q + 1) (app_node_sequences st), app_store_state := s\<rparr>)"
proof -
  let ?c = "runner_command_new e (app_tenant_id st) n (q + 1) (utc_now e 0 + seconds 60) kind"
  obtain m where "to_vec_command L ?c = Ok m"
    using assms unfolding sending_def serde_total_def is_ok_iff by blast
  then obtain x where x: "command_sign L ?c (app_signing_key st) = Ok x" "src_command x = ?c"
    by (simp add: command_sign_def)
  obtain j where "sv_command S x = Ok j" using assms unfolding sending_def is_ok_iff by blast
  moreover have "sign_and_enqueue L e e' n kind st = (Ok (q + 1),
      st\<lparr>app_node_sequences := hm_insert n (q + 1) (app_node_sequences st), app_store_state := s\<rparr>)"
    if "pg_enqueue_runner_command healthy S n x (app_store_state st) = (Ok (), s)" for s
    using assms x that
    by (simp add: sending_def sign_and_enqueue_def and_then_eq_Ok next_sequence_eq get_app_eq
        lift_map_err_eq_Ok call_eq_Ok op_units postgres_store_def)
  ultimately show thesis using x(2) by (intro that [of x j]) (simp_all add: runner_command_new_def)
qed

lemma sends_dropped:
  assumes "sending L S n q st" and "q + 1 \<in> command_keys (pg_db (app_store_state st)) n"
  obtains st' where "sign_and_enqueue L e e' n kind st = (Ok (q + 1), st')" "sending L S n (q + 1) st'"
    "pg_db (app_store_state st') = pg_db (app_store_state st)" "app_tenant_id st' = app_tenant_id st"
proof -
  obtain x j where x: "sv_command S x = Ok j" "cmd_sequence (src_command x) = q + 1"
    and run: "\<And>s. pg_enqueue_runner_command healthy S n x (app_store_state st) = (Ok (), s) \<Longrightarrow>
      sign_and_enqueue L e e' n kind st = (Ok (q + 1),
        st\<lparr>app_node_sequences := hm_insert n (q + 1) (app_node_sequences st), app_store_state := s\<rparr>)"
    using sends_next [OF assms(1)] by blast
  obtain s where "pg_enqueue_runner_command healthy S n x (app_store_state st) = (Ok (), s)"
      "pg_db s = pg_db (app_store_state st)"
    using assms(2) x
    by (auto simp: command_keys_def pg_enqueue_runner_command_def serde_result_def and_then_def op_units
        sql_insert_command_def insert_row_def command_row_key_def)
  with run [OF this(1)] assms(1) show thesis
    by (intro that [of "st\<lparr>app_node_sequences := hm_insert n (q + 1) (app_node_sequences st), app_store_state := s\<rparr>"])
       (simp_all add: sending_def counter_def unwrap_or_def)
qed

lemma sends_stored:
  assumes "sending L S n q st" and "q + 1 \<notin> command_keys (pg_db (app_store_state st)) n"
    and "has_node (pg_db (app_store_state st)) n" "has_tenant (pg_db (app_store_state st)) (app_tenant_id st)"
  obtains st' j where "sign_and_enqueue L e e' n kind st = (Ok (q + 1), st')"
    "t_runner_commands (pg_db (app_store_state st')) = t_runner_commands (pg_db (app_store_state st)) @
       [\<lparr>pq_tenant_id = app_tenant_id st, pq_node_id = n, pq_sequence = q + 1, pq_envelope_json = j,
         pq_status = ''pending'', pq_leased_at = None\<rparr>]"
proof -
  obtain x j where x: "sv_command S x = Ok j" "cmd_sequence (src_command x) = q + 1"
      "cmd_tenant_id (src_command x) = app_tenant_id st"
    and run: "\<And>s. pg_enqueue_runner_command healthy S n x (app_store_state st) = (Ok (), s) \<Longrightarrow>
      sign_and_enqueue L e e' n kind st = (Ok (q + 1),
        st\<lparr>app_node_sequences := hm_insert n (q + 1) (app_node_sequences st), app_store_state := s\<rparr>)"
    using sends_next [OF assms(1)] by blast
  have "(n, q + 1) \<notin> command_row_key ` set (t_runner_commands (pg_db (app_store_state st)))"
    using assms(2) by (simp add: command_keys_def)
  then obtain s where "pg_enqueue_runner_command healthy S n x (app_store_state st) = (Ok (), s)"
      "t_runner_commands (pg_db s) = t_runner_commands (pg_db (app_store_state st)) @
         [\<lparr>pq_tenant_id = app_tenant_id st, pq_node_id = n, pq_sequence = q + 1, pq_envelope_json = j,
           pq_status = ''pending'', pq_leased_at = None\<rparr>]"
    using assms(3,4) x
    by (auto simp: pg_enqueue_runner_command_def serde_result_def and_then_def op_units
        sql_insert_command_def insert_row_def command_row_key_def)
  with run [OF this(1)] show thesis
    by (intro that [of "st\<lparr>app_node_sequences := hm_insert n (q + 1) (app_node_sequences st), app_store_state := s\<rparr>"])
       simp_all
qed

lemma sends_all_dropped:
  assumes "sending L S n q st"
    and "\<forall>i \<in> {1..length ks}. q + of_nat i \<in> command_keys (pg_db (app_store_state st)) n"
  shows "\<exists>st'. enqueue_all L E n k ks st = (Ok (map (\<lambda>i. q + of_nat i) [1..<Suc (length ks)]), st') \<and>
    sending L S n (q + of_nat (length ks)) st' \<and>
    pg_db (app_store_state st') = pg_db (app_store_state st) \<and> app_tenant_id st' = app_tenant_id st"
  using assms
proof (induction ks arbitrary: k q st)
  case Nil
  then show ?case by (simp add: op_units)
next
  case (Cons kind ks)
  have "q + 1 \<in> command_keys (pg_db (app_store_state st)) n"
    using Cons.prems(2) by (force dest: bspec [of _ _ 1])
  from sends_dropped [OF Cons.prems(1) this]
  obtain st1 where st1: "sign_and_enqueue L (E k) (E (Suc k)) n kind st = (Ok (q + 1), st1)"
      "sending L S n (q + 1) st1" "pg_db (app_store_state st1) = pg_db (app_store_state st)"
      "app_tenant_id st1 = app_tenant_id st" by blast
  have "q + 1 + of_nat i \<in> command_keys (pg_db (app_store_state st1)) n" if "i \<in> {1..length ks}" for i
    using bspec [OF Cons.prems(2), of "Suc i"] that st1(3) by (simp add: add.assoc)
  with Cons.IH [OF st1(2), of "k + 2"] obtain st2 where st2:
      "enqueue_all L E n (k + 2) ks st1 = (Ok (map (\<lambda>i. q + 1 + of_nat i) [1..<Suc (length ks)]), st2)"
      "sending L S n (q + 1 + of_nat (length ks)) st2"
      "pg_db (app_store_state st2) = pg_db (app_store_state st1)" "app_tenant_id st2 = app_tenant_id st1"
    by blast
  have "map (\<lambda>i. q + of_nat i) [1..<Suc (length (kind # ks))]
      = (q + 1) # map (\<lambda>i. q + 1 + of_nat i) [1..<Suc (length ks)]"
  proof -
    have "[1..<Suc (length (kind # ks))] = 1 # map Suc [1..<Suc (length ks)]"
      by (simp only: map_Suc_upt) (simp add: upt_rec)
    then show ?thesis by (simp add: add.assoc)
  qed
  with st1 st2 show ?case by (simp add: and_then_def op_units add.assoc)
qed

section \<open>Property\<close>

text \<open>
  C40. The sequence counters live only in the memory of the control plane, the commands in the database.
  When a control plane that has numbered the commands of a node up to \<open>m\<close> is restarted, its next \<open>m\<close>
  commands for that node, of whatever kinds, get the numbers \<open>1\<close> to \<open>m\<close> again; every one of these
  calls answers \<open>Ok\<close> and none of the commands is stored, so no poll ever returns one. Only the command
  after them, with number \<open>m + 1\<close>, is stored and waits for the runner.
\<close>

theorem restart_drops_commands:
  assumes "command_keys (pg_db s) n = of_nat ` {1..m}" and "m + 1 < 2 ^ 64" and "length ks = m"
    and "has_node (pg_db s) n" and "has_tenant (pg_db s) T"
    and "serde_total L" and "\<And>c. is_ok (sv_command S c)"
  shows "\<exists>st' st'' j. enqueue_all L E n 0 ks
      (with_store_and_runner_token L reg tok T (postgres_store L S healthy) s)
      = (Ok (map of_nat [1..<Suc m]), st') \<and> pg_db (app_store_state st') = pg_db s \<and>
    sign_and_enqueue L e e' n kind st' = (Ok (of_nat (m + 1)), st'') \<and>
    t_runner_commands (pg_db (app_store_state st'')) = t_runner_commands (pg_db s) @
      [\<lparr>pq_tenant_id = T, pq_node_id = n, pq_sequence = of_nat (m + 1), pq_envelope_json = j,
        pq_status = ''pending'', pq_leased_at = None\<rparr>]"
proof -
  let ?st = "with_store_and_runner_token L reg tok T (postgres_store L S healthy) s"
  have st: "sending L S n 0 ?st" "app_store_state ?st = s" "app_tenant_id ?st = T"
    using assms(6,7) by (simp_all add: sending_def counter_def with_store_and_runner_token_def)
  have "\<forall>i \<in> {1..length ks}. 0 + of_nat i \<in> command_keys (pg_db (app_store_state ?st)) n"
    using assms(1,3) st(2) by auto
  from sends_all_dropped [OF st(1) this, of E 0]
  obtain st' where st': "enqueue_all L E n 0 ks ?st = (Ok (map of_nat [1..<Suc m]), st')"
      "sending L S n (of_nat m) st'" "pg_db (app_store_state st') = pg_db s" "app_tenant_id st' = T"
    using st(2,3) assms(3) by auto
  have new: "(of_nat m :: u64) + 1 \<notin> command_keys (pg_db (app_store_state st')) n"
  proof
    assume "(of_nat m :: u64) + 1 \<in> command_keys (pg_db (app_store_state st')) n"
    then obtain i where i: "(of_nat (m + 1) :: u64) = of_nat i" "i \<le> m"
      unfolding st'(3) assms(1) by (auto simp: add.commute)
    then have "unat (of_nat (m + 1) :: u64) = unat (of_nat i :: u64)" by simp
    with i(2) assms(2) show False by (simp add: unat_of_nat take_bit_nat_eq_self del: of_nat_add of_nat_Suc)
  qed
  from sends_stored [OF st'(2) new, of e e' kind] assms(4,5) st'(3,4)
  obtain st'' j where "sign_and_enqueue L e e' n kind st' = (Ok (of_nat (m + 1)), st'')"
      "t_runner_commands (pg_db (app_store_state st'')) = t_runner_commands (pg_db s) @
        [\<lparr>pq_tenant_id = T, pq_node_id = n, pq_sequence = of_nat (m + 1), pq_envelope_json = j,
          pq_status = ''pending'', pq_leased_at = None\<rparr>]"
    by (auto simp: add.commute)
  with st' show ?thesis by blast
qed

theorem restart_drops_commands_witness:
  "\<exists>st'. enqueue_all demo_libs (\<lambda>_. demo_env) ''node-a'' 0 [ReloadCore]
      (with_store_and_runner_token demo_libs ''reg'' ''run'' ''t'' (postgres_store demo_libs relay_serde healthy)
         (pg_demo [EnqueueCommand ''node-a'' demo_envelope])) = (Ok [1], st') \<and>
    map command_row_key (t_runner_commands (pg_db (app_store_state st'))) = [(''node-a'', 1)]"
proof -
  let ?s = "pg_demo [EnqueueCommand ''node-a'' demo_envelope]"
  have rows: "map command_row_key (t_runner_commands (pg_db ?s)) = [(''node-a'', 1)]"
    and "has_node (pg_db ?s) ''node-a''" "has_tenant (pg_db ?s) ''t''" by code_simp+
  moreover have "command_keys (pg_db ?s) ''node-a'' = of_nat ` {1..1}"
  proof -
    have "command_row_key ` set (t_runner_commands (pg_db ?s)) = {(''node-a'', 1)}"
      using arg_cong [OF rows, of set] by simp
    then show ?thesis by (auto simp: command_keys_def)
  qed
  ultimately show ?thesis
    using restart_drops_commands [of ?s "''node-a''" 1 "[ReloadCore]" "''t''" demo_libs relay_serde
        "\<lambda>_. demo_env" "''reg''" "''run''"] demo_libs_ok(3)
    by (force simp: relay_serde_def)
qed

end
