(* ===== verification/Postgres_Concurrent.thy ===== *)
theory Postgres_Concurrent
  imports Postgres_Queue
begin

text \<open>
  Concurrent polls of \<open>PostgresStore\<close>: several calls of \<open>next_runner_command\<close>
  (src/crates/storage/src/lib.rs, lines 2753-2790) whose statements interleave with one another and
  with enqueued commands. Each statement is its own transaction at PostgreSQL's default level, Read
  Committed. The leasing \<open>UPDATE\<close> has no \<open>FOR UPDATE\<close> in its subquery: it chooses the \<open>id\<close> of a
  pending row in its snapshot, and then updates the row of that \<open>id\<close>; when another transaction has
  updated the row in between, PostgreSQL re-evaluates the condition on the new version, and
  \<open>id = chosen\<close> still holds. The two halves are the steps \<open>pick\<close> and \<open>lease\<close>.
\<close>

section \<open>Definitions\<close>

definition lease_pick :: "string \<Rightarrow> i64 \<Rightarrow> pg_db \<Rightarrow> (string \<times> i64) option" where
  "lease_pick node_id last_seq d =
     map_option command_row_key (max_by_key (\<lambda>r. - sint (pq_sequence r))
       (filter (\<lambda>r. pending_row node_id r \<and> last_seq <s pq_sequence r) (t_runner_commands d)))"

text \<open>The result is the envelope; the key of its row is kept for the statements below.\<close>

definition lease_row ::
  "datetime \<Rightarrow> (string \<times> i64) option \<Rightarrow> pg_db \<Rightarrow> ((string \<times> i64) \<times> json) option \<times> pg_db" where
  "lease_row now picked d =
     (case Option.bind picked (\<lambda>k. List.find (\<lambda>r. command_row_key r = k) (t_runner_commands d)) of
        None \<Rightarrow> (None, d)
      | Some c \<Rightarrow>
          (Some (command_row_key c, pq_envelope_json c),
           d\<lparr>t_runner_commands := update_where (\<lambda>r. command_row_key r = command_row_key c)
               (\<lambda>r. r\<lparr>pq_status := ''leased'', pq_leased_at := Some now\<rparr>) (t_runner_commands d)\<rparr>))"

datatype poll_phase =
    Skipping
  | Picking
  | Leasing "(string \<times> i64) option"
  | Answered "((string \<times> i64) \<times> json) option"

record poll =
  po_node :: string
  po_last :: i64
  po_phase :: poll_phase

abbreviation phase_of :: "poll list \<Rightarrow> nat \<Rightarrow> poll_phase" where
  "phase_of ps i \<equiv> po_phase (ps ! i)"

text \<open>One step: a poll arrives or takes its next statement, or a command is enqueued.\<close>

inductive interleaved_step :: "pg_db \<times> poll list \<Rightarrow> pg_db \<times> poll list \<Rightarrow> bool" where
  arrive: "interleaved_step (d, ps) (d, ps @ [\<lparr>po_node = n, po_last = q, po_phase = Skipping\<rparr>])"
| skip: "i < length ps \<Longrightarrow> phase_of ps i = Skipping \<Longrightarrow>
    sql_skip_commands (po_node (ps ! i)) (po_last (ps ! i)) d = Ok d' \<Longrightarrow>
    interleaved_step (d, ps) (d', ps[i := (ps ! i)\<lparr>po_phase := Picking\<rparr>])"
| pick: "i < length ps \<Longrightarrow> phase_of ps i = Picking \<Longrightarrow>
    interleaved_step (d, ps)
      (d, ps[i := (ps ! i)\<lparr>po_phase := Leasing (lease_pick (po_node (ps ! i)) (po_last (ps ! i)) d)\<rparr>])"
| lease: "i < length ps \<Longrightarrow> phase_of ps i = Leasing k \<Longrightarrow> lease_row now k d = (a, d') \<Longrightarrow>
    interleaved_step (d, ps) (d', ps[i := (ps ! i)\<lparr>po_phase := Answered a\<rparr>])"
| enqueue: "sql_insert_command row d = Ok d' \<Longrightarrow> interleaved_step (d, ps) (d', ps)"

text \<open>No two polls of one node are between the two halves of the lease.\<close>

definition held_key :: "poll \<Rightarrow> (string \<times> i64) option" where
  "held_key p = (case po_phase p of Leasing k \<Rightarrow> k | _ \<Rightarrow> None)"

definition answered_key :: "poll \<Rightarrow> (string \<times> i64) option" where
  "answered_key p = (case po_phase p of Answered a \<Rightarrow> map_option fst a | _ \<Rightarrow> None)"

definition exclusive :: "poll list \<Rightarrow> bool" where
  "exclusive ps \<longleftrightarrow> (\<forall>i < length ps. \<forall>j < length ps. i \<noteq> j \<longrightarrow> held_key (ps ! i) \<noteq> None \<longrightarrow>
     held_key (ps ! j) \<noteq> None \<longrightarrow> po_node (ps ! i) \<noteq> po_node (ps ! j))"

inductive exclusive_run :: "pg_db \<times> poll list \<Rightarrow> bool" where
  start: "pg_keys d \<Longrightarrow> exclusive_run (d, [])"
| step: "exclusive_run s \<Longrightarrow> interleaved_step s s' \<Longrightarrow> exclusive (snd s') \<Longrightarrow> exclusive_run s'"

text \<open>
  The invariant of an exclusive run. \<open>rows_grow\<close>: every row stays, with its key and envelope, and
  never becomes pending again.
\<close>

definition rows_grow :: "pg_db \<Rightarrow> pg_db \<Rightarrow> bool" where
  "rows_grow d d' \<longleftrightarrow> (\<forall>r \<in> set (t_runner_commands d). \<exists>r' \<in> set (t_runner_commands d').
     command_row_key r' = command_row_key r \<and> pq_envelope_json r' = pq_envelope_json r \<and>
     (pq_status r \<noteq> ''pending'' \<longrightarrow> pq_status r' \<noteq> ''pending''))"

definition poll_ok :: "pg_db \<Rightarrow> poll \<Rightarrow> bool" where
  "poll_ok d p \<longleftrightarrow>
     (\<forall>k. held_key p = Some k \<longrightarrow> fst k = po_node p \<and> po_last p <s snd k \<and>
        k \<in> command_row_key ` set (t_runner_commands d)) \<and>
     (\<forall>k j. po_phase p = Answered (Some (k, j)) \<longrightarrow> fst k = po_node p \<and> po_last p <s snd k \<and>
        (\<exists>r \<in> set (t_runner_commands d). command_row_key r = k \<and> pq_envelope_json r = j \<and>
           pq_status r \<noteq> ''pending''))"

definition run_inv :: "pg_db \<Rightarrow> poll list \<Rightarrow> bool" where
  "run_inv d ps \<longleftrightarrow> distinct (map command_row_key (t_runner_commands d)) \<and> (\<forall>p \<in> set ps. poll_ok d p) \<and>
     (\<forall>i < length ps. \<forall>j < length ps. \<forall>k. answered_key (ps ! i) = Some k \<longrightarrow>
        held_key (ps ! j) \<noteq> Some k \<and> (i \<noteq> j \<longrightarrow> answered_key (ps ! j) \<noteq> Some k))"

section \<open>The two halves are the statement\<close>

lemma find_key:
  "distinct (map f xs) \<Longrightarrow> x \<in> set xs \<Longrightarrow> List.find (\<lambda>y. f y = f x) xs = Some x"
  by (induction xs) auto

text \<open>Run together, the halves are the leasing statement.\<close>

lemma pick_lease:
  assumes "distinct (map command_row_key (t_runner_commands d))"
  shows "sql_lease_command now n q d
    = (case lease_row now (lease_pick n q d) d of (a, d') \<Rightarrow> Ok (map_option snd a, d'))"
proof (cases "max_by_key (\<lambda>r. - sint (pq_sequence r))
    (filter (\<lambda>r. pending_row n r \<and> q <s pq_sequence r) (t_runner_commands d))")
  case None
  then show ?thesis by (simp add: sql_lease_command_def lease_pick_def lease_row_def)
next
  case (Some c)
  then have "c \<in> set (t_runner_commands d)" using max_by_key_Some(1) by fastforce
  from find_key [OF assms this] Some show ?thesis
    by (simp add: sql_lease_command_def lease_pick_def lease_row_def)
qed

lemma lease_pick_Some:
  assumes "lease_pick n q d = Some k"
  obtains r where "r \<in> set (t_runner_commands d)" "command_row_key r = k" "pending_row n r"
    "q <s pq_sequence r"
  using assms max_by_key_Some(1) by (fastforce simp: lease_pick_def)

lemma skip_keeps_pick:
  assumes "sql_skip_commands n q d = Ok d'"
  shows "lease_pick n q d' = lease_pick n q d"
proof -
  have "filter (\<lambda>r. pending_row n r \<and> q <s pq_sequence r) (update_where
      (\<lambda>r. pending_row n r \<and> pq_sequence r \<le>s q) (\<lambda>r. r\<lparr>pq_status := ''skipped''\<rparr>) rows)
    = filter (\<lambda>r. pending_row n r \<and> q <s pq_sequence r) rows" for rows
    by (rule filter_update_other) (auto simp: pending_row_def word_sless_alt word_sle_eq)
  then show ?thesis using assms by (auto simp: lease_pick_def sql_skip_commands_def)
qed

section \<open>Rows\<close>

lemma rows_grow_refl: "rows_grow d d"
  by (auto simp: rows_grow_def)

lemma update_grows:
  assumes "\<And>r. command_row_key (f r) = command_row_key r" "\<And>r. pq_envelope_json (f r) = pq_envelope_json r"
    "\<And>r. pq_status (f r) \<noteq> ''pending''"
  shows "rows_grow d (d\<lparr>t_runner_commands := update_where P f (t_runner_commands d)\<rparr>)"
    and "map command_row_key (t_runner_commands (d\<lparr>t_runner_commands := update_where P f (t_runner_commands d)\<rparr>))
      = map command_row_key (t_runner_commands d)"
proof -
  let ?g = "\<lambda>r. if P r then f r else r"
  show "rows_grow d (d\<lparr>t_runner_commands := update_where P f (t_runner_commands d)\<rparr>)"
    unfolding rows_grow_def
  proof
    fix r assume "r \<in> set (t_runner_commands d)"
    then have "?g r \<in> set (update_where P f (t_runner_commands d))" by (simp add: set_update_where)
    then show "\<exists>r' \<in> set (t_runner_commands (d\<lparr>t_runner_commands := update_where P f (t_runner_commands d)\<rparr>)).
        command_row_key r' = command_row_key r \<and> pq_envelope_json r' = pq_envelope_json r \<and>
        (pq_status r \<noteq> ''pending'' \<longrightarrow> pq_status r' \<noteq> ''pending'')"
      using assms by (intro bexI [of _ "?g r"]) simp_all
  qed
qed (use assms in simp)

lemma skip_grows:
  assumes "sql_skip_commands n q d = Ok d'"
  shows "rows_grow d d'" and "map command_row_key (t_runner_commands d') = map command_row_key (t_runner_commands d)"
proof -
  have d': "d' = d\<lparr>t_runner_commands := update_where (\<lambda>r. pending_row n r \<and> pq_sequence r \<le>s q)
      (\<lambda>r. r\<lparr>pq_status := ''skipped''\<rparr>) (t_runner_commands d)\<rparr>"
    using assms by (simp add: sql_skip_commands_def)
  show "rows_grow d d'" "map command_row_key (t_runner_commands d') = map command_row_key (t_runner_commands d)"
    unfolding d' by (rule update_grows; simp)+
qed

lemma lease_row_cases:
  assumes "lease_row now k d = (a, d')"
  obtains (none) "a = None" "d' = d"
  | (row) r where "r \<in> set (t_runner_commands d)" "k = Some (command_row_key r)"
      "a = Some (command_row_key r, pq_envelope_json r)" "rows_grow d d'"
      "map command_row_key (t_runner_commands d') = map command_row_key (t_runner_commands d)"
      "\<exists>r' \<in> set (t_runner_commands d'). command_row_key r' = command_row_key r \<and>
         pq_envelope_json r' = pq_envelope_json r \<and> pq_status r' \<noteq> ''pending''"
proof (cases "Option.bind k (\<lambda>k. List.find (\<lambda>r. command_row_key r = k) (t_runner_commands d))")
  case None
  then show thesis using assms none by (simp add: lease_row_def)
next
  case (Some r)
  then have r: "r \<in> set (t_runner_commands d)" "k = Some (command_row_key r)"
    by (auto simp: Option.bind_eq_Some_conv find_Some_iff)
  let ?f = "\<lambda>r. r\<lparr>pq_status := ''leased'', pq_leased_at := Some now\<rparr>"
  have d': "d' = d\<lparr>t_runner_commands := update_where (\<lambda>x. command_row_key x = command_row_key r) ?f
      (t_runner_commands d)\<rparr>" "a = Some (command_row_key r, pq_envelope_json r)"
    using assms Some by (auto simp: lease_row_def)
  have "?f r \<in> set (t_runner_commands d')" using r(1) by (auto simp: d'(1) set_update_where)
  moreover have "rows_grow d d'"
    "map command_row_key (t_runner_commands d') = map command_row_key (t_runner_commands d)"
    unfolding d'(1) by (rule update_grows; simp)+
  ultimately show thesis using r d'(2) by (intro row) (auto intro!: bexI [of _ "?f r"])
qed

lemma enqueue_grows:
  assumes "sql_insert_command row d = Ok d'"
  shows "rows_grow d d'"
    and "distinct (map command_row_key (t_runner_commands d)) \<Longrightarrow>
      distinct (map command_row_key (t_runner_commands d'))"
  using assms by (auto simp: sql_insert_command_def bind_result_eq_Ok insert_row_Ok rows_grow_def)

section \<open>The invariant of an exclusive run\<close>

lemma poll_ok_grow:
  assumes "poll_ok d p" and "rows_grow d d'"
  shows "poll_ok d' p"
  unfolding poll_ok_def
proof (intro conjI allI impI)
  fix k assume "held_key p = Some k"
  then obtain r where "fst k = po_node p" "po_last p <s snd k" "r \<in> set (t_runner_commands d)"
      "k = command_row_key r"
    using assms(1) by (auto simp: poll_ok_def)
  moreover from this obtain r' where "r' \<in> set (t_runner_commands d')" "k = command_row_key r'"
    using assms(2) unfolding rows_grow_def by metis
  ultimately show "fst k = po_node p" "po_last p <s snd k" "k \<in> command_row_key ` set (t_runner_commands d')"
    by blast+
next
  fix k j assume "po_phase p = Answered (Some (k, j))"
  then obtain r where r: "fst k = po_node p" "po_last p <s snd k" "r \<in> set (t_runner_commands d)"
      "command_row_key r = k" "pq_envelope_json r = j" "pq_status r \<noteq> ''pending''"
    using assms(1) by (auto simp: poll_ok_def)
  from r(1,2) show "fst k = po_node p" "po_last p <s snd k" by auto
  from r(3-6) assms(2) show "\<exists>r \<in> set (t_runner_commands d'). command_row_key r = k \<and>
      pq_envelope_json r = j \<and> pq_status r \<noteq> ''pending''"
    unfolding rows_grow_def by metis
qed

lemma run_inv_grow:
  assumes "run_inv d ps" and "rows_grow d d'" and "distinct (map command_row_key (t_runner_commands d'))"
  shows "run_inv d' ps"
  using assms poll_ok_grow unfolding run_inv_def by blast

lemma run_inv_update:
  assumes "run_inv d ps" and "i < length ps" and "poll_ok d p"
    and "\<And>j k. j < length ps \<Longrightarrow> j \<noteq> i \<Longrightarrow> held_key p = Some k \<Longrightarrow> answered_key (ps ! j) \<noteq> Some k"
    and "\<And>j k. j < length ps \<Longrightarrow> j \<noteq> i \<Longrightarrow> answered_key p = Some k \<Longrightarrow>
      answered_key (ps ! j) \<noteq> Some k \<and> held_key (ps ! j) \<noteq> Some k"
    and "held_key p = None \<or> answered_key p = None"
  shows "run_inv d (ps[i := p])"
  unfolding run_inv_def
proof (intro conjI allI impI)
  show "distinct (map command_row_key (t_runner_commands d))" using assms(1) by (simp add: run_inv_def)
  show "\<forall>p \<in> set (ps[i := p]). poll_ok d p"
    using assms(1,3) set_update_subset_insert [of ps i p] by (auto simp: run_inv_def)
  fix a b k
  assume *: "a < length (ps[i := p])" "b < length (ps[i := p])" "answered_key (ps[i := p] ! a) = Some k"
  have old: "held_key (ps ! y) \<noteq> Some k" "x \<noteq> y \<Longrightarrow> answered_key (ps ! y) \<noteq> Some k"
    if "x < length ps" "y < length ps" "answered_key (ps ! x) = Some k" for x y
    using assms(1) that unfolding run_inv_def by blast+
  show "held_key (ps[i := p] ! b) \<noteq> Some k"
  proof (cases "a = i")
    case True
    then have "answered_key p = Some k" using *(3) assms(2) by simp
    then show ?thesis using assms(2,6) assms(5) [of b k] *(2) by (cases "b = i") simp_all
  next
    case False
    then have "answered_key (ps ! a) = Some k" "a < length ps" using *(1,3) by simp_all
    then show ?thesis using assms(2) assms(4) [of a k] old(1) [of a b] *(2) False by (cases "b = i") auto
  qed
  assume "a \<noteq> b"
  show "answered_key (ps[i := p] ! b) \<noteq> Some k"
  proof (cases "a = i")
    case True
    then have "answered_key p = Some k" using *(3) assms(2) by simp
    then show ?thesis using assms(5) [of b k] *(2) \<open>a \<noteq> b\<close> True by simp
  next
    case False
    then have "answered_key (ps ! a) = Some k" "a < length ps" using *(1,3) by simp_all
    then show ?thesis using assms(2) assms(5) [of a k] old(2) [of a b] *(2) False \<open>a \<noteq> b\<close>
      by (cases "b = i") auto
  qed
qed

lemma picked_unanswered:
  assumes "run_inv d ps" and "lease_pick n q d = Some k" and "j < length ps"
  shows "answered_key (ps ! j) \<noteq> Some k"
proof
  assume "answered_key (ps ! j) = Some k"
  then obtain x where x: "phase_of ps j = Answered (Some (k, x))"
    by (auto simp: answered_key_def split: poll_phase.splits)
  have "poll_ok d (ps ! j)" using assms(1,3) by (auto simp: run_inv_def)
  with x obtain r where r: "r \<in> set (t_runner_commands d)" "command_row_key r = k" "pq_status r \<noteq> ''pending''"
    by (auto simp: poll_ok_def)
  obtain r' where r': "r' \<in> set (t_runner_commands d)" "command_row_key r' = k" "pending_row n r'"
    by (rule lease_pick_Some [OF assms(2)])
  have "r = r'" using assms(1) r r' by (auto simp: run_inv_def distinct_map dest: inj_onD)
  with r r' show False by (simp add: pending_row_def)
qed

lemma keys_simps [simp]:
  "held_key (p\<lparr>po_phase := Picking\<rparr>) = None" "held_key (p\<lparr>po_phase := Leasing k\<rparr>) = k"
  "held_key (p\<lparr>po_phase := Answered a\<rparr>) = None" "answered_key (p\<lparr>po_phase := Picking\<rparr>) = None"
  "answered_key (p\<lparr>po_phase := Leasing k\<rparr>) = None" "answered_key (p\<lparr>po_phase := Answered a\<rparr>) = map_option fst a"
  "held_key \<lparr>po_node = n, po_last = q, po_phase = Skipping\<rparr> = None"
  "answered_key \<lparr>po_node = n, po_last = q, po_phase = Skipping\<rparr> = None"
  by (simp_all add: held_key_def answered_key_def)

lemma run_inv_nth: "run_inv d ps \<Longrightarrow> i < length ps \<Longrightarrow> poll_ok d (ps ! i)"
  by (simp add: run_inv_def)

lemma run_inv_append:
  assumes "run_inv d ps" and "poll_ok d p" and "held_key p = None" and "answered_key p = None"
  shows "run_inv d (ps @ [p])"
  unfolding run_inv_def
proof (intro conjI allI impI)
  show "distinct (map command_row_key (t_runner_commands d))" using assms(1) by (simp add: run_inv_def)
  show "\<forall>p \<in> set (ps @ [p]). poll_ok d p" using assms(1,2) by (simp add: run_inv_def)
  fix x y k
  assume *: "x < length (ps @ [p])" "y < length (ps @ [p])" "answered_key ((ps @ [p]) ! x) = Some k"
  then have x: "x < length ps" "answered_key (ps ! x) = Some k"
    using assms(4) by (auto simp: nth_append split: if_splits)
  have old: "held_key (ps ! y) \<noteq> Some k" "x \<noteq> y \<Longrightarrow> answered_key (ps ! y) \<noteq> Some k" if "y < length ps"
    using assms(1) that x unfolding run_inv_def by blast+
  show "held_key ((ps @ [p]) ! y) \<noteq> Some k"
    using old(1) assms(3) *(2) by (auto simp: nth_append less_Suc_eq)
  assume "x \<noteq> y"
  then show "answered_key ((ps @ [p]) ! y) \<noteq> Some k"
    using old(2) assms(4) *(2) by (auto simp: nth_append less_Suc_eq)
qed

lemma run_inv_pick:
  assumes "run_inv d ps" and "i < length ps" and "lease_pick (po_node (ps ! i)) (po_last (ps ! i)) d = k"
  shows "run_inv d (ps[i := (ps ! i)\<lparr>po_phase := Leasing k\<rparr>])"
proof (rule run_inv_update [OF assms(1,2)])
  show "poll_ok d ((ps ! i)\<lparr>po_phase := Leasing k\<rparr>)"
    unfolding poll_ok_def keys_simps
  proof (intro conjI allI impI)
    fix k' assume "k = Some k'"
    with assms(3) obtain r where "r \<in> set (t_runner_commands d)" "command_row_key r = k'"
        "pending_row (po_node (ps ! i)) r" "po_last (ps ! i) <s pq_sequence r"
      using lease_pick_Some by blast
    moreover from this have "k' \<in> command_row_key ` set (t_runner_commands d)" by blast
    ultimately show "fst k' = po_node ((ps ! i)\<lparr>po_phase := Leasing k\<rparr>)" "po_last ((ps ! i)\<lparr>po_phase := Leasing k\<rparr>) <s snd k'"
        "k' \<in> command_row_key ` set (t_runner_commands d)"
      by (auto simp: command_row_key_def pending_row_def)
  qed simp_all
  fix j k' assume "j < length ps" "held_key ((ps ! i)\<lparr>po_phase := Leasing k\<rparr>) = Some k'"
  then show "answered_key (ps ! j) \<noteq> Some k'"
    using picked_unanswered [OF assms(1)] assms(3) by simp
qed simp_all

lemma run_inv_lease:
  assumes "run_inv d ps" and "exclusive ps" and i: "i < length ps" "phase_of ps i = Leasing k"
    and "lease_row now k d = (a, d')"
  shows "run_inv d' (ps[i := (ps ! i)\<lparr>po_phase := Answered a\<rparr>])"
  using assms(5)
proof (cases rule: lease_row_cases)
  case none
  have "poll_ok d ((ps ! i)\<lparr>po_phase := Answered None\<rparr>)" by (simp add: poll_ok_def)
  from run_inv_update [OF assms(1) i(1) this] none show ?thesis by simp
next
  case (row r)
  have held: "held_key (ps ! i) = Some (command_row_key r)" using i row(2) by (simp add: held_key_def)
  then have ok: "fst (command_row_key r) = po_node (ps ! i)" "po_last (ps ! i) <s snd (command_row_key r)"
    using run_inv_nth [OF assms(1) i(1)] by (auto simp: poll_ok_def)
  have "distinct (map command_row_key (t_runner_commands d'))"
    unfolding row(5) using assms(1) by (simp add: run_inv_def)
  from run_inv_grow [OF assms(1) row(4) this] have "run_inv d' ps" .
  then show ?thesis
  proof (rule run_inv_update [OF _ i(1)])
    show "poll_ok d' ((ps ! i)\<lparr>po_phase := Answered a\<rparr>)"
      using ok row(3,6) by (simp add: poll_ok_def)
    fix j k' assume j: "j < length ps" "j \<noteq> i" "answered_key ((ps ! i)\<lparr>po_phase := Answered a\<rparr>) = Some k'"
    then have k': "k' = command_row_key r" using row(3) by simp
    have "answered_key (ps ! j) \<noteq> Some k'"
      using assms(1) i(1) j(1) held k' unfolding run_inv_def by metis
    moreover have "held_key (ps ! j) \<noteq> Some k'"
    proof
      assume *: "held_key (ps ! j) = Some k'"
      then have "po_node (ps ! j) = po_node (ps ! i)"
        using run_inv_nth [OF assms(1) j(1)] ok(1) k' by (auto simp: poll_ok_def)
      with * held assms(2) i(1) j(1,2) show False unfolding exclusive_def by (metis option.distinct(1))
    qed
    ultimately show "answered_key (ps ! j) \<noteq> Some k' \<and> held_key (ps ! j) \<noteq> Some k'" by simp
  qed simp_all
qed

lemma interleaved_step_inv:
  assumes "interleaved_step s s'" and "run_inv (fst s) (snd s)" and "exclusive (snd s)"
  shows "run_inv (fst s') (snd s')"
  using assms
proof (induction rule: interleaved_step.induct)
  case (arrive d ps n q)
  have "poll_ok d \<lparr>po_node = n, po_last = q, po_phase = Skipping\<rparr>" by (simp add: poll_ok_def)
  from run_inv_append [OF _ this, of ps] arrive show ?case by simp
next
  case (skip i ps d d')
  from skip(4) have "distinct (map command_row_key (t_runner_commands d'))"
    unfolding skip_grows(2) [OF skip(3)] by (simp add: run_inv_def)
  with skip(4) have inv: "run_inv d' ps" using run_inv_grow [OF _ skip_grows(1) [OF skip(3)]] by simp
  have "poll_ok d' ((ps ! i)\<lparr>po_phase := Picking\<rparr>)" by (simp add: poll_ok_def)
  from run_inv_update [OF inv skip(1) this] show ?case by simp
next
  case (pick i ps d)
  then show ?case using run_inv_pick [OF _ pick(1) refl, of d] by simp
next
  case (lease i ps k now d a d')
  then show ?case using run_inv_lease [OF _ _ lease(1-3)] by simp
next
  case (enqueue row d d' ps)
  then have inv: "run_inv d ps" by simp
  then have "distinct (map command_row_key (t_runner_commands d'))"
    using enqueue_grows(2) [OF enqueue(1)] by (simp add: run_inv_def)
  from run_inv_grow [OF inv enqueue_grows(1) [OF enqueue(1)] this] show ?case by simp
qed

lemma exclusive_run_inv: "exclusive_run s \<Longrightarrow> run_inv (fst s) (snd s) \<and> exclusive (snd s)"
proof (induction rule: exclusive_run.induct)
  case (start d)
  then show ?case by (simp add: run_inv_def pg_keys_def exclusive_def)
next
  case (step s s')
  then show ?case using interleaved_step_inv by blast
qed

section \<open>Properties\<close>

text \<open>
  C11. As long as no two polls of one node are between the two halves of the leasing statement, each
  command is delivered at most once, however the statements of the polls of all nodes interleave with
  one another and with enqueued commands; and what a poll gets is the envelope of a row of its own
  node, newer than the sequence number it sent.
\<close>

theorem exclusive_polls_deliver_once:
  assumes "exclusive_run (d, ps)" and "i < length ps" and "phase_of ps i = Answered (Some (k, envelope))"
  shows "(\<forall>j < length ps. \<forall>e. j \<noteq> i \<longrightarrow> phase_of ps j \<noteq> Answered (Some (k, e))) \<and>
    fst k = po_node (ps ! i) \<and> po_last (ps ! i) <s snd k \<and>
    (\<exists>r \<in> set (t_runner_commands d). command_row_key r = k \<and> pq_envelope_json r = envelope)"
proof -
  have inv: "run_inv d ps" using exclusive_run_inv [OF assms(1)] by simp
  have "answered_key (ps ! i) = Some k" using assms(3) by (simp add: answered_key_def)
  then have "answered_key (ps ! j) \<noteq> Some k" if "j < length ps" "j \<noteq> i" for j
    using inv assms(2) that unfolding run_inv_def by metis
  then have "\<forall>j < length ps. \<forall>e. j \<noteq> i \<longrightarrow> phase_of ps j \<noteq> Answered (Some (k, e))"
    by (fastforce simp: answered_key_def)
  then show ?thesis
    using run_inv_nth [OF inv assms(2)] assms(3) by (auto simp: poll_ok_def)
qed

lemma lease_row_exists:
  assumes "distinct (map command_row_key (t_runner_commands d))" and "r \<in> set (t_runner_commands d)"
  obtains d' where "lease_row now (Some (command_row_key r)) d = (Some (command_row_key r, pq_envelope_json r), d')"
    and "rows_grow d d'" and "map command_row_key (t_runner_commands d') = map command_row_key (t_runner_commands d)"
proof -
  obtain a d' where l: "lease_row now (Some (command_row_key r)) d = (a, d')" by fastforce
  then have a: "a = Some (command_row_key r, pq_envelope_json r)"
    by (simp add: lease_row_def find_key [OF assms])
  from l show thesis
  proof (cases rule: lease_row_cases)
    case none
    with a show thesis by simp
  next
    case (row x)
    from that [OF l [unfolded a] row(4,5)] show thesis .
  qed
qed

lemma grown_row:
  assumes "rows_grow d d'" and "r \<in> set (t_runner_commands d)"
  obtains r' where "r' \<in> set (t_runner_commands d')" "command_row_key r' = command_row_key r"
    "pq_envelope_json r' = pq_envelope_json r"
  using assms unfolding rows_grow_def by blast

text \<open>
  C33. Two overlapping polls of one node can both be given the same command: whenever a command is
  pending for the node, there is an order of the statements of the two polls in which both choose
  it before either leases it, and both return its envelope.
\<close>

theorem concurrent_polls_deliver_twice:
  assumes "pg_keys d" and "lease_pick n q d = Some k"
  shows "\<exists>d' r. r \<in> set (t_runner_commands d) \<and> command_row_key r = k \<and>
    interleaved_step\<^sup>*\<^sup>* (d, []) (d',
      [\<lparr>po_node = n, po_last = q, po_phase = Answered (Some (k, pq_envelope_json r))\<rparr>,
       \<lparr>po_node = n, po_last = q, po_phase = Answered (Some (k, pq_envelope_json r))\<rparr>])"
proof -
  let ?p = "\<lambda>ph. \<lparr>po_node = n, po_last = q, po_phase = ph\<rparr>"
  obtain r where r: "r \<in> set (t_runner_commands d)" "command_row_key r = k"
    using lease_pick_Some [OF assms(2)] by metis
  obtain d1 d2 where skips: "sql_skip_commands n q d = Ok d1" "sql_skip_commands n q d1 = Ok d2"
    by (simp add: sql_skip_commands_def)
  have picks: "lease_pick n q d2 = Some k" using skips assms(2) skip_keeps_pick by metis
  have keys: "distinct (map command_row_key (t_runner_commands d2))"
    unfolding skip_grows(2) [OF skips(2)] skip_grows(2) [OF skips(1)] using assms(1) by (simp add: pg_keys_def)
  obtain r1 where r1: "r1 \<in> set (t_runner_commands d1)" "command_row_key r1 = k"
      "pq_envelope_json r1 = pq_envelope_json r"
    using grown_row [OF skip_grows(1) [OF skips(1)] r(1)] r(2) by metis
  obtain r2 where r2: "r2 \<in> set (t_runner_commands d2)" "command_row_key r2 = k"
      "pq_envelope_json r2 = pq_envelope_json r"
    using grown_row [OF skip_grows(1) [OF skips(2)] r1(1)] r1(2,3) by metis
  obtain d3 where d3: "lease_row 0 (Some k) d2 = (Some (k, pq_envelope_json r), d3)" "rows_grow d2 d3"
      "map command_row_key (t_runner_commands d3) = map command_row_key (t_runner_commands d2)"
    using lease_row_exists [OF keys r2(1)] unfolding r2(2,3) by blast
  obtain r3 where r3: "r3 \<in> set (t_runner_commands d3)" "command_row_key r3 = k"
      "pq_envelope_json r3 = pq_envelope_json r"
    using grown_row [OF d3(2) r2(1)] r2(2,3) by metis
  have "distinct (map command_row_key (t_runner_commands d3))" unfolding d3(3) by (rule keys)
  from lease_row_exists [OF this r3(1)]
  obtain d4 where d4: "lease_row 0 (Some k) d3 = (Some (k, pq_envelope_json r), d4)" unfolding r3(2,3) by blast
  have steps: "interleaved_step (d, []) (d, [?p Skipping])" "interleaved_step (d, [?p Skipping]) (d, [?p Skipping, ?p Skipping])"
    "interleaved_step (d, [?p Skipping, ?p Skipping]) (d1, [?p Picking, ?p Skipping])"
    "interleaved_step (d1, [?p Picking, ?p Skipping]) (d2, [?p Picking, ?p Picking])"
    "interleaved_step (d2, [?p Picking, ?p Picking]) (d2, [?p (Leasing (Some k)), ?p Picking])"
    "interleaved_step (d2, [?p (Leasing (Some k)), ?p Picking]) (d2, [?p (Leasing (Some k)), ?p (Leasing (Some k))])"
    "interleaved_step (d2, [?p (Leasing (Some k)), ?p (Leasing (Some k))])
       (d3, [?p (Answered (Some (k, pq_envelope_json r))), ?p (Leasing (Some k))])"
    "interleaved_step (d3, [?p (Answered (Some (k, pq_envelope_json r))), ?p (Leasing (Some k))])
       (d4, [?p (Answered (Some (k, pq_envelope_json r))), ?p (Answered (Some (k, pq_envelope_json r)))])"
    using interleaved_step.arrive [of d "[]" n q] interleaved_step.arrive [of d "[?p Skipping]" n q]
      interleaved_step.skip [of 0 "[?p Skipping, ?p Skipping]" d d1] interleaved_step.skip [of 1 "[?p Picking, ?p Skipping]" d1 d2]
      interleaved_step.pick [of 0 "[?p Picking, ?p Picking]" d2] interleaved_step.pick [of 1 "[?p (Leasing (Some k)), ?p Picking]" d2]
      interleaved_step.lease [OF _ _ d3(1), of 0 "[?p (Leasing (Some k)), ?p (Leasing (Some k))]"]
      interleaved_step.lease [OF _ _ d4, of 1 "[?p (Answered (Some (k, pq_envelope_json r))), ?p (Leasing (Some k))]"]
    by (simp_all add: skips picks)
  have "interleaved_step\<^sup>*\<^sup>* (d, []) (d4, [?p (Answered (Some (k, pq_envelope_json r))),
      ?p (Answered (Some (k, pq_envelope_json r)))])"
    by (rule steps rtranclp.rtrancl_refl rtranclp.rtrancl_into_rtrancl)+
  with r show ?thesis by blast
qed

section \<open>The properties at a concrete database\<close>

definition two_polls_db :: pg_db where
  "two_polls_db = pg_db (pg_demo [EnqueueCommand ''node-a'' demo_envelope])"

lemma two_polls_db_facts:
  "pg_keys two_polls_db" "lease_pick ''node-a'' 0 two_polls_db = Some (''node-a'', 1)"
proof -
  have "pg_reachable demo_libs demo_serde (pg_demo [EnqueueCommand ''node-a'' demo_envelope])"
    by (rule pg_demo_reachable) simp
  from pg_reachable_inv [OF this] show "pg_keys two_polls_db" by (simp add: two_polls_db_def pg_inv_def)
  show "lease_pick ''node-a'' 0 two_polls_db = Some (''node-a'', 1)" by code_simp
qed

theorem concurrent_polls_deliver_twice_witness:
  "\<exists>d' j. interleaved_step\<^sup>*\<^sup>* (two_polls_db, []) (d',
      [\<lparr>po_node = ''node-a'', po_last = 0, po_phase = Answered (Some ((''node-a'', 1), j))\<rparr>,
       \<lparr>po_node = ''node-a'', po_last = 0, po_phase = Answered (Some ((''node-a'', 1), j))\<rparr>])"
  using concurrent_polls_deliver_twice [OF two_polls_db_facts] by blast

text \<open>A single poll is exclusive and takes the command.\<close>

lemma exclusive_single [simp]: "exclusive []" "exclusive [p]"
  by (simp_all add: exclusive_def)

theorem exclusive_polls_deliver_once_witness:
  "\<exists>d j. exclusive_run (d, [\<lparr>po_node = ''node-a'', po_last = 0, po_phase = Answered (Some ((''node-a'', 1), j))\<rparr>]) \<and>
    (\<exists>r \<in> set (t_runner_commands d). command_row_key r = (''node-a'', 1) \<and> pq_envelope_json r = j)"
proof -
  let ?p = "\<lambda>ph. \<lparr>po_node = ''node-a'', po_last = 0, po_phase = ph\<rparr>"
  let ?k = "(''node-a'', 1)"
  obtain d1 where skip: "sql_skip_commands ''node-a'' 0 two_polls_db = Ok d1" by (simp add: sql_skip_commands_def)
  have pick: "lease_pick ''node-a'' 0 d1 = Some ?k" using skip two_polls_db_facts(2) skip_keeps_pick by metis
  then obtain r where r: "r \<in> set (t_runner_commands d1)" "command_row_key r = ?k"
    using lease_pick_Some by metis
  have "distinct (map command_row_key (t_runner_commands d1))"
    unfolding skip_grows(2) [OF skip] using two_polls_db_facts(1) by (simp add: pg_keys_def)
  from lease_row_exists [OF this r(1)]
  obtain d2 where d2: "lease_row 0 (Some ?k) d1 = (Some (?k, pq_envelope_json r), d2)" unfolding r(2) by blast
  have "exclusive_run (two_polls_db, [])" by (rule exclusive_run.start [OF two_polls_db_facts(1)])
  from exclusive_run.step [OF this interleaved_step.arrive]
  have "exclusive_run (two_polls_db, [?p Skipping])" by simp
  from exclusive_run.step [OF this interleaved_step.skip [of 0]] have "exclusive_run (d1, [?p Picking])"
    by (simp add: skip)
  from exclusive_run.step [OF this interleaved_step.pick [of 0]] have "exclusive_run (d1, [?p (Leasing (Some ?k))])"
    by (simp add: pick)
  from exclusive_run.step [OF this interleaved_step.lease [OF _ _ d2, of 0]]
  have run: "exclusive_run (d2, [?p (Answered (Some (?k, pq_envelope_json r)))])" by simp
  from exclusive_polls_deliver_once [OF run, of 0] run show ?thesis by auto
qed

end
