(* ===== verification/Spec2Isabelle.thy ===== *)
theory Spec2Isabelle
  imports Memory_Views Network_Start Postgres_Usage Postgres_Restart Postgres_Concurrent
begin

text \<open>
  Verification of the proxy control plane (the Rust crates under src/crates).

  \<^bold>\<open>The program.\<close> An administrator describes proxy profiles and clients to the control plane
  (crate control-plane), which compiles a profile for a node to an Xray configuration (crate
  compiler-xray), stores it as a content-addressed artifact, and queues a signed command for the node
  in the store (crate storage, in memory or PostgreSQL). A runner on the node (crate runner) polls for
  commands, verifies their signature, node, sequence number, nonce and expiry (crate domain), tests
  and publishes the configuration on disk, switches the link \<open>active\<close> to it, and submits a signed
  result. Subscribers fetch share links (crate subscription) with a token.

  \<^bold>\<open>Theories and sources.\<close>
  \<^item> \<open>Proxy_Prelude\<close>: results, operations on a state (\<open>and_then\<close> is the \<open>?\<close> operator; an error keeps
    what was already written), hash maps, strings, clocks and UUIDs as ambient inputs \<open>env\<close>.
  \<^item> \<open>Domain\<close> (domain/src/lib.rs): profile IR, credentials, artifacts, signed commands and results;
    \<open>command_verify\<close> is \<open>SignedRunnerCommand::verify\<close>. \<open>Compiler_Xray\<close> (compiler-xray/src/lib.rs):
    the whole compiler. \<open>Subscription\<close> (subscription/src/lib.rs): links and their base64 body.
  \<^item> \<open>Storage_Types\<close>, \<open>Memory_Store\<close> (storage/src/lib.rs, to line 1717): the records, the free
    functions and \<open>MemoryStore\<close>, one definition \<open>mem_f\<close> per method \<open>f\<close>, a step on the record
    \<open>memory_state\<close> (the fields of \<open>MemoryState\<close>). \<open>Memory_Invariant\<close>, \<open>Memory_Props\<close>, \<open>Memory_Views\<close>:
    the invariant by rule induction over all call sequences, and what reads return.
  \<^item> \<open>Store_Interface\<close>: the trait \<open>ProxyStore\<close> as a record of operations, \<open>memory_store\<close> as its
    instance; the locales \<open>command_queue\<close>, \<open>response_cache\<close> and \<open>artifact_store\<close> state what the
    control plane relies on and are interpreted at \<open>memory_store\<close>.
  \<^item> \<open>Postgres_Schema\<close>, \<open>Postgres_SQL\<close>, \<open>Postgres_Store\<close>, \<open>Postgres_Access\<close> (storage/src/lib.rs,
    lines 1720-3521, and migrations/0001_p0_schema.sql): tables as lists of rows, one definition
    \<open>sql_x\<close> per writing statement with the constraints of the schema, one \<open>pg_f\<close> per method, and
    \<open>postgres_store\<close>. Every statement may fail before or after it is executed, at any point of a
    method; only the registration with a token is a transaction. \<open>Postgres_Invariant\<close>,
    \<open>Postgres_Reach\<close>: the invariant of the tables under all calls and faults; \<open>Postgres_Props\<close>,
    \<open>Postgres_Queue\<close>, \<open>Postgres_Usage\<close>: its consequences, the refinement of the memory queue, and
    the exactness of usage totals. \<open>Postgres_Commands\<close>: what no method does to a command row;
    \<open>Postgres_Concurrent\<close>: polls whose statements interleave, under what PostgreSQL documents of
    Read Committed.
  \<^item> \<open>Control_Plane\<close> (control-plane/src/lib.rs): \<open>AppState\<close> as \<open>app_state\<close> and one definition per
    HTTP handler, over any store; an error is a status code with a message. \<open>Control_Plane_Inv\<close>:
    every request keeps the invariant of queue and sequence counters; \<open>Control_Plane_Props\<close>,
    \<open>Control_Plane_Access\<close>: what the deployment, rollback, result, registration and subscription
    handlers do.
  \<^item> \<open>Runner\<close> (runner/src/lib.rs): a file system with directories and links in which every call may
    fail, \<open>LocalRunner\<close>, \<open>OutboundRunner\<close> and the recording source. \<open>Runner_Lemmas\<close>,
    \<open>Runner_Layout\<close>, \<open>Runner_Props\<close>: a small Hoare logic, the disk layout, and the properties.
  \<^item> \<open>Http_Wire\<close>: requests, responses and paths. \<open>Runner_Http\<close> (runner/src/lib.rs, from line 356, and
    runner/src/main.rs): \<open>HttpCommandSource\<close> and the process, whose polling loop is a partial function
    with the value \<open>None\<close> when it never ends; \<open>Runner_Process\<close>: when it ends. \<open>Command_Source\<close>: the
    contract of a command source as a locale, interpreted at both sources.
  \<^item> \<open>Control_Plane_Router\<close> (control-plane/src/lib.rs, \<open>build_router\<close>): the route table, and \<open>serve\<close>, which
    takes a request to its handler and what the handler returns to a response; \<open>Control_Plane_Routes\<close>:
    its properties. \<open>Control_Plane_Boot\<close>: \<open>from_env\<close> and control-plane/src/main.rs. \<open>Served_Store\<close>: the
    locale \<open>kept_store\<close>, what any store must keep for every HTTP request to keep it, interpreted at both
    stores; \<open>Postgres_Served\<close>: processes on one database, restarted and cut off at any statement;
    \<open>Postgres_Restart\<close>: what becomes of the commands of a process started on a used database.
  \<^item> \<open>Runner_Network\<close>: the client of the runner connected to the served control plane, over a network
    that may lose a request or its response; \<open>Network_Props\<close>, \<open>Network_Start\<close>: what the two processes do
    together; \<open>Network_Demo\<close>: a concrete codec and network for the witnesses.

  \<^bold>\<open>What the lemmas show.\<close>
  \<^item> End to end (this theory, \<open>Network_Props\<close>, \<open>Network_Start\<close>): a compiled deployment is executed by
    the next poll over HTTP and reported as succeeded; processes that start from one environment
    enrol; a configuration that a runner reports as succeeded is byte for byte the stored artifact and what \<open>active\<close> leads to; a runner verifies and executes every new command
    of its queue in order, whatever requests were served before.
  \<^item> Control plane: pending commands are addressed, signed and increasing in every reachable state;
    the path determines the route, and a request below \<open>/runner\<close> without the runner token is refused and
    changes nothing; compile, rollback, rollout, result and subscription handlers accept exactly what
    they should and change nothing when they refuse. \<open>app_reachable\<close> is stated over the handlers;
    \<open>serve_reachable\<close> carries it over to HTTP requests.
  \<^item> Stores: the invariants of both stores over all call sequences; commands are delivered in order,
    at most once, and all of them; \<open>PostgresStore\<close> delivers the same commands as \<open>MemoryStore\<close>; a
    registration under connection faults does what the same registration does without them, or nothing; usage totals are exact in the database and
    wrap around in memory; blobs and cached responses round-trip. Whatever requests are served on a
    database, every command row is signed for its node, and a polled command is one the runner
    verifies unless it has expired or is a replay (the store hands out expired commands). The profile of
    a subscription has every credential within its limits, and the links are those of the active ones. Polls of one node that do not overlap get each command at most once; overlapping polls
    can both get it.
  \<^item> Runner: under every pattern of I/O faults an active configuration passed the Xray test and the
    executed commands increase; without faults deployment and rollback return the stated outcome, and
    a runner recovers from any earlier faults. The process runs forever exactly when every poll succeeds.
  \<^item> Compiler and links: the compiler equals a declarative specification with the first error;
    links are recovered from the subscription body.
  \<^item> Deviations: theorems of kind error state what the code does where it does not do what its
    callers or its documents expect (a command lost with its response, a runner ended by one failed
    poll or a used token, a stuck compile, a foreign result, commands dropped after a restart, a
    non-atomic switch, usage counted three times).

  \<^bold>\<open>Parameters and bounds.\<close> Third-party code is a parameter: \<open>libs\<close> (SHA-256, ed25519, hex,
  base64, percent-encoding, serde, chrono's month), \<open>pg_serde\<close> (encoding of columns), \<open>host\<close> (the
  processes a runner starts and the rendering of JSON), \<open>web\<close> (axum's matching of paths, its extractors
  and the encoding of replies), \<open>http_client\<close> (reqwest), \<open>net\<close> (which requests and responses
  arrive), the environment variables of a process, the pool behind a database URL, and the ambient
  inputs \<open>env\<close> of each call: clocks, UUIDs, hash order and row order are arbitrary. Theorems name what
  they need of them (\<open>ed25519_scheme\<close>, \<open>hex_codec\<close>, \<open>pg_codec\<close>, \<open>connected\<close>), and witnesses
  instantiate them with concrete functions. Sequence counters are 64-bit words: theorems on the counters assume they have
  not reached \<open>2^64 - 1\<close>; the queue refinement assumes stored sequence numbers below \<open>2^63\<close>, the range in
  which the cast to \<open>bigint\<close> keeps the order. No definition uses fuel: the polling loop is a partial
  function whose termination is characterised, every other loop of the code runs over a list. The
  runner theorems assume an absolute work directory and deployment ids that are single path
  components, as the control plane makes them.

  \<^bold>\<open>Not modelled.\<close> Concurrent calls of one runner, and of the methods of \<open>PostgresStore\<close> other than polls
  and enqueued commands (each method of \<open>MemoryStore\<close> holds its mutex; elsewhere a method of
  \<open>PostgresStore\<close> is a sequence of statements without other callers between them); text that
  PostgreSQL refuses (NUL bytes) and collations other than C; the internals of axum, reqwest, sqlx and serde; HTTP methods other than GET and POST; the web console,
  scripts and documents, which are not Rust, and the tests.
\<close>

section \<open>Definitions\<close>

definition demo_ir :: profile_ir where
  "demo_ir = set_reality_server_name ''example.com''
     (vless_reality_example ''group_default'' ''sec_reality_private'')"

definition demo_member :: node_record where
  "demo_member = with_runner_result_public_key_hex
     (node_record_new demo_env ''t'' ''node-a'' ''node-a.example'' ''1.8.4'')
     (hex_encode demo_libs (dev_runner_result_verify_key demo_libs))"

text \<open>A control plane after three requests: a node registers, a profile is made and compiled.\<close>

definition demo_boot :: "memory_state app_state" where
  "demo_boot = with_store_and_runner_token demo_libs ''reg'' ''run'' ''t'' (memory_store demo_libs ''t'')
     memory_state_default"

definition demo_serve :: "request \<Rightarrow> memory_state app_state \<Rightarrow> memory_state app_state" where
  "demo_serve = handle demo_libs (\<lambda>_. Ok JNull) (\<lambda>_. demo_env)"

definition demo_registered :: "memory_state app_state" where
  "demo_registered = demo_serve (RegisterNodeReq \<lparr>rnr_registration_token = ''reg'',
     rnr_node_id = ''node-a'', rnr_xray_version = ''1.8.4'', rnr_runner_result_public_key_hex = None\<rparr>)
     demo_boot"

definition demo_compiled :: "memory_state app_state" where
  "demo_compiled =
     demo_serve (CompileReq demo_headers demo_request)
     (demo_serve (VlessProfileReq ''p'' ''example.com'') demo_registered)"

section \<open>From the queue to the runner\<close>

lemma runner_run_executes_queue:
  assumes "hex_codec L" and "ed25519_scheme L" and "queue_inv L key n hi q"
    and "lr_node_id r = n" and "lr_control_plane_key r = ed_verifying_key L key"
    and "\<forall>x \<in> set q. lr_last_sequence r < cmd_sequence (src_command x) \<and>
      cmd_nonce (src_command x) \<notin> lr_seen_nonces r \<and> utc_now e 0 < cmd_expires_at (src_command x)"
    and "distinct (map (\<lambda>x. cmd_nonce (src_command x)) q)"
  shows "fst (runner_run L H (map (Pair e) q) r) = map src_command q"
  using assms(3-)
proof (induction q arbitrary: r)
  case (Cons x q)
  let ?r = "snd (runner_apply L H e x r)"
  have v: "command_verify L x (lr_control_plane_key r) (lr_node_id r) (lr_last_sequence r)
      (lr_seen_nonces r) (utc_now e 0)
      = (Ok (src_command x), insert (cmd_nonce (src_command x)) (lr_seen_nonces r))"
    unfolding Cons.prems(3) using Cons.prems
    by (intro signed_command_verifies [OF assms(1,2)]) (auto simp: queue_inv_def)
  note book = runner_apply_bookkeeping [OF v, of H]
  have "fst (runner_run L H (map (Pair e) q) ?r) = map src_command q"
    using Cons.prems book by (intro Cons.IH) (auto simp: queue_inv_def image_iff)
  then show ?case
    using v by (cases "runner_run L H (map (Pair e) q) ?r") (simp add: Let_def)
qed simp

text \<open>
  C3. Control plane and runner fit together: whatever requests the control plane served, a runner
  of node \<open>n\<close> that holds its public key, and for which the waiting commands are new and not
  yet expired, verifies and executes all of them, in the order of the queue.
\<close>

theorem runner_executes_pending_commands:
  assumes "app_reachable L J T st" and "hex_codec L" and "ed25519_scheme L"
    and "lr_node_id r = n" and "lr_control_plane_key r = ed_verifying_key L (app_signing_key st)"
    and "\<forall>x \<in> set (memory_queue (app_store_state st) n).
      lr_last_sequence r < cmd_sequence (src_command x) \<and>
      cmd_nonce (src_command x) \<notin> lr_seen_nonces r \<and> utc_now e 0 < cmd_expires_at (src_command x)"
    and "distinct (map (\<lambda>x. cmd_nonce (src_command x)) (memory_queue (app_store_state st) n))"
  shows "fst (runner_run L H (map (Pair e) (memory_queue (app_store_state st) n)) r)
    = map src_command (memory_queue (app_store_state st) n)"
proof -
  from app_reachable_inv [OF assms(1)]
  have "queue_inv L (app_signing_key st) n (counter st n) (memory_queue (app_store_state st) n)"
    by (simp add: app_inv_def)
  from runner_run_executes_queue [OF assms(2,3) this assms(4-7)] show ?thesis .
qed

lemmas handler_defs = and_then_def lift_result_def get_app_def call_def map_err_op_def store_call_def
  return_op_def Let_def

lemma demo_registered_eq:
  "\<exists>ts a out. demo_registered = demo_boot\<lparr>app_store_state := memory_state_default
     \<lparr>nodes := [(''node-a'', demo_member)], node_registration_tokens := ts, audit_events := a,
      outbox := out\<rparr>\<rparr>"
  by (simp add: demo_registered_def demo_serve_def demo_boot_def register_node_def handler_defs
      ensure_default_registration_token_def with_store_and_runner_token_def
      mem_create_node_registration_token_def hm_values_def memory_state_default_def mem_record_def
      mem_register_node_with_registration_token_def find_registration_token_def
      node_registration_token_new_def demo_env_def node_record_new_def
      with_runner_result_public_key_hex_def demo_member_def)

lemma demo_ir_valid: "profile_validate demo_ir = Ok ()"
  by code_simp

lemma demo_ir_compiles:
  "\<exists>cx. compile_profile_to_xray demo_libs demo_ir (node_compile_context demo_member []) = Ok cx"
proof -
  have "supports_reality ''1.8.4''" by (simp add: version_eval)
  then show ?thesis
    by (simp add: compile_profile_to_xray_def demo_ir_valid)
       (simp add: demo_ir_def set_reality_server_name_def vless_reality_example_def
        compile_inbound_def compile_vless_def node_compile_context_def demo_member_def
        with_runner_result_public_key_hex_def node_record_new_def with_secret_def
        compile_context_new_def secret_ref_new_def)
qed

lemma demo_profile_eq:
  "\<exists>ts a out. demo_serve (VlessProfileReq ''p'' ''example.com'') demo_registered
     = demo_boot\<lparr>app_store_state := memory_state_default
     \<lparr>nodes := [(''node-a'', demo_member)], node_registration_tokens := ts, audit_events := a,
      outbox := out, profiles := [(''p'', profile_record_new demo_env ''t'' ''p'' demo_ir)]\<rparr>\<rparr>"
proof -
  obtain ts a out where reg: "demo_registered = demo_boot\<lparr>app_store_state := memory_state_default
     \<lparr>nodes := [(''node-a'', demo_member)], node_registration_tokens := ts, audit_events := a,
      outbox := out\<rparr>\<rparr>"
    using demo_registered_eq by blast
  show ?thesis
    unfolding reg using demo_ir_valid
    by (simp add: demo_serve_def demo_boot_def create_vless_reality_profile_def store_profile_def
        handler_defs with_store_and_runner_token_def memory_state_default_def mem_record_def
        mem_create_profile_def demo_ir_def [symmetric] profile_record_new_def)
qed

lemma demo_compile_ok:
  "\<exists>resp st'. compile_deployment demo_libs (\<lambda>_. Ok JNull) (\<lambda>_. demo_env) demo_headers demo_request
     (demo_serve (VlessProfileReq ''p'' ''example.com'') demo_registered)
     = (Ok (CREATED, FreshBody resp), st')"
proof -
  have pretty: "to_vec_pretty demo_libs j = Ok (as_bytes ''{configuration}'')"
      "to_vec_command demo_libs c = Ok (as_bytes (cmd_nonce c))" for j c
    by (auto simp: demo_libs_def)
  obtain ts a out where st: "demo_serve (VlessProfileReq ''p'' ''example.com'') demo_registered
     = demo_boot\<lparr>app_store_state := memory_state_default
     \<lparr>nodes := [(''node-a'', demo_member)], node_registration_tokens := ts, audit_events := a,
      outbox := out, profiles := [(''p'', profile_record_new demo_env ''t'' ''p'' demo_ir)]\<rparr>\<rparr>"
    using demo_profile_eq by blast
  obtain cx where "compile_profile_to_xray demo_libs demo_ir (node_compile_context demo_member []) = Ok cx"
    using demo_ir_compiles by blast
  then show ?thesis
    unfolding st
    by (simp add: compile_deployment_def compile_uncached_def compile_for_node_def handler_defs
        sign_and_enqueue_def next_sequence_def optional_header_value_def demo_headers_def
        demo_request_def demo_boot_def with_store_and_runner_token_def pretty
        memory_state_default_def mem_idempotency_response_def mem_profile_def mem_node_def
        mem_credentials_for_profile_def mem_record_artifact_blob_def
        mem_record_deployment_plan_def mem_enqueue_runner_command_def mem_audit_count_def
        mem_outbox_count_def mem_record_idempotency_response_def command_sign_def
        profile_record_new_def)
qed

lemma demo_compiled_queue:
  "\<exists>x. memory_queue (app_store_state demo_compiled) ''node-a'' = [x] \<and>
     cmd_sequence (src_command x) = 1 \<and> utc_now demo_env 0 < cmd_expires_at (src_command x)"
proof -
  let ?st = "demo_serve (VlessProfileReq ''p'' ''example.com'') demo_registered"
  obtain resp st' where ok: "compile_deployment demo_libs (\<lambda>_. Ok JNull) (\<lambda>_. demo_env) demo_headers
      demo_request ?st = (Ok (CREATED, FreshBody resp), st')" using demo_compile_ok by blast
  then have st': "demo_compiled = st'" by (simp add: demo_compiled_def demo_serve_def)
  have "app_store ?st = memory_store demo_libs ''t''" "memory_queue (app_store_state ?st) ''node-a'' = []"
      "counter ?st ''node-a'' = 0"
    using demo_profile_eq
    by (auto simp: demo_boot_def with_store_and_runner_token_def memory_queue_def
        memory_state_default_def counter_def)
  with ok st' show ?thesis
    by (cases rule: compile_deployment_effect [OF _ ok])
       (auto simp: demo_request_def runner_command_new_def demo_env_def seconds_def)
qed

lemma demo_profile_reachable:
  "app_reachable demo_libs (\<lambda>_. Ok JNull) ''t'' (demo_serve (VlessProfileReq ''p'' ''example.com'') demo_registered)"
  "counters_ok (demo_serve (VlessProfileReq ''p'' ''example.com'') demo_registered)"
proof -
  let ?st = "demo_serve (VlessProfileReq ''p'' ''example.com'') demo_registered"
  have boot: "app_reachable demo_libs (\<lambda>_. Ok JNull) ''t'' demo_boot"
    unfolding demo_boot_def by (rule app_reachable.boot)
  have ok: "counters_ok demo_boot"
    by (simp add: demo_boot_def counters_ok_def counter_def with_store_and_runner_token_def)
  from boot ok have "app_reachable demo_libs (\<lambda>_. Ok JNull) ''t'' demo_registered"
    unfolding demo_registered_def demo_serve_def by (rule app_reachable.request)
  moreover obtain s where reg: "demo_registered = demo_boot\<lparr>app_store_state := s\<rparr>"
    using demo_registered_eq by blast
  have "app_node_sequences demo_registered = app_node_sequences demo_boot" unfolding reg by simp
  with ok have "counters_ok demo_registered" by (simp add: counters_ok_def counter_def)
  ultimately show "app_reachable demo_libs (\<lambda>_. Ok JNull) ''t'' ?st"
    unfolding demo_serve_def by (rule app_reachable.request)
  obtain s where pro: "?st = demo_boot\<lparr>app_store_state := s\<rparr>"
    using demo_profile_eq by blast
  have "app_node_sequences ?st = app_node_sequences demo_boot" unfolding pro by simp
  with ok show "counters_ok ?st" by (simp add: counters_ok_def counter_def)
qed

lemma demo_compiled_reachable: "app_reachable demo_libs (\<lambda>_. Ok JNull) ''t'' demo_compiled"
  using demo_profile_reachable unfolding demo_compiled_def demo_serve_def by (rule app_reachable.request)

theorem runner_executes_pending_commands_witness:
  "\<exists>c. fst (runner_run demo_libs demo_host
      (map (Pair demo_env) (memory_queue (app_store_state demo_compiled) ''node-a''))
      (local_runner_new ''node-a'' (ed_verifying_key demo_libs (app_signing_key demo_compiled)) fresh_disk))
    = [c] \<and> cmd_sequence c = 1"
proof -
  obtain x where x: "memory_queue (app_store_state demo_compiled) ''node-a'' = [x]"
      "cmd_sequence (src_command x) = 1" "utc_now demo_env 0 < cmd_expires_at (src_command x)"
    using demo_compiled_queue by blast
  with runner_executes_pending_commands [OF demo_compiled_reachable demo_libs_ok(1,2), of
      "local_runner_new ''node-a'' (ed_verifying_key demo_libs (app_signing_key demo_compiled)) fresh_disk"
      "''node-a''" demo_env demo_host]
  show ?thesis by (simp add: local_runner_new_def del: runner_run.simps)
qed

text \<open>
  C2. From the compiler to the disk: when the control plane compiles a deployment and a runner
  reports the command it enqueued as succeeded, the configuration the runner's \<open>active\<close> link
  leads to is, byte for byte, the artifact the control plane stored, and hashes to the digest it
  announced.
\<close>

theorem compiled_configuration_reaches_disk:
  assumes "app_store st = memory_store L T"
    and "compile_deployment L J E h req st = (Ok (code, FreshBody resp), st')"
    and "runner_apply L H e (last (memory_queue (app_store_state st') (cdr_node_id req))) r = (Ok res, r')"
    and "dr_status res = Succeeded"
  shows "\<exists>b p. mem_artifact_bytes (art_id (cdp_artifact resp)) (app_store_state st')
      = (Ok b, app_store_state st') \<and>
    d_files (lr_disk r') active = Some (Symlink p) \<and> d_files (lr_disk r') (config_of p) = Some (File b) \<and>
    sha256_hex L b = art_sha256 (cdp_artifact resp)"
  using assms(1,2)
proof (cases rule: compile_deployment_effect)
  case (1 b config c p)
  then have x: "last (memory_queue (app_store_state st') (cdr_node_id req)) = c" by simp
  let ?i = "deployment_id_of (cdp_artifact resp)"
  from assms(3) 1(12) obtain d' where "apply_deployment L H e (lr_reload_command r) (lr_health_command r) ?i
      (art_sha256 (cdp_artifact resp)) config (lr_disk r) = (Ok res, d')" "lr_disk r' = d'"
    unfolding x
    by (auto simp: runner_apply_def command_verify_Ok runner_command_new_def Let_def on_disk_def
        split: prod.splits result.splits)
  from succeeded_active [OF this(1) assms(4)] this(2) 1 show ?thesis
    by (intro exI [of _ b] exI [of _ "release_dir_of ?i"]) (auto simp: mem_artifact_bytes_def)
qed

theorem compiled_configuration_reaches_disk_witness:
  "\<exists>b p res r'. runner_apply demo_libs demo_host demo_env
      (last (memory_queue (app_store_state demo_compiled) ''node-a''))
      (local_runner_new ''node-a'' (ed_verifying_key demo_libs
         (app_signing_key (demo_serve (VlessProfileReq ''p'' ''example.com'') demo_registered))) fresh_disk)
      = (Ok res, r') \<and>
    d_files (lr_disk r') active = Some (Symlink p) \<and> d_files (lr_disk r') (config_of p) = Some (File b)"
proof -
  let ?st = "demo_serve (VlessProfileReq ''p'' ''example.com'') demo_registered"
  let ?r = "local_runner_new ''node-a'' (ed_verifying_key demo_libs (app_signing_key ?st)) fresh_disk"
  obtain resp where ok: "compile_deployment demo_libs (\<lambda>_. Ok JNull) (\<lambda>_. demo_env) demo_headers
      demo_request ?st = (Ok (CREATED, FreshBody resp), demo_compiled)"
    using demo_compile_ok by (auto simp: demo_compiled_def demo_serve_def)
  have st: "app_store ?st = memory_store demo_libs ''t''"
    using demo_profile_eq by (auto simp: demo_boot_def with_store_and_runner_token_def)
  have n: "cdr_node_id demo_request = ''node-a''" by (simp add: demo_request_def)
  show ?thesis
    using st ok
  proof (cases rule: compile_deployment_effect)
    case (1 b config c p)
    then have x: "last (memory_queue (app_store_state demo_compiled) ''node-a'') = c"
      by (simp add: n)
    have "c = hd (memory_queue (app_store_state demo_compiled) ''node-a'')"
      using demo_compiled_queue x by auto
    with demo_compiled_queue have "cmd_sequence (src_command c) = 1"
        "utc_now demo_env 0 < cmd_expires_at (src_command c)" by auto
    then have v: "command_verify demo_libs c (lr_control_plane_key ?r) (lr_node_id ?r)
        (lr_last_sequence ?r) (lr_seen_nonces ?r) (utc_now demo_env 0)
        = (Ok (src_command c), {cmd_nonce (src_command c)})"
      using signed_command_verifies [OF demo_libs_ok(1,2) 1(11), of "''node-a''" 0 "{}"] 1(12)
      by (simp add: local_runner_new_def runner_command_new_def n)
    obtain res d' where d': "apply_deployment demo_libs demo_host demo_env None None
        (deployment_id_of (cdp_artifact resp)) (art_sha256 (cdp_artifact resp)) config fresh_disk
        = (Ok res, d')" "dr_status res = Succeeded"
      using runsD [OF apply_deployment_runs [OF demo_host_ok(1,4,2,3,3)], of fresh_disk]
        fresh_disk_layout by blast
    have "\<exists>r'. runner_apply demo_libs demo_host demo_env c ?r = (Ok res, r')"
      using v d'(1) 1(12)
      by (simp add: runner_apply_def Let_def runner_command_new_def on_disk_def local_runner_new_def)
    then obtain r' where r': "runner_apply demo_libs demo_host demo_env
        (last (memory_queue (app_store_state demo_compiled) (cdr_node_id demo_request))) ?r = (Ok res, r')"
      unfolding n x by blast
    from compiled_configuration_reaches_disk [OF st ok this d'(2)] this show ?thesis
      unfolding n by blast
  qed
qed

text \<open>
  C1. From the request to the disk and back: when the control plane has compiled a deployment for a
  node without waiting commands, and a runner of that node, enrolled and authorised at this control
  plane and holding its public key, with a last sequence number up to the counter of the node and
  without the nonce of the command, polls over HTTP within a minute on a healthy machine whose
  Xray accepts the configuration, the poll succeeds, the deployment is reported as succeeded, and
  \<open>active\<close> leads to the bytes of the stored artifact.
\<close>

theorem deployment_completes:
  assumes "app_ready L T st"
    and ok: "compile_deployment L J E h req st = (Ok (code, FreshBody resp), st')"
    and idle: "memory_queue (app_store_state st) n = []" and n: "cdr_node_id req = n" "plain n"
    and "connected L J W N C" and "\<forall>k. nt_link N k = Delivered"
    and "sv_app (hcs_client (ob_source ob)) = st'"
    and "authorised N (ob_source ob)" and "enrolled L n (ob_source ob)"
    and "lr_node_id (ob_local ob) = n"
    and "lr_control_plane_key (ob_local ob) = ed_verifying_key L (app_signing_key st)"
    and "lr_last_sequence (ob_local ob) \<le> counter st n"
    and "new_v4 (E 9) 0 \<notin> lr_seen_nonces (ob_local ob)"
    and "utc_now e 0 < utc_now (E 9) 0 + seconds 60"
    and "healthy_machine H (ob_local ob)"
    and bytes: "mem_artifact_bytes (art_id (cdp_artifact resp)) (app_store_state st')
      = (Ok b, app_store_state st')" and "passes H b"
    and "hex_codec L" and "ed25519_scheme L" and "serde_total L"
  shows "\<exists>res ob'. poll_apply_once L H e (http_command_source L C V) ob = (Ok (Some res), ob') \<and>
    dr_status res = Succeeded \<and>
    mem_deployment_status (deployment_id_of (cdp_artifact resp))
      (app_store_state (sv_app (hcs_client (ob_source ob'))))
      = (Ok Succeeded, app_store_state (sv_app (hcs_client (ob_source ob')))) \<and>
    (\<exists>p. d_files (lr_disk (ob_local ob')) active = Some (Symlink p) \<and>
       d_files (lr_disk (ob_local ob')) (config_of p) = Some (File b))"
proof -
  let ?i = "deployment_id_of (cdp_artifact resp)" and ?r = "ob_local ob"
  have st: "app_store st = memory_store L T" "counter st n \<noteq> - 1"
    using assms(1) by (simp_all add: app_ready_def app_inv_def counters_ok_def)
  have st': "app_store st' = memory_store L T"
    using tripleD [OF compile_deployment_keeps assms(1), of J E h req] ok by (simp add: app_inv_def)
  show ?thesis
    using st(1) ok
  proof (cases rule: compile_deployment_effect)
    case (1 b' config c p)
    have b: "b' = b" using 1(3,4) bytes by (simp add: mem_artifact_bytes_def)
    have c: "cmd_node_id (src_command c) = n" "lr_last_sequence ?r < cmd_sequence (src_command c)"
        "cmd_nonce (src_command c) \<notin> lr_seen_nonces ?r" "utc_now e 0 < cmd_expires_at (src_command c)"
        "cmd_kind (src_command c) = ApplyDeploymentPlan ?i (art_sha256 (cdp_artifact resp)) config None"
      using 1(12) n(1) assms(13-15) word_less_Suc [OF st(2)] by (auto simp: runner_command_new_def)
    have q: "memory_queue (app_store_state st') n = [c]"
      using 1(10) idle n(1) by simp
    from signed_command_verifies [OF assms(19,20) 1(11) c(1-4)]
    have "command_verify L c (lr_control_plane_key ?r) (lr_node_id ?r) (lr_last_sequence ?r)
        (lr_seen_nonces ?r) (utc_now e 0)
        = (Ok (src_command c), insert (cmd_nonce (src_command c)) (lr_seen_nonces ?r))"
      unfolding assms(11,12) .
    from runner_apply_succeeds [OF assms(16) 1(2) [unfolded b] assms(18) this c(5)]
    obtain res r' where run: "runner_apply L H e c ?r = (Ok res, r')" "dr_status res = Succeeded"
        "dr_deployment_id res = ?i" "d_files (lr_disk r') active = Some (Symlink (release_dir_of ?i))"
        "d_files (lr_disk r') (config_of (release_dir_of ?i)) = Some (File b)" .
    have dep: "hm_contains (deployments (app_store_state st')) (dr_deployment_id res)"
      using 1(5) run(3) by simp
    have ready: "http_ready L J W N C T (ob_source ob) n"
      using assms(6,7,9,10,19-21) n(2) st' by (simp add: http_ready_def assms(8))
    from http_source.poll_executes [OF ready assms(11) q [folded assms(8)] c(2) run(1) dep [folded assms(8)]]
    obtain ob' where "poll_apply_once L H e (http_command_source L C V) ob = (Ok (Some res), ob')"
        "ob_local ob' = r'" "http_recorded (ob_source ob') res"
      by metis
    with run show ?thesis
      by (intro exI [of _ res] exI [of _ ob'] conjI) (auto simp: http_recorded_def Let_def)
  qed
qed

lemma demo_before_compile:
  fixes st :: "memory_state app_state"
  defines "st \<equiv> demo_serve (VlessProfileReq ''p'' ''example.com'') demo_registered"
  shows "app_ready demo_libs ''t'' st" and "memory_queue (app_store_state st) ''node-a'' = []"
    and "counter st ''node-a'' = 0" and "app_runner_api_token st = ''run''"
    and "map_of (nodes (app_store_state st)) ''node-a'' = Some demo_member"
    and "app_runner_result_verify_key st = dev_runner_result_verify_key demo_libs"
    and "app_signing_key st = dev_control_plane_signing_key"
proof -
  obtain s where s: "st = demo_boot\<lparr>app_store_state := s\<rparr>" "nodes s = [(''node-a'', demo_member)]"
      "runner_commands s = []"
    using demo_profile_eq by (auto simp: st_def memory_state_default_def)
  have "app_reachable demo_libs (\<lambda>_. Ok JNull) ''t'' st" "counters_ok st"
    unfolding st_def by (rule demo_profile_reachable)+
  then show "app_ready demo_libs ''t'' st" by (simp add: app_ready_def app_reachable_inv)
  show "memory_queue (app_store_state st) ''node-a'' = []" "counter st ''node-a'' = 0"
      "app_runner_api_token st = ''run''" "map_of (nodes (app_store_state st)) ''node-a'' = Some demo_member"
      "app_runner_result_verify_key st = dev_runner_result_verify_key demo_libs"
      "app_signing_key st = dev_control_plane_signing_key"
    by (simp_all add: s demo_boot_def with_store_and_runner_token_def memory_queue_def counter_def unwrap_or_def)
qed

lemma demo_member_key:
  "app_runner_result_verify_key st = dev_runner_result_verify_key demo_libs \<Longrightarrow>
    runner_result_verify_key_for_node demo_libs st demo_member
      = Ok (ed_verifying_key demo_libs dev_runner_result_signing_key)"
  by (simp add: runner_result_verify_key_for_node_def demo_member_def with_runner_result_public_key_hex_def
      parse_runner_result_public_key_hex_def dev_runner_result_verify_key_def demo_libs_def
      dev_runner_result_signing_key_def)

theorem deployment_completes_witness:
  "\<exists>res ob'. poll_apply_once demo_libs demo_host demo_env
      (http_command_source demo_libs (demo_client demo_net) demo_vars)
      (outbound_runner_new (local_runner_new ''node-a'' (dev_control_plane_verify_key demo_libs) fresh_disk)
        (demo_source demo_compiled)) = (Ok (Some res), ob') \<and> dr_status res = Succeeded"
proof -
  let ?st = "demo_serve (VlessProfileReq ''p'' ''example.com'') demo_registered"
  let ?r = "local_runner_new ''node-a'' (dev_control_plane_verify_key demo_libs) fresh_disk"
  let ?ob = "outbound_runner_new ?r (demo_source demo_compiled)"
  note before = demo_before_compile
  have st: "app_store ?st = memory_store demo_libs ''t''"
    using before(1) by (simp add: app_ready_def app_inv_def)
  obtain resp where ok: "compile_deployment demo_libs (\<lambda>_. Ok JNull) (\<lambda>_. demo_env) demo_headers
      demo_request ?st = (Ok (CREATED, FreshBody resp), demo_compiled)"
    using demo_compile_ok by (auto simp: demo_compiled_def demo_serve_def)
  note frame = compile_deployment_frame [OF st ok]
  have src: "sv_app (hcs_client (ob_source ?ob)) = demo_compiled" "lr_node_id (ob_local ?ob) = ''node-a''"
      "lr_control_plane_key (ob_local ?ob) = ed_verifying_key demo_libs (app_signing_key ?st)"
      "lr_last_sequence (ob_local ?ob) \<le> counter ?st ''node-a''"
      "new_v4 demo_env 0 \<notin> lr_seen_nonces (ob_local ?ob)"
    by (simp_all add: outbound_runner_new_def local_runner_new_def dev_control_plane_verify_key_def
        dev_control_plane_signing_key_def before(7))
  have auth: "authorised demo_net (ob_source ?ob)"
    using demo_authorised [OF demo_links(1)] frame(3) before(4) by (simp add: outbound_runner_new_def)
  have enrolled: "enrolled demo_libs ''node-a'' (ob_source ?ob)"
    using frame(1,4) before(5,6) demo_member_key [of demo_compiled]
    by (simp add: enrolled_def outbound_runner_new_def Let_def demo_source_def with_runner_token_def
        http_source_new_def)
  have healthy: "healthy_machine demo_host (ob_local ?ob)"
    using demo_host_ok(1,3) fresh_disk_layout
    by (simp add: healthy_machine_def outbound_runner_new_def local_runner_new_def)
  have n: "cdr_node_id demo_request = ''node-a''" by (simp add: demo_request_def)
  obtain b where b: "mem_artifact_bytes (art_id (cdp_artifact resp)) (app_store_state demo_compiled)
      = (Ok b, app_store_state demo_compiled)" "passes demo_host b"
    using st ok
  proof (cases rule: compile_deployment_effect)
    case (1 b config c p)
    then show ?thesis using that [of b] demo_host_ok(2,4) by (auto simp: mem_artifact_bytes_def)
  qed
  have time: "utc_now demo_env 0 < utc_now demo_env 0 + seconds 60" by (simp add: seconds_def)
  show ?thesis
    using deployment_completes [OF before(1) ok before(2) n demo_plain(1) demo_connected _ src(1) auth
        enrolled src(2-5) time healthy b demo_libs_ok] demo_links(3) by blast
qed

end
